(* ===== verification/Prelude.thy ===== *)
theory Prelude
  imports Main "HOL-Library.Char_ord" "HOL-Library.List_Lexorder" "HOL-Library.Product_Lexorder"
begin

text \<open>
  What every component shares: fallible stateful operations (the code's synchronous methods that
  either return or throw), tables of rows, JavaScript string helpers, and the collections of
  lemmas the component proofs draw on.
\<close>

named_theorems table_simps "how a table operation acts on keys, lookups and filters"
named_theorems keeps_intros "an operation keeps a predicate of the state"
named_theorems op_simps "unfolding of the operation combinators"

section \<open>Errors and operations\<close>

text \<open>
  A thrown error is a \<open>RoomsCommandError\<close> (or its subclass \<open>RoomsStoreError\<close>), identified by its
  code, or an error of SQLite itself. The human-readable messages are not modelled.
\<close>

datatype rooms_error = RoomsCommandError string | SqliteConstraint | SqliteMisuse

type_synonym 'a result = "rooms_error + 'a"
type_synonym ('s, 'a) operation = "'s \<Rightarrow> 'a result \<times> 's"

abbreviation throw :: "string \<Rightarrow> 'a result" where
  "throw code \<equiv> Inl (RoomsCommandError code)"

definition succeed :: "'a \<Rightarrow> ('s, 'a) operation" where
  "succeed a s = (Inr a, s)"

definition raise :: "string \<Rightarrow> ('s, 'a) operation" where
  "raise code s = (throw code, s)"

definition andThen :: "('s, 'a) operation \<Rightarrow> ('a \<Rightarrow> ('s, 'b) operation) \<Rightarrow> ('s, 'b) operation" where
  "andThen m k s = (case m s of (Inl e, s1) \<Rightarrow> (Inl e, s1) | (Inr a, s1) \<Rightarrow> k a s1)"

definition modify :: "('s \<Rightarrow> 's) \<Rightarrow> ('s, unit) operation" where
  "modify f s = (Inr (), f s)"

lemmas [op_simps] = succeed_def raise_def andThen_def modify_def

lemma andThen_Inr_iff:
  "andThen m k s = (Inr b, s2) \<longleftrightarrow> (\<exists>a s1. m s = (Inr a, s1) \<and> k a s1 = (Inr b, s2))"
  by (auto simp: andThen_def split: prod.splits sum.splits)

lemma andThen_assoc: "andThen (andThen m k) h = andThen m (\<lambda>a. andThen (k a) h)"
  by (auto simp: andThen_def fun_eq_iff split: prod.splits sum.splits)

definition succeeded :: "'a result \<Rightarrow> bool" where
  "succeeded r = (case r of Inl _ \<Rightarrow> False | Inr _ \<Rightarrow> True)"

lemma succeeded_simps [simp]: "succeeded (Inr a)" "\<not> succeeded (Inl e)"
  by (simp_all add: succeeded_def)

lemma succeeded_iff: "succeeded r \<longleftrightarrow> (\<exists>a. r = Inr a)"
  by (cases r) auto

text \<open>\<open>keeps I m\<close>: whatever the outcome of \<open>m\<close>, the predicate \<open>I\<close> of the state survives it.\<close>

definition keeps :: "('s \<Rightarrow> bool) \<Rightarrow> ('s, 'a) operation \<Rightarrow> bool" where
  "keeps I m \<longleftrightarrow> (\<forall>s. I s \<longrightarrow> I (snd (m s)))"

lemma keepsI: "(\<And>s r s1. I s \<Longrightarrow> m s = (r, s1) \<Longrightarrow> I s1) \<Longrightarrow> keeps I m"
  by (metis keeps_def prod.collapse)

lemma keepsD: "keeps I m \<Longrightarrow> I s \<Longrightarrow> m s = (r, s1) \<Longrightarrow> I s1"
  by (metis keeps_def snd_conv)

lemma keeps_succeed [keeps_intros]: "keeps I (succeed a)"
  by (simp add: keeps_def succeed_def)

lemma keeps_raise [keeps_intros]: "keeps I (raise c)"
  by (simp add: keeps_def raise_def)

lemma keeps_modify: "(\<And>s. I s \<Longrightarrow> I (f s)) \<Longrightarrow> keeps I (modify f)"
  by (simp add: keeps_def modify_def)

lemma keeps_andThen [keeps_intros]:
  assumes "keeps I m" and "\<And>a. keeps I (k a)"
  shows "keeps I (andThen m k)"
proof (rule keepsI)
  fix s r s2
  assume I: "I s" and run: "andThen m k s = (r, s2)"
  obtain r1 s1 where m: "m s = (r1, s1)"
    by (cases "m s")
  then have "I s1"
    using keepsD [OF assms(1) I] by blast
  then show "I s2"
    using run m keepsD [OF assms(2)] by (auto simp: andThen_def split: sum.splits)
qed

lemma keeps_if [keeps_intros]:
  "keeps I m \<Longrightarrow> keeps I n \<Longrightarrow> keeps I (\<lambda>s. if P s then m s else n s)"
  by (simp add: keeps_def)

text \<open>
  \<open>preserves I tables m\<close>: when \<open>m\<close> succeeds, the invariant \<open>I\<close> of the tables it leaves follows
  from \<open>I\<close> of the tables it found.
\<close>

definition preserves :: "('d \<Rightarrow> bool) \<Rightarrow> ('s \<Rightarrow> 'd) \<Rightarrow> ('s, 'a) operation \<Rightarrow> bool" where
  "preserves I tables m \<longleftrightarrow> (\<forall>s a s1. I (tables s) \<longrightarrow> m s = (Inr a, s1) \<longrightarrow> I (tables s1))"

named_theorems preserves_intros "a successful operation preserves an invariant of the tables"

lemma preservesI: "(\<And>s a s1. I (tables s) \<Longrightarrow> m s = (Inr a, s1) \<Longrightarrow> I (tables s1)) \<Longrightarrow> preserves I tables m"
  by (simp add: preserves_def)

lemma preservesD: "preserves I tables m \<Longrightarrow> I (tables s) \<Longrightarrow> m s = (Inr a, s1) \<Longrightarrow> I (tables s1)"
  by (simp add: preserves_def)

lemma preserves_succeed [preserves_intros]: "preserves I tables (succeed a)"
  by (simp add: preserves_def succeed_def)

lemma preserves_andThen [preserves_intros]:
  assumes "preserves I tables m" and "\<And>a. preserves I tables (k a)"
  shows "preserves I tables (andThen m k)"
proof (rule preservesI)
  fix s b s2
  assume I: "I (tables s)" and "andThen m k s = (Inr b, s2)"
  then obtain a s1 where m: "m s = (Inr a, s1)" and k: "k a s1 = (Inr b, s2)"
    by (auto simp: andThen_Inr_iff)
  show "I (tables s2)"
    by (rule preservesD [OF assms(2) preservesD [OF assms(1) I m] k])
qed

lemma preserves_throw [preserves_intros]: "preserves I tables (\<lambda>s. (Inl e, f s))"
  by (simp add: preserves_def)

lemma preserves_if [preserves_intros]:
  assumes "preserves I tables m" and "preserves I tables n"
  shows "preserves I tables (\<lambda>s. if P s then m s else n s)"
proof (rule preservesI)
  fix s a s1
  assume I: "I (tables s)" and run: "(if P s then m s else n s) = (Inr a, s1)"
  show "I (tables s1)"
  proof (cases "P s")
    case True
    with run have "m s = (Inr a, s1)" by simp
    then show ?thesis by (rule preservesD [OF assms(1) I])
  next
    case False
    with run have "n s = (Inr a, s1)" by simp
    then show ?thesis by (rule preservesD [OF assms(2) I])
  qed
qed

text \<open>
  The interfaces of a transaction. \<open>committing\<close>: a committed run left what its body left, so an invariant
  needs to be checked on the body only. \<open>transactional\<close>: moreover an aborted run left everything alone.
\<close>

locale committing =
  fixes run :: "('s, 'a) operation \<Rightarrow> ('s, 'a) operation"
    and tables :: "'s \<Rightarrow> 'd"
  assumes committed: "run m s = (Inr a, s1) \<Longrightarrow>
      \<exists>s0 s2. tables s0 = tables s \<and> m s0 = (Inr a, s2) \<and> tables s1 = tables s2"
begin

lemma run_preserves:
  assumes "preserves I tables m"
  shows "preserves I tables (run m)"
proof (rule preservesI)
  fix s a s1
  assume I: "I (tables s)" and "run m s = (Inr a, s1)"
  then obtain s0 s2 where "tables s0 = tables s" "m s0 = (Inr a, s2)" "tables s1 = tables s2"
    using committed by blast
  with I show "I (tables s1)"
    using preservesD [OF assms, of s0 a s2] by simp
qed

end

locale transactional = committing run tables
  for run :: "('s, 'a) operation \<Rightarrow> ('s, 'a) operation" and tables :: "'s \<Rightarrow> 'd" +
  fixes ready :: "'s \<Rightarrow> bool"
  assumes aborted: "ready s \<Longrightarrow> run m s = (Inl e, s1) \<Longrightarrow> tables s1 = tables s"
begin

lemma run_invariant:
  assumes "ready s" and "preserves I tables m" and "I (tables s)" and "run m s = (r, s1)"
  shows "I (tables s1)"
proof (cases r)
  case (Inl e)
  with assms have "tables s1 = tables s"
    using aborted by blast
  with assms(3) show ?thesis by simp
next
  case (Inr a)
  with assms(4) have "run m s = (Inr a, s1)" by simp
  then show ?thesis
    by (rule preservesD [OF run_preserves [OF assms(2)] assms(3)])
qed

end

section \<open>Tables\<close>

text \<open>
  A SQLite table is the list of its rows in primary-key or insertion order. \<open>find\<close> is
  \<open>SELECT ... LIMIT 1\<close>, \<open>filter\<close> a \<open>SELECT\<close>, and \<open>update_where\<close> an \<open>UPDATE ... WHERE\<close>.
\<close>

definition update_where :: "('r \<Rightarrow> bool) \<Rightarrow> ('r \<Rightarrow> 'r) \<Rightarrow> 'r list \<Rightarrow> 'r list" where
  "update_where P f rows = map (\<lambda>r. if P r then f r else r) rows"

definition exists_row :: "('r \<Rightarrow> bool) \<Rightarrow> 'r list \<Rightarrow> bool" where
  "exists_row P rows = list_ex P rows"

definition lookup_by :: "('r \<Rightarrow> 'k) \<Rightarrow> 'k \<Rightarrow> 'r list \<Rightarrow> 'r option" where
  "lookup_by key k rows = find (\<lambda>r. key r = k) rows"

definition count_where :: "('r \<Rightarrow> bool) \<Rightarrow> 'r list \<Rightarrow> nat" where
  "count_where P rows = length (filter P rows)"

lemma update_where_Nil [simp]: "update_where P f [] = []"
  by (simp add: update_where_def)

lemma update_where_Cons [simp]:
  "update_where P f (r # rows) = (if P r then f r else r) # update_where P f rows"
  by (simp add: update_where_def)

lemma update_where_append [table_simps]:
  "update_where P f (xs @ ys) = update_where P f xs @ update_where P f ys"
  by (simp add: update_where_def)

lemma length_update_where [simp]: "length (update_where P f rows) = length rows"
  by (simp add: update_where_def)

lemma set_update_where: "set (update_where P f rows) = (\<lambda>r. if P r then f r else r) ` set rows"
  by (simp add: update_where_def)

lemma in_update_where:
  "r \<in> set (update_where P f rows) \<longleftrightarrow> (\<exists>q \<in> set rows. r = (if P q then f q else q))"
  by (auto simp: set_update_where)

lemma distinct_keyD: "distinct (map key rows) \<Longrightarrow> x \<in> set rows \<Longrightarrow> y \<in> set rows \<Longrightarrow> key x = key y \<Longrightarrow> x = y"
  by (metis distinct_map inj_onD)

text \<open>An update that leaves a projection alone leaves the column alone.\<close>

lemma map_update_where [table_simps]:
  "(\<And>r. key (f r) = key r) \<Longrightarrow> map key (update_where P f rows) = map key rows"
  by (simp add: update_where_def)

lemma exists_row_iff: "exists_row P rows \<longleftrightarrow> (\<exists>r \<in> set rows. P r)"
  by (simp add: exists_row_def list_ex_iff)

lemma exists_row_simps [simp]:
  "exists_row P [] = False" "exists_row P (r # rows) = (P r \<or> exists_row P rows)"
  by (simp_all add: exists_row_def)

lemma lookup_by_simps [simp]:
  "lookup_by key k [] = None"
  "lookup_by key k (r # rows) = (if key r = k then Some r else lookup_by key k rows)"
  by (simp_all add: lookup_by_def)

lemma lookup_by_SomeD: "lookup_by key k rows = Some r \<Longrightarrow> r \<in> set rows \<and> key r = k"
  by (induction rows) (auto split: if_splits)

lemma lookup_by_None: "lookup_by key k rows = None \<longleftrightarrow> k \<notin> key ` set rows"
  by (induction rows) auto

lemma lookup_by_unique:
  "distinct (map key rows) \<Longrightarrow> r \<in> set rows \<Longrightarrow> key r = k \<Longrightarrow> lookup_by key k rows = Some r"
  by (induction rows) (auto simp: image_iff)

lemma lookup_by_append [table_simps]:
  "lookup_by key k (xs @ ys) =
     (case lookup_by key k xs of None \<Rightarrow> lookup_by key k ys | Some r \<Rightarrow> Some r)"
  by (induction xs) auto

text \<open>A lookup after an \<open>UPDATE\<close> that does not move keys is the updated row.\<close>

lemma lookup_by_update_where [table_simps]:
  "(\<And>r. key (f r) = key r) \<Longrightarrow>
   lookup_by key k (update_where P f rows) =
     map_option (\<lambda>r. if P r then f r else r) (lookup_by key k rows)"
  by (induction rows) auto

lemma count_where_simps [simp]:
  "count_where P [] = 0"
  "count_where P (r # rows) = (if P r then Suc (count_where P rows) else count_where P rows)"
  by (simp_all add: count_where_def)

lemma count_where_append [table_simps]:
  "count_where P (xs @ ys) = count_where P xs + count_where P ys"
  by (simp add: count_where_def)

lemma count_where_0: "count_where P rows = 0 \<longleftrightarrow> (\<forall>r \<in> set rows. \<not> P r)"
  by (simp add: count_where_def filter_empty_conv)

lemma count_where_update_mono:
  "(\<And>r. r \<in> set rows \<Longrightarrow> Q (if P r then f r else r) \<Longrightarrow> Q' r) \<Longrightarrow>
   count_where Q (update_where P f rows) \<le> count_where Q' rows"
  by (induction rows) (force simp: le_SucI)+

lemma count_where_mono:
  "(\<And>r. r \<in> set rows \<Longrightarrow> Q r \<Longrightarrow> Q' r) \<Longrightarrow> count_where Q rows \<le> count_where Q' rows"
  by (induction rows) (auto simp: le_SucI)

lemma count_where_cong:
  "(\<And>r. r \<in> set rows \<Longrightarrow> Q r = Q' r) \<Longrightarrow> count_where Q rows = count_where Q' rows"
  by (induction rows) auto

section \<open>JavaScript strings\<close>

text \<open>
  Strings are lists of 8-bit characters, read as the code units 0 to 255 of a JavaScript string.
  \<open>String.prototype.trim\<close> removes white space at both ends: the code units 9 to 13, 32 and 160.
\<close>

definition js_space :: "char \<Rightarrow> bool" where
  "js_space c = (let n = of_char c :: nat in 9 \<le> n \<and> n \<le> 13 \<or> n = 32 \<or> n = 160)"

definition trim :: "string \<Rightarrow> string" where
  "trim s = rev (dropWhile js_space (rev (dropWhile js_space s)))"

definition blank :: "string \<Rightarrow> bool" where
  "blank s = list_all js_space s"

lemma trim_Nil_iff: "trim s = [] \<longleftrightarrow> blank s"
proof
  assume "trim s = []"
  then have "dropWhile js_space (rev (dropWhile js_space s)) = []"
    by (simp add: trim_def)
  then have "\<forall>c \<in> set (dropWhile js_space s). js_space c"
    by simp
  then have "dropWhile js_space s = []"
    by (metis hd_dropWhile hd_in_set)
  then show "blank s"
    by (simp add: blank_def list_all_iff)
next
  assume "blank s"
  then show "trim s = []"
    by (auto simp: trim_def blank_def list_all_iff dest: set_dropWhileD)
qed

text \<open>\<open>Buffer.byteLength(value, "utf8")\<close> of such a string: two bytes from code unit 128 on.\<close>

definition utf8_bytes :: "string \<Rightarrow> nat" where
  "utf8_bytes s = sum_list (map (\<lambda>c. if (of_char c :: nat) < 128 then 1 else 2) s)"

definition starts_with :: "string \<Rightarrow> string \<Rightarrow> bool" where
  "starts_with p s = (take (length p) s = p)"

definition ends_with :: "string \<Rightarrow> string \<Rightarrow> bool" where
  "ends_with p s = (length p \<le> length s \<and> drop (length s - length p) s = p)"

lemma starts_with_append [simp]: "starts_with p (p @ s)"
  by (simp add: starts_with_def)

lemma ends_with_append [simp]: "ends_with p (s @ p)"
  by (simp add: ends_with_def)

lemma starts_withE: "starts_with p s \<Longrightarrow> \<exists>r. s = p @ r"
  by (metis starts_with_def append_take_drop_id)

text \<open>The ASCII case folding of SQLite's \<open>lower\<close> and \<open>LIKE\<close>, and that of \<open>toLowerCase\<close> on these code units.\<close>

definition ascii_lower :: "char \<Rightarrow> char" where
  "ascii_lower c = (let n = of_char c :: nat in if 65 \<le> n \<and> n \<le> 90 then char_of (n + 32) else c)"

definition js_lower :: "char \<Rightarrow> char" where
  "js_lower c = (let n = of_char c :: nat in
     if 65 \<le> n \<and> n \<le> 90 \<or> 192 \<le> n \<and> n \<le> 222 \<and> n \<noteq> 215 then char_of (n + 32) else c)"

definition occurs :: "string \<Rightarrow> string \<Rightarrow> bool" where
  "occurs needle s \<longleftrightarrow> (\<exists>i \<in> set [0..<Suc (length s)]. starts_with needle (drop i s))"

lemma occurs_iff: "occurs needle s \<longleftrightarrow> (\<exists>u v. s = u @ needle @ v)"
proof
  assume "occurs needle s"
  then obtain i where "starts_with needle (drop i s)"
    unfolding occurs_def by blast
  then obtain r where "drop i s = needle @ r"
    using starts_withE by blast
  then have "s = take i s @ needle @ r"
    by (metis append_take_drop_id)
  then show "\<exists>u v. s = u @ needle @ v" by blast
next
  assume "\<exists>u v. s = u @ needle @ v"
  then obtain u v where "s = u @ needle @ v" by blast
  then have "length u \<in> set [0..<Suc (length s)]" "starts_with needle (drop (length u) s)"
    by auto
  then show "occurs needle s"
    unfolding occurs_def by blast
qed

text \<open>\<open>/^[0-9a-f]{64}$/\<close>\<close>

definition hex_digit :: "char \<Rightarrow> bool" where
  "hex_digit c \<longleftrightarrow> (let n = of_char c :: nat in 48 \<le> n \<and> n \<le> 57 \<or> 97 \<le> n \<and> n \<le> 102)"

definition sha256_hex :: "string \<Rightarrow> bool" where
  "sha256_hex h \<longleftrightarrow> length h = 64 \<and> list_all hex_digit h"

text \<open>Object literals with string keys: insertion order, one value for a key.\<close>

fun put_field :: "'k \<Rightarrow> 'v \<Rightarrow> ('k \<times> 'v) list \<Rightarrow> ('k \<times> 'v) list" where
  "put_field k v [] = [(k, v)]"
| "put_field k v ((k', v') # kvs) = (if k' = k then (k', v) # kvs else (k', v') # put_field k v kvs)"

lemma map_of_put_field [simp]: "map_of (put_field k v kvs) = (map_of kvs)(k \<mapsto> v)"
  by (induction k v kvs rule: put_field.induct) auto

end
