(* ===== verification/Contracts.thy ===== *)
theory Contracts
  imports Prelude
begin

text \<open>
  The vocabulary of \<open>src/roomsd/src/domain/contracts.ts\<close>: roles, policies, the cursor codec and the
  records of sessions, channels, memberships, messages and threads; with JSON values, the error
  categories of \<open>api/errors.ts\<close>, the protocol gate of \<open>api/protocol-compatibility.ts\<close> and the
  provenance helpers of \<open>domain/message-provenance.ts\<close> and \<open>domain/session-provenance.ts\<close>.
\<close>

section \<open>JSON values\<close>

text \<open>
  Values of type \<open>unknown\<close> that come from JSON. A number that is not an integer is kept as its literal; an
  absent field is \<open>None\<close>.
\<close>

datatype json =
    JNull
  | JBool bool
  | JNum int
  | JFrac string
  | JStr string
  | JArr "json list"
  | JObj "(string \<times> json) list"

text \<open>Optional chaining: a property of anything but an object is undefined.\<close>

fun jfield :: "string \<Rightarrow> json \<Rightarrow> json option" where
  "jfield k (JObj kvs) = map_of kvs k"
| "jfield k _ = None"

fun jtruthy :: "json \<Rightarrow> bool" where
  "jtruthy JNull = False"
| "jtruthy (JBool b) = b"
| "jtruthy (JNum n) = (n \<noteq> 0)"
| "jtruthy (JStr s) = (s \<noteq> [])"
| "jtruthy _ = True"

section \<open>Roles, policies, modes\<close>

datatype session_role = Operator | Planner | Worker | Reviewer

datatype delivery_mode = Runtime_Delivery | Log_Delivery

datatype broadcast_policy = All_Members | Privileged

datatype coordination_policy = Open_Coordination | Lead_Upstream

datatype channel_state = Active | Closed

datatype delivery_status = Delivered | Queued | Undeliverable

section \<open>Cursors\<close>

text \<open>
  A cursor travels as the decimal notation of a non-negative integer. \<open>encode\<close> is
  \<open>BigInt.toString\<close>; \<open>decode\<close> accepts exactly \<open>/^(0|[1-9][0-9]*)$/\<close>.
\<close>

definition digit_char :: "nat \<Rightarrow> char" where
  "digit_char d = char_of (48 + d)"

definition digit_value :: "char \<Rightarrow> nat option" where
  "digit_value c = (let n = of_char c in if 48 \<le> n \<and> n \<le> 57 then Some (n - 48) else None)"

fun digits :: "nat \<Rightarrow> string" where
  "digits n = (if n < 10 then [digit_char n] else digits (n div 10) @ [digit_char (n mod 10)])"

declare digits.simps [simp del]

fun number :: "nat \<Rightarrow> string \<Rightarrow> nat option" where
  "number acc [] = Some acc"
| "number acc (c # cs) = (case digit_value c of None \<Rightarrow> None | Some d \<Rightarrow> number (10 * acc + d) cs)"

definition cursor_zero :: string where
  "cursor_zero = ''0''"

definition cursor_encode :: "int \<Rightarrow> string option" where
  "cursor_encode value = (if value < 0 then None else Some (digits (nat value)))"

definition cursor_decode :: "string \<Rightarrow> nat option" where
  "cursor_decode value =
     (case value of
        [] \<Rightarrow> None
      | c # cs \<Rightarrow> if c = CHR ''0'' then (if cs = [] then Some 0 else None) else number 0 value)"

lemma digit_value_char [simp]: "d < 10 \<Longrightarrow> digit_value (digit_char d) = Some d"
  by (simp add: digit_value_def digit_char_def)

lemma digit_char_0 [simp]: "digit_char 0 = CHR ''0''"
  by code_simp

lemma digit_value_0 [simp]: "digit_value CHR ''0'' = Some 0"
  by code_simp

lemma digit_char_0_iff: "d < 10 \<Longrightarrow> digit_char d = CHR ''0'' \<longleftrightarrow> d = 0"
  by (metis digit_char_0 digit_value_0 digit_value_char option.inject)

lemma number_append:
  "number acc (xs @ ys) = (case number acc xs of None \<Rightarrow> None | Some n \<Rightarrow> number n ys)"
  by (induction acc xs rule: number.induct) (auto split: option.splits)

lemma number_digits: "number 0 (digits n) = Some n"
proof (induction n rule: digits.induct)
  case (1 n)
  then show ?case
    by (subst digits.simps) (simp add: number_append)
qed

lemma digits_Cons: "0 < n \<Longrightarrow> \<exists>c cs. digits n = c # cs \<and> c \<noteq> CHR ''0''"
proof (induction n rule: digits.induct)
  case (1 n)
  show ?case
  proof (cases "n < 10")
    case True
    with "1.prems" show ?thesis
      by (subst digits.simps) (simp add: digit_char_0_iff)
  next
    case False
    then have "0 < n div 10" by simp
    then obtain c cs where "digits (n div 10) = c # cs" "c \<noteq> CHR ''0''"
      using "1.IH" [OF False] by blast
    with False show ?thesis
      by (subst digits.simps) simp
  qed
qed

lemma cursor_decode_digits [simp]: "cursor_decode (digits n) = Some n"
proof (cases "n = 0")
  case True
  then show ?thesis
    by (simp add: digits.simps cursor_decode_def)
next
  case False
  then obtain c cs where "digits n = c # cs" "c \<noteq> CHR ''0''"
    using digits_Cons by blast
  then show ?thesis
    using number_digits [of n] by (simp add: cursor_decode_def)
qed

lemma digits_inject [simp]: "digits m = digits n \<longleftrightarrow> m = n"
  by (metis cursor_decode_digits option.inject)

text \<open>The canonical notation: every accepted string is the notation of its value.\<close>

lemma digit_valueD: "digit_value c = Some d \<Longrightarrow> d < 10 \<and> c = digit_char d"
  by (auto simp: digit_value_def digit_char_def Let_def split: if_splits)

lemma digits_snoc: "0 < n \<Longrightarrow> d < 10 \<Longrightarrow> digits (10 * n + d) = digits n @ [digit_char d]"
  by (subst digits.simps) simp

lemma number_canonical: "0 < acc \<Longrightarrow> number acc cs = Some n \<Longrightarrow> digits n = digits acc @ cs"
proof (induction acc cs rule: number.induct)
  case (1 acc)
  then show ?case by simp
next
  case (2 acc c cs)
  then obtain d where d: "digit_value c = Some d" and n: "number (10 * acc + d) cs = Some n"
    by (auto split: option.splits)
  have "digits n = digits (10 * acc + d) @ cs"
    using "2.IH" [OF d] "2.prems"(1) n by simp
  with digit_valueD [OF d] "2.prems"(1) show ?case
    by (simp add: digits_snoc)
qed

lemma cursor_decode_Some: "cursor_decode s = Some n \<Longrightarrow> digits n = s"
proof (cases s)
  case (Cons c cs)
  assume dec: "cursor_decode s = Some n"
  show "digits n = s"
  proof (cases "c = CHR ''0''")
    case True
    with dec Cons show ?thesis
      by (auto simp: cursor_decode_def digits.simps [of 0] split: if_splits)
  next
    case False
    with dec Cons obtain d where d: "digit_value c = Some d" and num: "number d cs = Some n"
      by (auto simp: cursor_decode_def split: option.splits)
    have "d < 10" "c = digit_char d"
      using digit_valueD [OF d] by auto
    with False have "0 < d"
      by (cases "d = 0") auto
    with number_canonical [OF _ num] \<open>d < 10\<close> have "digits n = [digit_char d] @ cs"
      by (simp add: digits.simps [of d])
    with \<open>c = digit_char d\<close> Cons show ?thesis by simp
  qed
qed (simp add: cursor_decode_def)

text \<open>
  The cursor codec is a bijection between the non-negative integers and the strings it accepts:
  what \<open>CursorCodec.encode\<close> writes \<open>CursorCodec.decode\<close> reads back, and a string decodes to a value
  only if it is that value's encoding (no sign, no leading zero, no white space). A negative value has
  no encoding.
\<close>

theorem cursor_codec_bijective:
  "(\<forall>n. cursor_encode n = None \<longleftrightarrow> n < 0) \<and>
   (\<forall>s n. cursor_decode s = Some n \<longleftrightarrow> cursor_encode (int n) = Some s)"
  using cursor_decode_Some by (auto simp: cursor_encode_def)

section \<open>Records of the domain\<close>

text \<open>
  Times are the milliseconds of \<open>Date\<close>; their ISO notation orders in the same way.
\<close>

type_synonym time = nat

record session =
  s_id :: string
  s_registeredAt :: time
  s_endedAt :: "time option"
  s_displayName :: "string option"
  s_role :: "session_role option"
  s_providerThreadId :: "string option"
  s_deliveryMode :: delivery_mode
  s_externalOwner :: "string option"
  s_externalAgentId :: "string option"
  s_externalId :: "string option"

record channel =
  c_id :: string
  c_label :: "string option"
  c_registeredAt :: time
  c_ownerOperatorSessionId :: "string option"
  c_lifecycleState :: channel_state
  c_closedAt :: "time option"
  c_broadcastPolicy :: broadcast_policy
  c_coordinationPolicy :: coordination_policy

record membership =
  m_channelId :: string
  m_sessionId :: string
  m_joinedAt :: time
  m_leftAt :: "time option"
  m_sessionEndedAt :: "time option"
  m_role :: "session_role option"

datatype thread_state = Open | Resolved

record thread_lifecycle =
  t_threadRootEventId :: string
  t_channelId :: string
  t_state :: thread_state
  t_resolvedAt :: "time option"
  t_resolvedBySessionId :: "string option"
  t_reopenedAt :: "time option"
  t_reopenedBySessionId :: "string option"
  t_updatedAt :: "time option"

text \<open>
  The fields of a message target that the code reads: current targets carry \<open>sessionId\<close> or
  \<open>sessionIds\<close>, legacy ones \<open>sessionID\<close>.
\<close>

record target =
  tg_kind :: "string option"
  tg_sessionId :: "string option"
  tg_sessionID :: "string option"
  tg_sessionIds :: "string list option"

type_synonym statuses = "(string \<times> delivery_status) list"

record message =
  msg_id :: string
  msg_channelId :: "string option"
  msg_senderSessionId :: string
  msg_body :: string
  msg_target :: "target option"
  msg_attachmentReferences :: "string list"
  msg_deliveredRecipientSessionIds :: "string option list"
  msg_recipientStatuses :: statuses
  msg_correlation :: "json option"
  msg_replyToEventId :: "string option"
  msg_threadRootEventId :: "string option"
  msg_occurredAt :: time

record message_input =
  in_channelId :: "string option"
  in_senderSessionId :: string
  in_body :: string
  in_target :: "target option"
  in_replyToEventId :: "string option"
  in_correlation :: "json option"
  in_deliveryStatuses :: "statuses option"
  in_attachmentReferences :: "string list option"

record control =
  ctl_id :: string
  ctl_channelId :: string
  ctl_senderSessionId :: string
  ctl_kind :: string
  ctl_payload :: json
  ctl_requestId :: string
  ctl_occurredAt :: time

text \<open>The payloads written to the change journal, one constructor for each object literal.\<close>

datatype payload =
    Session_Registered string time "string option" "session_role option" "string option" delivery_mode
  | Session_Delivery_Updated string delivery_mode
  | Session_Ended string time "(string \<times> session_role option) list"
  | Session_Reactivated string time
  | Session_Role_Updated string string session_role session_role "string list"
  | Channel_Registered string time "string option"
  | Channel_Closed string time
  | Channel_Reopened string time
  | Channel_Label_Updated string "string option"
  | Channel_Broadcast_Policy_Updated string broadcast_policy
  | Channel_Coordination_Policy_Updated string coordination_policy
  | Membership_Joined string string time "session_role option"
  | Membership_Left string string time "session_role option"
  | Message_Sent message
  | Message_Delivery string statuses "string list" time
  | Thread_Changed thread_lifecycle
  | Control_Committed control
  | Runtime_Lifecycle string string string nat string "time option" "session_role option"

record change =
  ch_cursor :: nat
  ch_kind :: string
  ch_channelId :: "string option"
  ch_payload :: payload
  ch_occurredAt :: time

record receipt =
  r_cursor :: nat
  r_didAppend :: bool
  r_changes :: "change list"

section \<open>Error categories and the protocol gate\<close>

datatype error_category =
    Unauthenticated | Permission_Denied | Unimplemented | Internal | Not_Found | Already_Exists
  | Resource_Exhausted | Unavailable | Invalid_Argument | Failed_Precondition

definition exactCodes :: "(string \<times> error_category) list" where
  "exactCodes =
    [(''invalidCredential'', Unauthenticated),
     (''credentialRevoked'', Unauthenticated),
     (''unauthorized'', Permission_Denied),
     (''unauthorizedActor'', Permission_Denied),
     (''ownerAuthorizationRequired'', Permission_Denied),
     (''plannerAuthorizationRequired'', Permission_Denied),
     (''broadcastRestricted'', Permission_Denied),
     (''unknownMethod'', Unimplemented),
     (''unsupported'', Unimplemented),
     (''handlerError'', Internal)]"

definition roomsErrorCode :: "string option \<Rightarrow> error_category" where
  "roomsErrorCode domainCode =
     (case domainCode of
        None \<Rightarrow> Internal
      | Some code \<Rightarrow>
          if code = [] then Internal
          else (case map_of exactCodes code of
            Some exact \<Rightarrow> exact
          | None \<Rightarrow>
              if ends_with ''NotFound'' code \<or> starts_with ''unknown'' code then Not_Found
              else if ends_with ''AlreadyExists'' code \<or> starts_with ''already'' code
                   \<or> ends_with ''Conflict'' code \<or> ends_with ''Replay'' code then Already_Exists
              else if ends_with ''QuotaExceeded'' code \<or> ends_with ''BatchTooLarge'' code
                   \<or> code = ''backpressure'' then Resource_Exhausted
              else if ends_with ''Unavailable'' code \<or> code = ''sourceLost'' then Unavailable
              else if starts_with ''invalid'' code \<or> starts_with ''empty'' code
                   \<or> starts_with ''missing'' code then Invalid_Argument
              else Failed_Precondition))"

text \<open>\<open>Number.isSafeInteger\<close>, and the version range of \<open>release-contract.json\<close>.\<close>

definition safe_integer :: "int \<Rightarrow> bool" where
  "safe_integer n \<longleftrightarrow> \<bar>n\<bar> \<le> 2 ^ 53 - 1"

definition ROOMS_PROTOCOL_MIN_VERSION :: int where "ROOMS_PROTOCOL_MIN_VERSION = 4"

definition ROOMS_PROTOCOL_MAX_VERSION :: int where "ROOMS_PROTOCOL_MAX_VERSION = 4"

definition assertRoomsProtocolVersion :: "json option \<Rightarrow> int result" where
  "assertRoomsProtocolVersion version =
     (case version of
        Some (JNum n) \<Rightarrow>
          if \<not> safe_integer n \<or> n < ROOMS_PROTOCOL_MIN_VERSION \<or> n > ROOMS_PROTOCOL_MAX_VERSION
          then throw ''protocolVersionMismatch'' else Inr n
      | _ \<Rightarrow> throw ''protocolVersionMismatch'')"

section \<open>Provenance\<close>

text \<open>
  \<open>/^federation:authority-[^:]+:(.+)$/\<close>: the authority runs to the first colon, and the rest is a
  non-empty session id without line terminators.
\<close>

definition line_terminator :: "char \<Rightarrow> bool" where
  "line_terminator c \<longleftrightarrow> c = CHR 0x0A \<or> c = CHR 0x0D"

definition FEDERATED_SESSION :: "string \<Rightarrow> string option" where
  "FEDERATED_SESSION s =
     (let p = ''federation:authority-'' in
      if \<not> starts_with p s then None
      else let rest = drop (length p) s;
               authority = takeWhile (\<lambda>c. c \<noteq> CHR '':'') rest;
               tail = dropWhile (\<lambda>c. c \<noteq> CHR '':'') rest
           in if authority \<noteq> [] \<and> length tail > 1 \<and> \<not> list_ex line_terminator (tl tail)
              then Some (tl tail) else None)"

definition visibleRoomsSessionId :: "string \<Rightarrow> string" where
  "visibleRoomsSessionId canonicalSessionId =
     (case FEDERATED_SESSION canonicalSessionId of Some i \<Rightarrow> i | None \<Rightarrow> canonicalSessionId)"

definition stampRoomsProvenance :: "string \<Rightarrow> string \<Rightarrow> string" where
  "stampRoomsProvenance canonicalSessionId body =
     (let prefix = ''@'' @ visibleRoomsSessionId canonicalSessionId in
      if body = prefix \<or> starts_with (prefix @ '' '') body then body else prefix @ '' '' @ body)"

definition nonblank :: "string option \<Rightarrow> string option" where
  "nonblank v = (case v of None \<Rightarrow> None | Some s \<Rightarrow> if trim s = [] then None else Some (trim s))"

definition sessionLaunchProvenance ::
  "session_role \<Rightarrow> string option \<Rightarrow> string \<Rightarrow> string option \<Rightarrow> string option \<Rightarrow>
   (string option \<times> string option) result" where
  "sessionLaunchProvenance actorRole actorExternalOwner targetSessionId externalOwner externalAgentId =
     (let inheritedOwner = (if actorRole = Planner then actorExternalOwner else None);
          owner = (case nonblank externalOwner of Some v \<Rightarrow> Some v | None \<Rightarrow> inheritedOwner);
          agent = (case nonblank externalAgentId of Some v \<Rightarrow> Some v
                   | None \<Rightarrow> if owner \<noteq> None \<and> owner \<noteq> Some [] then Some targetSessionId else None)
      in if (owner = None) \<noteq> (agent = None) then throw ''Error'' else Inr (owner, agent))"

text \<open>
  Stamping is idempotent and keeps the body: stamping a stamped body changes nothing, whatever route
  the message takes, and the result is the body itself or the body behind the sender's prefix.
\<close>

theorem stamp_idempotent:
  "stampRoomsProvenance sid (stampRoomsProvenance sid body) = stampRoomsProvenance sid body \<and>
   (stampRoomsProvenance sid body = body \<or>
    stampRoomsProvenance sid body = ''@'' @ visibleRoomsSessionId sid @ '' '' @ body)"
  using starts_with_append [of "''@'' @ visibleRoomsSessionId sid @ '' ''" body]
  by (auto simp: stampRoomsProvenance_def Let_def)

end
