(* ===== verification/RuntimeContracts.thy ===== *)
theory RuntimeContracts
  imports Contracts
begin

text \<open>
  The runtime records of \<open>src/roomsd/src/runtime/contracts.ts\<close>: runtimes and their generations,
  bindings to channels, attachments of viewers, events, quotas, and consumed capabilities.
\<close>

datatype runtime_state = Creating | Running | Recovering | Crashed | Exited | Terminating | Terminated

datatype runtime_transport = LocalPty | Structured

datatype attachment_mode = Observe | Controller

datatype runtime_action =
    Attach_Action | Observe_Action | Controller_Action | Input_Action | Resize_Action | Signal_Action
  | Terminate_Action | DeliverMessage_Action

datatype runtime_event_kind =
    Ev_created | Ev_ready | Ev_outputAvailable | Ev_inputAccepted | Ev_inputRejected | Ev_resized
  | Ev_signaled | Ev_terminateRequested | Ev_exited | Ev_crashed | Ev_recovering
  | Ev_controllerAcquired | Ev_controllerReleased | Ev_attachmentAttached | Ev_attachmentDetached
  | Ev_deliverMessageAccepted | Ev_deliverMessageRejected | Ev_gap | Ev_error

record runtime =
  rt_runtimeId :: string
  rt_homeAuthorityId :: string
  rt_sessionId :: string
  rt_providerThreadId :: "string option"
  rt_effectiveCwd :: "string option"
  rt_effectiveHome :: "string option"
  rt_generation :: nat
  rt_protocolVersion :: nat
  rt_transportKind :: runtime_transport
  rt_state :: runtime_state
  rt_machineId :: string
  rt_reconnectSecretHash :: string
  rt_sessionProofHash :: "string option"
  rt_createdAt :: time
  rt_updatedAt :: time
  rt_endedAt :: "time option"
  rt_exitReason :: "string option"
  rt_externalOwner :: "string option"
  rt_externalAgentId :: "string option"

record runtime_binding =
  b_bindingId :: string
  b_runtimeId :: string
  b_homeAuthorityId :: string
  b_sessionId :: string
  b_generation :: nat
  b_channelId :: "string option"
  b_adapterKind :: string
  b_handleRef :: string
  b_launchPolicyRef :: "string option"
  b_boundAt :: time
  b_unboundAt :: "time option"

record runtime_attachment =
  a_attachmentId :: string
  a_runtimeId :: string
  a_homeAuthorityId :: string
  a_sessionId :: string
  a_generation :: nat
  a_viewerId :: string
  a_mode :: attachment_mode
  a_leaseExpiresAt :: "time option"
  a_outputCursor :: nat
  a_attachedAt :: time
  a_detachedAt :: "time option"
  a_lastSeenAt :: "time option"

record capability_replay =
  k_runtimeId :: string
  k_generation :: nat
  k_capabilityId :: string
  k_nonceHash :: string
  k_action :: runtime_action
  k_expiresAt :: time

text \<open>Event metadata is a flat object of scalars.\<close>

type_synonym event_payload = "(string \<times> json) list"

record runtime_event =
  e_runtimeId :: string
  e_generation :: nat
  e_eventSeq :: nat
  e_eventId :: string
  e_kind :: runtime_event_kind
  e_outputCursor :: "nat option"
  e_messageId :: "string option"
  e_outcome :: "string option"
  e_payload :: event_payload
  e_occurredAt :: time

record runtime_quota =
  q_machineId :: string
  q_maxActiveRuntimes :: nat
  q_maxObserversPerRuntime :: nat
  q_updatedAt :: time

datatype capacity_state = Healthy | Warning | Exhausted

record runtime_quota_status =
  qs_quota :: runtime_quota
  qs_override :: bool
  qs_activeRuntimes :: nat
  qs_availableRuntimes :: nat
  qs_runtimeCount :: nat
  qs_utilizationPercent :: nat
  qs_capacityState :: capacity_state
  qs_states :: "(runtime_state \<times> nat) list"

record create_runtime_input =
  cr_runtimeId :: string
  cr_homeAuthorityId :: string
  cr_sessionId :: string
  cr_generation :: int
  cr_protocolVersion :: nat
  cr_transportKind :: runtime_transport
  cr_machineId :: string
  cr_reconnectSecret :: "nat list"
  cr_sessionProof :: "nat list option"
  cr_providerThreadId :: "string option"
  cr_effectiveCwd :: "string option"
  cr_effectiveHome :: "string option"

record bind_runtime_input =
  br_bindingId :: string
  br_runtimeId :: string
  br_homeAuthorityId :: string
  br_sessionId :: string
  br_generation :: int
  br_channelId :: "string option"
  br_adapterKind :: string
  br_handleRef :: string
  br_launchPolicyRef :: "string option"

record attach_runtime_input =
  ar_attachmentId :: string
  ar_runtimeId :: string
  ar_homeAuthorityId :: string
  ar_sessionId :: string
  ar_generation :: int
  ar_viewerId :: string
  ar_mode :: attachment_mode
  ar_leaseExpiresAt :: "time option"
  ar_outputCursor :: "nat option"
  ar_operatorOverride :: bool
  ar_allowRecovery :: bool

record append_event_input =
  ae_runtimeId :: string
  ae_generation :: nat
  ae_kind :: runtime_event_kind
  ae_outputCursor :: "nat option"
  ae_messageId :: "string option"
  ae_outcome :: "string option"
  ae_payload :: event_payload

end
