(* ===== verification/Store.thy ===== *)
theory Store
  imports RuntimeContracts
begin

text \<open>
  The state behind \<open>RoomsRepository\<close> (\<open>src/roomsd/src/storage/repository.ts\<close>): the SQLite tables of
  \<open>storage/migrations.ts\<close>, the transaction bookkeeping, the change listeners, and the clock and
  identifier source the operations read. \<open>writeTx\<close> (the method \<open>write\<close>) and \<open>appendChange\<close> are the two primitives every
  mutation is made of.
\<close>

section \<open>Tables and repository state\<close>

record admission =
  ad_channelId :: string
  ad_peerAuthorityId :: string
  ad_grantedBySessionId :: string
  ad_grantedAt :: time
  ad_revokedBySessionId :: "string option"
  ad_revokedAt :: "time option"

text \<open>
  \<open>changesSeq\<close> is SQLite's \<open>AUTOINCREMENT\<close> counter of the table \<open>changes\<close>. Rows of \<open>changes\<close> stand in
  the order of their integer primary key, rows of the other tables in insertion order.
\<close>

record db =
  sessions :: "session list"
  channels :: "channel list"
  memberships :: "membership list"
  changes :: "change list"
  changesSeq :: nat
  message_threads :: "thread_lifecycle list"
  admissions :: "admission list"
  runtimes :: "runtime list"
  runtime_bindings :: "runtime_binding list"
  runtime_attachments :: "runtime_attachment list"
  runtime_events :: "runtime_event list"
  runtime_quotas :: "runtime_quota list"
  capability_replays :: "capability_replay list"

definition empty_db :: db where
  "empty_db = \<lparr>sessions = [], channels = [], memberships = [], changes = [], changesSeq = 0,
     message_threads = [], admissions = [], runtimes = [], runtime_bindings = [],
     runtime_attachments = [], runtime_events = [], runtime_quotas = [], capability_replays = []\<rparr>"

text \<open>
  \<open>clock\<close> is the wall clock as a sequence of readings, \<open>reads\<close> the number taken so far; no reading is
  assumed to be later than another. \<open>ids\<close> and \<open>drawn\<close> do the same for \<open>randomUUID\<close>. \<open>notified\<close> is
  what the change listeners have been called with, \<open>outerTransaction\<close> an open transaction that
  \<open>writeTx\<close> did not start (a snapshot or an import).
\<close>

record repo =
  db :: db
  transactionDepth :: nat
  outerTransaction :: bool
  notified :: "change list"
  clock :: "nat \<Rightarrow> time"
  reads :: nat
  ids :: "nat \<Rightarrow> string"
  drawn :: nat

definition now :: "repo \<Rightarrow> time" where
  "now s = clock s (reads s)"

definition tick :: "repo \<Rightarrow> repo" where
  "tick s = s\<lparr>reads := Suc (reads s)\<rparr>"

definition randomUUID :: "repo \<Rightarrow> string" where
  "randomUUID s = ids s (drawn s)"

definition draw :: "repo \<Rightarrow> repo" where
  "draw s = s\<lparr>drawn := Suc (drawn s)\<rparr>"

definition set_db :: "(db \<Rightarrow> db) \<Rightarrow> repo \<Rightarrow> repo" where
  "set_db f s = s\<lparr>db := f (db s)\<rparr>"

lemma tick_simps [simp]:
  "db (tick s) = db s" "notified (tick s) = notified s"
  "transactionDepth (tick s) = transactionDepth s" "outerTransaction (tick s) = outerTransaction s"
  "ids (tick s) = ids s" "drawn (tick s) = drawn s" "clock (tick s) = clock s"
  by (simp_all add: tick_def)

lemma draw_simps [simp]:
  "db (draw s) = db s" "notified (draw s) = notified s"
  "transactionDepth (draw s) = transactionDepth s" "outerTransaction (draw s) = outerTransaction s"
  "ids (draw s) = ids s" "drawn (draw s) = Suc (drawn s)"
  by (simp_all add: draw_def)

lemma set_db_simps [simp]:
  "db (set_db f s) = f (db s)" "notified (set_db f s) = notified s"
  "transactionDepth (set_db f s) = transactionDepth s"
  "outerTransaction (set_db f s) = outerTransaction s"
  "ids (set_db f s) = ids s" "drawn (set_db f s) = drawn s"
  by (simp_all add: set_db_def)

section \<open>Transactions\<close>

text \<open>
  \<open>writeTx\<close> joins an enclosing \<open>writeTx\<close>; otherwise it runs \<open>BEGIN IMMEDIATE\<close> (which SQLite refuses inside
  an open transaction), then \<open>COMMIT\<close>, or \<open>ROLLBACK\<close> when the body throws.
\<close>

definition writeTx :: "(repo, 'a) operation \<Rightarrow> (repo, 'a) operation" where
  "writeTx fn s =
     (if transactionDepth s > 0 then fn s
      else if outerTransaction s then (Inl SqliteMisuse, s)
      else (case fn (s\<lparr>transactionDepth := 1\<rparr>) of
              (Inr a, s1) \<Rightarrow> (Inr a, s1\<lparr>transactionDepth := transactionDepth s, outerTransaction := False\<rparr>)
            | (Inl e, s1) \<Rightarrow> (Inl e, s1\<lparr>db := db s, transactionDepth := transactionDepth s,
                                         outerTransaction := False\<rparr>)))"

definition idle :: "repo \<Rightarrow> bool" where
  "idle s \<longleftrightarrow> transactionDepth s = 0 \<and> \<not> outerTransaction s"

lemma writeTx_Inl_db: "idle s \<Longrightarrow> writeTx fn s = (Inl e, s1) \<Longrightarrow> db s1 = db s"
  by (auto simp: writeTx_def idle_def split: prod.splits sum.splits)

lemma writeTx_Inr:
  "idle s \<Longrightarrow> writeTx fn s = (Inr a, s1) \<longleftrightarrow>
   (\<exists>s2. fn (s\<lparr>transactionDepth := 1\<rparr>) = (Inr a, s2) \<and> s1 = s2\<lparr>transactionDepth := 0, outerTransaction := False\<rparr>)"
  by (auto simp: writeTx_def idle_def split: prod.splits sum.splits)

lemma writeTx_idle: "idle s \<Longrightarrow> writeTx fn s = (r, s1) \<Longrightarrow> idle s1"
  by (auto simp: writeTx_def idle_def split: prod.splits sum.splits)

lemma writeTx_idle_misuse: "outerTransaction s \<Longrightarrow> transactionDepth s = 0 \<Longrightarrow> writeTx fn s = (Inl SqliteMisuse, s)"
  by (simp add: writeTx_def)

lemma writeTx_committed:
  assumes "writeTx m s = (Inr a, s1)"
  shows "\<exists>s0 s2. (db s0 = db s \<and> notified s0 = notified s) \<and> m s0 = (Inr a, s2)
    \<and> (db s1 = db s2 \<and> notified s1 = notified s2)"
proof (cases "transactionDepth s > 0")
  case True
  with assms show ?thesis
    by (auto simp: writeTx_def)
next
  case False
  with assms obtain s2 where "m (s\<lparr>transactionDepth := 1\<rparr>) = (Inr a, s2)" "db s1 = db s2" "notified s1 = notified s2"
    by (auto simp: writeTx_def split: if_splits prod.splits sum.splits)
  then show ?thesis
    by (intro exI [of _ "s\<lparr>transactionDepth := 1\<rparr>"] exI [of _ s2]) simp
qed

interpretation rooms_tx: transactional writeTx db idle
  by unfold_locales (blast dest: writeTx_committed, rule writeTx_Inl_db)

text \<open>The calls of the listeners are not undone by a rollback, so together they only form a \<open>committing\<close>.\<close>

interpretation rooms_journal: committing writeTx "\<lambda>s. (db s, notified s)"
  by unfold_locales (drule writeTx_committed, simp)

lemmas [preserves_intros] = rooms_tx.run_preserves

section \<open>Atomic operations\<close>

text \<open>
  \<open>atomic m\<close>: started outside a transaction, \<open>m\<close> leaves none open, and when it throws the tables are what
  they were.
\<close>

definition atomic :: "(repo, 'a) operation \<Rightarrow> bool" where
  "atomic m \<longleftrightarrow> (\<forall>s. idle s \<longrightarrow> idle (snd (m s)) \<and>
     (succeeded (fst (m s)) \<or> db (snd (m s)) = db s))"

lemma atomicD:
  assumes "atomic m" and "idle s" and "m s = (r, s1)"
  shows "idle s1" and "r = Inl e \<Longrightarrow> db s1 = db s"
  using assms unfolding atomic_def by (metis snd_conv, metis fst_conv snd_conv succeeded_simps(2))

lemma atomic_writeTx [intro]: "atomic (writeTx m)"
  unfolding atomic_def
proof (intro allI impI)
  fix s :: repo
  assume "idle s"
  moreover obtain r s1 where run: "writeTx m s = (r, s1)"
    by (cases "writeTx m s")
  moreover have "db s1 = db s" if "r = Inl e" for e
    by (rule writeTx_Inl_db [OF \<open>idle s\<close>, of m e]) (simp add: run that)
  ultimately show "idle (snd (writeTx m s)) \<and> (succeeded (fst (writeTx m s)) \<or> db (snd (writeTx m s)) = db s)"
    using writeTx_idle [OF \<open>idle s\<close> run] by (cases r) simp_all
qed

lemma atomic_throw_if [intro]: "atomic m \<Longrightarrow> atomic (\<lambda>s. if P then (throw c, s) else m s)"
  by (cases P) (simp_all add: atomic_def)

lemma atomic_keeps:
  assumes "atomic m" and "preserves I db m"
  shows "keeps (\<lambda>s. idle s \<and> I (db s)) m"
proof (rule keepsI)
  fix s r s1
  assume s: "idle s \<and> I (db s)" and run: "m s = (r, s1)"
  have "I (db s1)"
  proof (cases r)
    case (Inl e)
    with atomicD(2) [OF assms(1) _ run] s show ?thesis by simp
  next
    case (Inr a)
    with run s show ?thesis
      by (intro preservesD [OF assms(2), of s a s1]) simp_all
  qed
  with atomicD(1) [OF assms(1) _ run] s show "idle s1 \<and> I (db s1)"
    by simp
qed

section \<open>The change journal\<close>

definition latestCursor :: "db \<Rightarrow> nat" where
  "latestCursor d = foldr max (map ch_cursor (changes d)) 0"

text \<open>The reference from \<open>changes.channel_id\<close> to \<open>channels(id)\<close>; \<open>NULL\<close> refers to nothing.\<close>

definition channel_exists :: "string \<Rightarrow> db \<Rightarrow> bool" where
  "channel_exists i d \<longleftrightarrow> exists_row (\<lambda>c. c_id c = i) (channels d)"

definition session_exists :: "string \<Rightarrow> db \<Rightarrow> bool" where
  "session_exists i d \<longleftrightarrow> exists_row (\<lambda>x. s_id x = i) (sessions d)"

definition references_channel :: "string option \<Rightarrow> db \<Rightarrow> bool" where
  "references_channel channelId d = (case channelId of None \<Rightarrow> True | Some i \<Rightarrow> channel_exists i d)"

definition insert_change :: "string \<Rightarrow> string option \<Rightarrow> payload \<Rightarrow> time \<Rightarrow> db \<Rightarrow> db" where
  "insert_change kind channelId body occurredAt d =
     d\<lparr>changes := changes d @ [\<lparr>ch_cursor = Suc (changesSeq d), ch_kind = kind,
         ch_channelId = channelId, ch_payload = body, ch_occurredAt = occurredAt\<rparr>],
       changesSeq := Suc (changesSeq d)\<rparr>"

definition appendChange :: "string \<Rightarrow> string option \<Rightarrow> payload \<Rightarrow> (repo, receipt) operation" where
  "appendChange kind channelId body s =
     (let occurredAt = now s; s1 = tick s in
      if \<not> references_channel channelId (db s1) then (Inl SqliteConstraint, s1)
      else let s2 = set_db (insert_change kind channelId body occurredAt) s1;
               cursor = latestCursor (db s2);
               change = \<lparr>ch_cursor = cursor, ch_kind = kind, ch_channelId = channelId,
                         ch_payload = body, ch_occurredAt = occurredAt\<rparr>;
               s3 = s2\<lparr>notified := notified s2 @ [change]\<rparr>
           in (Inr \<lparr>r_cursor = cursor, r_didAppend = True, r_changes = [change]\<rparr>, s3))"

text \<open>What an operation that finds nothing to do returns.\<close>

definition unchanged_receipt :: "repo \<Rightarrow> receipt" where
  "unchanged_receipt s = \<lparr>r_cursor = latestCursor (db s), r_didAppend = False, r_changes = []\<rparr>"

lemma insert_change_simps [simp]:
  "sessions (insert_change k c p t d) = sessions d"
  "channels (insert_change k c p t d) = channels d"
  "memberships (insert_change k c p t d) = memberships d"
  "message_threads (insert_change k c p t d) = message_threads d"
  "admissions (insert_change k c p t d) = admissions d"
  "runtimes (insert_change k c p t d) = runtimes d"
  "runtime_bindings (insert_change k c p t d) = runtime_bindings d"
  "runtime_attachments (insert_change k c p t d) = runtime_attachments d"
  "runtime_events (insert_change k c p t d) = runtime_events d"
  "runtime_quotas (insert_change k c p t d) = runtime_quotas d"
  "capability_replays (insert_change k c p t d) = capability_replays d"
  "changesSeq (insert_change k c p t d) = Suc (changesSeq d)"
  by (simp_all add: insert_change_def)

text \<open>The invariant of the journal: cursors ascend strictly and none is beyond the counter.\<close>

definition journal_ok :: "db \<Rightarrow> bool" where
  "journal_ok d \<longleftrightarrow> sorted_wrt (<) (map ch_cursor (changes d)) \<and>
     (\<forall>c \<in> set (changes d). 0 < ch_cursor c \<and> ch_cursor c \<le> changesSeq d)"

lemma journal_ok_empty [simp]: "journal_ok empty_db"
  by (simp add: journal_ok_def empty_db_def)

lemma journal_ok_insert: "journal_ok d \<Longrightarrow> journal_ok (insert_change k c p t d)"
  by (fastforce simp: journal_ok_def insert_change_def sorted_wrt_append)

lemma foldr_max: "foldr max xs (a::nat) = max (foldr max xs 0) a"
  by (induction xs) auto

lemma foldr_max_le: "(\<forall>x \<in> set xs. x \<le> b) \<Longrightarrow> foldr max xs (0::nat) \<le> b"
  by (induction xs) auto

lemma foldr_max_ge: "x \<in> set xs \<Longrightarrow> x \<le> foldr max xs (0::nat)"
  by (induction xs) auto

lemma latestCursor_le: "journal_ok d \<Longrightarrow> latestCursor d \<le> changesSeq d"
  by (auto simp: latestCursor_def journal_ok_def intro!: foldr_max_le)

lemma latestCursor_ge: "c \<in> set (changes d) \<Longrightarrow> ch_cursor c \<le> latestCursor d"
  by (simp add: latestCursor_def foldr_max_ge)

lemma latestCursor_insert:
  "journal_ok d \<Longrightarrow> latestCursor (insert_change k c p t d) = Suc (changesSeq d)"
  using latestCursor_le [of d]
  by (simp add: latestCursor_def insert_change_def foldr_max [of _ "Suc (changesSeq d)"])

text \<open>What a successful append does, and that a refused one leaves the tables alone.\<close>

lemma appendChange_Inr:
  "appendChange k c p s = (Inr r, s1) \<Longrightarrow>
   references_channel c (db s) \<and> db s1 = insert_change k c p (now s) (db s) \<and>
   r_didAppend r \<and> r_changes r = [\<lparr>ch_cursor = r_cursor r, ch_kind = k, ch_channelId = c,
     ch_payload = p, ch_occurredAt = now s\<rparr>] \<and>
   r_cursor r = latestCursor (db s1) \<and> notified s1 = notified s @ r_changes r \<and>
   transactionDepth s1 = transactionDepth s \<and> outerTransaction s1 = outerTransaction s"
  by (auto simp: appendChange_def Let_def split: if_splits)

lemma appendChange_Inl:
  "appendChange k c p s = (Inl e, s1) \<Longrightarrow>
   e = SqliteConstraint \<and> \<not> references_channel c (db s) \<and> db s1 = db s \<and> notified s1 = notified s \<and>
   transactionDepth s1 = transactionDepth s \<and> outerTransaction s1 = outerTransaction s"
  by (auto simp: appendChange_def Let_def split: if_splits)

lemma preserves_appendChange:
  "(\<And>d. I d \<Longrightarrow> references_channel c d \<Longrightarrow> I (insert_change k c p t d)) \<Longrightarrow> I (db s) \<Longrightarrow>
   appendChange k c p s = (Inr r, s1) \<Longrightarrow> t = now s \<Longrightarrow> I (db s1)"
  using appendChange_Inr by metis

end
