(* ===== verification/Registry.thy ===== *)
theory Registry
  imports Store
begin

text \<open>
  Sessions, channels and memberships: the lookups and mutations of
  \<open>src/roomsd/src/storage/repository.ts\<close> on those three tables, each a transaction that ends in one
  appended change.
\<close>

section \<open>Lookups\<close>

definition currentSession :: "string \<Rightarrow> db \<Rightarrow> session option" where
  "currentSession i d = lookup_by s_id i (sessions d)"

definition currentChannel :: "string \<Rightarrow> db \<Rightarrow> channel option" where
  "currentChannel i d = lookup_by c_id i (channels d)"

text \<open>\<open>left_at IS NULL AND session_ended_at IS NULL\<close>\<close>

definition active_membership :: "membership \<Rightarrow> bool" where
  "active_membership m \<longleftrightarrow> m_leftAt m = None \<and> m_sessionEndedAt m = None"

definition member_of :: "string \<Rightarrow> string \<Rightarrow> membership \<Rightarrow> bool" where
  "member_of channelId sessionId m \<longleftrightarrow>
     m_channelId m = channelId \<and> m_sessionId m = sessionId \<and> active_membership m"

definition isActiveMember :: "string \<Rightarrow> string \<Rightarrow> session_role option \<Rightarrow> db \<Rightarrow> bool" where
  "isActiveMember channelId sessionId role d \<longleftrightarrow>
     exists_row (\<lambda>m. member_of channelId sessionId m \<and> (role = None \<or> m_role m = role)) (memberships d)"

definition activeMembershipCount :: "string \<Rightarrow> session_role \<Rightarrow> db \<Rightarrow> nat" where
  "activeMembershipCount channelId role d =
     count_where (\<lambda>m. m_channelId m = channelId \<and> m_role m = Some role \<and> active_membership m) (memberships d)"

definition activeMembershipCountExcept :: "string \<Rightarrow> session_role \<Rightarrow> string \<Rightarrow> db \<Rightarrow> nat" where
  "activeMembershipCountExcept channelId role sessionId d =
     count_where (\<lambda>m. m_channelId m = channelId \<and> m_role m = Some role \<and> m_sessionId m \<noteq> sessionId
                      \<and> active_membership m) (memberships d)"

definition activeMembershipChannels :: "string \<Rightarrow> db \<Rightarrow> string list" where
  "activeMembershipChannels sessionId d =
     sort (remdups (map m_channelId
       (filter (\<lambda>m. m_sessionId m = sessionId \<and> active_membership m) (memberships d))))"

definition sessionRoleValue :: "string \<Rightarrow> db \<Rightarrow> session_role option" where
  "sessionRoleValue i d = (case currentSession i d of None \<Rightarrow> None | Some x \<Rightarrow> s_role x)"

definition sessionDeliveryModeValue :: "string \<Rightarrow> db \<Rightarrow> delivery_mode option" where
  "sessionDeliveryModeValue i d = map_option s_deliveryMode (currentSession i d)"

definition sessionsForExternalId :: "string \<Rightarrow> db \<Rightarrow> string list" where
  "sessionsForExternalId externalId d =
     map s_id (filter (\<lambda>x. s_externalId x = Some externalId \<and> s_endedAt x = None) (sessions d))"

text \<open>\<open>ORDER BY f DESC LIMIT 1\<close>\<close>

fun newest_by :: "('r \<Rightarrow> nat) \<Rightarrow> 'r list \<Rightarrow> 'r option" where
  "newest_by f [] = None"
| "newest_by f (r # rows) =
     (case newest_by f rows of None \<Rightarrow> Some r | Some q \<Rightarrow> if f r < f q then Some q else Some r)"

definition membershipsFor :: "string \<Rightarrow> string \<Rightarrow> db \<Rightarrow> membership option" where
  "membershipsFor channelId sessionId d =
     newest_by m_joinedAt (filter (\<lambda>m. m_channelId m = channelId \<and> m_sessionId m = sessionId) (memberships d))"

text \<open>Rows of an active roster, \<open>ORDER BY m.joined_at, s.id\<close>, joined with their sessions.\<close>

definition active_members :: "string \<Rightarrow> db \<Rightarrow> membership list" where
  "active_members channelId d =
     sort_key (\<lambda>m. (m_joinedAt m, m_sessionId m))
       (filter (\<lambda>m. m_channelId m = channelId \<and> active_membership m) (memberships d))"

definition roster :: "string \<Rightarrow> db \<Rightarrow> (string \<times> string option \<times> session_role option \<times> time) list" where
  "roster channelId d =
     List.map_filter (\<lambda>m. map_option (\<lambda>x. (s_id x, s_displayName x, s_role x, m_joinedAt m))
       (currentSession (m_sessionId m) d)) (active_members channelId d)"

definition ownedSessions :: "string \<Rightarrow> string \<Rightarrow> db \<Rightarrow> session list" where
  "ownedSessions channelId externalOwner d =
     filter (\<lambda>x. s_endedAt x = None \<and> s_externalOwner x = Some externalOwner)
       (List.map_filter (\<lambda>m. currentSession (m_sessionId m) d) (active_members channelId d))"

definition listChannels :: "db \<Rightarrow> channel list" where
  "listChannels d = sort_key (\<lambda>c. (c_registeredAt c, c_id c)) (channels d)"

definition listSessions :: "db \<Rightarrow> session list" where
  "listSessions d = sort_key (\<lambda>x. (s_registeredAt x, s_id x)) (sessions d)"

definition membershipHistory :: "string \<Rightarrow> db \<Rightarrow> membership list" where
  "membershipHistory channelId d =
     sort_key (\<lambda>m. (m_joinedAt m, m_sessionId m)) (filter (\<lambda>m. m_channelId m = channelId) (memberships d))"

section \<open>Sessions\<close>

record session_input =
  si_id :: string
  si_displayName :: "string option"
  si_role :: "session_role option"
  si_externalId :: "string option"
  si_deliveryMode :: "delivery_mode option"
  si_externalOwner :: "string option"
  si_externalAgentId :: "string option"

definition insertSession :: "session_input \<Rightarrow> (repo, receipt) operation" where
  "insertSession i = writeTx (\<lambda>s.
     if session_exists (si_id i) (db s) then (throw ''sessionAlreadyExists'', s)
     else let registeredAt = now s;
              deliveryMode = (case si_deliveryMode i of None \<Rightarrow> Runtime_Delivery | Some m \<Rightarrow> m);
              row = \<lparr>s_id = si_id i, s_registeredAt = registeredAt, s_endedAt = None,
                     s_displayName = si_displayName i, s_role = si_role i, s_providerThreadId = None,
                     s_deliveryMode = deliveryMode, s_externalOwner = si_externalOwner i,
                     s_externalAgentId = si_externalAgentId i, s_externalId = si_externalId i\<rparr>;
              s1 = set_db (\<lambda>d. d\<lparr>sessions := sessions d @ [row]\<rparr>) (tick s)
          in appendChange ''session.registered'' None
               (Session_Registered (si_id i) registeredAt (si_displayName i) (si_role i) (si_externalId i) deliveryMode) s1)"

definition setSessionProviderThreadId :: "string \<Rightarrow> string \<Rightarrow> (repo, session) operation" where
  "setSessionProviderThreadId i providerThreadId s =
     (if blank providerThreadId then (throw ''invalidProviderThreadId'', s)
      else let s1 = set_db (\<lambda>d. d\<lparr>sessions := update_where (\<lambda>x. s_id x = i)
                      (\<lambda>x. x\<lparr>s_providerThreadId := Some providerThreadId\<rparr>) (sessions d)\<rparr>) s
           in (case currentSession i (db s1) of
                 None \<Rightarrow> (throw ''unknownSession'', s1)
               | Some x \<Rightarrow> (Inr x, s1)))"

definition end_session_rows :: "string \<Rightarrow> time \<Rightarrow> db \<Rightarrow> db" where
  "end_session_rows sessionId endedAt d =
     d\<lparr>sessions := update_where (\<lambda>x. s_id x = sessionId) (\<lambda>x. x\<lparr>s_endedAt := Some endedAt\<rparr>) (sessions d),
       memberships := update_where (\<lambda>m. m_sessionId m = sessionId \<and> active_membership m)
         (\<lambda>m. m\<lparr>m_sessionEndedAt := Some endedAt\<rparr>) (memberships d)\<rparr>"

definition markSessionEnded :: "string \<Rightarrow> (repo, receipt) operation" where
  "markSessionEnded sessionId = writeTx (\<lambda>s.
     if \<not> exists_row (\<lambda>x. s_id x = sessionId \<and> s_endedAt x = None) (sessions (db s))
     then (throw ''unknownSession'', s)
     else let left = map (\<lambda>m. (m_channelId m, m_role m)) (sort_key m_channelId
                (filter (\<lambda>m. m_sessionId m = sessionId \<and> active_membership m) (memberships (db s))));
              endedAt = now s;
              s1 = set_db (end_session_rows sessionId endedAt) (tick s)
          in appendChange ''session.ended'' None (Session_Ended sessionId endedAt left) s1)"

definition reactivable_session :: "string \<Rightarrow> session \<Rightarrow> bool" where
  "reactivable_session sessionId x \<longleftrightarrow>
     s_id x = sessionId \<and> (s_endedAt x \<noteq> None \<or> s_externalOwner x \<noteq> None \<or> s_externalAgentId x \<noteq> None)"

definition reactivable_membership :: "string \<Rightarrow> db \<Rightarrow> membership \<Rightarrow> bool" where
  "reactivable_membership sessionId d m \<longleftrightarrow>
     m_sessionId m = sessionId \<and> m_role m = Some Operator \<and> m_leftAt m = None
     \<and> m_sessionEndedAt m \<noteq> None
     \<and> exists_row (\<lambda>c. c_id c = m_channelId m \<and> c_lifecycleState c = Active) (channels d)"

definition reactivate_rows :: "string \<Rightarrow> db \<Rightarrow> db" where
  "reactivate_rows sessionId d = d\<lparr>
     sessions := update_where (reactivable_session sessionId)
       (\<lambda>x. x\<lparr>s_endedAt := None, s_externalOwner := None, s_externalAgentId := None\<rparr>) (sessions d),
     memberships := update_where (reactivable_membership sessionId d)
       (\<lambda>m. m\<lparr>m_sessionEndedAt := None\<rparr>) (memberships d)\<rparr>"

definition reactivateOperatorSession :: "string \<Rightarrow> (repo, receipt) operation" where
  "reactivateOperatorSession sessionId = writeTx (\<lambda>s.
     if (case currentSession sessionId (db s) of None \<Rightarrow> True | Some x \<Rightarrow> s_role x \<noteq> Some Operator)
     then (throw ''operatorSessionNotRecoverable'', s)
     else let reactivatedAt = now s;
              sessionChanges = count_where (reactivable_session sessionId) (sessions (db s));
              membershipChanges = count_where (reactivable_membership sessionId (db s)) (memberships (db s));
              s1 = set_db (reactivate_rows sessionId) (tick s)
          in if sessionChanges + membershipChanges = 0 then (Inr (unchanged_receipt s1), s1)
             else appendChange ''session.reactivated'' None (Session_Reactivated sessionId reactivatedAt) s1)"

section \<open>Channels\<close>

definition insertChannel :: "string \<Rightarrow> string option \<Rightarrow> (repo, receipt) operation" where
  "insertChannel i ownerOperatorSessionId = writeTx (\<lambda>s.
     if channel_exists i (db s) then (throw ''channelAlreadyExists'', s)
     else let registeredAt = now s;
              row = \<lparr>c_id = i, c_label = None, c_registeredAt = registeredAt,
                     c_ownerOperatorSessionId = ownerOperatorSessionId, c_lifecycleState = Active,
                     c_closedAt = None, c_broadcastPolicy = All_Members,
                     c_coordinationPolicy = Open_Coordination\<rparr>
          in if (case ownerOperatorSessionId of None \<Rightarrow> False | Some owner \<Rightarrow> \<not> session_exists owner (db s))
             then (Inl SqliteConstraint, tick s)
             else let s1 = set_db (\<lambda>d. d\<lparr>channels := channels d @ [row]\<rparr>) (tick s)
                  in appendChange ''channel.registered'' (Some i)
                       (Channel_Registered i registeredAt ownerOperatorSessionId) s1)"

definition update_channel :: "string \<Rightarrow> (channel \<Rightarrow> channel) \<Rightarrow> db \<Rightarrow> db" where
  "update_channel channelId f d = d\<lparr>channels := update_where (\<lambda>c. c_id c = channelId) f (channels d)\<rparr>"

definition close_channel_rows :: "string \<Rightarrow> time \<Rightarrow> db \<Rightarrow> db" where
  "close_channel_rows channelId closedAt d =
     (update_channel channelId (\<lambda>c. c\<lparr>c_lifecycleState := Closed, c_closedAt := Some closedAt\<rparr>) d)
       \<lparr>memberships := update_where (\<lambda>m. m_channelId m = channelId \<and> active_membership m)
         (\<lambda>m. m\<lparr>m_sessionEndedAt := Some closedAt\<rparr>) (memberships d)\<rparr>"

definition closeChannel :: "string \<Rightarrow> (repo, receipt) operation" where
  "closeChannel channelId = writeTx (\<lambda>s.
     case currentChannel channelId (db s) of
       None \<Rightarrow> (throw ''unknownChannel'', s)
     | Some c \<Rightarrow>
         if c_lifecycleState c = Closed then (Inr (unchanged_receipt s), s)
         else let closedAt = now s;
                  s1 = set_db (close_channel_rows channelId closedAt) (tick s)
              in appendChange ''channel.closed'' (Some channelId) (Channel_Closed channelId closedAt) s1)"

definition reopenChannel :: "string \<Rightarrow> (repo, receipt) operation" where
  "reopenChannel channelId = writeTx (\<lambda>s.
     case currentChannel channelId (db s) of
       None \<Rightarrow> (throw ''unknownChannel'', s)
     | Some c \<Rightarrow>
         if c_lifecycleState c = Active then (Inr (unchanged_receipt s), s)
         else let reopenedAt = now s;
                  s1 = set_db (update_channel channelId
                         (\<lambda>c. c\<lparr>c_lifecycleState := Active, c_closedAt := None\<rparr>)) (tick s)
              in appendChange ''channel.reopened'' (Some channelId) (Channel_Reopened channelId reopenedAt) s1)"

definition updateChannelLabel :: "string \<Rightarrow> string option \<Rightarrow> (repo, receipt) operation" where
  "updateChannelLabel channelId label = writeTx (\<lambda>s.
     case currentChannel channelId (db s) of
       None \<Rightarrow> (throw ''unknownChannel'', s)
     | Some c \<Rightarrow>
         if c_label c = label then (Inr (unchanged_receipt s), s)
         else appendChange ''channel.label.updated'' (Some channelId) (Channel_Label_Updated channelId label)
                (set_db (update_channel channelId (\<lambda>c. c\<lparr>c_label := label\<rparr>)) s))"

definition updateChannelBroadcastPolicy :: "string \<Rightarrow> broadcast_policy \<Rightarrow> (repo, receipt) operation" where
  "updateChannelBroadcastPolicy channelId policy = writeTx (\<lambda>s.
     case currentChannel channelId (db s) of
       None \<Rightarrow> (throw ''unknownChannel'', s)
     | Some c \<Rightarrow>
         if c_broadcastPolicy c = policy then (Inr (unchanged_receipt s), s)
         else appendChange ''channel.broadcast-policy.updated'' (Some channelId)
                (Channel_Broadcast_Policy_Updated channelId policy)
                (set_db (update_channel channelId (\<lambda>c. c\<lparr>c_broadcastPolicy := policy\<rparr>)) s))"

definition updateChannelCoordinationPolicy :: "string \<Rightarrow> coordination_policy \<Rightarrow> (repo, receipt) operation" where
  "updateChannelCoordinationPolicy channelId policy = writeTx (\<lambda>s.
     case currentChannel channelId (db s) of
       None \<Rightarrow> (throw ''unknownChannel'', s)
     | Some c \<Rightarrow>
         if c_coordinationPolicy c = policy then (Inr (unchanged_receipt s), s)
         else appendChange ''channel.coordination-policy.updated'' (Some channelId)
                (Channel_Coordination_Policy_Updated channelId policy)
                (set_db (update_channel channelId (\<lambda>c. c\<lparr>c_coordinationPolicy := policy\<rparr>)) s))"

section \<open>Memberships\<close>

text \<open>The primary key of \<open>memberships\<close> is (channel, session, joining time).\<close>

definition membership_key :: "membership \<Rightarrow> string \<times> string \<times> time" where
  "membership_key m = (m_channelId m, m_sessionId m, m_joinedAt m)"

definition insertMembership :: "string \<Rightarrow> string \<Rightarrow> session_role option \<Rightarrow> (repo, receipt) operation" where
  "insertMembership channelId sessionId role = writeTx (\<lambda>s.
     if \<not> exists_row (\<lambda>c. c_id c = channelId \<and> c_lifecycleState c = Active) (channels (db s))
     then (throw ''channelNotFound'', s)
     else if \<not> exists_row (\<lambda>x. s_id x = sessionId \<and> s_endedAt x = None) (sessions (db s))
     then (throw ''sessionNotFound'', s)
     else if isActiveMember channelId sessionId None (db s)
     then (Inr (unchanged_receipt s), s)
     else let joinedAt = now s;
              row = \<lparr>m_channelId = channelId, m_sessionId = sessionId, m_joinedAt = joinedAt,
                     m_leftAt = None, m_sessionEndedAt = None, m_role = role\<rparr>
          in if exists_row (\<lambda>m. membership_key m = membership_key row) (memberships (db s))
             then (Inl SqliteConstraint, tick s)
             else let s1 = set_db (\<lambda>d. d\<lparr>memberships := memberships d @ [row]\<rparr>) (tick s)
                  in appendChange ''membership.joined'' (Some channelId)
                       (Membership_Joined channelId sessionId joinedAt role) s1)"

definition leaveMembership :: "string \<Rightarrow> string \<Rightarrow> (repo, receipt) operation" where
  "leaveMembership channelId sessionId = writeTx (\<lambda>s.
     case newest_by m_joinedAt (filter (member_of channelId sessionId) (memberships (db s))) of
       None \<Rightarrow> (throw ''notMember'', s)
     | Some joined \<Rightarrow>
         let leftAt = now s;
             s1 = set_db (\<lambda>d. d\<lparr>memberships := update_where
                    (\<lambda>m. membership_key m = (channelId, sessionId, m_joinedAt joined))
                    (\<lambda>m. m\<lparr>m_leftAt := Some leftAt\<rparr>) (memberships d)\<rparr>) (tick s)
         in appendChange ''membership.left'' (Some channelId)
              (Membership_Left channelId sessionId leftAt (m_role joined)) s1)"

definition set_role_rows :: "string \<Rightarrow> session_role \<Rightarrow> db \<Rightarrow> db" where
  "set_role_rows sessionId role d =
     d\<lparr>sessions := update_where (\<lambda>x. s_id x = sessionId) (\<lambda>x. x\<lparr>s_role := Some role\<rparr>) (sessions d),
       memberships := update_where (\<lambda>m. m_sessionId m = sessionId \<and> active_membership m)
         (\<lambda>m. m\<lparr>m_role := Some role\<rparr>) (memberships d)\<rparr>"

definition replacedPlanners :: "string \<Rightarrow> string \<Rightarrow> session_role \<Rightarrow> db \<Rightarrow> string list" where
  "replacedPlanners channelId sessionId role d =
     (if role = Planner
      then map m_sessionId (filter (\<lambda>m. m_channelId m = channelId \<and> m_role m = Some Planner
             \<and> m_sessionId m \<noteq> sessionId \<and> active_membership m) (memberships d))
      else [])"

definition updateSessionRole :: "string \<Rightarrow> string \<Rightarrow> session_role \<Rightarrow> (repo, receipt) operation" where
  "updateSessionRole channelId sessionId role = writeTx (\<lambda>s.
     case sessionRoleValue sessionId (db s) of
       None \<Rightarrow> (throw ''unknownSession'', s)
     | Some before \<Rightarrow>
         let replacedPlannerIds = replacedPlanners channelId sessionId role (db s);
             s1 = set_db (\<lambda>d. set_role_rows sessionId role
                    (fold (\<lambda>i. set_role_rows i Worker) replacedPlannerIds d)) s
         in appendChange ''session.role.updated'' (Some channelId)
              (Session_Role_Updated channelId sessionId before role replacedPlannerIds) s1)"

definition recordRuntimeLifecycle ::
  "string \<Rightarrow> string \<Rightarrow> string \<Rightarrow> nat \<Rightarrow> string \<Rightarrow> time option \<Rightarrow> (repo, receipt) operation" where
  "recordRuntimeLifecycle channelId sessionId runtimeId generation state endedAt = writeTx (\<lambda>s.
     let role = (case newest_by m_joinedAt (filter (member_of channelId sessionId) (memberships (db s))) of
                   None \<Rightarrow> None | Some m \<Rightarrow> m_role m)
     in appendChange ''runtime.lifecycle'' (Some channelId)
          (Runtime_Lifecycle channelId sessionId runtimeId generation state endedAt role) s)"

section \<open>Registration of an external client\<close>

definition bind_external_id :: "string \<Rightarrow> string option \<Rightarrow> session option \<Rightarrow> (repo, unit) operation" where
  "bind_external_id sessionId externalId existing s =
     (case (existing, externalId) of
        (Some _, Some ext) \<Rightarrow>
          if ext = [] then (Inr (), s)
          else let current = (case currentSession sessionId (db s) of None \<Rightarrow> None | Some x \<Rightarrow> s_externalId x)
               in if current \<noteq> None \<and> current \<noteq> Some [] \<and> current \<noteq> Some ext
                  then (throw ''externalIdAlreadyBound'', s)
                  else if current = None \<or> current = Some []
                  then (Inr (), set_db (\<lambda>d. d\<lparr>sessions := update_where (\<lambda>x. s_id x = sessionId)
                         (\<lambda>x. x\<lparr>s_externalId := Some ext\<rparr>) (sessions d)\<rparr>) s)
                  else (Inr (), s)
      | _ \<Rightarrow> (Inr (), s))"

definition bind_delivery_mode :: "string \<Rightarrow> delivery_mode option \<Rightarrow> session option \<Rightarrow> (repo, unit) operation" where
  "bind_delivery_mode sessionId deliveryMode existing s =
     (case (existing, deliveryMode) of
        (Some x, Some mode) \<Rightarrow>
          if s_deliveryMode x = mode then (Inr (), s)
          else andThen (appendChange ''session.delivery.updated'' None (Session_Delivery_Updated sessionId mode))
                 (\<lambda>_. succeed ())
                 (set_db (\<lambda>d. d\<lparr>sessions := update_where (\<lambda>x. s_id x = sessionId)
                    (\<lambda>x. x\<lparr>s_deliveryMode := mode\<rparr>) (sessions d)\<rparr>) s)
      | _ \<Rightarrow> (Inr (), s))"

definition bind_provenance ::
  "string \<Rightarrow> string option \<Rightarrow> string option \<Rightarrow> session option \<Rightarrow> (repo, unit) operation" where
  "bind_provenance sessionId owner agent existing s =
     (case (existing, owner) of
        (Some x, Some o1) \<Rightarrow>
          (case s_externalOwner x of
             Some o2 \<Rightarrow>
               if o2 = [] then (Inr (), set_db (\<lambda>d. d\<lparr>sessions := update_where (\<lambda>y. s_id y = sessionId)
                        (\<lambda>y. y\<lparr>s_externalOwner := owner, s_externalAgentId := agent\<rparr>) (sessions d)\<rparr>) s)
               else if o2 \<noteq> o1 \<or> s_externalAgentId x \<noteq> agent
               then (throw ''externalProvenanceAlreadyBound'', s) else (Inr (), s)
           | None \<Rightarrow> (Inr (), set_db (\<lambda>d. d\<lparr>sessions := update_where (\<lambda>y. s_id y = sessionId)
                        (\<lambda>y. y\<lparr>s_externalOwner := owner, s_externalAgentId := agent\<rparr>) (sessions d)\<rparr>) s))
      | _ \<Rightarrow> (Inr (), s))"

definition join_registered ::
  "string \<Rightarrow> string \<Rightarrow> session_role \<Rightarrow> bool \<Rightarrow> (repo, session option \<times> membership option \<times> bool) operation" where
  "join_registered channelId sessionId role idempotent s =
     andThen
       (if \<not> isActiveMember channelId sessionId None (db s)
        then andThen (insertMembership channelId sessionId (Some role)) (\<lambda>_. succeed ())
        else succeed ())
       (\<lambda>_ s1. (Inr (currentSession sessionId (db s1), membershipsFor channelId sessionId (db s1), idempotent), s1)) s"

definition register_steps ::
  "string \<Rightarrow> string \<Rightarrow> session_role \<Rightarrow> string option \<Rightarrow> delivery_mode option \<Rightarrow> string option \<Rightarrow> string option \<Rightarrow>
   session option \<Rightarrow> (repo, session option \<times> membership option \<times> bool) operation" where
  "register_steps channelId sessionId role externalId deliveryMode owner agent existing =
     andThen
       (if existing = None
        then andThen (insertSession \<lparr>si_id = sessionId, si_displayName = None, si_role = Some role,
               si_externalId = externalId, si_deliveryMode = deliveryMode,
               si_externalOwner = owner, si_externalAgentId = agent\<rparr>) (\<lambda>_. succeed ())
        else succeed ())
       (\<lambda>_. andThen (bind_external_id sessionId externalId existing)
       (\<lambda>_. andThen (bind_delivery_mode sessionId deliveryMode existing)
       (\<lambda>_. andThen (bind_provenance sessionId owner agent existing)
       (\<lambda>_. join_registered channelId sessionId role (existing \<noteq> None)))))"

definition registerSession ::
  "string \<Rightarrow> string \<Rightarrow> session_role \<Rightarrow> string option \<Rightarrow> delivery_mode option \<Rightarrow> string option \<Rightarrow> string option \<Rightarrow>
   (repo, session option \<times> membership option \<times> bool) operation" where
  "registerSession channelId sessionId role externalId deliveryMode externalOwner externalAgentId = writeTx (\<lambda>s.
     if currentChannel channelId (db s) = None then (throw ''channelNotFound'', s)
     else let existing = currentSession sessionId (db s);
              owner = nonblank externalOwner;
              agent = nonblank externalAgentId
          in if (owner = None) \<noteq> (agent = None) then (throw ''invalidExternalProvenance'', s)
             else register_steps channelId sessionId role externalId deliveryMode owner agent existing s)"

end
