(* ===== verification/Messages.thy ===== *)
theory Messages
  imports Registry
begin

text \<open>
  Messages, threads and control records of \<open>src/roomsd/src/storage/repository.ts\<close>: committing with
  deduplication and reply metadata, resolving and reopening threads, delivery records, and the folded
  views and pages read back from the change journal.
\<close>

section \<open>Rows that carry messages\<close>

fun payload_message :: "payload \<Rightarrow> message option" where
  "payload_message (Message_Sent m) = Some m"
| "payload_message _ = None"

fun payload_control :: "payload \<Rightarrow> control option" where
  "payload_control (Control_Committed c) = Some c"
| "payload_control _ = None"

text \<open>The message of a row with \<open>kind='message.sent'\<close>.\<close>

definition sent_message :: "change \<Rightarrow> message option" where
  "sent_message c = (if ch_kind c = ''message.sent'' then payload_message (ch_payload c) else None)"

definition sent_with_id :: "string \<Rightarrow> change \<Rightarrow> bool" where
  "sent_with_id i c \<longleftrightarrow> (case sent_message c of None \<Rightarrow> False | Some m \<Rightarrow> msg_id m = i)"

definition find_message :: "string \<Rightarrow> db \<Rightarrow> (change \<times> message) option" where
  "find_message i d =
     (case find (sent_with_id i) (changes d) of
        None \<Rightarrow> None
      | Some c \<Rightarrow> map_option (\<lambda>m. (c, m)) (sent_message c))"

section \<open>Reply metadata\<close>

definition replyEventId :: "json option \<Rightarrow> string option result" where
  "replyEventId v =
     (case v of
        None \<Rightarrow> Inr None
      | Some JNull \<Rightarrow> Inr None
      | Some (JStr i) \<Rightarrow>
          if blank i \<or> utf8_bytes i > 512 then throw ''invalidReplyToEventId'' else Inr (Some i)
      | Some _ \<Rightarrow> throw ''invalidReplyToEventId'')"

fun json_fields :: "json option \<Rightarrow> (string \<times> json) list option" where
  "json_fields (Some (JObj kvs)) = Some kvs"
| "json_fields _ = None"

record reply_metadata =
  rp_replyToEventId :: "string option"
  rp_threadRootEventId :: "string option"
  rp_correlation :: "json option"

definition thread_row :: "string \<Rightarrow> db \<Rightarrow> thread_lifecycle option" where
  "thread_row i d = lookup_by t_threadRootEventId i (message_threads d)"

definition resolveParent ::
  "string option \<Rightarrow> string \<Rightarrow> (string \<times> json) list \<Rightarrow> db \<Rightarrow> reply_metadata result" where
  "resolveParent channelId replyTo obj d =
     (case find_message replyTo d of
        None \<Rightarrow> throw ''staleReply''
      | Some (row, parent) \<Rightarrow>
          if ch_channelId row \<noteq> channelId then throw ''staleReply''
          else (case replyEventId (map_option JStr (msg_replyToEventId parent)) of
            Inl e \<Rightarrow> Inl e
          | Inr parentReply \<Rightarrow>
              (case replyEventId (map_option JStr (msg_threadRootEventId parent)) of
                 Inl e \<Rightarrow> Inl e
               | Inr parentRoot \<Rightarrow>
                   if parentReply \<noteq> None \<and> parentRoot = None then throw ''invalidReplyParent''
                   else let threadRoot = (case parentRoot of Some r \<Rightarrow> r | None \<Rightarrow> replyTo) in
                     (case thread_row threadRoot d of
                        Some t \<Rightarrow>
                          if t_state t = Resolved then throw ''threadResolved''
                          else Inr \<lparr>rp_replyToEventId = Some replyTo, rp_threadRootEventId = Some threadRoot,
                                 rp_correlation = Some (JObj (put_field ''replyToEventId'' (JStr replyTo) obj))\<rparr>
                      | None \<Rightarrow>
                          Inr \<lparr>rp_replyToEventId = Some replyTo, rp_threadRootEventId = Some threadRoot,
                            rp_correlation = Some (JObj (put_field ''replyToEventId'' (JStr replyTo) obj))\<rparr>))))"

definition resolveReplyMetadata ::
  "string option \<Rightarrow> string option \<Rightarrow> json option \<Rightarrow> db \<Rightarrow> reply_metadata result" where
  "resolveReplyMetadata channelId replyToEventId correlation d =
     (let correlationRecord = json_fields correlation in
      case replyEventId (map_option JStr replyToEventId) of
        Inl e \<Rightarrow> Inl e
      | Inr canonicalReply \<Rightarrow>
          (case replyEventId (case correlationRecord of None \<Rightarrow> None | Some kvs \<Rightarrow> map_of kvs ''replyToEventId'') of
             Inl e \<Rightarrow> Inl e
           | Inr legacyReply \<Rightarrow>
               if canonicalReply \<noteq> None \<and> legacyReply \<noteq> None \<and> canonicalReply \<noteq> legacyReply
               then throw ''invalidReplyMetadata''
               else (case (case canonicalReply of Some r \<Rightarrow> Some r | None \<Rightarrow> legacyReply) of
                 None \<Rightarrow> Inr \<lparr>rp_replyToEventId = None, rp_threadRootEventId = None, rp_correlation = correlation\<rparr>
               | Some replyTo \<Rightarrow>
                   resolveParent channelId replyTo (case correlationRecord of None \<Rightarrow> [] | Some kvs \<Rightarrow> kvs) d)))"

section \<open>Committing a message\<close>

record commit_result =
  cm_receipt :: receipt
  cm_event :: message
  cm_wasDeduplicated :: bool

text \<open>\<open>a ?? b\<close>\<close>

definition coalesce :: "'a option \<Rightarrow> 'a option \<Rightarrow> 'a option" where
  "coalesce a b = (case a of Some x \<Rightarrow> Some x | None \<Rightarrow> b)"

definition target_kind :: "target option \<Rightarrow> string option" where
  "target_kind t = (case t of None \<Rightarrow> None | Some g \<Rightarrow> tg_kind g)"

definition recipient_unknown :: "target option \<Rightarrow> db \<Rightarrow> bool" where
  "recipient_unknown t d \<longleftrightarrow>
     (target_kind t = Some ''direct'' \<or> target_kind t = Some ''directToSession'') \<and>
     (case t of None \<Rightarrow> True
      | Some g \<Rightarrow> (case coalesce (tg_sessionId g) (tg_sessionID g) of
                    None \<Rightarrow> True | Some i \<Rightarrow> i = [] \<or> currentSession i d = None))"

definition deduplicationKey :: "json option \<Rightarrow> json option" where
  "deduplicationKey correlation =
     (case correlation of None \<Rightarrow> None | Some c \<Rightarrow> jfield ''deduplicationKey'' c)"

text \<open>SQLite binds strings and numbers as parameters, and refuses booleans, arrays and objects.\<close>

fun bindable :: "json \<Rightarrow> bool" where
  "bindable (JStr _) = True"
| "bindable (JNum _) = True"
| "bindable (JFrac _) = True"
| "bindable _ = False"

definition sent_with_key :: "json \<Rightarrow> change \<Rightarrow> bool" where
  "sent_with_key key c \<longleftrightarrow>
     (case sent_message c of None \<Rightarrow> False | Some m \<Rightarrow> deduplicationKey (msg_correlation m) = Some key)"

text \<open>An element of \<open>recipients\<close> is undefined for a direct target without \<open>sessionId\<close>.\<close>

definition recipients_of :: "target option \<Rightarrow> string option list" where
  "recipients_of t =
     (if target_kind t = Some ''direct'' then (case t of None \<Rightarrow> [] | Some g \<Rightarrow> [tg_sessionId g])
      else (case t of None \<Rightarrow> []
            | Some g \<Rightarrow> (case tg_sessionIds g of None \<Rightarrow> [] | Some is \<Rightarrow> map Some is)))"

definition property_name :: "string option \<Rightarrow> string" where
  "property_name r = (case r of None \<Rightarrow> ''undefined'' | Some i \<Rightarrow> i)"

definition all_delivered :: "string option list \<Rightarrow> statuses" where
  "all_delivered rs = map (\<lambda>i. (i, Delivered)) (remdups (map property_name rs))"

definition message_event :: "message_input \<Rightarrow> reply_metadata \<Rightarrow> string \<Rightarrow> time \<Rightarrow> message" where
  "message_event input reply uuid occurredAt =
     (let recipients = recipients_of (in_target input);
          statuses = (case in_deliveryStatuses input of Some st \<Rightarrow> st | None \<Rightarrow> all_delivered recipients)
      in \<lparr>msg_id = ''event_'' @ uuid, msg_channelId = in_channelId input,
          msg_senderSessionId = in_senderSessionId input, msg_body = in_body input,
          msg_target = in_target input,
          msg_attachmentReferences = (case in_attachmentReferences input of None \<Rightarrow> [] | Some xs \<Rightarrow> xs),
          msg_deliveredRecipientSessionIds =
            filter (\<lambda>r. map_of statuses (property_name r) = Some Delivered) recipients,
          msg_recipientStatuses = statuses, msg_correlation = rp_correlation reply,
          msg_replyToEventId = rp_replyToEventId reply, msg_threadRootEventId = rp_threadRootEventId reply,
          msg_occurredAt = occurredAt\<rparr>)"

definition append_message :: "message_input \<Rightarrow> reply_metadata \<Rightarrow> (repo, commit_result) operation" where
  "append_message input reply s =
     (let event = message_event input reply (randomUUID s) (now s) in
      andThen (appendChange ''message.sent'' (in_channelId input) (Message_Sent event))
        (\<lambda>receipt. succeed \<lparr>cm_receipt = receipt, cm_event = event, cm_wasDeduplicated = False\<rparr>)
        (tick (draw s)))"

definition prior_message :: "json \<Rightarrow> db \<Rightarrow> (change \<times> message) option" where
  "prior_message key d =
     (case find (sent_with_key key) (changes d) of
        None \<Rightarrow> None
      | Some c \<Rightarrow> map_option (\<lambda>m. (c, m)) (sent_message c))"

definition commitMessage :: "message_input \<Rightarrow> (repo, commit_result) operation" where
  "commitMessage input = writeTx (\<lambda>s.
     if recipient_unknown (in_target input) (db s) then (throw ''unknownSession'', s)
     else (case resolveReplyMetadata (in_channelId input) (in_replyToEventId input) (in_correlation input) (db s) of
       Inl e \<Rightarrow> (Inl e, s)
     | Inr reply \<Rightarrow>
         (case deduplicationKey (rp_correlation reply) of
            None \<Rightarrow> append_message input reply s
          | Some key \<Rightarrow>
              if \<not> jtruthy key then append_message input reply s
              else if \<not> bindable key then (Inl SqliteMisuse, s)
              else (case prior_message key (db s) of
                Some (row, event) \<Rightarrow>
                  (Inr \<lparr>cm_receipt = \<lparr>r_cursor = ch_cursor row, r_didAppend = False, r_changes = []\<rparr>,
                        cm_event = event, cm_wasDeduplicated = True\<rparr>, s)
              | None \<Rightarrow> append_message input reply s))))"

section \<open>Control records and delivery records\<close>

definition control_matches :: "string \<Rightarrow> string \<Rightarrow> string \<Rightarrow> change \<Rightarrow> bool" where
  "control_matches channelId senderSessionId requestId c \<longleftrightarrow>
     ch_kind c = ''control.committed'' \<and> ch_channelId c = Some channelId \<and>
     (case payload_control (ch_payload c) of None \<Rightarrow> False
      | Some k \<Rightarrow> ctl_senderSessionId k = senderSessionId \<and> ctl_requestId k = requestId)"

record control_input =
  ci_channelId :: string
  ci_senderSessionId :: string
  ci_kind :: string
  ci_payload :: json
  ci_requestId :: string

definition commitControl :: "control_input \<Rightarrow> (repo, receipt \<times> control \<times> bool) operation" where
  "commitControl input = writeTx (\<lambda>s.
     case find (control_matches (ci_channelId input) (ci_senderSessionId input) (ci_requestId input)) (changes (db s)) of
       Some row \<Rightarrow>
         (case payload_control (ch_payload row) of
            None \<Rightarrow> (Inl SqliteMisuse, s)
          | Some event \<Rightarrow>
              (Inr (\<lparr>r_cursor = ch_cursor row, r_didAppend = False, r_changes = []\<rparr>, event, True), s))
     | None \<Rightarrow>
         let event = \<lparr>ctl_id = ''control_'' @ randomUUID s, ctl_channelId = ci_channelId input,
               ctl_senderSessionId = ci_senderSessionId input, ctl_kind = ci_kind input,
               ctl_payload = ci_payload input, ctl_requestId = ci_requestId input, ctl_occurredAt = now s\<rparr>
         in andThen (appendChange ''control.committed'' (Some (ci_channelId input)) (Control_Committed event))
              (\<lambda>receipt. succeed (receipt, event, False)) (tick (draw s)))"

definition delivered_ids :: "statuses \<Rightarrow> string list" where
  "delivered_ids st = map fst (filter (\<lambda>(_, status). status = Delivered) st)"

definition appendMessageDelivery :: "string \<Rightarrow> statuses \<Rightarrow> (repo, receipt) operation" where
  "appendMessageDelivery messageId statuses = writeTx (\<lambda>s.
     case find_message messageId (db s) of
       None \<Rightarrow> (throw ''unknownMessage'', s)
     | Some (row, _) \<Rightarrow>
         appendChange ''message.delivery'' (ch_channelId row)
           (Message_Delivery messageId statuses (delivered_ids statuses) (now s)) (tick s))"

section \<open>Looking messages up\<close>

definition in_channel :: "string option \<Rightarrow> change \<Rightarrow> bool" where
  "in_channel channelId c \<longleftrightarrow> (case channelId of None \<Rightarrow> True | Some i \<Rightarrow> i = [] \<or> ch_channelId c = Some i)"

definition messageById :: "string \<Rightarrow> string option \<Rightarrow> db \<Rightarrow> (message \<times> nat) result" where
  "messageById eventId channelId d =
     (if blank eventId then throw ''unknownMessage''
      else (case find (\<lambda>c. in_channel channelId c \<and> sent_with_id eventId c) (changes d) of
        None \<Rightarrow> throw ''unknownMessage''
      | Some row \<Rightarrow>
          (case sent_message row of None \<Rightarrow> throw ''unknownMessage'' | Some m \<Rightarrow> Inr (m, ch_cursor row))))"

definition messageCursor :: "string \<Rightarrow> string option \<Rightarrow> db \<Rightarrow> nat result" where
  "messageCursor eventId channelId d =
     (case find (\<lambda>c. in_channel channelId c \<and> sent_with_id eventId c) (changes d) of
        None \<Rightarrow> throw ''unknownMessage''
      | Some row \<Rightarrow> Inr (ch_cursor row))"

section \<open>Threads\<close>

definition fresh_thread :: "string \<Rightarrow> string \<Rightarrow> thread_lifecycle" where
  "fresh_thread root channelId =
     \<lparr>t_threadRootEventId = root, t_channelId = channelId, t_state = Open, t_resolvedAt = None,
      t_resolvedBySessionId = None, t_reopenedAt = None, t_reopenedBySessionId = None, t_updatedAt = None\<rparr>"

definition threadLifecycle :: "string \<Rightarrow> string option \<Rightarrow> db \<Rightarrow> thread_lifecycle result" where
  "threadLifecycle threadRootEventId channelId d =
     (case messageById threadRootEventId channelId d of
        Inl e \<Rightarrow> Inl e
      | Inr (event, _) \<Rightarrow>
          (case replyEventId (map_option JStr (msg_replyToEventId event)) of
             Inl e \<Rightarrow> Inl e
           | Inr (Some _) \<Rightarrow> throw ''notThreadRoot''
           | Inr None \<Rightarrow>
               (case msg_channelId event of
                  None \<Rightarrow> throw ''threadChannelRequired''
                | Some rootChannelId \<Rightarrow>
                    if rootChannelId = [] then throw ''threadChannelRequired''
                    else (case thread_row threadRootEventId d of
                      Some row \<Rightarrow> Inr row
                    | None \<Rightarrow> Inr (fresh_thread threadRootEventId rootChannelId)))))"

text \<open>\<open>INSERT ... ON CONFLICT(thread_root_event_id) DO UPDATE\<close>\<close>

definition resolve_thread_row :: "string \<Rightarrow> string \<Rightarrow> string \<Rightarrow> time \<Rightarrow> db \<Rightarrow> db" where
  "resolve_thread_row root channelId actor changedAt d =
     (if thread_row root d = None
      then d\<lparr>message_threads := message_threads d @ [\<lparr>t_threadRootEventId = root, t_channelId = channelId,
              t_state = Resolved, t_resolvedAt = Some changedAt, t_resolvedBySessionId = Some actor,
              t_reopenedAt = None, t_reopenedBySessionId = None, t_updatedAt = Some changedAt\<rparr>]\<rparr>
      else d\<lparr>message_threads := update_where (\<lambda>t. t_threadRootEventId t = root)
              (\<lambda>t. t\<lparr>t_state := Resolved, t_resolvedAt := Some changedAt,
                     t_resolvedBySessionId := Some actor, t_updatedAt := Some changedAt\<rparr>) (message_threads d)\<rparr>)"

definition reopen_thread_row :: "string \<Rightarrow> string \<Rightarrow> time \<Rightarrow> db \<Rightarrow> db" where
  "reopen_thread_row root actor changedAt d =
     d\<lparr>message_threads := update_where (\<lambda>t. t_threadRootEventId t = root)
        (\<lambda>t. t\<lparr>t_state := Open, t_reopenedAt := Some changedAt,
               t_reopenedBySessionId := Some actor, t_updatedAt := Some changedAt\<rparr>) (message_threads d)\<rparr>"

definition setThreadState ::
  "string \<Rightarrow> string \<Rightarrow> thread_state \<Rightarrow> string option \<Rightarrow> (repo, receipt \<times> thread_lifecycle) operation" where
  "setThreadState threadRootEventId actorSessionId state channelId = writeTx (\<lambda>s.
     case currentSession actorSessionId (db s) of
       None \<Rightarrow> (throw ''unknownSession'', s)
     | Some actor \<Rightarrow>
         if s_endedAt actor \<noteq> None then (throw ''unknownSession'', s)
         else (case threadLifecycle threadRootEventId channelId (db s) of
           Inl e \<Rightarrow> (Inl e, s)
         | Inr current \<Rightarrow>
             if \<not> isActiveMember (t_channelId current) actorSessionId None (db s) then (throw ''notMember'', s)
             else if t_state current = state then (Inr (unchanged_receipt s, current), s)
             else let changedAt = now s;
                      s1 = set_db (if state = Resolved
                             then resolve_thread_row threadRootEventId (t_channelId current) actorSessionId changedAt
                             else reopen_thread_row threadRootEventId actorSessionId changedAt) (tick s)
                  in (case threadLifecycle threadRootEventId (Some (t_channelId current)) (db s1) of
                        Inl e \<Rightarrow> (Inl e, s1)
                      | Inr thread \<Rightarrow>
                          andThen (appendChange (if state = Resolved then ''thread.resolved'' else ''thread.reopened'')
                                    (Some (t_channelId current)) (Thread_Changed thread))
                            (\<lambda>receipt. succeed (receipt, thread)) s1)))"

definition resolveThread :: "string \<Rightarrow> string \<Rightarrow> string option \<Rightarrow> (repo, receipt \<times> thread_lifecycle) operation" where
  "resolveThread root actor channelId = setThreadState root actor Resolved channelId"

definition reopenThread :: "string \<Rightarrow> string \<Rightarrow> string option \<Rightarrow> (repo, receipt \<times> thread_lifecycle) operation" where
  "reopenThread root actor channelId = setThreadState root actor Open channelId"

end
