(* ===== verification/RegistryInvariants.thy ===== *)
theory RegistryInvariants
  imports Registry
begin

text \<open>
  The well-formedness of the session, channel and membership tables, and its preservation by every
  mutation of \<open>Registry\<close>: unique keys, references that resolve, and no active membership of a closed
  channel or an ended session.
\<close>

section \<open>The invariant\<close>

definition live_channel :: "string \<Rightarrow> db \<Rightarrow> bool" where
  "live_channel i d \<longleftrightarrow> exists_row (\<lambda>c. c_id c = i \<and> c_lifecycleState c = Active) (channels d)"

definition live_session :: "string \<Rightarrow> db \<Rightarrow> bool" where
  "live_session i d \<longleftrightarrow> exists_row (\<lambda>x. s_id x = i \<and> s_endedAt x = None) (sessions d)"

definition keys_ok :: "db \<Rightarrow> bool" where
  "keys_ok d \<longleftrightarrow> distinct (map s_id (sessions d)) \<and> distinct (map c_id (channels d))
     \<and> distinct (map membership_key (memberships d))"

definition channels_ok :: "db \<Rightarrow> bool" where
  "channels_ok d \<longleftrightarrow> (\<forall>c \<in> set (channels d).
     (c_lifecycleState c = Closed \<longleftrightarrow> c_closedAt c \<noteq> None)
     \<and> (\<forall>owner. c_ownerOperatorSessionId c = Some owner \<longrightarrow> session_exists owner d))"

definition memberships_ok :: "db \<Rightarrow> bool" where
  "memberships_ok d \<longleftrightarrow> (\<forall>m \<in> set (memberships d).
     channel_exists (m_channelId m) d \<and> session_exists (m_sessionId m) d
     \<and> (active_membership m \<longrightarrow> live_channel (m_channelId m) d \<and> live_session (m_sessionId m) d))"

definition registry_ok :: "db \<Rightarrow> bool" where
  "registry_ok d \<longleftrightarrow> keys_ok d \<and> channels_ok d \<and> memberships_ok d \<and> journal_ok d"

lemmas registry_defs = registry_ok_def keys_ok_def channels_ok_def memberships_ok_def
  live_channel_def live_session_def channel_exists_def session_exists_def exists_row_iff

lemma registry_ok_empty: "registry_ok empty_db"
  by (simp add: registry_defs) (simp add: empty_db_def)

lemma registry_ok_insert_change: "registry_ok d \<Longrightarrow> registry_ok (insert_change k c p t d)"
  using journal_ok_insert by (simp add: registry_defs)

section \<open>The table updates keep it\<close>

lemma journal_ok_cong: "changes d' = changes d \<Longrightarrow> changesSeq d' = changesSeq d \<Longrightarrow> journal_ok d' = journal_ok d"
  by (simp add: journal_ok_def)

lemma registry_ok_add_session:
  "registry_ok d \<Longrightarrow> \<not> session_exists (s_id row) d \<Longrightarrow> registry_ok (d\<lparr>sessions := sessions d @ [row]\<rparr>)"
  unfolding registry_ok_def
  by (auto simp: keys_ok_def channels_ok_def memberships_ok_def live_channel_def live_session_def
      channel_exists_def session_exists_def exists_row_iff journal_ok_def)

lemma registry_ok_add_channel:
  "registry_ok d \<Longrightarrow> \<not> channel_exists (c_id row) d \<Longrightarrow> c_lifecycleState row = Active \<Longrightarrow> c_closedAt row = None \<Longrightarrow>
   (\<forall>owner. c_ownerOperatorSessionId row = Some owner \<longrightarrow> session_exists owner d) \<Longrightarrow>
   registry_ok (d\<lparr>channels := channels d @ [row]\<rparr>)"
  unfolding registry_ok_def
  by (auto simp: keys_ok_def channels_ok_def memberships_ok_def live_channel_def live_session_def
      channel_exists_def session_exists_def exists_row_iff journal_ok_def)

lemma registry_ok_add_membership:
  "registry_ok d \<Longrightarrow> live_channel (m_channelId row) d \<Longrightarrow> live_session (m_sessionId row) d \<Longrightarrow>
   \<not> exists_row (\<lambda>m. membership_key m = membership_key row) (memberships d) \<Longrightarrow>
   registry_ok (d\<lparr>memberships := memberships d @ [row]\<rparr>)"
  unfolding registry_ok_def
  by (auto simp: keys_ok_def channels_ok_def memberships_ok_def live_channel_def live_session_def
      channel_exists_def session_exists_def exists_row_iff journal_ok_def)

lemma registry_ok_unique:
  assumes "registry_ok d"
  shows "c \<in> set (channels d) \<Longrightarrow> c' \<in> set (channels d) \<Longrightarrow> c_id c = c_id c' \<Longrightarrow> c = c'"
    and "x \<in> set (sessions d) \<Longrightarrow> x' \<in> set (sessions d) \<Longrightarrow> s_id x = s_id x' \<Longrightarrow> x = x'"
  using assms distinct_keyD [of c_id "channels d"] distinct_keyD [of s_id "sessions d"]
  by (auto simp: registry_ok_def keys_ok_def)

lemma registry_ok_refs:
  assumes "registry_ok d" and "m \<in> set (memberships d)"
  obtains c x where "c \<in> set (channels d)" "c_id c = m_channelId m" "x \<in> set (sessions d)" "s_id x = m_sessionId m"
    "active_membership m \<Longrightarrow> c_lifecycleState c = Active \<and> s_endedAt x = None"
proof -
  obtain c x where cx: "c \<in> set (channels d)" "c_id c = m_channelId m" "x \<in> set (sessions d)" "s_id x = m_sessionId m"
    using assms by (auto simp: registry_ok_def memberships_ok_def channel_exists_def session_exists_def exists_row_iff)
  moreover have "c_lifecycleState c = Active \<and> s_endedAt x = None" if "active_membership m"
  proof -
    from that assms have "live_channel (m_channelId m) d" "live_session (m_sessionId m) d"
      by (auto simp: registry_ok_def memberships_ok_def)
    then obtain c' x' where "c' \<in> set (channels d)" "c_id c' = m_channelId m" "c_lifecycleState c' = Active"
      "x' \<in> set (sessions d)" "s_id x' = m_sessionId m" "s_endedAt x' = None"
      by (auto simp: live_channel_def live_session_def exists_row_iff)
    with cx registry_ok_unique [OF assms(1)] show ?thesis by metis
  qed
  ultimately show ?thesis
    using that by blast
qed

lemma registry_ok_coherent:
  "registry_ok d \<Longrightarrow> c \<in> set (channels d) \<Longrightarrow> c_lifecycleState c = Closed \<longleftrightarrow> c_closedAt c \<noteq> None"
  by (auto simp: registry_ok_def channels_ok_def)

text \<open>
  Every update of the registry rewrites rows in place and moves no key. What remains to be shown of it:
  channels stay coherent, and a membership that is active afterwards has a live channel and session.
\<close>

lemma registry_ok_rewrite:
  assumes ok: "registry_ok d"
    and tables: "sessions d' = map f (sessions d)" "channels d' = map g (channels d)"
      "memberships d' = map h (memberships d)" "changes d' = changes d" "changesSeq d' = changesSeq d"
    and keys: "\<And>x. s_id (f x) = s_id x" "\<And>c. c_id (g c) = c_id c"
      "\<And>m. membership_key (h m) = membership_key m"
    and owners: "\<And>c. c_ownerOperatorSessionId (g c) = c_ownerOperatorSessionId c"
    and coherent: "\<And>c. c \<in> set (channels d) \<Longrightarrow> c_lifecycleState (g c) = Closed \<longleftrightarrow> c_closedAt (g c) \<noteq> None"
    and active: "\<And>m c x. m \<in> set (memberships d) \<Longrightarrow> active_membership (h m) \<Longrightarrow>
      c \<in> set (channels d) \<Longrightarrow> c_id c = m_channelId m \<Longrightarrow> x \<in> set (sessions d) \<Longrightarrow> s_id x = m_sessionId m \<Longrightarrow>
      (active_membership m \<Longrightarrow> c_lifecycleState c = Active \<and> s_endedAt x = None) \<Longrightarrow>
      c_lifecycleState (g c) = Active \<and> s_endedAt (f x) = None"
  shows "registry_ok d'"
proof -
  have cols: "m_channelId (h m) = m_channelId m" "m_sessionId (h m) = m_sessionId m" for m
    using keys(3) [of m] by (simp_all add: membership_key_def)
  have ex: "session_exists i d' = session_exists i d" "channel_exists i d' = channel_exists i d" for i
    by (simp_all add: session_exists_def channel_exists_def exists_row_iff tables keys)
  have maps: "map s_id (sessions d') = map s_id (sessions d)"
    "map c_id (channels d') = map c_id (channels d)"
    "map membership_key (memberships d') = map membership_key (memberships d)"
    by (simp_all add: tables keys)
  have "keys_ok d'"
    using ok by (simp only: registry_ok_def keys_ok_def maps)
  moreover have "channels_ok d'"
    using ok coherent by (auto simp: registry_ok_def channels_ok_def tables ex owners)
  moreover have "memberships_ok d'"
    unfolding memberships_ok_def
  proof
    fix m'
    assume "m' \<in> set (memberships d')"
    then obtain m where m: "m \<in> set (memberships d)" "m' = h m"
      by (auto simp: tables)
    then have "channel_exists (m_channelId m) d" "session_exists (m_sessionId m) d"
      using ok by (auto simp: registry_ok_def memberships_ok_def)
    moreover have "live_channel (m_channelId m) d' \<and> live_session (m_sessionId m) d'" if act: "active_membership (h m)"
    proof -
      obtain c x where cx: "c \<in> set (channels d)" "c_id c = m_channelId m" "x \<in> set (sessions d)"
        "s_id x = m_sessionId m" "active_membership m \<Longrightarrow> c_lifecycleState c = Active \<and> s_endedAt x = None"
        using registry_ok_refs [OF ok m(1)] by blast
      have "c_lifecycleState (g c) = Active \<and> s_endedAt (f x) = None"
        using active [OF m(1) act cx(1-4)] cx(5) by blast
      with cx show ?thesis
        by (auto simp: live_channel_def live_session_def exists_row_iff tables keys)
    qed
    ultimately show "channel_exists (m_channelId m') d' \<and> session_exists (m_sessionId m') d' \<and>
        (active_membership m' \<longrightarrow> live_channel (m_channelId m') d' \<and> live_session (m_sessionId m') d')"
      by (simp add: m(2) cols ex)
  qed
  moreover have "journal_ok d'"
    using ok by (simp add: registry_ok_def journal_ok_def tables)
  ultimately show ?thesis
    by (simp add: registry_ok_def)
qed

lemma registry_ok_update_sessions:
  assumes ok: "registry_ok d" and "\<And>x. s_id (f x) = s_id x" and "\<And>x. s_endedAt (f x) = s_endedAt x"
  shows "registry_ok (d\<lparr>sessions := update_where P f (sessions d)\<rparr>)"
  by (rule registry_ok_rewrite [OF ok, where f = "\<lambda>x. if P x then f x else x" and g = id and h = id])
    (use registry_ok_coherent [OF ok] assms(2,3) in
      \<open>auto simp: update_where_def\<close>)

lemma registry_ok_update_channel:
  assumes ok: "registry_ok d" and "\<And>c. c_id (f c) = c_id c"
    and "\<And>c. c_ownerOperatorSessionId (f c) = c_ownerOperatorSessionId c"
    and "\<And>c. c_lifecycleState (f c) = c_lifecycleState c" and "\<And>c. c_closedAt (f c) = c_closedAt c"
  shows "registry_ok (update_channel i f d)"
  by (rule registry_ok_rewrite [OF ok, where f = id and g = "\<lambda>c. if c_id c = i then f c else c" and h = id])
    (use registry_ok_coherent [OF ok] assms(2-5) in
      \<open>auto simp: update_where_def update_channel_def\<close>)

lemma registry_ok_set_role:
  assumes ok: "registry_ok d"
  shows "registry_ok (set_role_rows i r d)"
  by (rule registry_ok_rewrite [OF ok, where g = id
        and f = "\<lambda>x. if s_id x = i then x\<lparr>s_role := Some r\<rparr> else x"
        and h = "\<lambda>m. if m_sessionId m = i \<and> active_membership m then m\<lparr>m_role := Some r\<rparr> else m"])
    (use registry_ok_coherent [OF ok] in
      \<open>auto simp: update_where_def set_role_rows_def membership_key_def split: if_splits\<close>)

lemma registry_ok_fold_set_role: "registry_ok d \<Longrightarrow> registry_ok (fold (\<lambda>i. set_role_rows i r) is d)"
  by (induction "is" arbitrary: d) (auto simp: registry_ok_set_role)

lemma registry_ok_end_session:
  assumes ok: "registry_ok d"
  shows "registry_ok (end_session_rows i t d)"
  by (rule registry_ok_rewrite [OF ok, where g = id
        and f = "\<lambda>x. if s_id x = i then x\<lparr>s_endedAt := Some t\<rparr> else x"
        and h = "\<lambda>m. if m_sessionId m = i \<and> active_membership m then m\<lparr>m_sessionEndedAt := Some t\<rparr> else m"])
    (use registry_ok_coherent [OF ok] in
      \<open>auto simp: update_where_def end_session_rows_def membership_key_def active_membership_def split: if_splits\<close>)

lemma registry_ok_close_channel:
  assumes ok: "registry_ok d"
  shows "registry_ok (close_channel_rows i t d)"
  by (rule registry_ok_rewrite [OF ok, where f = id
        and g = "\<lambda>c. if c_id c = i then c\<lparr>c_lifecycleState := Closed, c_closedAt := Some t\<rparr> else c"
        and h = "\<lambda>m. if m_channelId m = i \<and> active_membership m then m\<lparr>m_sessionEndedAt := Some t\<rparr> else m"])
    (use registry_ok_coherent [OF ok] in
      \<open>auto simp: update_where_def close_channel_rows_def update_channel_def membership_key_def
         active_membership_def split: if_splits\<close>)

lemma registry_ok_reopen_channel:
  assumes ok: "registry_ok d"
  shows "registry_ok (update_channel i (\<lambda>c. c\<lparr>c_lifecycleState := Active, c_closedAt := None\<rparr>) d)"
  by (rule registry_ok_rewrite [OF ok, where f = id and h = id
        and g = "\<lambda>c. if c_id c = i then c\<lparr>c_lifecycleState := Active, c_closedAt := None\<rparr> else c"])
    (use registry_ok_coherent [OF ok] in
      \<open>auto simp: update_where_def update_channel_def\<close>)

lemma registry_ok_leave:
  assumes ok: "registry_ok d"
  shows "registry_ok (d\<lparr>memberships := update_where P (\<lambda>m. m\<lparr>m_leftAt := Some t\<rparr>) (memberships d)\<rparr>)"
  by (rule registry_ok_rewrite [OF ok, where f = id and g = id
        and h = "\<lambda>m. if P m then m\<lparr>m_leftAt := Some t\<rparr> else m"])
    (use registry_ok_coherent [OF ok] in
      \<open>auto simp: update_where_def membership_key_def active_membership_def split: if_splits\<close>)

lemma reactivable_channel:
  assumes "registry_ok d" "reactivable_membership i d m" "c \<in> set (channels d)" "c_id c = m_channelId m"
  shows "c_lifecycleState c = Active"
proof -
  obtain c' where "c' \<in> set (channels d)" "c_id c' = m_channelId m" "c_lifecycleState c' = Active"
    using assms(2) by (auto simp: reactivable_membership_def exists_row_iff)
  with registry_ok_unique(1) [OF assms(1,3)] assms(4) show ?thesis by metis
qed

lemma reactivable_memberD: "reactivable_membership i d m \<Longrightarrow> m_sessionId m = i"
  by (simp add: reactivable_membership_def)

lemma registry_ok_reactivate:
  assumes ok: "registry_ok d" and "session_exists i d"
  shows "registry_ok (reactivate_rows i d)"
  by (rule registry_ok_rewrite [OF ok, where g = id
        and f = "\<lambda>x. if reactivable_session i x
          then x\<lparr>s_endedAt := None, s_externalOwner := None, s_externalAgentId := None\<rparr> else x"
        and h = "\<lambda>m. if reactivable_membership i d m then m\<lparr>m_sessionEndedAt := None\<rparr> else m"])
    (use registry_ok_coherent [OF ok] in
      \<open>auto simp: update_where_def reactivate_rows_def membership_key_def active_membership_def
         reactivable_session_def dest: reactivable_channel [OF ok] reactivable_memberD split: if_splits\<close>)

section \<open>Every mutation keeps it\<close>

lemma currentSession_exists: "currentSession i d = Some x \<Longrightarrow> session_exists i d"
  by (auto simp: currentSession_def session_exists_def exists_row_iff dest: lookup_by_SomeD)

lemma appendChange_ok:
  "appendChange k c p s = (Inr r, s1) \<Longrightarrow> registry_ok (db s) \<Longrightarrow> registry_ok (db s1)"
  using appendChange_Inr registry_ok_insert_change by metis

lemma insertSession_ok [preserves_intros]: "preserves registry_ok db (insertSession i)"
  unfolding insertSession_def
  by (rule rooms_tx.run_preserves, rule preservesI)
    (auto simp: Let_def split: if_splits dest!: appendChange_ok intro!: registry_ok_add_session)

lemma markSessionEnded_ok [preserves_intros]: "preserves registry_ok db (markSessionEnded i)"
  unfolding markSessionEnded_def
  by (rule rooms_tx.run_preserves, rule preservesI)
    (auto simp: Let_def split: if_splits dest!: appendChange_ok intro!: registry_ok_end_session)

lemma reactivateOperatorSession_ok [preserves_intros]: "preserves registry_ok db (reactivateOperatorSession i)"
  unfolding reactivateOperatorSession_def
  by (rule rooms_tx.run_preserves, rule preservesI)
    (auto simp: Let_def split: if_splits option.splits
      dest!: appendChange_ok dest: currentSession_exists intro!: registry_ok_reactivate)

lemma insertChannel_ok [preserves_intros]: "preserves registry_ok db (insertChannel i owner)"
  unfolding insertChannel_def
  by (rule rooms_tx.run_preserves, rule preservesI)
    (auto simp: Let_def split: if_splits option.splits dest!: appendChange_ok intro!: registry_ok_add_channel)

lemma closeChannel_ok [preserves_intros]: "preserves registry_ok db (closeChannel i)"
  unfolding closeChannel_def
  by (rule rooms_tx.run_preserves, rule preservesI)
    (auto simp: Let_def split: if_splits option.splits dest!: appendChange_ok intro!: registry_ok_close_channel)

lemma reopenChannel_ok [preserves_intros]: "preserves registry_ok db (reopenChannel i)"
  unfolding reopenChannel_def
  by (rule rooms_tx.run_preserves, rule preservesI)
    (auto simp: Let_def split: if_splits option.splits dest!: appendChange_ok intro!: registry_ok_reopen_channel)

lemma updateChannelLabel_ok [preserves_intros]: "preserves registry_ok db (updateChannelLabel i l)"
  unfolding updateChannelLabel_def
  by (rule rooms_tx.run_preserves, rule preservesI)
    (auto split: if_splits option.splits dest!: appendChange_ok intro!: registry_ok_update_channel)

lemma updateChannelBroadcastPolicy_ok [preserves_intros]:
  "preserves registry_ok db (updateChannelBroadcastPolicy i p)"
  unfolding updateChannelBroadcastPolicy_def
  by (rule rooms_tx.run_preserves, rule preservesI)
    (auto split: if_splits option.splits dest!: appendChange_ok intro!: registry_ok_update_channel)

lemma updateChannelCoordinationPolicy_ok [preserves_intros]:
  "preserves registry_ok db (updateChannelCoordinationPolicy i p)"
  unfolding updateChannelCoordinationPolicy_def
  by (rule rooms_tx.run_preserves, rule preservesI)
    (auto split: if_splits option.splits dest!: appendChange_ok intro!: registry_ok_update_channel)

lemma insertMembership_ok [preserves_intros]: "preserves registry_ok db (insertMembership c i r)"
  unfolding insertMembership_def
  by (rule rooms_tx.run_preserves, rule preservesI)
    (auto simp: Let_def live_channel_def live_session_def split: if_splits dest!: appendChange_ok
      intro!: registry_ok_add_membership)

lemma leaveMembership_ok [preserves_intros]: "preserves registry_ok db (leaveMembership c i)"
  unfolding leaveMembership_def
  by (rule rooms_tx.run_preserves, rule preservesI)
    (auto simp: Let_def split: option.splits dest!: appendChange_ok intro!: registry_ok_leave)

lemma updateSessionRole_ok [preserves_intros]: "preserves registry_ok db (updateSessionRole c i r)"
  unfolding updateSessionRole_def
  by (rule rooms_tx.run_preserves, rule preservesI)
    (auto simp: Let_def split: option.splits dest!: appendChange_ok
      intro!: registry_ok_set_role registry_ok_fold_set_role)

lemma recordRuntimeLifecycle_ok [preserves_intros]:
  "preserves registry_ok db (recordRuntimeLifecycle c i rt g st e)"
  unfolding recordRuntimeLifecycle_def
  by (rule rooms_tx.run_preserves, rule preservesI) (auto simp: Let_def dest!: appendChange_ok)

lemma setSessionProviderThreadId_ok [preserves_intros]:
  "preserves registry_ok db (setSessionProviderThreadId i t)"
  by (rule preservesI)
    (auto simp: setSessionProviderThreadId_def Let_def split: if_splits option.splits
      intro!: registry_ok_update_sessions)

lemma bind_external_id_ok: "preserves registry_ok db (bind_external_id i e x)"
  by (rule preservesI)
    (auto simp: bind_external_id_def Let_def split: if_splits option.splits intro!: registry_ok_update_sessions)

lemma bind_delivery_mode_ok: "preserves registry_ok db (bind_delivery_mode i e x)"
  by (rule preservesI)
    (auto simp: bind_delivery_mode_def andThen_Inr_iff succeed_def split: if_splits option.splits
      dest!: appendChange_ok intro!: registry_ok_update_sessions)

lemma bind_provenance_ok: "preserves registry_ok db (bind_provenance i e x y)"
  by (rule preservesI)
    (auto simp: bind_provenance_def split: if_splits option.splits intro!: registry_ok_update_sessions)

end
