(* ===== verification/Application.thy ===== *)
theory Application
  imports Messages RegistryInvariants
begin

text \<open>
  The commands of \<open>RoomsApplication\<close> (\<open>src/roomsd/src/domain/application.ts\<close>): who may do what. Each
  command is one transaction that reads the actor's authority from the tables and then runs the
  mutation of the repository.
\<close>

record command_context =
  ctx_credentialId :: string
  ctx_actorSessionId :: string
  ctx_role :: session_role

abbreviation actor_of :: "command_context \<Rightarrow> repo \<Rightarrow> session option" where
  "actor_of ctx s \<equiv> currentSession (ctx_actorSessionId ctx) (db s)"

text \<open>\<open>!actor || actor.endedAt || actor.role !== context.role\<close>\<close>

definition actor_denied :: "session option \<Rightarrow> command_context \<Rightarrow> bool" where
  "actor_denied actor ctx \<longleftrightarrow>
     (case actor of None \<Rightarrow> True | Some a \<Rightarrow> s_endedAt a \<noteq> None \<or> s_role a \<noteq> Some (ctx_role ctx))"

definition registerSession_cmd ::
  "string \<Rightarrow> string option \<Rightarrow> command_context \<Rightarrow> (repo, receipt) operation" where
  "registerSession_cmd i displayName ctx = writeTx (\<lambda>s.
     if (case actor_of ctx s of None \<Rightarrow> False
         | Some a \<Rightarrow> s_endedAt a \<noteq> None \<or> s_role a \<noteq> Some (ctx_role ctx))
     then (throw ''unauthorized'', s)
     else if i \<noteq> ctx_actorSessionId ctx then (throw ''unauthorized'', s)
     else insertSession \<lparr>si_id = i, si_displayName = displayName, si_role = Some (ctx_role ctx),
            si_externalId = None, si_deliveryMode = None, si_externalOwner = None, si_externalAgentId = None\<rparr> s)"

definition registerChannel_cmd :: "string \<Rightarrow> command_context \<Rightarrow> (repo, receipt) operation" where
  "registerChannel_cmd i ctx = writeTx (\<lambda>s.
     case actor_of ctx s of
       None \<Rightarrow> (throw ''unauthorized'', s)
     | Some actor \<Rightarrow>
         if ctx_role ctx \<noteq> Operator \<or> s_endedAt actor \<noteq> None \<or> s_role actor \<noteq> Some Operator
         then (throw ''unauthorized'', s)
         else insertChannel i (Some (s_id actor)) s)"

definition join_cmd :: "string \<Rightarrow> string \<Rightarrow> command_context \<Rightarrow> (repo, receipt) operation" where
  "join_cmd channelId sessionId ctx = writeTx (\<lambda>s.
     case currentChannel channelId (db s) of
       None \<Rightarrow> (throw ''unknownChannel'', s)
     | Some channel \<Rightarrow>
         if c_lifecycleState channel \<noteq> Active then (throw ''channelClosed'', s)
         else if actor_denied (actor_of ctx s) ctx then (throw ''unauthorizedActor'', s)
         else (case currentSession sessionId (db s) of
           None \<Rightarrow> (throw ''unknownSession'', s)
         | Some target \<Rightarrow>
             if s_endedAt target \<noteq> None then (throw ''unknownSession'', s)
             else let ownerOperator = (ctx_role ctx = Operator \<and>
                        c_ownerOperatorSessionId channel = Some (ctx_actorSessionId ctx));
                      plannerMember = (ctx_role ctx = Planner \<and>
                        isActiveMember channelId (ctx_actorSessionId ctx) None (db s))
                  in if s_role target = Some Worker \<and> \<not> plannerMember
                     then (throw ''plannerAuthorizationRequired'', s)
                     else if s_role target \<noteq> Some Worker \<and> \<not> ownerOperator
                     then (throw ''ownerAuthorizationRequired'', s)
                     else if (s_role target = Some Planner \<and> activeMembershipCount channelId Planner (db s) > 0)
                           \<or> (s_role target = Some Reviewer \<and> activeMembershipCount channelId Reviewer (db s) > 0)
                     then (throw ''alreadyMember'', s)
                     else insertMembership channelId sessionId (s_role target) s))"

text \<open>The channels through which an operator reaches another session.\<close>

definition operator_shares :: "string \<Rightarrow> string \<Rightarrow> db \<Rightarrow> bool" where
  "operator_shares actorId channelId d \<longleftrightarrow>
     (case currentChannel channelId d of None \<Rightarrow> False
      | Some c \<Rightarrow> c_ownerOperatorSessionId c = Some actorId)
     \<or> isActiveMember channelId actorId (Some Operator) d"

definition endSession_cmd :: "string \<Rightarrow> command_context \<Rightarrow> (repo, receipt) operation" where
  "endSession_cmd sessionId ctx = writeTx (\<lambda>s.
     let me = ctx_actorSessionId ctx in
     if actor_denied (actor_of ctx s) ctx then (throw ''unauthorized'', s)
     else if me = sessionId then markSessionEnded sessionId s
     else if ctx_role ctx = Operator then
       (case currentSession sessionId (db s) of
          None \<Rightarrow> (throw ''unknownSession'', s)
        | Some target \<Rightarrow>
            if s_externalOwner target = Some me then markSessionEnded sessionId s
            else let targetChannels = activeMembershipChannels sessionId (db s) in
              if targetChannels = [] then markSessionEnded sessionId s
              else if \<not> list_ex (\<lambda>channelId. operator_shares me channelId (db s)) targetChannels
              then (throw ''unauthorized'', s)
              else markSessionEnded sessionId s)
     else if ctx_role ctx = Planner then
       (case currentSession sessionId (db s) of
          None \<Rightarrow> (throw ''unauthorized'', s)
        | Some target \<Rightarrow>
            if s_endedAt target \<noteq> None \<or> s_role target \<noteq> Some Worker then (throw ''unauthorized'', s)
            else if \<not> list_ex (\<lambda>channelId. isActiveMember channelId me (Some Planner) (db s)
                                 \<and> isActiveMember channelId sessionId (Some Worker) (db s))
                     (activeMembershipChannels me (db s))
            then (throw ''unauthorized'', s)
            else markSessionEnded sessionId s)
     else (throw ''unauthorized'', s))"

text \<open>
  The authority over a channel shared by closing, labels and policies: a live operator that owns the
  channel, or any live operator if nobody owns it, or one that is an active operator member.
\<close>

definition ownedByAnother :: "channel option \<Rightarrow> string option \<Rightarrow> bool" where
  "ownedByAnother channel me \<longleftrightarrow>
     (case channel of None \<Rightarrow> False
      | Some c \<Rightarrow> c_ownerOperatorSessionId c \<noteq> None \<and> c_ownerOperatorSessionId c \<noteq> me)"

definition activeOperatorMember :: "string \<Rightarrow> command_context \<Rightarrow> db \<Rightarrow> bool" where
  "activeOperatorMember channelId ctx d \<longleftrightarrow>
     currentChannel channelId d \<noteq> None \<and> isActiveMember channelId (ctx_actorSessionId ctx) (Some Operator) d"

definition manage_denied :: "string \<Rightarrow> command_context \<Rightarrow> repo \<Rightarrow> bool" where
  "manage_denied channelId ctx s \<longleftrightarrow>
     (case actor_of ctx s of
        None \<Rightarrow> True
      | Some a \<Rightarrow> s_endedAt a \<noteq> None \<or> s_role a \<noteq> Some Operator \<or> ctx_role ctx \<noteq> Operator
          \<or> (ownedByAnother (currentChannel channelId (db s)) (Some (s_id a))
             \<and> \<not> activeOperatorMember channelId ctx (db s)))"

definition closeChannel_cmd :: "string \<Rightarrow> command_context \<Rightarrow> (repo, receipt) operation" where
  "closeChannel_cmd channelId ctx = writeTx (\<lambda>s.
     if manage_denied channelId ctx s then (throw ''unauthorized'', s)
     else closeChannel channelId s)"

definition labelChannel_cmd :: "string \<Rightarrow> string option \<Rightarrow> command_context \<Rightarrow> (repo, receipt) operation" where
  "labelChannel_cmd channelId label ctx = writeTx (\<lambda>s.
     if manage_denied channelId ctx s then (throw ''unauthorized'', s)
     else if currentChannel channelId (db s) = None then (throw ''unknownChannel'', s)
     else updateChannelLabel channelId label s)"

definition broadcast_policy_of :: "string \<Rightarrow> broadcast_policy option" where
  "broadcast_policy_of v =
     (if v = ''all'' then Some All_Members else if v = ''privileged'' then Some Privileged else None)"

definition coordination_policy_of :: "string \<Rightarrow> coordination_policy option" where
  "coordination_policy_of v =
     (if v = ''open'' then Some Open_Coordination else if v = ''lead-upstream'' then Some Lead_Upstream else None)"

definition setChannelBroadcastPolicy_cmd ::
  "string \<Rightarrow> string \<Rightarrow> command_context \<Rightarrow> (repo, receipt) operation" where
  "setChannelBroadcastPolicy_cmd channelId policy ctx = writeTx (\<lambda>s.
     if manage_denied channelId ctx s then (throw ''unauthorized'', s)
     else if currentChannel channelId (db s) = None then (throw ''unknownChannel'', s)
     else (case broadcast_policy_of policy of
             None \<Rightarrow> (throw ''invalidBroadcastPolicy'', s)
           | Some p \<Rightarrow> updateChannelBroadcastPolicy channelId p s))"

definition setChannelCoordinationPolicy_cmd ::
  "string \<Rightarrow> string \<Rightarrow> command_context \<Rightarrow> (repo, receipt) operation" where
  "setChannelCoordinationPolicy_cmd channelId policy ctx = writeTx (\<lambda>s.
     if manage_denied channelId ctx s then (throw ''unauthorized'', s)
     else if currentChannel channelId (db s) = None then (throw ''unknownChannel'', s)
     else (case coordination_policy_of policy of
             None \<Rightarrow> (throw ''invalidCoordinationPolicy'', s)
           | Some p \<Rightarrow> updateChannelCoordinationPolicy channelId p s))"

definition commitMessage_cmd :: "message_input \<Rightarrow> (repo, commit_result) operation" where
  "commitMessage_cmd input s =
     (if blank (in_senderSessionId input) then (throw ''senderSessionIdRequired'', s)
      else if blank (in_body input) then (throw ''emptyMessage'', s)
      else writeTx (commitMessage input) s)"

definition commitControl_checked ::
  "control_input \<Rightarrow> command_context \<Rightarrow> (repo, receipt \<times> control \<times> bool) operation" where
  "commitControl_checked input ctx s =
     (case actor_of ctx s of
        None \<Rightarrow> (throw ''unauthorized'', s)
      | Some actor \<Rightarrow>
          if s_endedAt actor \<noteq> None \<or> s_role actor \<noteq> Some (ctx_role ctx)
             \<or> ci_senderSessionId input \<noteq> s_id actor then (throw ''unauthorized'', s)
          else (case currentChannel (ci_channelId input) (db s) of
            None \<Rightarrow> (throw ''unknownChannel'', s)
          | Some channel \<Rightarrow>
              if c_lifecycleState channel \<noteq> Active then (throw ''channelClosed'', s)
              else if \<not> isActiveMember (ci_channelId input) (s_id actor) None (db s) then (throw ''notMember'', s)
              else commitControl input s))"

definition commitControl_cmd ::
  "control_input \<Rightarrow> command_context \<Rightarrow> (repo, receipt \<times> control \<times> bool) operation" where
  "commitControl_cmd input ctx s =
     (if blank (ci_kind input) then (throw ''controlKindRequired'', s)
      else if blank (ci_requestId input) then (throw ''requestIdRequired'', s)
      else writeTx (commitControl_checked input ctx) s)"

definition leave_cmd :: "string \<Rightarrow> string \<Rightarrow> command_context \<Rightarrow> (repo, receipt) operation" where
  "leave_cmd channelId sessionId ctx = writeTx (\<lambda>s.
     if actor_denied (actor_of ctx s) ctx
        \<or> (ctx_actorSessionId ctx \<noteq> sessionId \<and> ctx_role ctx \<noteq> Operator) then (throw ''unauthorized'', s)
     else if \<not> isActiveMember channelId sessionId None (db s) then (throw ''notMember'', s)
     else leaveMembership channelId sessionId s)"

definition assignable_role :: "string \<Rightarrow> session_role option" where
  "assignable_role v =
     (if v = ''planner'' then Some Planner else if v = ''worker'' then Some Worker
      else if v = ''reviewer'' then Some Reviewer else None)"

text \<open>A channel in which the new role is already held by somebody else.\<close>

definition role_taken :: "string \<Rightarrow> string \<Rightarrow> session_role \<Rightarrow> db \<Rightarrow> string \<Rightarrow> bool" where
  "role_taken channelId sessionId role d affected \<longleftrightarrow>
     \<not> (role = Planner \<and> affected = channelId) \<and> (role = Planner \<or> role = Reviewer)
     \<and> activeMembershipCountExcept affected role sessionId d > 0"

definition updateSessionRole_cmd ::
  "string \<Rightarrow> string \<Rightarrow> string \<Rightarrow> command_context \<Rightarrow> (repo, receipt) operation" where
  "updateSessionRole_cmd channelId sessionId roleName ctx = writeTx (\<lambda>s.
     let channel = currentChannel channelId (db s) in
     if actor_denied (actor_of ctx s) ctx \<or> ctx_role ctx \<noteq> Operator \<or> channel = None
        \<or> (ownedByAnother channel (Some (ctx_actorSessionId ctx)) \<and> \<not> activeOperatorMember channelId ctx (db s))
     then (throw ''ownerAuthorizationRequired'', s)
     else (case currentSession sessionId (db s) of
       None \<Rightarrow> (throw ''unknownSession'', s)
     | Some target \<Rightarrow>
         if s_endedAt target \<noteq> None then (throw ''unknownSession'', s)
         else (case assignable_role roleName of
           None \<Rightarrow> (throw ''invalidRole'', s)
         | Some role \<Rightarrow>
             if list_ex (role_taken channelId sessionId role (db s)) (activeMembershipChannels sessionId (db s))
             then (throw ''alreadyMember'', s)
             else updateSessionRole channelId sessionId role s)))"

end
