(* ===== verification/Commands.thy ===== *)
theory Commands
  imports Application
begin

text \<open>
  The daemon as a transition system: one constructor of \<open>request\<close> for each mutation the service surface
  can ask of \<open>RoomsApplication\<close> or \<open>RoomsRepository\<close>, \<open>perform\<close> to run it, and the states reachable from a
  fresh database. Each request is a synchronous call, so requests interleave as whole steps.
\<close>

datatype request =
    Register_Session string "string option" command_context
  | Register_Channel string command_context
  | Join string string command_context
  | End_Session string command_context
  | Close_Channel string command_context
  | Label_Channel string "string option" command_context
  | Set_Broadcast_Policy string string command_context
  | Set_Coordination_Policy string string command_context
  | Commit_Message message_input
  | Commit_Control control_input command_context
  | Leave string string command_context
  | Update_Session_Role string string string command_context
  | Reactivate_Operator string
  | Reopen_Channel string
  | Resolve_Thread string string "string option"
  | Reopen_Thread string string "string option"
  | Message_Delivered string statuses
  | Runtime_Changed string string string nat string "time option"
  | Provider_Thread string string
  | Insert_Session session_input
  | External_Register string string session_role "string option" "delivery_mode option"
      "string option" "string option"

definition void :: "('s, 'a) operation \<Rightarrow> ('s, unit) operation" where
  "void m = andThen m (\<lambda>_. succeed ())"

fun perform :: "request \<Rightarrow> (repo, unit) operation" where
  "perform (Register_Session i n ctx) = void (registerSession_cmd i n ctx)"
| "perform (Register_Channel i ctx) = void (registerChannel_cmd i ctx)"
| "perform (Join c i ctx) = void (join_cmd c i ctx)"
| "perform (End_Session i ctx) = void (endSession_cmd i ctx)"
| "perform (Close_Channel c ctx) = void (closeChannel_cmd c ctx)"
| "perform (Label_Channel c l ctx) = void (labelChannel_cmd c l ctx)"
| "perform (Set_Broadcast_Policy c p ctx) = void (setChannelBroadcastPolicy_cmd c p ctx)"
| "perform (Set_Coordination_Policy c p ctx) = void (setChannelCoordinationPolicy_cmd c p ctx)"
| "perform (Commit_Message input) = void (commitMessage_cmd input)"
| "perform (Commit_Control input ctx) = void (commitControl_cmd input ctx)"
| "perform (Leave c i ctx) = void (leave_cmd c i ctx)"
| "perform (Update_Session_Role c i r ctx) = void (updateSessionRole_cmd c i r ctx)"
| "perform (Reactivate_Operator i) = void (reactivateOperatorSession i)"
| "perform (Reopen_Channel c) = void (reopenChannel c)"
| "perform (Resolve_Thread root i c) = void (resolveThread root i c)"
| "perform (Reopen_Thread root i c) = void (reopenThread root i c)"
| "perform (Message_Delivered i st) = void (appendMessageDelivery i st)"
| "perform (Runtime_Changed c i rt g state e) = void (recordRuntimeLifecycle c i rt g state e)"
| "perform (Provider_Thread i t) = void (setSessionProviderThreadId i t)"
| "perform (Insert_Session i) = void (insertSession i)"
| "perform (External_Register c i r ext mode owner agent) = void (registerSession c i r ext mode owner agent)"

lemma void_Inr: "void m s = (Inr u, s1) \<longleftrightarrow> (\<exists>a. m s = (Inr a, s1))"
  by (auto simp: void_def andThen_def succeed_def split: prod.splits sum.splits)

lemma void_Inl: "void m s = (Inl e, s1) \<longleftrightarrow> m s = (Inl e, s1)"
  by (auto simp: void_def andThen_def succeed_def split: prod.splits sum.splits)

lemma preserves_void [preserves_intros]: "preserves I tables m \<Longrightarrow> preserves I tables (void m)"
  unfolding void_def by (rule preserves_andThen) (auto intro: preserves_succeed)

section \<open>Every request is atomic\<close>

lemma void_fst: "succeeded (fst (void m s)) = succeeded (fst (m s))" and void_snd: "snd (void m s) = snd (m s)"
  by (auto simp: void_def andThen_def succeed_def split: prod.splits sum.splits)

lemma atomic_void: "atomic m \<Longrightarrow> atomic (void m)"
  by (simp add: atomic_def void_fst void_snd)

lemma atomic_setSessionProviderThreadId: "atomic (setSessionProviderThreadId i t)"
proof -
  have same: "update_where (\<lambda>x. s_id x = i) f rows = rows" if "lookup_by s_id i rows = None" for f rows
    using that by (induction rows) (auto split: if_splits)
  have key: "update_where (\<lambda>x. s_id x = i) (\<lambda>x. x\<lparr>s_providerThreadId := Some t\<rparr>) rows = rows"
    if "lookup_by s_id i (update_where (\<lambda>x. s_id x = i) (\<lambda>x. x\<lparr>s_providerThreadId := Some t\<rparr>) rows) = None" for rows
    by (rule same) (use that in \<open>auto simp: lookup_by_update_where\<close>)
  then have "d\<lparr>sessions := update_where (\<lambda>x. s_id x = i) (\<lambda>x. x\<lparr>s_providerThreadId := Some t\<rparr>) (sessions d)\<rparr> = d"
    if "lookup_by s_id i (update_where (\<lambda>x. s_id x = i) (\<lambda>x. x\<lparr>s_providerThreadId := Some t\<rparr>) (sessions d)) = None"
    for d :: db
    by (subst key [OF that]) simp
  then show ?thesis
    by (auto simp: atomic_def setSessionProviderThreadId_def Let_def currentSession_def idle_def
        split: if_splits option.splits)
qed

lemmas command_defs =
  registerSession_cmd_def registerChannel_cmd_def join_cmd_def endSession_cmd_def closeChannel_cmd_def
  labelChannel_cmd_def setChannelBroadcastPolicy_cmd_def setChannelCoordinationPolicy_cmd_def leave_cmd_def
  updateSessionRole_cmd_def

lemmas mutation_defs =
  reactivateOperatorSession_def reopenChannel_def resolveThread_def reopenThread_def setThreadState_def
  appendMessageDelivery_def recordRuntimeLifecycle_def registerSession_def
  insertSession_def

lemma atomic_commitMessage_cmd: "atomic (commitMessage_cmd input)"
  using atomic_throw_if [OF atomic_throw_if [OF atomic_writeTx]] by (simp add: commitMessage_cmd_def [abs_def])

lemma atomic_commitControl_cmd: "atomic (commitControl_cmd input ctx)"
  using atomic_throw_if [OF atomic_throw_if [OF atomic_writeTx]] by (simp add: commitControl_cmd_def [abs_def])

lemma atomic_perform: "atomic (perform q)"
  by (cases q)
    (auto intro!: atomic_void atomic_commitMessage_cmd atomic_commitControl_cmd atomic_setSessionProviderThreadId
      simp: command_defs mutation_defs)

text \<open>
  C3. Every request is atomic: run outside a transaction it leaves no transaction open, and if it throws,
  for whatever reason and however far it got, the tables are exactly those before the request.
\<close>

theorem perform_atomic:
  assumes "idle s" and "perform q s = (r, s1)"
  shows "idle s1 \<and> (\<forall>e. r = Inl e \<longrightarrow> db s1 = db s)"
  using atomicD [OF atomic_perform assms] by blast

section \<open>Reachable states\<close>

definition fresh :: "repo \<Rightarrow> bool" where
  "fresh s \<longleftrightarrow> db s = empty_db \<and> idle s \<and> notified s = []"

inductive reachable :: "(request \<Rightarrow> bool) \<Rightarrow> repo \<Rightarrow> bool" for allowed where
  start: "fresh s \<Longrightarrow> reachable allowed s"
| step: "reachable allowed s \<Longrightarrow> allowed q \<Longrightarrow> perform q s = (r, s1) \<Longrightarrow> reachable allowed s1"

inductive_cases reachableE: "reachable allowed s"

lemma reachable_idle: "reachable allowed s \<Longrightarrow> idle s"
  by (induction rule: reachable.induct) (auto simp: fresh_def dest: atomicD(1) [OF atomic_perform])

text \<open>An invariant that every allowed request preserves holds in every reachable state.\<close>

lemma reachable_invariant:
  assumes "reachable allowed s" and "I empty_db" and "\<And>q. allowed q \<Longrightarrow> preserves I db (perform q)"
  shows "I (db s)"
  using assms(1)
proof (induction rule: reachable.induct)
  case (start s)
  with assms(2) show ?case by (simp add: fresh_def)
next
  case (step s q r s1)
  show ?case
  proof (cases r)
    case (Inl e)
    with step.hyps reachable_idle [OF step.hyps(1)] have "db s1 = db s"
      using atomicD(2) [OF atomic_perform] by blast
    with step.IH show ?thesis by simp
  next
    case (Inr u)
    with step.hyps(3) have "perform q s = (Inr u, s1)" by simp
    then show ?thesis
      by (rule preservesD [OF assms(3) [OF step.hyps(2)] step.IH])
  qed
qed

text \<open>A run of requests, ignoring what each returns.\<close>

fun run_requests :: "request list \<Rightarrow> repo \<Rightarrow> repo" where
  "run_requests [] s = s"
| "run_requests (q # qs) s = run_requests qs (snd (perform q s))"

lemma reachable_run: "reachable allowed s \<Longrightarrow> list_all allowed qs \<Longrightarrow> reachable allowed (run_requests qs s)"
proof (induction qs arbitrary: s)
  case Nil
  then show ?case by simp
next
  case (Cons q qs)
  have "reachable allowed (snd (perform q s))"
    using Cons.prems by (auto intro: reachable.step [of allowed s q "fst (perform q s)"])
  then show ?case
    using Cons.IH Cons.prems(2) by simp
qed

text \<open>A concrete repository to start from: the clock strikes 1, 2, 3, ..., identifiers are x0, x1, ...\<close>

definition demo_start :: repo where
  "demo_start = \<lparr>db = empty_db, transactionDepth = 0, outerTransaction = False, notified = [],
     clock = Suc, reads = 0, ids = (\<lambda>n. ''x'' @ digits n), drawn = 0\<rparr>"

lemma fresh_demo_start: "fresh demo_start"
  by (simp add: fresh_def idle_def demo_start_def)

definition operator_ctx :: command_context where
  "operator_ctx = \<lparr>ctx_credentialId = ''cred'', ctx_actorSessionId = ''op'', ctx_role = Operator\<rparr>"

definition planner_ctx :: command_context where
  "planner_ctx = \<lparr>ctx_credentialId = ''cred2'', ctx_actorSessionId = ''pl'', ctx_role = Planner\<rparr>"

definition new_session :: "string \<Rightarrow> session_role \<Rightarrow> session_input" where
  "new_session i role = \<lparr>si_id = i, si_displayName = None, si_role = Some role, si_externalId = None,
     si_deliveryMode = None, si_externalOwner = None, si_externalAgentId = None\<rparr>"

text \<open>
  The operator opens a channel, joins it, and admits a planner, who admits a worker.
\<close>

definition setup_requests :: "request list" where
  "setup_requests =
    [Insert_Session (new_session ''op'' Operator), Insert_Session (new_session ''pl'' Planner),
     Insert_Session (new_session ''wk'' Worker), Register_Channel ''room'' operator_ctx,
     Join ''room'' ''op'' operator_ctx, Join ''room'' ''pl'' operator_ctx, Join ''room'' ''wk'' planner_ctx]"

lemmas demo_defs = demo_start_def setup_requests_def operator_ctx_def planner_ctx_def new_session_def

lemma setup_memberships:
  "map (\<lambda>m. (m_sessionId m, m_role m)) (memberships (db (run_requests setup_requests demo_start))) =
   [(''op'', Some Operator), (''pl'', Some Planner), (''wk'', Some Worker)]"
  by code_simp

lemma perform_atomic_witness:
  "let q = Close_Channel ''room'' planner_ctx; (r, s1) = perform q (run_requests setup_requests demo_start) in
   r = throw ''unauthorized'' \<and> idle s1 \<and> db s1 = db (run_requests setup_requests demo_start)"
proof -
  let ?s = "run_requests setup_requests demo_start" and ?q = "Close_Channel ''room'' planner_ctx"
  have "idle ?s" by code_simp
  moreover have r: "fst (perform ?q ?s) = throw ''unauthorized''" by code_simp
  moreover have "idle (snd (perform ?q ?s)) \<and> (\<forall>e. fst (perform ?q ?s) = Inl e \<longrightarrow> db (snd (perform ?q ?s)) = db ?s)"
    by (rule perform_atomic [OF \<open>idle ?s\<close> surjective_pairing])
  ultimately show ?thesis
    unfolding Let_def case_prod_beta by blast
qed

end
