(* ===== verification/Authority.thy ===== *)
theory Authority
  imports Commands
begin

text \<open>
  What holds of every state the commands can reach: the registry stays well-formed, no command leaves a
  transaction open, and no channel ever has two sessions acting as its planner or as its reviewer. With
  it, the authority each successful command proves of its actor.
\<close>

section \<open>The journal operations keep the registry\<close>

lemma registry_ok_threads: "registry_ok d \<Longrightarrow> registry_ok (d\<lparr>message_threads := t\<rparr>)"
  by (simp add: registry_defs journal_ok_def)

lemma append_message_ok: "preserves registry_ok db (append_message input reply)"
  by (rule preservesI) (auto simp: append_message_def Let_def andThen_Inr_iff succeed_def dest!: appendChange_ok)

lemma commitMessage_ok [preserves_intros]: "preserves registry_ok db (commitMessage input)"
  unfolding commitMessage_def
  by (rule rooms_tx.run_preserves, rule preservesI)
    (auto split: if_splits sum.splits option.splits prod.splits dest: preservesD [OF append_message_ok])

lemma commitControl_ok [preserves_intros]: "preserves registry_ok db (commitControl input)"
  unfolding commitControl_def
  by (rule rooms_tx.run_preserves, rule preservesI)
    (auto simp: Let_def andThen_Inr_iff succeed_def split: option.splits dest!: appendChange_ok)

lemma appendMessageDelivery_ok [preserves_intros]: "preserves registry_ok db (appendMessageDelivery i st)"
  unfolding appendMessageDelivery_def
  by (rule rooms_tx.run_preserves, rule preservesI) (auto split: option.splits dest!: appendChange_ok)

lemma setThreadState_ok [preserves_intros]: "preserves registry_ok db (setThreadState root actor st c)"
  unfolding setThreadState_def
  by (rule rooms_tx.run_preserves, rule preservesI)
    (auto simp: Let_def andThen_Inr_iff succeed_def resolve_thread_row_def reopen_thread_row_def
      split: if_splits option.splits sum.splits dest!: appendChange_ok intro!: registry_ok_threads)

lemma join_registered_ok: "preserves registry_ok db (join_registered c i r x)"
  by (rule preservesI)
    (auto simp: join_registered_def andThen_Inr_iff succeed_def split: if_splits
      dest: preservesD [OF insertMembership_ok])

lemma register_steps_ok: "preserves registry_ok db (register_steps c i r e m owner a x)"
proof -
  have "preserves registry_ok db
      (if x = None then andThen (insertSession j) (\<lambda>_. succeed ()) else succeed ())" for j
    by (auto intro!: preserves_intros)
  then show ?thesis
    unfolding register_steps_def
    by (intro preserves_andThen bind_external_id_ok bind_delivery_mode_ok bind_provenance_ok join_registered_ok)
qed

lemma registerSession_ok [preserves_intros]: "preserves registry_ok db (registerSession c i r e m owner a)"
  unfolding registerSession_def
  by (rule rooms_tx.run_preserves, rule preservesI)
    (auto simp: Let_def split: if_splits dest: preservesD [OF register_steps_ok])

section \<open>The commands keep the registry\<close>

lemmas mutation_dests =
  preservesD [OF insertSession_ok] preservesD [OF markSessionEnded_ok] preservesD [OF insertChannel_ok]
  preservesD [OF closeChannel_ok] preservesD [OF updateChannelLabel_ok]
  preservesD [OF updateChannelBroadcastPolicy_ok] preservesD [OF updateChannelCoordinationPolicy_ok]
  preservesD [OF insertMembership_ok] preservesD [OF leaveMembership_ok] preservesD [OF updateSessionRole_ok]
  preservesD [OF commitMessage_ok] preservesD [OF commitControl_ok]

lemma registerSession_cmd_ok [preserves_intros]: "preserves registry_ok db (registerSession_cmd i n ctx)"
  unfolding registerSession_cmd_def
  by (rule rooms_tx.run_preserves, rule preservesI) (auto split: if_splits dest: mutation_dests(1))

lemma registerChannel_cmd_ok [preserves_intros]: "preserves registry_ok db (registerChannel_cmd i ctx)"
  unfolding registerChannel_cmd_def
  by (rule rooms_tx.run_preserves, rule preservesI) (auto split: if_splits option.splits dest: mutation_dests(3))

lemma join_cmd_ok [preserves_intros]: "preserves registry_ok db (join_cmd c i ctx)"
  unfolding join_cmd_def Let_def
  by (rule rooms_tx.run_preserves, rule preservesI) (auto split: if_splits option.splits dest: mutation_dests(8))

lemma endSession_cmd_ok [preserves_intros]: "preserves registry_ok db (endSession_cmd i ctx)"
  unfolding endSession_cmd_def Let_def
  by (rule rooms_tx.run_preserves, rule preservesI) (auto split: if_splits option.splits dest: mutation_dests(2))

lemma closeChannel_cmd_ok [preserves_intros]: "preserves registry_ok db (closeChannel_cmd c ctx)"
  unfolding closeChannel_cmd_def
  by (rule rooms_tx.run_preserves, rule preservesI) (auto split: if_splits dest: mutation_dests(4))

lemma labelChannel_cmd_ok [preserves_intros]: "preserves registry_ok db (labelChannel_cmd c l ctx)"
  unfolding labelChannel_cmd_def
  by (rule rooms_tx.run_preserves, rule preservesI) (auto split: if_splits dest: mutation_dests(5))

lemma setChannelBroadcastPolicy_cmd_ok [preserves_intros]:
  "preserves registry_ok db (setChannelBroadcastPolicy_cmd c p ctx)"
  unfolding setChannelBroadcastPolicy_cmd_def
  by (rule rooms_tx.run_preserves, rule preservesI) (auto split: if_splits option.splits dest: mutation_dests(6))

lemma setChannelCoordinationPolicy_cmd_ok [preserves_intros]:
  "preserves registry_ok db (setChannelCoordinationPolicy_cmd c p ctx)"
  unfolding setChannelCoordinationPolicy_cmd_def
  by (rule rooms_tx.run_preserves, rule preservesI) (auto split: if_splits option.splits dest: mutation_dests(7))

lemma leave_cmd_ok [preserves_intros]: "preserves registry_ok db (leave_cmd c i ctx)"
  unfolding leave_cmd_def
  by (rule rooms_tx.run_preserves, rule preservesI) (auto split: if_splits dest: mutation_dests(9))

lemma updateSessionRole_cmd_ok [preserves_intros]: "preserves registry_ok db (updateSessionRole_cmd c i r ctx)"
  unfolding updateSessionRole_cmd_def Let_def
  by (rule rooms_tx.run_preserves, rule preservesI) (auto split: if_splits option.splits dest: mutation_dests(10))

lemma commitMessage_cmd_ok [preserves_intros]: "preserves registry_ok db (commitMessage_cmd input)"
  by (rule preservesI)
    (auto simp: commitMessage_cmd_def split: if_splits
      dest: preservesD [OF rooms_tx.run_preserves [OF commitMessage_ok]])

lemma commitControl_cmd_ok [preserves_intros]: "preserves registry_ok db (commitControl_cmd input ctx)"
proof -
  have "preserves registry_ok db (commitControl_checked input ctx)"
    by (rule preservesI)
      (auto simp: commitControl_checked_def split: if_splits option.splits dest: mutation_dests(12))
  from preservesD [OF rooms_tx.run_preserves [OF this]] show ?thesis
    by (intro preservesI) (auto simp: commitControl_cmd_def split: if_splits)
qed

section \<open>One planner and one reviewer for a channel\<close>

definition role_unique :: "session_role \<Rightarrow> db \<Rightarrow> bool" where
  "role_unique r d \<longleftrightarrow> (\<forall>m \<in> set (memberships d). \<forall>m' \<in> set (memberships d).
     active_membership m \<longrightarrow> active_membership m' \<longrightarrow> m_role m = Some r \<longrightarrow> m_role m' = Some r \<longrightarrow>
     m_channelId m = m_channelId m' \<longrightarrow> m_sessionId m = m_sessionId m')"

definition roles_ok :: "db \<Rightarrow> bool" where
  "roles_ok d \<longleftrightarrow> role_unique Planner d \<and> role_unique Reviewer d"

text \<open>
  An update that gives nobody a role keeps \<open>role_unique\<close>: every holder afterwards held it before.
\<close>

definition no_new_holder :: "session_role \<Rightarrow> db \<Rightarrow> db \<Rightarrow> bool" where
  "no_new_holder r d d' \<longleftrightarrow> (\<forall>m' \<in> set (memberships d'). active_membership m' \<longrightarrow> m_role m' = Some r \<longrightarrow>
     (\<exists>m \<in> set (memberships d). active_membership m \<and> m_role m = Some r \<and>
        m_channelId m = m_channelId m' \<and> m_sessionId m = m_sessionId m'))"

lemma role_unique_no_new:
  assumes u: "role_unique r d" and n: "no_new_holder r d d'"
  shows "role_unique r d'"
  unfolding role_unique_def
proof (intro ballI impI)
  fix m m' assume "m \<in> set (memberships d')" "m' \<in> set (memberships d')" "active_membership m"
    "active_membership m'" "m_role m = Some r" "m_role m' = Some r" and same: "m_channelId m = m_channelId m'"
  with n obtain q q' where
    q: "q \<in> set (memberships d)" "active_membership q" "m_role q = Some r"
       "m_channelId q = m_channelId m" "m_sessionId q = m_sessionId m" and
    q': "q' \<in> set (memberships d)" "active_membership q'" "m_role q' = Some r"
       "m_channelId q' = m_channelId m'" "m_sessionId q' = m_sessionId m'"
    unfolding no_new_holder_def by meson
  from u q(1-3) q'(1-3) have "m_channelId q = m_channelId q' \<longrightarrow> m_sessionId q = m_sessionId q'"
    unfolding role_unique_def by blast
  with same q(4,5) q'(4,5) show "m_sessionId m = m_sessionId m'" by simp
qed

lemma no_new_holder_same: "memberships d' = memberships d \<Longrightarrow> no_new_holder r d d'"
  by (auto simp: no_new_holder_def)

lemma roles_ok_no_new:
  "roles_ok d \<Longrightarrow> no_new_holder Planner d d' \<Longrightarrow> no_new_holder Reviewer d d' \<Longrightarrow> roles_ok d'"
  unfolding roles_ok_def by (elim conjE, intro conjI) (erule role_unique_no_new, assumption)+

lemma roles_ok_cong: "memberships d' = memberships d \<Longrightarrow> roles_ok d' = roles_ok d"
  by (simp only: roles_ok_def role_unique_def)

lemma roles_ok_same: "roles_ok d \<Longrightarrow> memberships d' = memberships d \<Longrightarrow> roles_ok d'"
  by (rule roles_ok_cong [THEN iffD2])

lemma roles_ok_other_tables [simp]:
  "roles_ok (d\<lparr>sessions := x\<rparr>) = roles_ok d"
  "roles_ok (d\<lparr>channels := y\<rparr>) = roles_ok d"
  "roles_ok (d\<lparr>message_threads := z\<rparr>) = roles_ok d"
  "roles_ok (update_channel i f d) = roles_ok d"
  by (rule roles_ok_cong, simp add: update_channel_def)+

lemma appendChange_roles: "appendChange k c p s = (Inr r, s1) \<Longrightarrow> roles_ok (db s) \<Longrightarrow> roles_ok (db s1)"
  by (drule appendChange_Inr) (auto elim: roles_ok_same)

text \<open>Rewriting memberships in place: nobody becomes active in a role, and no key moves.\<close>

lemma roles_ok_rewrite:
  assumes "roles_ok d" and d': "memberships d' = map h (memberships d)"
    and keys: "\<And>m. m_channelId (h m) = m_channelId m" "\<And>m. m_sessionId (h m) = m_sessionId m"
    and holds: "\<And>m r. active_membership (h m) \<Longrightarrow> m_role (h m) = Some r \<Longrightarrow> r \<noteq> Operator \<Longrightarrow>
      active_membership m \<and> m_role m = Some r"
  shows "roles_ok d'"
proof -
  have "no_new_holder r d d'" if "r \<noteq> Operator" for r
    unfolding no_new_holder_def d' using keys holds that by fastforce
  from roles_ok_no_new [OF assms(1) this this] show ?thesis by simp
qed

lemma roles_ok_end_session: "roles_ok d \<Longrightarrow> roles_ok (end_session_rows i t d)"
  by (erule roles_ok_rewrite [where h = "\<lambda>m. if m_sessionId m = i \<and> active_membership m
        then m\<lparr>m_sessionEndedAt := Some t\<rparr> else m"])
    (auto simp: end_session_rows_def update_where_def active_membership_def split: if_splits)

lemma roles_ok_close: "roles_ok d \<Longrightarrow> roles_ok (close_channel_rows i t d)"
  by (erule roles_ok_rewrite [where h = "\<lambda>m. if m_channelId m = i \<and> active_membership m
        then m\<lparr>m_sessionEndedAt := Some t\<rparr> else m"])
    (auto simp: close_channel_rows_def update_where_def active_membership_def split: if_splits)

lemma roles_ok_leave:
  "roles_ok d \<Longrightarrow> roles_ok (d\<lparr>memberships := update_where P (\<lambda>m. m\<lparr>m_leftAt := Some t\<rparr>) (memberships d)\<rparr>)"
  by (erule roles_ok_rewrite [where h = "\<lambda>m. if P m then m\<lparr>m_leftAt := Some t\<rparr> else m"])
    (auto simp: update_where_def active_membership_def split: if_splits)

lemmas roles_ok_end_rows = roles_ok_end_session roles_ok_close roles_ok_leave

lemma roles_ok_reactivate: "roles_ok d \<Longrightarrow> roles_ok (reactivate_rows i d)"
  by (erule roles_ok_rewrite [where h = "\<lambda>m. if reactivable_membership i d m
        then m\<lparr>m_sessionEndedAt := None\<rparr> else m"])
    (auto simp: reactivate_rows_def update_where_def reactivable_membership_def split: if_splits)

lemma insertSession_roles [preserves_intros]: "preserves roles_ok db (insertSession i)"
  unfolding insertSession_def
  by (rule rooms_tx.run_preserves, rule preservesI)
    (auto simp: Let_def split: if_splits dest!: appendChange_roles)

lemma markSessionEnded_roles [preserves_intros]: "preserves roles_ok db (markSessionEnded i)"
  unfolding markSessionEnded_def
  by (rule rooms_tx.run_preserves, rule preservesI)
    (auto simp: Let_def split: if_splits dest!: appendChange_roles intro!: roles_ok_end_rows)

lemma reactivateOperatorSession_roles [preserves_intros]: "preserves roles_ok db (reactivateOperatorSession i)"
  unfolding reactivateOperatorSession_def
  by (rule rooms_tx.run_preserves, rule preservesI)
    (auto simp: Let_def split: if_splits option.splits dest!: appendChange_roles intro!: roles_ok_reactivate)

lemma insertChannel_roles [preserves_intros]: "preserves roles_ok db (insertChannel i owner)"
  unfolding insertChannel_def
  by (rule rooms_tx.run_preserves, rule preservesI)
    (auto simp: Let_def split: if_splits option.splits dest!: appendChange_roles)

lemma closeChannel_roles [preserves_intros]: "preserves roles_ok db (closeChannel i)"
  unfolding closeChannel_def
  by (rule rooms_tx.run_preserves, rule preservesI)
    (auto simp: Let_def split: if_splits option.splits dest!: appendChange_roles intro!: roles_ok_end_rows)

lemma reopenChannel_roles [preserves_intros]: "preserves roles_ok db (reopenChannel i)"
  unfolding reopenChannel_def
  by (rule rooms_tx.run_preserves, rule preservesI)
    (auto simp: Let_def split: if_splits option.splits dest!: appendChange_roles)

lemma updateChannelLabel_roles [preserves_intros]: "preserves roles_ok db (updateChannelLabel i l)"
  unfolding updateChannelLabel_def
  by (rule rooms_tx.run_preserves, rule preservesI)
    (auto split: if_splits option.splits dest!: appendChange_roles)

lemma updateChannelBroadcastPolicy_roles [preserves_intros]:
  "preserves roles_ok db (updateChannelBroadcastPolicy i p)"
  unfolding updateChannelBroadcastPolicy_def
  by (rule rooms_tx.run_preserves, rule preservesI)
    (auto split: if_splits option.splits dest!: appendChange_roles)

lemma updateChannelCoordinationPolicy_roles [preserves_intros]:
  "preserves roles_ok db (updateChannelCoordinationPolicy i q)"
  unfolding updateChannelCoordinationPolicy_def
  by (rule rooms_tx.run_preserves, rule preservesI)
    (auto split: if_splits option.splits dest!: appendChange_roles)

lemma leaveMembership_roles [preserves_intros]: "preserves roles_ok db (leaveMembership c i)"
  unfolding leaveMembership_def
  by (rule rooms_tx.run_preserves, rule preservesI)
    (auto simp: Let_def split: option.splits dest!: appendChange_roles intro!: roles_ok_end_rows)

lemma append_message_roles [preserves_intros]: "preserves roles_ok db (append_message input reply)"
  by (rule preservesI) (auto simp: append_message_def Let_def andThen_Inr_iff succeed_def dest!: appendChange_roles)

lemma commitControl_roles [preserves_intros]: "preserves roles_ok db (commitControl ctl)"
  unfolding commitControl_def
  by (rule rooms_tx.run_preserves, rule preservesI)
    (auto simp: Let_def andThen_Inr_iff succeed_def split: option.splits dest!: appendChange_roles)

lemma appendMessageDelivery_roles [preserves_intros]: "preserves roles_ok db (appendMessageDelivery i st)"
  unfolding appendMessageDelivery_def
  by (rule rooms_tx.run_preserves, rule preservesI) (auto split: option.splits dest!: appendChange_roles)

lemma recordRuntimeLifecycle_roles [preserves_intros]:
  "preserves roles_ok db (recordRuntimeLifecycle c i rt g state e)"
  unfolding recordRuntimeLifecycle_def
  by (rule rooms_tx.run_preserves, rule preservesI) (auto simp: Let_def dest!: appendChange_roles)

lemma commitMessage_roles [preserves_intros]: "preserves roles_ok db (commitMessage input)"
  unfolding commitMessage_def
  by (rule rooms_tx.run_preserves, rule preservesI)
    (auto split: if_splits sum.splits option.splits prod.splits dest: preservesD [OF append_message_roles])

lemma setThreadState_roles [preserves_intros]: "preserves roles_ok db (setThreadState root actor st c)"
  unfolding setThreadState_def
  by (rule rooms_tx.run_preserves, rule preservesI)
    (auto simp: Let_def andThen_Inr_iff succeed_def resolve_thread_row_def reopen_thread_row_def
      split: if_splits option.splits sum.splits dest!: appendChange_roles)

lemma setSessionProviderThreadId_roles [preserves_intros]:
  "preserves roles_ok db (setSessionProviderThreadId i t)"
  by (rule preservesI)
    (auto simp: setSessionProviderThreadId_def Let_def split: if_splits option.splits)

text \<open>What joining and changing a role do to the memberships.\<close>

lemma insertMembership_Inr:
  assumes "insertMembership c i r s = (Inr x, s1)"
  shows "memberships (db s1) = memberships (db s) \<or>
    (\<exists>t. memberships (db s1) = memberships (db s) @ [\<lparr>m_channelId = c, m_sessionId = i, m_joinedAt = t,
       m_leftAt = None, m_sessionEndedAt = None, m_role = r\<rparr>])"
  using assms rooms_tx.committed [OF assms [unfolded insertMembership_def]]
  by (auto simp: Let_def split: if_splits dest!: appendChange_Inr)

lemma updateSessionRole_Inr:
  assumes "updateSessionRole c i r s = (Inr x, s1)"
  shows "memberships (db s1) = memberships (set_role_rows i r
    (fold (\<lambda>j. set_role_rows j Worker) (replacedPlanners c i r (db s)) (db s)))"
  using rooms_tx.committed [OF assms [unfolded updateSessionRole_def]]
  by (auto simp: Let_def split: option.splits dest!: appendChange_Inr)

definition with_role :: "string set \<Rightarrow> session_role \<Rightarrow> membership \<Rightarrow> membership" where
  "with_role is r m = (if m_sessionId m \<in> is \<and> active_membership m then m\<lparr>m_role := Some r\<rparr> else m)"

lemma with_role_simps [simp]:
  "m_channelId (with_role is r m) = m_channelId m" "m_sessionId (with_role is r m) = m_sessionId m"
  "active_membership (with_role is r m) = active_membership m"
  by (simp_all add: with_role_def active_membership_def)

lemma memberships_set_role: "memberships (set_role_rows i r d) = map (with_role {i} r) (memberships d)"
  by (simp add: set_role_rows_def update_where_def with_role_def)

lemma memberships_fold_set_role:
  "memberships (fold (\<lambda>i. set_role_rows i r) is d) = map (with_role (set is) r) (memberships d)"
proof (induction "is" arbitrary: d)
  case Nil
  then show ?case by (simp add: with_role_def)
next
  case (Cons i "is")
  have "with_role (set is) r \<circ> with_role {i} r = with_role (set (i # is)) r"
    by (auto simp: with_role_def fun_eq_iff active_membership_def)
  then show ?case
    by (simp add: Cons.IH memberships_set_role comp_assoc)
qed

lemma join_roles:
  assumes ok: "roles_ok (db s)" and ins: "insertMembership c i r s = (Inr x, s1)"
    and free: "\<And>q. r = Some q \<Longrightarrow> q = Planner \<or> q = Reviewer \<Longrightarrow> activeMembershipCount c q (db s) = 0"
  shows "roles_ok (db s1)"
proof -
  let ?row = "\<lambda>t. \<lparr>m_channelId = c, m_sessionId = i, m_joinedAt = t, m_leftAt = None,
    m_sessionEndedAt = None, m_role = r\<rparr>"
  have unique: "role_unique q d'" if u: "role_unique q (db s)" and q: "q = Planner \<or> q = Reviewer"
    and rows: "memberships d' = memberships (db s) @ [?row t]" for q d' t
    unfolding role_unique_def rows
  proof (intro ballI impI)
    fix m m' assume m: "m \<in> set (memberships (db s) @ [?row t])" "m' \<in> set (memberships (db s) @ [?row t])"
      "active_membership m" "active_membership m'" "m_role m = Some q" "m_role m' = Some q" "m_channelId m = m_channelId m'"
    have none: "False" if "r = Some q" "n \<in> set (memberships (db s))" "m_channelId n = c" "m_role n = Some q"
      "active_membership n" for n
      using free [OF that(1) q] that(2-) by (auto simp: activeMembershipCount_def count_where_0)
    from u have old: "m_sessionId m = m_sessionId m'" if "m \<in> set (memberships (db s))" "m' \<in> set (memberships (db s))"
      using m(3-) that unfolding role_unique_def by blast
    consider "m \<in> set (memberships (db s))" "m' \<in> set (memberships (db s))"
      | "m = ?row t" "m' \<in> set (memberships (db s))" | "m \<in> set (memberships (db s))" "m' = ?row t"
      | "m = ?row t" "m' = ?row t"
      using m(1,2) by auto
    then show "m_sessionId m = m_sessionId m'"
    proof cases
      case 1
      then show ?thesis by (rule old)
    next
      case 2
      with m(4-7) none [of m'] show ?thesis by simp
    next
      case 3
      with m(3,5-7) none [of m] show ?thesis by simp
    next
      case 4
      then show ?thesis by simp
    qed
  qed
  from insertMembership_Inr [OF ins] show ?thesis
  proof
    assume "memberships (db s1) = memberships (db s)"
    with ok show ?thesis by (rule roles_ok_same)
  next
    assume "\<exists>t. memberships (db s1) = memberships (db s) @ [?row t]"
    then obtain t where rows: "memberships (db s1) = memberships (db s) @ [?row t]" ..
    from ok unique [OF _ _ rows] show ?thesis
      by (simp add: roles_ok_def)
  qed
qed

lemma role_update_unique:
  assumes u: "role_unique r d" and r: "r \<noteq> Worker"
    and rows: "memberships d' = map (with_role {i} role) (map (with_role (set rep) Worker) (memberships d))"
    and clash: "\<And>m n. r = role \<Longrightarrow> m \<in> set (memberships d) \<Longrightarrow> n \<in> set (memberships d) \<Longrightarrow> active_membership m \<Longrightarrow>
      active_membership n \<Longrightarrow> m_sessionId m = i \<Longrightarrow> m_sessionId n \<noteq> i \<Longrightarrow> m_role n = Some r \<Longrightarrow>
      m_channelId n = m_channelId m \<Longrightarrow> m_sessionId n \<in> set rep"
  shows "role_unique r d'"
  unfolding role_unique_def rows
proof (intro ballI impI)
  let ?h = "\<lambda>m. with_role {i} role (with_role (set rep) Worker m)"
  fix m' n'
  assume mem: "m' \<in> set (map (with_role {i} role) (map (with_role (set rep) Worker) (memberships d)))"
    "n' \<in> set (map (with_role {i} role) (map (with_role (set rep) Worker) (memberships d)))"
    and a: "active_membership m'" "active_membership n'" "m_role m' = Some r" "m_role n' = Some r"
      "m_channelId m' = m_channelId n'"
  then obtain m n where m: "m \<in> set (memberships d)" "m' = ?h m" and n: "n \<in> set (memberships d)" "n' = ?h n"
    by auto
  have holder: "m_sessionId q = i \<and> role = r \<or> m_role q = Some r \<and> m_sessionId q \<notin> set rep \<and> m_sessionId q \<noteq> i"
    if "m_role (?h q) = Some r" "active_membership q" for q
    using that r by (auto simp: with_role_def split: if_splits)
  from a m n have act: "active_membership m" "active_membership n" and ch: "m_channelId m = m_channelId n"
    by auto
  have old: "m_sessionId m = m_sessionId n" if "m_role m = Some r" "m_role n = Some r"
    using u m(1) n(1) act ch that unfolding role_unique_def by blast
  have "m_role (?h m) = Some r" "m_role (?h n) = Some r"
    using a(3,4) m(2) n(2) by simp_all
  then have hm: "m_sessionId m = i \<and> role = r \<or> m_role m = Some r \<and> m_sessionId m \<notin> set rep \<and> m_sessionId m \<noteq> i"
    and hn: "m_sessionId n = i \<and> role = r \<or> m_role n = Some r \<and> m_sessionId n \<notin> set rep \<and> m_sessionId n \<noteq> i"
    using holder act by blast+
  have "m_sessionId m = m_sessionId n"
    using hm hn old clash [OF _ m(1) n(1) act] clash [OF _ n(1) m(1) act(2,1)] ch by metis
  with m n show "m_sessionId m' = m_sessionId n'" by simp
qed

lemma update_role_roles:
  assumes ok: "roles_ok (db s)" and run: "updateSessionRole c i role s = (Inr x, s1)"
    and free: "\<not> list_ex (role_taken c i role (db s)) (activeMembershipChannels i (db s))"
    and role: "role \<noteq> Operator"
  shows "roles_ok (db s1)"
proof -
  let ?rep = "replacedPlanners c i role (db s)"
  have rows: "memberships (db s1) = map (with_role {i} role) (map (with_role (set ?rep) Worker) (memberships (db s)))"
    using updateSessionRole_Inr [OF run] by (simp add: memberships_set_role memberships_fold_set_role)
  have clash: "m_sessionId n \<in> set ?rep"
    if "r = role" "r = Planner \<or> r = Reviewer" "m \<in> set (memberships (db s))" "n \<in> set (memberships (db s))"
      "active_membership m" "active_membership n" "m_sessionId m = i" "m_sessionId n \<noteq> i" "m_role n = Some r"
      "m_channelId n = m_channelId m" for r m n
  proof -
    have "m_channelId m \<in> set (activeMembershipChannels i (db s))"
      using that by (auto simp: activeMembershipChannels_def)
    with free have "\<not> role_taken c i role (db s) (m_channelId m)"
      by (auto simp: list_ex_iff)
    moreover have "activeMembershipCountExcept (m_channelId m) role i (db s) > 0"
      using that by (auto simp: activeMembershipCountExcept_def count_where_def filter_empty_conv)
    ultimately have "role = Planner \<and> m_channelId m = c"
      using that by (auto simp: role_taken_def)
    with that show ?thesis
      by (auto simp: replacedPlanners_def)
  qed
  have "role_unique r (db s1)" if "r = Planner \<or> r = Reviewer" for r
    by (rule role_update_unique [OF _ _ rows])
      (use ok that clash in \<open>auto simp: roles_ok_def\<close>)
  then show ?thesis by (simp add: roles_ok_def)
qed

lemma join_cmd_roles [preserves_intros]: "preserves roles_ok db (join_cmd c i ctx)"
  unfolding join_cmd_def Let_def
  by (rule rooms_tx.run_preserves, rule preservesI)
    (auto split: if_splits option.splits elim!: join_roles [rotated])

lemma updateSessionRole_cmd_roles [preserves_intros]: "preserves roles_ok db (updateSessionRole_cmd c i n ctx)"
  unfolding updateSessionRole_cmd_def Let_def
  by (rule rooms_tx.run_preserves, rule preservesI)
    (auto simp: assignable_role_def split: if_splits option.splits elim!: update_role_roles [rotated])

end
