(* ===== verification/Safety.thy ===== *)
theory Safety
  imports Authority
begin

text \<open>
  The theorems about the registry that hold in every reachable state, and what the success of a command
  proves of its actor and of the tables it leaves.
\<close>

section \<open>Reachable states\<close>

lemma perform_registry_ok: "preserves registry_ok db (perform q)"
  by (cases q)
    (auto intro!: preserves_void registerSession_cmd_ok registerChannel_cmd_ok join_cmd_ok endSession_cmd_ok
      closeChannel_cmd_ok labelChannel_cmd_ok setChannelBroadcastPolicy_cmd_ok setChannelCoordinationPolicy_cmd_ok
      commitMessage_cmd_ok commitControl_cmd_ok leave_cmd_ok updateSessionRole_cmd_ok reactivateOperatorSession_ok
      reopenChannel_ok appendMessageDelivery_ok recordRuntimeLifecycle_ok setSessionProviderThreadId_ok
      insertSession_ok registerSession_ok setThreadState_ok simp: resolveThread_def reopenThread_def)

lemma reachable_registry_ok: "reachable allowed s \<Longrightarrow> registry_ok (db s)"
  by (rule reachable_invariant [OF _ registry_ok_empty perform_registry_ok])



section \<open>One planner, one reviewer\<close>

text \<open>The requests whose handlers check the uniqueness of a role before they give it to a member.\<close>

fun role_checked :: "request \<Rightarrow> bool" where
  "role_checked (External_Register _ _ _ _ _ _ _) = False"
| "role_checked _ = True"

lemmas roles_dests =
  preservesD [OF insertSession_roles] preservesD [OF markSessionEnded_roles] preservesD [OF insertChannel_roles]
  preservesD [OF closeChannel_roles] preservesD [OF updateChannelLabel_roles]
  preservesD [OF updateChannelBroadcastPolicy_roles] preservesD [OF updateChannelCoordinationPolicy_roles]
  preservesD [OF leaveMembership_roles] preservesD [OF commitMessage_roles] preservesD [OF commitControl_roles]

lemma registerSession_cmd_roles: "preserves roles_ok db (registerSession_cmd i n ctx)"
  unfolding registerSession_cmd_def
  by (rule rooms_tx.run_preserves, rule preservesI) (auto split: if_splits dest: roles_dests(1))

lemma registerChannel_cmd_roles: "preserves roles_ok db (registerChannel_cmd i ctx)"
  unfolding registerChannel_cmd_def
  by (rule rooms_tx.run_preserves, rule preservesI) (auto split: if_splits option.splits dest: roles_dests(3))

lemma endSession_cmd_roles: "preserves roles_ok db (endSession_cmd i ctx)"
  unfolding endSession_cmd_def Let_def
  by (rule rooms_tx.run_preserves, rule preservesI) (auto split: if_splits option.splits dest: roles_dests(2))

lemma closeChannel_cmd_roles: "preserves roles_ok db (closeChannel_cmd c ctx)"
  unfolding closeChannel_cmd_def
  by (rule rooms_tx.run_preserves, rule preservesI) (auto split: if_splits dest: roles_dests(4))

lemma labelChannel_cmd_roles: "preserves roles_ok db (labelChannel_cmd c l ctx)"
  unfolding labelChannel_cmd_def
  by (rule rooms_tx.run_preserves, rule preservesI) (auto split: if_splits dest: roles_dests(5))

lemma setChannelBroadcastPolicy_cmd_roles: "preserves roles_ok db (setChannelBroadcastPolicy_cmd c p ctx)"
  unfolding setChannelBroadcastPolicy_cmd_def
  by (rule rooms_tx.run_preserves, rule preservesI) (auto split: if_splits option.splits dest: roles_dests(6))

lemma setChannelCoordinationPolicy_cmd_roles: "preserves roles_ok db (setChannelCoordinationPolicy_cmd c p ctx)"
  unfolding setChannelCoordinationPolicy_cmd_def
  by (rule rooms_tx.run_preserves, rule preservesI) (auto split: if_splits option.splits dest: roles_dests(7))

lemma leave_cmd_roles: "preserves roles_ok db (leave_cmd c i ctx)"
  unfolding leave_cmd_def
  by (rule rooms_tx.run_preserves, rule preservesI) (auto split: if_splits dest: roles_dests(8))

lemma commitMessage_cmd_roles: "preserves roles_ok db (commitMessage_cmd input)"
  by (rule preservesI)
    (auto simp: commitMessage_cmd_def split: if_splits
      dest: preservesD [OF rooms_tx.run_preserves [OF commitMessage_roles]])

lemma commitControl_cmd_roles: "preserves roles_ok db (commitControl_cmd input ctx)"
proof -
  have "preserves roles_ok db (commitControl_checked input ctx)"
    by (rule preservesI)
      (auto simp: commitControl_checked_def split: if_splits option.splits dest: roles_dests(10))
  from preservesD [OF rooms_tx.run_preserves [OF this]] show ?thesis
    by (intro preservesI) (auto simp: commitControl_cmd_def split: if_splits)
qed

lemma perform_roles_ok: "role_checked q \<Longrightarrow> preserves roles_ok db (perform q)"
  by (cases q)
    (auto intro!: preserves_void registerSession_cmd_roles registerChannel_cmd_roles join_cmd_roles endSession_cmd_roles
      closeChannel_cmd_roles labelChannel_cmd_roles setChannelBroadcastPolicy_cmd_roles
      setChannelCoordinationPolicy_cmd_roles commitMessage_cmd_roles commitControl_cmd_roles leave_cmd_roles
      updateSessionRole_cmd_roles reactivateOperatorSession_roles reopenChannel_roles appendMessageDelivery_roles
      recordRuntimeLifecycle_roles setSessionProviderThreadId_roles insertSession_roles setThreadState_roles
      simp: resolveThread_def reopenThread_def)

text \<open>
  C2. As long as sessions enter channels through the checked commands only, no channel ever has two
  sessions acting as its planner, nor two acting as its reviewer, through any sequence of joins, leaves,
  role changes, endings, closings and reactivations.
\<close>

theorem one_planner_one_reviewer:
  assumes "reachable role_checked s"
    and "m \<in> set (memberships (db s))" "m' \<in> set (memberships (db s))" "active_membership m" "active_membership m'"
    and "m_channelId m = m_channelId m'" and "r = Planner \<or> r = Reviewer"
    and "m_role m = Some r" "m_role m' = Some r"
  shows "m_sessionId m = m_sessionId m'"
proof -
  have "roles_ok empty_db"
    by (simp add: roles_ok_def role_unique_def empty_db_def)
  then have "roles_ok (db s)"
    using reachable_invariant [OF assms(1)] perform_roles_ok by blast
  with assms(2-) show ?thesis
    unfolding roles_ok_def role_unique_def by blast
qed

theorem one_planner_one_reviewer_witness:
  "\<exists>m \<in> set (memberships (db (run_requests setup_requests demo_start))).
     active_membership m \<and> m_role m = Some Planner \<and> m_sessionId m = ''pl'' \<and>
     (\<forall>m' \<in> set (memberships (db (run_requests setup_requests demo_start))).
        active_membership m' \<and> m_role m' = Some Planner \<and> m_channelId m' = m_channelId m \<longrightarrow> m_sessionId m' = ''pl'')"
proof -
  have "list_all role_checked setup_requests"
    by (simp add: demo_defs)
  then have r: "reachable role_checked (run_requests setup_requests demo_start)"
    by (rule reachable_run [OF reachable.start [OF fresh_demo_start]])
  have "list_ex (\<lambda>m. active_membership m \<and> m_role m = Some Planner \<and> m_sessionId m = ''pl'')
      (memberships (db (run_requests setup_requests demo_start)))"
    by code_simp
  then obtain m where m: "m \<in> set (memberships (db (run_requests setup_requests demo_start)))"
    "active_membership m" "m_role m = Some Planner" "m_sessionId m = ''pl''"
    by (auto simp: list_ex_iff)
  moreover have "m_sessionId m' = ''pl''" if "m' \<in> set (memberships (db (run_requests setup_requests demo_start)))"
    "active_membership m'" "m_role m' = Some Planner" "m_channelId m' = m_channelId m" for m'
    using one_planner_one_reviewer [OF r that(1) m(1) that(2) m(2) that(4) disjI1 [OF refl] that(3) m(3)] m(4) by simp
  ultimately show ?thesis by blast
qed

definition second_planner :: request where
  "second_planner = External_Register ''room'' ''pl2'' Planner None None None None"

text \<open>
  The registration of an external client adds its session to the channel without that check: after the
  checked commands have admitted a planner, one external registration gives the channel a second one.
\<close>

theorem external_registration_second_planner:
  "activeMembershipCount ''room'' Planner (db (run_requests setup_requests demo_start)) = 1 \<and>
   activeMembershipCount ''room'' Planner (db (run_requests (setup_requests @ [second_planner]) demo_start)) = 2"
  by code_simp

section \<open>What a successful command proves of its actor\<close>

text \<open>What the rows of a channel or a session look like once it is closed or ended.\<close>

lemma ended_rows_inactive:
  assumes "m \<in> set (update_where (\<lambda>m. P m \<and> active_membership m) (\<lambda>m. m\<lparr>m_sessionEndedAt := Some t\<rparr>) rows)"
    and "P m" and "\<And>m. P (m\<lparr>m_sessionEndedAt := Some t\<rparr>) = P m"
  shows "\<not> active_membership m"
proof -
  obtain q where q: "m = (if P q \<and> active_membership q then q\<lparr>m_sessionEndedAt := Some t\<rparr> else q)"
    using assms(1) by (auto simp: in_update_where)
  show ?thesis
  proof (cases "P q \<and> active_membership q")
    case True
    with q show ?thesis by (simp add: active_membership_def)
  next
    case False
    with q assms(2,3) show ?thesis by auto
  qed
qed

lemma close_rows_inactive:
  "m \<in> set (memberships (close_channel_rows c t d)) \<Longrightarrow> m_channelId m = c \<Longrightarrow> \<not> active_membership m"
  by (rule ended_rows_inactive [of m "\<lambda>m. m_channelId m = c"]) (auto simp: close_channel_rows_def)

lemma end_rows_inactive:
  "m \<in> set (memberships (end_session_rows i t d)) \<Longrightarrow> m_sessionId m = i \<Longrightarrow> \<not> active_membership m"
  by (rule ended_rows_inactive [of m "\<lambda>m. m_sessionId m = i"]) (auto simp: end_session_rows_def)

lemma currentChannel_close_rows:
  "currentChannel c (close_channel_rows c t d) =
     map_option (\<lambda>ch. ch\<lparr>c_lifecycleState := Closed, c_closedAt := Some t\<rparr>) (currentChannel c d)"
  by (auto simp: currentChannel_def close_channel_rows_def update_channel_def lookup_by_update_where
      option.map_comp comp_def dest!: lookup_by_SomeD intro!: map_option_cong)

lemma currentSession_end_rows:
  "currentSession i (end_session_rows i t d) = map_option (\<lambda>x. x\<lparr>s_endedAt := Some t\<rparr>) (currentSession i d)"
  by (auto simp: currentSession_def end_session_rows_def lookup_by_update_where
      dest!: lookup_by_SomeD intro!: map_option_cong)

lemma current_insert_change [simp]:
  "currentChannel c (insert_change k x p t d) = currentChannel c d"
  "currentSession i (insert_change k x p t d) = currentSession i d"
  by (simp_all add: currentChannel_def currentSession_def)

lemma closeChannel_effect:
  assumes ok: "registry_ok (db s)" and run: "closeChannel c s = (Inr r, s1)"
  shows "(\<exists>ch. currentChannel c (db s) = Some ch) \<and>
    (\<exists>ch. currentChannel c (db s1) = Some ch \<and> c_lifecycleState ch = Closed) \<and>
    (\<forall>m \<in> set (memberships (db s1)). m_channelId m = c \<longrightarrow> \<not> active_membership m)"
proof -
  obtain s0 s2 where tx: "db s0 = db s" "db s1 = db s2" and body: "(case currentChannel c (db s0) of
       None \<Rightarrow> (throw ''unknownChannel'', s0)
     | Some ch \<Rightarrow> if c_lifecycleState ch = Closed then (Inr (unchanged_receipt s0), s0)
         else let closedAt = now s0; s1 = set_db (close_channel_rows c closedAt) (tick s0)
              in appendChange ''channel.closed'' (Some c) (Channel_Closed c closedAt) s1) = (Inr r, s2)"
    using rooms_tx.committed [OF run [unfolded closeChannel_def]] by blast
  from body obtain ch where ch: "currentChannel c (db s0) = Some ch"
    by (auto split: option.splits)
  show ?thesis
  proof (cases "c_lifecycleState ch = Closed")
    case True
    with body ch tx have same: "db s1 = db s" by auto
    have "\<not> active_membership m" if m: "m \<in> set (memberships (db s))" "m_channelId m = c" for m
    proof
      assume act: "active_membership m"
      obtain ch' where "ch' \<in> set (channels (db s))" "c_id ch' = c" "c_lifecycleState ch' = Active"
        using registry_ok_refs [OF ok m(1)] act m(2) by metis
      moreover have "ch \<in> set (channels (db s))" "c_id ch = c"
        using ch tx lookup_by_SomeD [of c_id c _ ch] by (auto simp: currentChannel_def)
      ultimately show False
        using registry_ok_unique(1) [OF ok] True by fastforce
    qed
    with same ch tx True show ?thesis by auto
  next
    case False
    with body ch have "db s2 = insert_change ''channel.closed'' (Some c) (Channel_Closed c (now s0))
        (now (set_db (close_channel_rows c (now s0)) (tick s0))) (close_channel_rows c (now s0) (db s0))"
      by (auto simp: Let_def dest!: appendChange_Inr)
    with ch tx show ?thesis
      using close_rows_inactive by (auto simp: currentChannel_close_rows)
  qed
qed

text \<open>
  Closing a channel succeeds only for a live operator who owns it, or is an active operator member of it,
  or finds it ownerless; and afterwards the channel is closed and nobody is an active member of it.
\<close>

theorem close_channel_authority:
  assumes "reachable allowed s" and "closeChannel_cmd c ctx s = (Inr r, s1)"
  shows "\<exists>a ch. currentSession (ctx_actorSessionId ctx) (db s) = Some a \<and> s_endedAt a = None \<and>
    s_role a = Some Operator \<and> ctx_role ctx = Operator \<and> currentChannel c (db s) = Some ch \<and>
    (c_ownerOperatorSessionId ch = None \<or> c_ownerOperatorSessionId ch = Some (s_id a) \<or>
     isActiveMember c (ctx_actorSessionId ctx) (Some Operator) (db s)) \<and>
    (\<exists>ch1. currentChannel c (db s1) = Some ch1 \<and> c_lifecycleState ch1 = Closed) \<and>
    (\<forall>m \<in> set (memberships (db s1)). m_channelId m = c \<longrightarrow> \<not> active_membership m)"
proof -
  obtain s0 s2 where tx: "db s0 = db s" "db s1 = db s2" and allowed: "\<not> manage_denied c ctx s0"
    and run: "closeChannel c s0 = (Inr r, s2)"
    using rooms_tx.committed [OF assms(2) [unfolded closeChannel_cmd_def]] by (auto split: if_splits)
  have "registry_ok (db s0)"
    using reachable_registry_ok [OF assms(1)] tx by simp
  from closeChannel_effect [OF this run] allowed tx show ?thesis
    by (auto simp: manage_denied_def ownedByAnother_def activeOperatorMember_def split: option.splits)
qed

theorem close_channel_authority_witness:
  "let s = run_requests setup_requests demo_start in
   isActiveMember ''room'' ''wk'' None (db s) \<and>
   \<not> isActiveMember ''room'' ''wk'' None (db (snd (closeChannel_cmd ''room'' operator_ctx s)))"
proof -
  let ?s = "run_requests setup_requests demo_start"
  have r: "reachable (\<lambda>_. True) ?s"
    by (rule reachable_run [OF reachable.start [OF fresh_demo_start]]) (simp add: list_all_iff)
  have "succeeded (fst (closeChannel_cmd ''room'' operator_ctx ?s))"
    by code_simp
  then obtain x where "closeChannel_cmd ''room'' operator_ctx ?s = (Inr x, snd (closeChannel_cmd ''room'' operator_ctx ?s))"
    by (metis prod.collapse succeeded_iff)
  from close_channel_authority [OF r this]
  have "\<not> isActiveMember ''room'' ''wk'' None (db (snd (closeChannel_cmd ''room'' operator_ctx ?s)))"
    by (auto simp: isActiveMember_def exists_row_iff member_of_def)
  moreover have "isActiveMember ''room'' ''wk'' None (db ?s)"
    by code_simp
  ultimately show ?thesis by (simp add: Let_def)
qed

lemma markSessionEnded_effect:
  assumes run: "markSessionEnded i s = (Inr r, s1)"
  shows "(\<exists>x. currentSession i (db s1) = Some x \<and> s_endedAt x \<noteq> None) \<and>
    (\<forall>m \<in> set (memberships (db s1)). m_sessionId m = i \<longrightarrow> \<not> active_membership m)"
proof -
  obtain s0 s2 where tx: "db s0 = db s" "db s1 = db s2" and body:
    "(if \<not> exists_row (\<lambda>x. s_id x = i \<and> s_endedAt x = None) (sessions (db s0))
      then (throw ''unknownSession'', s0)
      else let left = map (\<lambda>m. (m_channelId m, m_role m)) (sort_key m_channelId
                (filter (\<lambda>m. m_sessionId m = i \<and> active_membership m) (memberships (db s0))));
              endedAt = now s0;
              s1 = set_db (end_session_rows i endedAt) (tick s0)
          in appendChange ''session.ended'' None (Session_Ended i endedAt left) s1) = (Inr r, s2)"
    using rooms_tx.committed [OF run [unfolded markSessionEnded_def]] by (auto simp only: )
  from body have live: "exists_row (\<lambda>x. s_id x = i \<and> s_endedAt x = None) (sessions (db s0))"
    by (auto split: if_splits)
  from body obtain k t c p where rows: "db s2 = insert_change k None p t (end_session_rows i c (db s0))"
    by (auto simp: Let_def split: if_splits dest!: appendChange_Inr)
  from live have "currentSession i (db s0) \<noteq> None"
    by (auto simp: currentSession_def lookup_by_None exists_row_iff)
  with tx rows show ?thesis
    using end_rows_inactive by (auto simp: currentSession_end_rows)
qed

text \<open>
  C5. Ending a session succeeds only for a live actor in its registered role who ends itself; or an operator
  who launched the target, or finds it in no channel, or owns or is an active operator of one of its channels;
  or a planner of a channel of which the target is a worker. Afterwards the session has ended and is an
  active member of nothing.
\<close>

theorem end_session_authority:
  assumes "endSession_cmd i ctx s = (Inr r, s1)"
  shows "(\<exists>a. currentSession (ctx_actorSessionId ctx) (db s) = Some a \<and> s_endedAt a = None \<and>
      s_role a = Some (ctx_role ctx)) \<and>
    (ctx_actorSessionId ctx = i
     \<or> ctx_role ctx = Operator \<and> (\<exists>x. currentSession i (db s) = Some x \<and>
         (s_externalOwner x = Some (ctx_actorSessionId ctx) \<or> activeMembershipChannels i (db s) = [] \<or>
          (\<exists>c \<in> set (activeMembershipChannels i (db s)). operator_shares (ctx_actorSessionId ctx) c (db s))))
     \<or> ctx_role ctx = Planner \<and> (\<exists>x. currentSession i (db s) = Some x \<and> s_role x = Some Worker) \<and>
         (\<exists>c. isActiveMember c (ctx_actorSessionId ctx) (Some Planner) (db s) \<and>
              isActiveMember c i (Some Worker) (db s))) \<and>
    (\<exists>x. currentSession i (db s1) = Some x \<and> s_endedAt x \<noteq> None) \<and>
    (\<forall>m \<in> set (memberships (db s1)). m_sessionId m = i \<longrightarrow> \<not> active_membership m)"
proof -
  obtain s0 s2 where tx: "db s0 = db s" "db s1 = db s2" and run: "markSessionEnded i s0 = (Inr r, s2)"
    and guard: "\<not> actor_denied (actor_of ctx s0) ctx"
      "ctx_actorSessionId ctx = i
       \<or> ctx_role ctx = Operator \<and> (\<exists>x. currentSession i (db s0) = Some x \<and>
         (s_externalOwner x = Some (ctx_actorSessionId ctx) \<or> activeMembershipChannels i (db s0) = [] \<or>
          list_ex (\<lambda>c. operator_shares (ctx_actorSessionId ctx) c (db s0)) (activeMembershipChannels i (db s0))))
       \<or> ctx_role ctx = Planner \<and> (\<exists>x. currentSession i (db s0) = Some x \<and> s_role x = Some Worker) \<and>
         list_ex (\<lambda>c. isActiveMember c (ctx_actorSessionId ctx) (Some Planner) (db s0) \<and>
              isActiveMember c i (Some Worker) (db s0)) (activeMembershipChannels (ctx_actorSessionId ctx) (db s0))"
    using rooms_tx.committed [OF assms [unfolded endSession_cmd_def Let_def]]
    by (elim exE conjE) (simp split: if_splits option.splits)
  from markSessionEnded_effect [OF run] guard tx show ?thesis
    by (auto simp: actor_denied_def list_ex_iff split: option.splits)
qed

theorem end_session_authority_witness:
  "let s = run_requests setup_requests demo_start in
   isActiveMember ''room'' ''wk'' None (db s) \<and>
   \<not> isActiveMember ''room'' ''wk'' None (db (snd (endSession_cmd ''wk'' planner_ctx s)))"
proof -
  let ?s = "run_requests setup_requests demo_start"
  have "succeeded (fst (endSession_cmd ''wk'' planner_ctx ?s))"
    by code_simp
  then obtain x where "endSession_cmd ''wk'' planner_ctx ?s = (Inr x, snd (endSession_cmd ''wk'' planner_ctx ?s))"
    by (metis prod.collapse succeeded_iff)
  from end_session_authority [OF this]
  have "\<not> isActiveMember ''room'' ''wk'' None (db (snd (endSession_cmd ''wk'' planner_ctx ?s)))"
    by (auto simp: isActiveMember_def exists_row_iff member_of_def)
  moreover have "isActiveMember ''room'' ''wk'' None (db ?s)"
    by code_simp
  ultimately show ?thesis by (simp add: Let_def)
qed

end
