(* ===== verification/Journal.thy ===== *)
theory Journal
  imports Commands
begin

text \<open>
  The change journal as every subscriber and federation peer sees it: no request rewrites or drops a
  change, a successful request appends exactly the changes its listeners were called with, and cursors only
  ever grow. A request that fails after its first change is where the listeners and the journal part.
\<close>

section \<open>Growing journals\<close>

definition grows :: "change list \<Rightarrow> change list \<Rightarrow> db \<times> change list \<Rightarrow> bool" where
  "grows js ns = (\<lambda>(d, calls). journal_ok d \<and> (\<exists>more. changes d = js @ more \<and> calls = ns @ more))"

abbreviation journal :: "repo \<Rightarrow> db \<times> change list" where
  "journal s \<equiv> (db s, notified s)"

abbreviation extends :: "change list \<Rightarrow> change list \<Rightarrow> (repo, 'a) operation \<Rightarrow> bool" where
  "extends js ns m \<equiv> preserves (grows js ns) journal m"

lemma grows_cong:
  "changes d' = changes d \<Longrightarrow> changesSeq d' = changesSeq d \<Longrightarrow> grows js ns (d', n) = grows js ns (d, n)"
  by (simp add: grows_def journal_ok_def)

lemma grows_tables [simp]:
  "grows js ns (d\<lparr>sessions := a\<rparr>, n) = grows js ns (d, n)"
  "grows js ns (d\<lparr>channels := b\<rparr>, n) = grows js ns (d, n)"
  "grows js ns (d\<lparr>memberships := c\<rparr>, n) = grows js ns (d, n)"
  "grows js ns (d\<lparr>message_threads := t\<rparr>, n) = grows js ns (d, n)"
  "grows js ns (end_session_rows i e d, n) = grows js ns (d, n)"
  "grows js ns (reactivate_rows i d, n) = grows js ns (d, n)"
  "grows js ns (close_channel_rows i e d, n) = grows js ns (d, n)"
  "grows js ns (update_channel i f d, n) = grows js ns (d, n)"
  "grows js ns (set_role_rows i r d, n) = grows js ns (d, n)"
  by (rule grows_cong;
      simp add: end_session_rows_def reactivate_rows_def close_channel_rows_def update_channel_def set_role_rows_def)+

lemma grows_set_roles [simp]: "grows js ns (fold (\<lambda>i. set_role_rows i r) is d, n) = grows js ns (d, n)"
  by (induction "is" arbitrary: d) simp_all

lemma appendChange_grows:
  assumes "appendChange k c p s = (Inr r, s1)" and "grows js ns (journal s)"
  shows "grows js ns (journal s1)"
proof -
  from appendChange_Inr [OF assms(1)] have d: "db s1 = insert_change k c p (now s) (db s)"
    and n: "notified s1 = notified s @ [\<lparr>ch_cursor = latestCursor (db s1), ch_kind = k, ch_channelId = c,
      ch_payload = p, ch_occurredAt = now s\<rparr>]"
    by auto
  from assms(2) have ok: "journal_ok (db s)"
    by (simp add: grows_def)
  have "latestCursor (db s1) = Suc (changesSeq (db s))"
    using latestCursor_insert [OF ok] d by simp
  with n have n': "notified s1 = notified s @ [\<lparr>ch_cursor = Suc (changesSeq (db s)), ch_kind = k, ch_channelId = c,
      ch_payload = p, ch_occurredAt = now s\<rparr>]"
    by simp
  have "journal_ok (db s1)"
    using d journal_ok_insert [OF ok] by simp
  moreover have "changes (db s1) = changes (db s) @ [\<lparr>ch_cursor = Suc (changesSeq (db s)), ch_kind = k,
      ch_channelId = c, ch_payload = p, ch_occurredAt = now s\<rparr>]"
    using d by (simp add: insert_change_def)
  ultimately show ?thesis
    using assms(2) n' by (auto simp: grows_def)
qed

section \<open>Every operation lets the journal grow\<close>

lemma insertSession_grows: "extends js ns (insertSession i)"
  unfolding insertSession_def
  by (rule rooms_journal.run_preserves, rule preservesI)
    (auto simp: Let_def split: if_splits dest!: appendChange_grows)

lemma markSessionEnded_grows: "extends js ns (markSessionEnded i)"
  unfolding markSessionEnded_def
  by (rule rooms_journal.run_preserves, rule preservesI)
    (auto simp: Let_def split: if_splits dest!: appendChange_grows)

lemma reactivateOperatorSession_grows: "extends js ns (reactivateOperatorSession i)"
  unfolding reactivateOperatorSession_def
  by (rule rooms_journal.run_preserves, rule preservesI)
    (auto simp: Let_def split: if_splits option.splits dest!: appendChange_grows)

lemma insertChannel_grows: "extends js ns (insertChannel i owner)"
  unfolding insertChannel_def
  by (rule rooms_journal.run_preserves, rule preservesI)
    (auto simp: Let_def split: if_splits option.splits dest!: appendChange_grows)

lemma closeChannel_grows: "extends js ns (closeChannel i)"
  unfolding closeChannel_def
  by (rule rooms_journal.run_preserves, rule preservesI)
    (auto simp: Let_def split: if_splits option.splits dest!: appendChange_grows)

lemma reopenChannel_grows: "extends js ns (reopenChannel i)"
  unfolding reopenChannel_def
  by (rule rooms_journal.run_preserves, rule preservesI)
    (auto simp: Let_def split: if_splits option.splits dest!: appendChange_grows)

lemma updateChannelLabel_grows: "extends js ns (updateChannelLabel i l)"
  unfolding updateChannelLabel_def
  by (rule rooms_journal.run_preserves, rule preservesI)
    (auto split: if_splits option.splits dest!: appendChange_grows)

lemma updateChannelBroadcastPolicy_grows: "extends js ns (updateChannelBroadcastPolicy i p)"
  unfolding updateChannelBroadcastPolicy_def
  by (rule rooms_journal.run_preserves, rule preservesI)
    (auto split: if_splits option.splits dest!: appendChange_grows)

lemma updateChannelCoordinationPolicy_grows: "extends js ns (updateChannelCoordinationPolicy i p)"
  unfolding updateChannelCoordinationPolicy_def
  by (rule rooms_journal.run_preserves, rule preservesI)
    (auto split: if_splits option.splits dest!: appendChange_grows)

lemma insertMembership_grows: "extends js ns (insertMembership c i r)"
  unfolding insertMembership_def
  by (rule rooms_journal.run_preserves, rule preservesI)
    (auto simp: Let_def split: if_splits dest!: appendChange_grows)

lemma leaveMembership_grows: "extends js ns (leaveMembership c i)"
  unfolding leaveMembership_def
  by (rule rooms_journal.run_preserves, rule preservesI)
    (auto simp: Let_def split: option.splits dest!: appendChange_grows)

lemma updateSessionRole_grows: "extends js ns (updateSessionRole c i r)"
  unfolding updateSessionRole_def
  by (rule rooms_journal.run_preserves, rule preservesI)
    (auto simp: Let_def split: option.splits dest!: appendChange_grows)

lemma recordRuntimeLifecycle_grows: "extends js ns (recordRuntimeLifecycle c i rt g state e)"
  unfolding recordRuntimeLifecycle_def
  by (rule rooms_journal.run_preserves, rule preservesI) (auto simp: Let_def dest!: appendChange_grows)

lemma setSessionProviderThreadId_grows: "extends js ns (setSessionProviderThreadId i t)"
  by (rule preservesI) (auto simp: setSessionProviderThreadId_def Let_def split: if_splits option.splits)

lemma append_message_grows: "extends js ns (append_message input reply)"
  by (rule preservesI) (auto simp: append_message_def Let_def andThen_Inr_iff succeed_def dest!: appendChange_grows)

lemma commitMessage_grows: "extends js ns (commitMessage input)"
  unfolding commitMessage_def
  by (rule rooms_journal.run_preserves, rule preservesI)
    (auto split: if_splits sum.splits option.splits prod.splits dest: preservesD [OF append_message_grows])

lemma commitControl_grows: "extends js ns (commitControl input)"
  unfolding commitControl_def
  by (rule rooms_journal.run_preserves, rule preservesI)
    (auto simp: Let_def andThen_Inr_iff succeed_def split: option.splits dest!: appendChange_grows)

lemma appendMessageDelivery_grows: "extends js ns (appendMessageDelivery i st)"
  unfolding appendMessageDelivery_def
  by (rule rooms_journal.run_preserves, rule preservesI) (auto split: option.splits dest!: appendChange_grows)

lemma setThreadState_grows: "extends js ns (setThreadState root actor st c)"
  unfolding setThreadState_def
  by (rule rooms_journal.run_preserves, rule preservesI)
    (auto simp: Let_def andThen_Inr_iff succeed_def resolve_thread_row_def reopen_thread_row_def
      split: if_splits option.splits sum.splits dest!: appendChange_grows)

lemma bind_grows:
  "extends js ns (bind_external_id i e x)" "extends js ns (bind_provenance i o1 a x)"
  by (rule preservesI, auto simp: bind_external_id_def bind_provenance_def Let_def split: if_splits option.splits)+

lemma bind_delivery_mode_grows: "extends js ns (bind_delivery_mode i m x)"
  by (rule preservesI)
    (auto simp: bind_delivery_mode_def andThen_Inr_iff succeed_def split: if_splits option.splits
      dest!: appendChange_grows)

lemma join_registered_grows: "extends js ns (join_registered c i r x)"
  by (rule preservesI)
    (auto simp: join_registered_def andThen_Inr_iff succeed_def split: if_splits
      dest: preservesD [OF insertMembership_grows])

lemma register_steps_grows: "extends js ns (register_steps c i r e m owner a x)"
proof -
  have "extends js ns (if x = None then andThen (insertSession j) (\<lambda>_. succeed ()) else succeed ())" for j
    by (auto intro!: preserves_andThen preserves_succeed insertSession_grows)
  then show ?thesis
    unfolding register_steps_def
    by (intro preserves_andThen bind_grows bind_delivery_mode_grows join_registered_grows)
qed

lemma registerSession_grows: "extends js ns (registerSession c i r e m owner a)"
  unfolding registerSession_def
  by (rule rooms_journal.run_preserves, rule preservesI)
    (auto simp: Let_def split: if_splits dest: preservesD [OF register_steps_grows])

lemmas grows_dests =
  preservesD [OF insertSession_grows] preservesD [OF markSessionEnded_grows] preservesD [OF insertChannel_grows]
  preservesD [OF closeChannel_grows] preservesD [OF updateChannelLabel_grows]
  preservesD [OF updateChannelBroadcastPolicy_grows] preservesD [OF updateChannelCoordinationPolicy_grows]
  preservesD [OF insertMembership_grows] preservesD [OF leaveMembership_grows] preservesD [OF updateSessionRole_grows]
  preservesD [OF commitMessage_grows] preservesD [OF commitControl_grows]

lemma commands_grow:
  "extends js ns (registerSession_cmd i n ctx)" "extends js ns (registerChannel_cmd i ctx)"
  "extends js ns (join_cmd c i ctx)" "extends js ns (endSession_cmd i ctx)" "extends js ns (closeChannel_cmd c ctx)"
  "extends js ns (labelChannel_cmd c l ctx)" "extends js ns (setChannelBroadcastPolicy_cmd c p ctx)"
  "extends js ns (setChannelCoordinationPolicy_cmd c p ctx)" "extends js ns (leave_cmd c i ctx)"
  "extends js ns (updateSessionRole_cmd c i p ctx)"
  unfolding command_defs Let_def
  by (rule rooms_journal.run_preserves, rule preservesI,
      auto split: if_splits option.splits dest: grows_dests)+

lemma commitMessage_cmd_grows: "extends js ns (commitMessage_cmd input)"
  by (rule preservesI)
    (auto simp: commitMessage_cmd_def split: if_splits
      dest: preservesD [OF rooms_journal.run_preserves [OF commitMessage_grows]])

lemma commitControl_cmd_grows: "extends js ns (commitControl_cmd input ctx)"
proof -
  have "extends js ns (commitControl_checked input ctx)"
    by (rule preservesI)
      (auto simp: commitControl_checked_def split: if_splits option.splits dest: grows_dests(12))
  from preservesD [OF rooms_journal.run_preserves [OF this]] show ?thesis
    by (intro preservesI) (auto simp: commitControl_cmd_def split: if_splits)
qed

lemma perform_grows: "extends js ns (perform q)"
  by (cases q)
    (auto intro!: preserves_void commands_grow commitMessage_cmd_grows commitControl_cmd_grows
      reactivateOperatorSession_grows reopenChannel_grows appendMessageDelivery_grows recordRuntimeLifecycle_grows
      setSessionProviderThreadId_grows insertSession_grows registerSession_grows setThreadState_grows
      simp: resolveThread_def reopenThread_def)

text \<open>
  C4. The journal is append-only and its listeners complete: a request that succeeds keeps every change that
  was there and appends exactly the changes with which the listeners were called, in that order and under
  the same cursors, each above all the earlier ones.
\<close>

theorem journal_append_only:
  assumes "journal_ok (db s)" and "perform q s = (Inr u, s1)"
  shows "\<exists>more. changes (db s1) = changes (db s) @ more \<and> notified s1 = notified s @ more \<and>
    (\<forall>c \<in> set (changes (db s)). \<forall>c' \<in> set more. ch_cursor c < ch_cursor c')"
proof -
  have "grows (changes (db s)) (notified s) (journal s)"
    using assms(1) by (simp add: grows_def)
  from preservesD [OF perform_grows this assms(2)] show ?thesis
    by (fastforce simp: grows_def journal_ok_def sorted_wrt_append)
qed

theorem journal_append_only_witness:
  "let s = run_requests setup_requests demo_start; s1 = snd (perform (Leave ''room'' ''wk'' operator_ctx) s) in
   map ch_kind (changes (db s1)) = map ch_kind (changes (db s)) @ [''membership.left''] \<and>
   (\<exists>more. changes (db s1) = changes (db s) @ more)"
proof -
  let ?s = "run_requests setup_requests demo_start" and ?q = "Leave ''room'' ''wk'' operator_ctx"
  have ok: "journal_ok (db ?s)" by code_simp
  have "succeeded (fst (perform ?q ?s))" by code_simp
  then obtain u where "perform ?q ?s = (Inr u, snd (perform ?q ?s))"
    by (metis prod.collapse succeeded_iff)
  from journal_append_only [OF ok this] have "\<exists>more. changes (db (snd (perform ?q ?s))) = changes (db ?s) @ more"
    by blast
  moreover have "map ch_kind (changes (db (snd (perform ?q ?s)))) = map ch_kind (changes (db ?s)) @ [''membership.left'']"
    by code_simp
  ultimately show ?thesis by (simp add: Let_def)
qed

section \<open>A change that never happened\<close>

definition close_room :: request where
  "close_room = Close_Channel ''room'' operator_ctx"

definition late_register :: request where
  "late_register = External_Register ''room'' ''late'' Worker None None None None"


end
