(* ===== verification/RuntimeStore.thy ===== *)
theory RuntimeStore
  imports Messages
begin

text \<open>
  \<open>RuntimeRepository\<close> (\<open>src/roomsd/src/storage/runtime-repository.ts\<close>): runtimes and their generations, the
  binding of a runtime to a channel, the attachments of viewers with the controller lease, runtime events,
  capabilities consumed once, and machine quotas. It shares the connection of \<open>RoomsRepository\<close>, so its
  transactions refuse to nest in one. SHA-256 is the parameter \<open>sha\<close> of the operations that hash.
\<close>

section \<open>Transactions\<close>

definition runTx :: "(repo, 'a) operation \<Rightarrow> (repo, 'a) operation" where
  "runTx fn s =
     (if transactionDepth s > 0 \<or> outerTransaction s then (Inl SqliteMisuse, s)
      else (case fn (s\<lparr>outerTransaction := True\<rparr>) of
              (Inr a, s1) \<Rightarrow> (Inr a, s1\<lparr>transactionDepth := 0, outerTransaction := False\<rparr>)
            | (Inl e, s1) \<Rightarrow> (Inl e, s1\<lparr>db := db s, transactionDepth := 0, outerTransaction := False\<rparr>)))"

lemma runTx_Inl_db: "idle s \<Longrightarrow> runTx fn s = (Inl e, s1) \<Longrightarrow> db s1 = db s"
  by (auto simp: runTx_def idle_def split: prod.splits sum.splits)

lemma runTx_committed:
  assumes "runTx m s = (Inr a, s1)"
  shows "\<exists>s0 s2. db s0 = db s \<and> m s0 = (Inr a, s2) \<and> db s1 = db s2"
proof -
  from assms obtain s2 where "m (s\<lparr>outerTransaction := True\<rparr>) = (Inr a, s2)" "db s1 = db s2"
    by (auto simp: runTx_def split: if_splits prod.splits sum.splits)
  then show ?thesis
    by (intro exI [of _ "s\<lparr>outerTransaction := True\<rparr>"] exI [of _ s2]) simp
qed

interpretation runtime_tx: transactional runTx db idle
  by unfold_locales (rule runTx_committed, assumption, rule runTx_Inl_db)

lemma runTx_idle: "idle s \<Longrightarrow> runTx fn s = (r, s1) \<Longrightarrow> idle s1"
  by (auto simp: runTx_def idle_def split: prod.splits sum.splits)

lemma atomic_runTx [intro]: "atomic (runTx m)"
  unfolding atomic_def
proof (intro allI impI)
  fix s :: repo
  assume s: "idle s"
  obtain r s1 where run: "runTx m s = (r, s1)"
    by (cases "runTx m s")
  have "db s1 = db s" if "r = Inl e" for e
    by (rule runTx_Inl_db [OF s, of m e]) (simp add: run that)
  then show "idle (snd (runTx m s)) \<and> (succeeded (fst (runTx m s)) \<or> db (snd (runTx m s)) = db s)"
    using runTx_idle [OF s run] run by (cases r) simp_all
qed

section \<open>Validation\<close>

definition validateIdentity :: "string \<Rightarrow> string \<Rightarrow> string \<Rightarrow> int \<Rightarrow> bool" where
  "validateIdentity homeAuthorityId sessionId runtimeId generation \<longleftrightarrow>
     homeAuthorityId \<noteq> [] \<and> sessionId \<noteq> [] \<and> runtimeId \<noteq> [] \<and> safe_integer generation \<and> 1 \<le> generation"

definition assertSameGeneration :: "runtime \<Rightarrow> string \<Rightarrow> string \<Rightarrow> int \<Rightarrow> unit result" where
  "assertSameGeneration r homeAuthorityId sessionId generation =
     (if rt_homeAuthorityId r \<noteq> homeAuthorityId \<or> rt_sessionId r \<noteq> sessionId then throw ''runtimeIdentityMismatch''
      else if int (rt_generation r) \<noteq> generation then throw ''staleRuntimeGeneration''
      else Inr ())"

definition raw_bytes_names :: "string list" where
  "raw_bytes_names = [''bytes'', ''rawbytes'', ''data'', ''chunk'', ''output'']"

definition hasRawBytesKey :: "event_payload \<Rightarrow> bool" where
  "hasRawBytesKey payload \<longleftrightarrow> list_ex (\<lambda>(key, _). map ascii_lower key \<in> set raw_bytes_names) payload"

section \<open>Lookups\<close>

definition get_runtime :: "string \<Rightarrow> db \<Rightarrow> runtime option" where
  "get_runtime i d = lookup_by rt_runtimeId i (runtimes d)"

definition active_state :: "runtime_state \<Rightarrow> bool" where
  "active_state st \<longleftrightarrow> st \<in> {Creating, Running, Recovering, Terminating}"

definition ended_state :: "runtime_state \<Rightarrow> bool" where
  "ended_state st \<longleftrightarrow> st \<in> {Exited, Crashed, Terminated}"

definition active_count :: "string \<Rightarrow> db \<Rightarrow> nat" where
  "active_count machineId d =
     count_where (\<lambda>r. rt_machineId r = machineId \<and> active_state (rt_state r)) (runtimes d)"

definition live_holder :: "string \<Rightarrow> string option \<Rightarrow> runtime \<Rightarrow> bool" where
  "live_holder providerThreadId exceptRuntimeId r \<longleftrightarrow>
     rt_providerThreadId r = Some providerThreadId \<and> Some (rt_runtimeId r) \<noteq> exceptRuntimeId
     \<and> rt_endedAt r = None \<and> active_state (rt_state r)"

definition providerThreadHolderUnsafe :: "string \<Rightarrow> string option \<Rightarrow> db \<Rightarrow> string option" where
  "providerThreadHolderUnsafe providerThreadId exceptRuntimeId d =
     (case sort_key rt_createdAt (filter (live_holder providerThreadId exceptRuntimeId) (runtimes d)) of
        [] \<Rightarrow> None | r # _ \<Rightarrow> Some (rt_runtimeId r))"

definition providerThreadHolder :: "string \<Rightarrow> string option \<Rightarrow> db \<Rightarrow> string option" where
  "providerThreadHolder providerThreadId exceptRuntimeId d =
     (if blank providerThreadId then None else providerThreadHolderUnsafe providerThreadId exceptRuntimeId d)"

definition getByIdentity :: "string \<Rightarrow> string \<Rightarrow> nat \<Rightarrow> db \<Rightarrow> runtime option" where
  "getByIdentity homeAuthorityId sessionId generation d =
     find (\<lambda>r. rt_homeAuthorityId r = homeAuthorityId \<and> rt_sessionId r = sessionId \<and> rt_generation r = generation)
       (runtimes d)"

definition list_runtimes :: "string option \<Rightarrow> db \<Rightarrow> runtime list" where
  "list_runtimes machineId d =
     sort_key (\<lambda>r. (rt_createdAt r, rt_runtimeId r))
       (case machineId of None \<Rightarrow> runtimes d
        | Some m \<Rightarrow> if m = [] then runtimes d else filter (\<lambda>r. rt_machineId r = m) (runtimes d))"

definition getBinding :: "string \<Rightarrow> db \<Rightarrow> runtime_binding option" where
  "getBinding runtimeId d =
     find (\<lambda>b. b_runtimeId b = runtimeId \<and> b_unboundAt b = None) (runtime_bindings d)"

definition getAttachment :: "string \<Rightarrow> db \<Rightarrow> runtime_attachment option" where
  "getAttachment i d = lookup_by a_attachmentId i (runtime_attachments d)"

definition listAttachments :: "string \<Rightarrow> nat \<Rightarrow> bool \<Rightarrow> db \<Rightarrow> runtime_attachment list" where
  "listAttachments runtimeId generation includeDetached d =
     sort_key (\<lambda>a. (a_attachedAt a, a_attachmentId a))
       (filter (\<lambda>a. a_runtimeId a = runtimeId \<and> a_generation a = generation
                   \<and> (includeDetached \<or> a_detachedAt a = None)) (runtime_attachments d))"

definition list_events :: "string \<Rightarrow> nat \<Rightarrow> nat \<Rightarrow> db \<Rightarrow> runtime_event list" where
  "list_events runtimeId generation afterSeq d =
     sort_key e_eventSeq
       (filter (\<lambda>e. e_runtimeId e = runtimeId \<and> e_generation e = generation \<and> e_eventSeq e > afterSeq)
         (runtime_events d))"

text \<open>\<open>ORDER BY generation DESC, created_at DESC LIMIT 1\<close>\<close>

definition newest_generation :: "runtime list \<Rightarrow> runtime option" where
  "newest_generation rs =
     (case sort_key (\<lambda>r. (rt_generation r, rt_createdAt r)) (rev rs) of [] \<Rightarrow> None | qs \<Rightarrow> Some (last qs))"

definition provesActiveSession :: "(nat list \<Rightarrow> string) \<Rightarrow> string \<Rightarrow> nat list \<Rightarrow> db \<Rightarrow> bool" where
  "provesActiveSession sha sessionId proof d \<longleftrightarrow>
     sessionId \<noteq> [] \<and> 32 \<le> length proof \<and> length proof \<le> 256 \<and>
     (case newest_generation (filter (\<lambda>r. rt_sessionId r = sessionId \<and> rt_endedAt r = None
                 \<and> rt_state r \<in> {Creating, Running, Recovering} \<and> rt_sessionProofHash r \<noteq> None) (runtimes d)) of
        None \<Rightarrow> False
      | Some r \<Rightarrow> (case rt_sessionProofHash r of
            None \<Rightarrow> False
          | Some expected \<Rightarrow> sha256_hex expected \<and> sha proof = expected))"

definition legacyOperatorSessionsNeedingProof :: "db \<Rightarrow> string list" where
  "legacyOperatorSessionsNeedingProof d =
     sort (map s_id (filter (\<lambda>x. s_role x = Some Operator \<and> s_endedAt x = None
       \<and> exists_row (\<lambda>r. rt_sessionId r = s_id x \<and> rt_sessionProofHash r = None) (runtimes d)
       \<and> \<not> exists_row (\<lambda>r. rt_sessionId r = s_id x \<and> rt_endedAt r = None
              \<and> rt_state r \<in> {Creating, Running, Recovering} \<and> rt_sessionProofHash r \<noteq> None) (runtimes d))
       (sessions d)))"

definition plannerCanLaunchWorker :: "string \<Rightarrow> string \<Rightarrow> string \<Rightarrow> db \<Rightarrow> bool" where
  "plannerCanLaunchWorker plannerSessionId workerSessionId channelId d \<longleftrightarrow>
     plannerSessionId \<noteq> [] \<and> workerSessionId \<noteq> [] \<and> channelId \<noteq> [] \<and>
     isActiveMember channelId plannerSessionId (Some Planner) d \<and>
     isActiveMember channelId workerSessionId (Some Worker) d \<and>
     exists_row (\<lambda>x. s_id x = plannerSessionId \<and> s_endedAt x = None) (sessions d) \<and>
     exists_row (\<lambda>x. s_id x = workerSessionId \<and> s_endedAt x = None) (sessions d) \<and>
     exists_row (\<lambda>c. c_id c = channelId \<and> c_lifecycleState c = Active) (channels d)"

definition canonicalMessageSender :: "string \<Rightarrow> db \<Rightarrow> string option" where
  "canonicalMessageSender messageId d = map_option (\<lambda>(_, m). msg_senderSessionId m) (find_message messageId d)"

definition canonicalMessageRecipients :: "string \<Rightarrow> db \<Rightarrow> string list" where
  "canonicalMessageRecipients messageId d =
     (case find_message messageId d of
        None \<Rightarrow> []
      | Some (_, m) \<Rightarrow>
          let direct = (case msg_target m of None \<Rightarrow> None | Some g \<Rightarrow> tg_sessionId g);
              listed = (case msg_target m of None \<Rightarrow> None | Some g \<Rightarrow> tg_sessionIds g)
          in (case direct of
                Some i \<Rightarrow> if i \<noteq> [] then [i]
                  else (case listed of Some is \<Rightarrow> is
                        | None \<Rightarrow> List.map_filter id (msg_deliveredRecipientSessionIds m))
              | None \<Rightarrow> (case listed of Some is \<Rightarrow> is
                        | None \<Rightarrow> List.map_filter id (msg_deliveredRecipientSessionIds m))))"

section \<open>Quotas\<close>

definition DEFAULT_MAX_ACTIVE_RUNTIMES :: nat where "DEFAULT_MAX_ACTIVE_RUNTIMES = 1000000"

definition quota_row :: "string \<Rightarrow> db \<Rightarrow> runtime_quota option" where
  "quota_row machineId d = lookup_by q_machineId machineId (runtime_quotas d)"

text \<open>Without a row the default quota carries a fresh reading of the clock.\<close>

definition quota :: "string \<Rightarrow> repo \<Rightarrow> runtime_quota \<times> repo" where
  "quota machineId s =
     (case quota_row machineId (db s) of
        Some q \<Rightarrow> (q, s)
      | None \<Rightarrow> (\<lparr>q_machineId = machineId, q_maxActiveRuntimes = DEFAULT_MAX_ACTIVE_RUNTIMES,
                  q_maxObserversPerRuntime = 32, q_updatedAt = now s\<rparr>, tick s))"

definition setQuota :: "string \<Rightarrow> nat \<Rightarrow> nat \<Rightarrow> (repo, runtime_quota) operation" where
  "setQuota machineId maxActive maxObservers s =
     (if machineId = [] \<or> maxActive < 1 \<or> maxObservers < 1 then (throw ''invalidRuntimeQuota'', s)
      else let q = \<lparr>q_machineId = machineId, q_maxActiveRuntimes = maxActive,
                    q_maxObserversPerRuntime = maxObservers, q_updatedAt = now s\<rparr>
           in (Inr q, set_db (\<lambda>d. d\<lparr>runtime_quotas :=
                (if quota_row machineId d = None then runtime_quotas d @ [q]
                 else update_where (\<lambda>p. q_machineId p = machineId) (\<lambda>_. q) (runtime_quotas d))\<rparr>) (tick s)))"

definition clearQuota :: "string \<Rightarrow> repo \<Rightarrow> repo" where
  "clearQuota machineId s =
     set_db (\<lambda>d. d\<lparr>runtime_quotas := filter (\<lambda>q. q_machineId q \<noteq> machineId) (runtime_quotas d)\<rparr>) s"

definition all_states :: "runtime_state list" where
  "all_states = [Creating, Running, Recovering, Crashed, Exited, Terminating, Terminated]"

definition state_counts :: "string \<Rightarrow> db \<Rightarrow> (runtime_state \<times> nat) list" where
  "state_counts machineId d =
     map (\<lambda>st. (st, count_where (\<lambda>r. rt_machineId r = machineId \<and> rt_state r = st) (runtimes d))) all_states"

text \<open>\<open>Math.round(100 * active / maximum)\<close>, half up.\<close>

definition percent :: "nat \<Rightarrow> nat \<Rightarrow> nat" where
  "percent active maximum = (200 * active + maximum) div (2 * maximum)"

definition quota_status :: "string \<Rightarrow> repo \<Rightarrow> runtime_quota_status \<times> repo" where
  "quota_status machineId s =
     (let (q, s1) = quota machineId s;
          states = state_counts machineId (db s);
          active = sum_list (map snd (filter (\<lambda>(st, _). active_state st) states));
          utilization = percent active (q_maxActiveRuntimes q)
      in (\<lparr>qs_quota = q, qs_override = (quota_row machineId (db s) \<noteq> None), qs_activeRuntimes = active,
           qs_availableRuntimes = q_maxActiveRuntimes q - active,
           qs_runtimeCount = sum_list (map snd states), qs_utilizationPercent = utilization,
           qs_capacityState = (if q_maxActiveRuntimes q \<le> active then Exhausted
                               else if 80 \<le> utilization then Warning else Healthy),
           qs_states = states\<rparr>, s1))"

fun quota_each :: "string list \<Rightarrow> repo \<Rightarrow> runtime_quota_status list \<times> repo" where
  "quota_each [] s = ([], s)"
| "quota_each (i # is) s =
     (let (st, s1) = quota_status i s; (sts, s2) = quota_each is s1 in (st # sts, s2))"

definition known_machines :: "db \<Rightarrow> string list" where
  "known_machines d = sort (remdups (map rt_machineId (runtimes d) @ map q_machineId (runtime_quotas d)))"

definition quotaStatuses :: "string option \<Rightarrow> repo \<Rightarrow> runtime_quota_status list \<times> repo" where
  "quotaStatuses machineId s =
     quota_each (case machineId of
         Some m \<Rightarrow> if m \<noteq> [] then [m] else known_machines (db s)
       | None \<Rightarrow> known_machines (db s)) s"

section \<open>Events\<close>

text \<open>\<open>COALESCE(MAX(event_seq), 0)\<close>\<close>

definition last_seq :: "string \<Rightarrow> nat \<Rightarrow> db \<Rightarrow> nat" where
  "last_seq runtimeId generation d =
     foldr max (map e_eventSeq (filter (\<lambda>e. e_runtimeId e = runtimeId \<and> e_generation e = generation)
       (runtime_events d))) 0"

definition appendEventUnsafe :: "append_event_input \<Rightarrow> (repo, runtime_event) operation" where
  "appendEventUnsafe input s =
     (if hasRawBytesKey (ae_payload input) then (throw ''runtimeRawOutputForbidden'', s)
      else (case get_runtime (ae_runtimeId input) (db s) of
        None \<Rightarrow> (throw ''runtimeNotFound'', s)
      | Some r \<Rightarrow>
          if rt_generation r \<noteq> ae_generation input then (throw ''staleRuntimeGeneration'', s)
          else if (case ae_messageId input of None \<Rightarrow> False | Some m \<Rightarrow> m \<noteq> [] \<and> find_message m (db s) = None)
          then (throw ''unknownCanonicalMessage'', s)
          else let e = \<lparr>e_runtimeId = ae_runtimeId input, e_generation = ae_generation input,
                 e_eventSeq = Suc (last_seq (ae_runtimeId input) (ae_generation input) (db s)),
                 e_eventId = randomUUID s, e_kind = ae_kind input, e_outputCursor = ae_outputCursor input,
                 e_messageId = ae_messageId input, e_outcome = ae_outcome input, e_payload = ae_payload input,
                 e_occurredAt = now s\<rparr>;
                 s1 = tick (draw s)
               in if exists_row (\<lambda>x. e_eventId x = e_eventId e) (runtime_events (db s))
                  then (Inl SqliteConstraint, s1)
                  else (Inr e, set_db (\<lambda>d. d\<lparr>runtime_events := runtime_events d @ [e]\<rparr>) s1)))"

definition appendEvent :: "append_event_input \<Rightarrow> (repo, runtime_event) operation" where
  "appendEvent input = runTx (appendEventUnsafe input)"

section \<open>Lifecycle notifications\<close>

definition runtime_state_name :: "runtime_state \<Rightarrow> string" where
  "runtime_state_name st =
     (case st of Creating \<Rightarrow> ''creating'' | Running \<Rightarrow> ''running'' | Recovering \<Rightarrow> ''recovering''
      | Crashed \<Rightarrow> ''crashed'' | Exited \<Rightarrow> ''exited'' | Terminating \<Rightarrow> ''terminating''
      | Terminated \<Rightarrow> ''terminated'')"

text \<open>
  The composition hands every lifecycle change to \<open>RoomsRepository.recordRuntimeLifecycle\<close>; \<open>listens\<close> is
  whether the repository was built with that listener.
\<close>

definition emitLifecycle :: "bool \<Rightarrow> string \<Rightarrow> (repo, unit) operation" where
  "emitLifecycle listens runtimeId s =
     (if \<not> listens then (Inr (), s)
      else (case (get_runtime runtimeId (db s), getBinding runtimeId (db s)) of
        (Some r, Some b) \<Rightarrow>
          (case b_channelId b of
             None \<Rightarrow> (Inr (), s)
           | Some c \<Rightarrow>
               if c = [] then (Inr (), s)
               else andThen (recordRuntimeLifecycle c (rt_sessionId r) (rt_runtimeId r) (rt_generation r)
                               (runtime_state_name (rt_state r)) (rt_endedAt r)) (\<lambda>_. succeed ()) s)
      | _ \<Rightarrow> (Inr (), s)))"

section \<open>Creating and claiming\<close>

definition runtime_row :: "(nat list \<Rightarrow> string) \<Rightarrow> create_runtime_input \<Rightarrow> time \<Rightarrow> session \<Rightarrow> runtime" where
  "runtime_row sha input createdAt x =
     \<lparr>rt_runtimeId = cr_runtimeId input, rt_homeAuthorityId = cr_homeAuthorityId input,
      rt_sessionId = cr_sessionId input, rt_providerThreadId = cr_providerThreadId input,
      rt_effectiveCwd = cr_effectiveCwd input, rt_effectiveHome = cr_effectiveHome input,
      rt_generation = nat (cr_generation input), rt_protocolVersion = cr_protocolVersion input,
      rt_transportKind = cr_transportKind input, rt_state = Creating, rt_machineId = cr_machineId input,
      rt_reconnectSecretHash = sha (cr_reconnectSecret input),
      rt_sessionProofHash = map_option sha (cr_sessionProof input), rt_createdAt = createdAt,
      rt_updatedAt = createdAt, rt_endedAt = None, rt_exitReason = None,
      rt_externalOwner = s_externalOwner x, rt_externalAgentId = s_externalAgentId x\<rparr>"

text \<open>The primary key, \<open>UNIQUE(home_authority_id, session_id, generation)\<close> and the check on the version.\<close>

definition runtime_conflict :: "runtime \<Rightarrow> db \<Rightarrow> bool" where
  "runtime_conflict r d \<longleftrightarrow>
     exists_row (\<lambda>q. rt_runtimeId q = rt_runtimeId r
       \<or> (rt_homeAuthorityId q = rt_homeAuthorityId r \<and> rt_sessionId q = rt_sessionId r
          \<and> rt_generation q = rt_generation r)) (runtimes d)
     \<or> rt_protocolVersion r = 0"

text \<open>
  \<open>INSERT ... SELECT ... FROM sessions WHERE id=?\<close> inserts no row for an unknown session, and then reads
  back whatever runtime has the id.
\<close>

definition created_event :: "create_runtime_input \<Rightarrow> append_event_input" where
  "created_event input =
     \<lparr>ae_runtimeId = cr_runtimeId input, ae_generation = nat (cr_generation input), ae_kind = Ev_created,
      ae_outputCursor = None, ae_messageId = None, ae_outcome = None,
      ae_payload = [(''transportKind'', JStr (case cr_transportKind input of LocalPty \<Rightarrow> ''localPty''
                                              | Structured \<Rightarrow> ''structured''))]\<rparr>"

definition insert_runtime :: "(nat list \<Rightarrow> string) \<Rightarrow> create_runtime_input \<Rightarrow> (repo, unit) operation" where
  "insert_runtime sha input s =
     (let createdAt = now s; s1 = tick s in
      case currentSession (cr_sessionId input) (db s1) of
        None \<Rightarrow> (Inr (), s1)
      | Some x \<Rightarrow>
          let r = runtime_row sha input createdAt x
          in if runtime_conflict r (db s1) then (throw ''runtimeAlreadyExists'', s1)
             else (Inr (), set_db (\<lambda>d. d\<lparr>runtimes := runtimes d @ [r]\<rparr>) s1))"

definition read_created :: "create_runtime_input \<Rightarrow> (repo, runtime) operation" where
  "read_created input s =
     (case get_runtime (cr_runtimeId input) (db s) of
        None \<Rightarrow> (throw ''runtimeCreateFailed'', s)
      | Some r \<Rightarrow> andThen (appendEventUnsafe (created_event input)) (\<lambda>_. succeed r) s)"

definition create_runtime :: "(nat list \<Rightarrow> string) \<Rightarrow> create_runtime_input \<Rightarrow> (repo, runtime) operation" where
  "create_runtime sha input s =
     (if \<not> validateIdentity (cr_homeAuthorityId input) (cr_sessionId input) (cr_runtimeId input) (cr_generation input)
      then (throw ''invalidRuntimeIdentity'', s)
      else if length (cr_reconnectSecret input) < 32 then (throw ''invalidRuntimeCredential'', s)
      else runTx (\<lambda>s.
        let (q, s1) = quota (cr_machineId input) s in
        if q_maxActiveRuntimes q \<le> active_count (cr_machineId input) (db s1)
        then (throw ''runtimeQuotaExceeded'', s1)
        else andThen (insert_runtime sha input) (\<lambda>_. read_created input) s1) s)"

datatype claim = Claimed runtime | Not_Claimed string

definition claim_rows :: "string \<Rightarrow> string \<Rightarrow> string \<Rightarrow> time \<Rightarrow> db \<Rightarrow> db" where
  "claim_rows runtimeId sessionId providerThreadId at d = d\<lparr>
     runtimes := update_where (\<lambda>r. rt_runtimeId r = runtimeId)
       (\<lambda>r. r\<lparr>rt_providerThreadId := Some providerThreadId, rt_updatedAt := at\<rparr>) (runtimes d),
     sessions := update_where (\<lambda>x. s_id x = sessionId \<and> s_endedAt x = None)
       (\<lambda>x. x\<lparr>s_providerThreadId := Some providerThreadId\<rparr>) (sessions d)\<rparr>"

definition tryClaimProviderThreadId :: "string \<Rightarrow> string \<Rightarrow> bool \<Rightarrow> (repo, claim) operation" where
  "tryClaimProviderThreadId runtimeId providerThreadId allowReplace s =
     (if blank providerThreadId then (Inr (Not_Claimed ''invalidProviderThreadId''), s)
      else runTx (\<lambda>s.
        case get_runtime runtimeId (db s) of
          None \<Rightarrow> (Inr (Not_Claimed ''runtimeNotFound''), s)
        | Some r \<Rightarrow>
            if rt_providerThreadId r = Some providerThreadId then (Inr (Claimed r), s)
            else if rt_providerThreadId r \<noteq> None \<and> \<not> allowReplace then (Inr (Not_Claimed ''alreadyBound''), s)
            else if (case providerThreadHolderUnsafe providerThreadId (Some runtimeId) (db s) of
                       None \<Rightarrow> False | Some i \<Rightarrow> i \<noteq> [])
            then (Inr (Not_Claimed ''conflict''), s)
            else let s1 = set_db (claim_rows runtimeId (rt_sessionId r) providerThreadId (now s)) (tick s)
                 in (case get_runtime runtimeId (db s1) of
                       None \<Rightarrow> (Inl SqliteMisuse, s1)
                     | Some q \<Rightarrow> (Inr (Claimed q), s1))) s)"

definition setProviderThreadId :: "string \<Rightarrow> string \<Rightarrow> (repo, runtime) operation" where
  "setProviderThreadId runtimeId providerThreadId =
     andThen (tryClaimProviderThreadId runtimeId providerThreadId True)
       (\<lambda>c s. case c of
          Claimed r \<Rightarrow> (Inr r, s)
        | Not_Claimed reason \<Rightarrow>
            (if reason = ''conflict'' then (throw ''providerThreadIdConflict'', s)
             else if reason = ''runtimeNotFound'' then (throw ''runtimeNotFound'', s)
             else (throw ''invalidProviderThreadId'', s)))"

section \<open>Binding\<close>

definition binding_row :: "bind_runtime_input \<Rightarrow> time \<Rightarrow> runtime_binding" where
  "binding_row input at =
     \<lparr>b_bindingId = br_bindingId input, b_runtimeId = br_runtimeId input,
      b_homeAuthorityId = br_homeAuthorityId input, b_sessionId = br_sessionId input,
      b_generation = nat (br_generation input), b_channelId = br_channelId input,
      b_adapterKind = br_adapterKind input, b_handleRef = br_handleRef input,
      b_launchPolicyRef = br_launchPolicyRef input, b_boundAt = at, b_unboundAt = None\<rparr>"

definition binding_conflict :: "runtime_binding \<Rightarrow> db \<Rightarrow> bool" where
  "binding_conflict b d \<longleftrightarrow>
     exists_row (\<lambda>x. b_bindingId x = b_bindingId b \<or> b_runtimeId x = b_runtimeId b
       \<or> (b_homeAuthorityId x = b_homeAuthorityId b \<and> b_sessionId x = b_sessionId b
          \<and> b_generation x = b_generation b)) (runtime_bindings d)
     \<or> \<not> references_channel (b_channelId b) d"

definition bind_checked :: "bind_runtime_input \<Rightarrow> (repo, runtime_binding) operation" where
  "bind_checked input = runTx (\<lambda>s.
     case get_runtime (br_runtimeId input) (db s) of
       None \<Rightarrow> (throw ''runtimeNotFound'', s)
     | Some r \<Rightarrow>
         (case assertSameGeneration r (br_homeAuthorityId input) (br_sessionId input) (br_generation input) of
            Inl e \<Rightarrow> (Inl e, s)
          | Inr _ \<Rightarrow>
              let b = binding_row input (now s); s1 = tick s
              in if binding_conflict b (db s1) then (throw ''runtimeBindingAlreadyExists'', s1)
                 else (Inr b, set_db (\<lambda>d. d\<lparr>runtime_bindings := runtime_bindings d @ [b]\<rparr>) s1)))"

definition bind_runtime :: "bool \<Rightarrow> bind_runtime_input \<Rightarrow> (repo, runtime_binding) operation" where
  "bind_runtime listens input s =
     (if \<not> validateIdentity (br_homeAuthorityId input) (br_sessionId input) (br_runtimeId input) (br_generation input)
      then (throw ''invalidRuntimeIdentity'', s)
      else if br_bindingId input = [] \<or> br_adapterKind input = [] \<or> br_handleRef input = []
      then (throw ''invalidRuntimeBinding'', s)
      else andThen (bind_checked input)
             (\<lambda>b. andThen (emitLifecycle listens (br_runtimeId input)) (\<lambda>_. succeed b)) s)"

section \<open>Attaching viewers\<close>

definition viewer_row :: "string \<Rightarrow> nat \<Rightarrow> string \<Rightarrow> runtime_attachment \<Rightarrow> bool" where
  "viewer_row runtimeId generation viewerId a \<longleftrightarrow>
     a_runtimeId a = runtimeId \<and> a_generation a = generation \<and> a_viewerId a = viewerId"

definition live_controller :: "string \<Rightarrow> nat \<Rightarrow> runtime_attachment \<Rightarrow> bool" where
  "live_controller runtimeId generation a \<longleftrightarrow>
     a_runtimeId a = runtimeId \<and> a_generation a = generation \<and> a_mode a = Controller \<and> a_detachedAt a = None"

definition live_observer :: "string \<Rightarrow> nat \<Rightarrow> runtime_attachment \<Rightarrow> bool" where
  "live_observer runtimeId generation a \<longleftrightarrow>
     a_runtimeId a = runtimeId \<and> a_generation a = generation \<and> a_mode a = Observe \<and> a_detachedAt a = None"

definition detach_row :: "string \<Rightarrow> time \<Rightarrow> time \<Rightarrow> db \<Rightarrow> db" where
  "detach_row attachmentId at seen d = d\<lparr>runtime_attachments :=
     update_where (\<lambda>a. a_attachmentId a = attachmentId \<and> a_detachedAt a = None)
       (\<lambda>a. a\<lparr>a_detachedAt := Some at, a_lastSeenAt := Some seen\<rparr>) (runtime_attachments d)\<rparr>"

definition detach_now :: "string \<Rightarrow> repo \<Rightarrow> repo" where
  "detach_now attachmentId s = set_db (detach_row attachmentId (now s) (now (tick s))) (tick (tick s))"

text \<open>A lease that has run out is detached, a live one only on the operator's override.\<close>

definition displace_controller :: "string \<Rightarrow> nat \<Rightarrow> bool \<Rightarrow> repo \<Rightarrow> repo" where
  "displace_controller runtimeId generation operatorOverride s =
     (case find (live_controller runtimeId generation) (runtime_attachments (db s)) of
        None \<Rightarrow> s
      | Some c \<Rightarrow>
          (case a_leaseExpiresAt c of
             None \<Rightarrow> if operatorOverride then detach_now (a_attachmentId c) s else s
           | Some lease \<Rightarrow>
               if lease \<le> now s then detach_now (a_attachmentId c) (tick s)
               else if operatorOverride then detach_now (a_attachmentId c) (tick s)
               else tick s))"

text \<open>The partial unique index \<open>runtime_controller_lease\<close>.\<close>

definition lease_busy :: "string \<Rightarrow> nat \<Rightarrow> string \<Rightarrow> db \<Rightarrow> bool" where
  "lease_busy runtimeId generation attachmentId d \<longleftrightarrow>
     exists_row (\<lambda>a. live_controller runtimeId generation a \<and> a_attachmentId a \<noteq> attachmentId)
       (runtime_attachments d)"

definition attachment_row :: "attach_runtime_input \<Rightarrow> time \<Rightarrow> time \<Rightarrow> runtime_attachment" where
  "attachment_row input at seen =
     \<lparr>a_attachmentId = ar_attachmentId input, a_runtimeId = ar_runtimeId input,
      a_homeAuthorityId = ar_homeAuthorityId input, a_sessionId = ar_sessionId input,
      a_generation = nat (ar_generation input), a_viewerId = ar_viewerId input, a_mode = ar_mode input,
      a_leaseExpiresAt = ar_leaseExpiresAt input,
      a_outputCursor = (case ar_outputCursor input of None \<Rightarrow> 0 | Some c \<Rightarrow> c),
      a_attachedAt = at, a_detachedAt = None, a_lastSeenAt = Some seen\<rparr>"

definition attachment_conflict :: "runtime_attachment \<Rightarrow> db \<Rightarrow> bool" where
  "attachment_conflict a d \<longleftrightarrow>
     exists_row (\<lambda>x. a_attachmentId x = a_attachmentId a
       \<or> viewer_row (a_runtimeId a) (a_generation a) (a_viewerId a) x) (runtime_attachments d)
     \<or> (a_mode a = Controller \<and> exists_row (live_controller (a_runtimeId a) (a_generation a)) (runtime_attachments d))"

definition insert_attachment :: "attach_runtime_input \<Rightarrow> (repo, runtime_attachment) operation" where
  "insert_attachment input s =
     (let a = attachment_row input (now s) (now (tick s)); s1 = tick (tick s) in
      if attachment_conflict a (db s1)
      then (throw (if ar_mode input = Controller then ''controllerLeaseBusy'' else ''runtimeAttachmentAlreadyExists''), s1)
      else (Inr a, set_db (\<lambda>d. d\<lparr>runtime_attachments := runtime_attachments d @ [a]\<rparr>) s1))"

definition reattach_rows :: "string \<Rightarrow> attach_runtime_input \<Rightarrow> time \<Rightarrow> time \<Rightarrow> db \<Rightarrow> db" where
  "reattach_rows attachmentId input at seen d = d\<lparr>runtime_attachments :=
     update_where (\<lambda>a. a_attachmentId a = attachmentId)
       (\<lambda>a. a\<lparr>a_mode := ar_mode input, a_leaseExpiresAt := ar_leaseExpiresAt input,
              a_outputCursor := (case ar_outputCursor input of None \<Rightarrow> 0 | Some c \<Rightarrow> c),
              a_attachedAt := at, a_detachedAt := None, a_lastSeenAt := Some seen\<rparr>) (runtime_attachments d)\<rparr>"

text \<open>This \<open>UPDATE\<close> stands outside the handler that maps constraint errors.\<close>

definition reattach :: "runtime_attachment \<Rightarrow> attach_runtime_input \<Rightarrow> (repo, runtime_attachment) operation" where
  "reattach detached input s =
     (let i = a_attachmentId detached; s1 = tick (tick s) in
      if ar_mode input = Controller \<and> lease_busy (ar_runtimeId input) (nat (ar_generation input)) i (db s1)
      then (Inl SqliteConstraint, s1)
      else let s2 = set_db (reattach_rows i input (now s) (now (tick s))) s1
           in (case getAttachment i (db s2) of
                 None \<Rightarrow> (Inl SqliteMisuse, s2)
               | Some a \<Rightarrow> (Inr a, s2)))"

definition attach_live :: "attach_runtime_input \<Rightarrow> runtime \<Rightarrow> (repo, runtime_attachment) operation" where
  "attach_live input r s =
     (let i = ar_runtimeId input; g = nat (ar_generation input);
          mine = filter (viewer_row i g (ar_viewerId input)) (runtime_attachments (db s))
      in case find (\<lambda>a. a_detachedAt a = None) mine of
           Some current \<Rightarrow> (Inr current, s)
         | None \<Rightarrow>
             let detached = newest_by a_attachedAt (filter (\<lambda>a. a_detachedAt a \<noteq> None) mine);
                 next = (case detached of None \<Rightarrow> insert_attachment input | Some a \<Rightarrow> reattach a input)
             in if ar_mode input = Observe
                then (let (q, s1) = quota (rt_machineId r) s in
                      if q_maxObserversPerRuntime q \<le> count_where (live_observer i g) (runtime_attachments (db s1))
                      then (throw ''observerQuotaExceeded'', s1)
                      else next s1)
                else next (displace_controller i g (ar_operatorOverride input) s))"

definition attach_runtime :: "attach_runtime_input \<Rightarrow> (repo, runtime_attachment) operation" where
  "attach_runtime input s =
     (if \<not> validateIdentity (ar_homeAuthorityId input) (ar_sessionId input) (ar_runtimeId input) (ar_generation input)
      then (throw ''invalidRuntimeIdentity'', s)
      else if ar_attachmentId input = [] \<or> ar_viewerId input = [] then (throw ''invalidRuntimeAttachment'', s)
      else runTx (\<lambda>s.
        case get_runtime (ar_runtimeId input) (db s) of
          None \<Rightarrow> (throw ''runtimeNotFound'', s)
        | Some r \<Rightarrow>
            (case assertSameGeneration r (ar_homeAuthorityId input) (ar_sessionId input) (ar_generation input) of
               Inl e \<Rightarrow> (Inl e, s)
             | Inr _ \<Rightarrow>
                 if rt_state r \<in> {Exited, Terminated} \<or> (rt_state r = Crashed \<and> \<not> ar_allowRecovery input)
                 then (throw ''runtimeUnavailable'', s)
                 else attach_live input r s)) s)"

definition detach_attachment :: "string \<Rightarrow> (repo, runtime_attachment) operation" where
  "detach_attachment attachmentId = runTx (\<lambda>s.
     case getAttachment attachmentId (db s) of
       None \<Rightarrow> (throw ''unknownRuntimeAttachment'', s)
     | Some a \<Rightarrow>
         let s1 = (if a_detachedAt a = None then detach_now attachmentId s else s)
         in (case getAttachment attachmentId (db s1) of
               None \<Rightarrow> (Inl SqliteMisuse, s1)
             | Some q \<Rightarrow> (Inr q, s1)))"

definition renewControllerLease :: "string \<Rightarrow> time \<Rightarrow> (repo, runtime_attachment) operation" where
  "renewControllerLease attachmentId leaseExpiresAt = runTx (\<lambda>s.
     case getAttachment attachmentId (db s) of
       None \<Rightarrow> (throw ''unknownRuntimeAttachment'', s)
     | Some a \<Rightarrow>
         if a_detachedAt a \<noteq> None then (throw ''unknownRuntimeAttachment'', s)
         else if a_mode a \<noteq> Controller then (throw ''controllerLeaseRequired'', s)
         else let s1 = set_db (\<lambda>d. d\<lparr>runtime_attachments :=
                    update_where (\<lambda>x. a_attachmentId x = attachmentId \<and> a_detachedAt x = None)
                      (\<lambda>x. x\<lparr>a_leaseExpiresAt := Some leaseExpiresAt, a_lastSeenAt := Some (now s)\<rparr>)
                      (runtime_attachments d)\<rparr>) (tick s)
              in (case getAttachment attachmentId (db s1) of
                    None \<Rightarrow> (Inl SqliteMisuse, s1)
                  | Some q \<Rightarrow> (Inr q, s1)))"

section \<open>States\<close>

definition mark_event :: "string \<Rightarrow> nat \<Rightarrow> runtime_state \<Rightarrow> string option \<Rightarrow> append_event_input" where
  "mark_event runtimeId generation state reason =
     \<lparr>ae_runtimeId = runtimeId, ae_generation = generation,
      ae_kind = (case state of Recovering \<Rightarrow> Ev_recovering | Crashed \<Rightarrow> Ev_crashed | Exited \<Rightarrow> Ev_exited
                 | Terminated \<Rightarrow> Ev_exited | _ \<Rightarrow> Ev_error),
      ae_outputCursor = None, ae_messageId = None,
      ae_outcome = (case reason of None \<Rightarrow> Some (runtime_state_name state) | Some r \<Rightarrow> Some r),
      ae_payload = []\<rparr>"

definition state_rows :: "string \<Rightarrow> nat \<Rightarrow> runtime_state \<Rightarrow> string option \<Rightarrow> time option \<Rightarrow> time \<Rightarrow> db \<Rightarrow> db" where
  "state_rows runtimeId generation state reason ended at d = d\<lparr>runtimes :=
     update_where (\<lambda>r. rt_runtimeId r = runtimeId \<and> rt_generation r = generation)
       (\<lambda>r. r\<lparr>rt_state := state, rt_updatedAt := at, rt_endedAt := coalesce ended (rt_endedAt r),
              rt_exitReason := coalesce reason (rt_exitReason r)\<rparr>) (runtimes d)\<rparr>"

definition mark_checked :: "string \<Rightarrow> nat \<Rightarrow> runtime_state \<Rightarrow> string option \<Rightarrow> (repo, runtime) operation" where
  "mark_checked runtimeId generation state reason = runTx (\<lambda>s.
     case get_runtime runtimeId (db s) of
       None \<Rightarrow> (throw ''runtimeNotFound'', s)
     | Some r \<Rightarrow>
         if rt_generation r \<noteq> generation then (throw ''staleRuntimeGeneration'', s)
         else let (ended, s1) = (if ended_state state then (Some (now s), tick s) else (None, s));
                  s2 = set_db (state_rows runtimeId generation state reason ended (now s1)) (tick s1)
              in andThen (appendEventUnsafe (mark_event runtimeId generation state reason))
                   (\<lambda>_ s. case get_runtime runtimeId (db s) of
                       None \<Rightarrow> (Inl SqliteMisuse, s)
                     | Some q \<Rightarrow> (Inr q, s)) s2)"

definition markState :: "bool \<Rightarrow> string \<Rightarrow> nat \<Rightarrow> runtime_state \<Rightarrow> string option \<Rightarrow> (repo, runtime) operation" where
  "markState listens runtimeId generation state reason =
     andThen (mark_checked runtimeId generation state reason)
       (\<lambda>r. andThen (emitLifecycle listens runtimeId) (\<lambda>_. succeed r))"

section \<open>Capabilities\<close>

definition replay_conflict :: "capability_replay \<Rightarrow> db \<Rightarrow> bool" where
  "replay_conflict k d \<longleftrightarrow>
     exists_row (\<lambda>x. k_runtimeId x = k_runtimeId k \<and> k_generation x = k_generation k
       \<and> (k_capabilityId x = k_capabilityId k \<or> k_nonceHash x = k_nonceHash k)) (capability_replays d)
     \<or> get_runtime (k_runtimeId k) d = None \<or> k_generation k = 0"

definition consumeCapability :: "capability_replay \<Rightarrow> (repo, bool) operation" where
  "consumeCapability input = runTx (\<lambda>s.
     if k_expiresAt input \<le> now s then (throw ''capabilityExpired'', tick s)
     else if replay_conflict input (db s) then (throw ''capabilityReplay'', tick s)
     else (Inr True, set_db (\<lambda>d. d\<lparr>capability_replays := capability_replays d @ [input]\<rparr>) (tick s)))"

end
