(* ===== verification/RuntimeProperties.thy ===== *)
theory RuntimeProperties
  imports RuntimeStore
begin

text \<open>
  What the runtime tables promise: one live controller for a generation of a runtime, one attachment row for
  a viewer, gapless event sequences, capabilities that are consumed once, and quotas that are kept.
\<close>

section \<open>Attachments\<close>

definition same_generation :: "runtime_attachment \<Rightarrow> runtime_attachment \<Rightarrow> bool" where
  "same_generation a b \<longleftrightarrow> a_runtimeId a = a_runtimeId b \<and> a_generation a = a_generation b"

definition controls :: "runtime_attachment \<Rightarrow> bool" where
  "controls a \<longleftrightarrow> a_mode a = Controller \<and> a_detachedAt a = None"

definition attachments_ok :: "db \<Rightarrow> bool" where
  "attachments_ok d \<longleftrightarrow> distinct (map a_attachmentId (runtime_attachments d)) \<and>
     (\<forall>a \<in> set (runtime_attachments d). \<forall>b \<in> set (runtime_attachments d). same_generation a b \<longrightarrow>
        (a_viewerId a = a_viewerId b \<or> controls a \<and> controls b) \<longrightarrow> a_attachmentId a = a_attachmentId b)"

lemma live_controller_iff: "live_controller i g a \<longleftrightarrow> a_runtimeId a = i \<and> a_generation a = g \<and> controls a"
  by (auto simp: live_controller_def controls_def)

lemma attachments_okD:
  "attachments_ok d \<Longrightarrow> a \<in> set (runtime_attachments d) \<Longrightarrow> b \<in> set (runtime_attachments d) \<Longrightarrow>
   same_generation a b \<Longrightarrow> a_viewerId a = a_viewerId b \<or> controls a \<and> controls b \<Longrightarrow> a_attachmentId a = a_attachmentId b"
  unfolding attachments_ok_def by blast

lemma attachments_ok_cong: "runtime_attachments d' = runtime_attachments d \<Longrightarrow> attachments_ok d' = attachments_ok d"
  by (simp only: attachments_ok_def)

lemma attachments_ok_tables [simp]:
  "attachments_ok (d\<lparr>runtimes := a\<rparr>) = attachments_ok d"
  "attachments_ok (d\<lparr>runtime_events := b\<rparr>) = attachments_ok d"
  "attachments_ok (d\<lparr>runtime_bindings := c\<rparr>) = attachments_ok d"
  "attachments_ok (d\<lparr>capability_replays := e\<rparr>) = attachments_ok d"
  "attachments_ok (claim_rows i j k t d) = attachments_ok d"
  "attachments_ok (state_rows i g st r x t d) = attachments_ok d"
  "attachments_ok (insert_change k2 c2 p2 t2 d) = attachments_ok d"
  by (rule attachments_ok_cong, simp add: claim_rows_def state_rows_def)+

text \<open>Rewriting rows that keep their keys and do not start to control.\<close>

lemma attachments_ok_rewrite:
  assumes ok: "attachments_ok d" and rows: "runtime_attachments d' = map h (runtime_attachments d)"
    and keys: "\<And>a. a_attachmentId (h a) = a_attachmentId a" "\<And>a. same_generation (h a) a" "\<And>a. a_viewerId (h a) = a_viewerId a"
    and controls: "\<And>a b. a \<in> set (runtime_attachments d) \<Longrightarrow> b \<in> set (runtime_attachments d) \<Longrightarrow> same_generation a b \<Longrightarrow>
      controls (h a) \<Longrightarrow> controls (h b) \<Longrightarrow> a_attachmentId a = a_attachmentId b"
  shows "attachments_ok d'"
proof -
  have "distinct (map a_attachmentId (runtime_attachments d'))"
    using ok rows keys(1) by (simp add: attachments_ok_def comp_def)
  moreover have "a_attachmentId x = a_attachmentId y"
    if xy: "x \<in> set (runtime_attachments d')" "y \<in> set (runtime_attachments d')" "same_generation x y"
      "a_viewerId x = a_viewerId y \<or> controls x \<and> controls y" for x y
  proof -
    from xy rows obtain a b where a: "a \<in> set (runtime_attachments d)" "x = h a" and b: "b \<in> set (runtime_attachments d)" "y = h b"
      by auto
    have g: "same_generation a b"
      using xy(3) a(2) b(2) keys(2) [of a] keys(2) [of b] by (simp add: same_generation_def)
    from xy(4) have "a_attachmentId a = a_attachmentId b"
    proof
      assume "a_viewerId x = a_viewerId y"
      with a b keys(3) show ?thesis by (intro attachments_okD [OF ok a(1) b(1) g]) simp
    next
      assume "controls x \<and> controls y"
      with a b show ?thesis by (intro controls [OF a(1) b(1) g]) simp_all
    qed
    with a b keys(1) show ?thesis by simp
  qed
  ultimately show ?thesis
    unfolding attachments_ok_def by blast
qed

lemma attachments_ok_calm:
  assumes "attachments_ok d" and "runtime_attachments d' = map h (runtime_attachments d)"
    and "\<And>a. a_attachmentId (h a) = a_attachmentId a" "\<And>a. same_generation (h a) a" "\<And>a. a_viewerId (h a) = a_viewerId a"
    and "\<And>a. controls (h a) \<Longrightarrow> controls a"
  shows "attachments_ok d'"
  by (rule attachments_ok_rewrite [OF assms(1-5)]) (use attachments_okD [OF assms(1)] assms(6) in blast)

lemma attachments_ok_detach: "attachments_ok d \<Longrightarrow> attachments_ok (detach_row i at seen d)"
  by (rule attachments_ok_calm [where h = "\<lambda>a. if a_attachmentId a = i \<and> a_detachedAt a = None
        then a\<lparr>a_detachedAt := Some at, a_lastSeenAt := Some seen\<rparr> else a"])
    (auto simp: detach_row_def update_where_def same_generation_def controls_def split: if_splits)

lemma attachments_ok_renew:
  "attachments_ok d \<Longrightarrow> attachments_ok (d\<lparr>runtime_attachments :=
     update_where P (\<lambda>x. x\<lparr>a_leaseExpiresAt := l, a_lastSeenAt := t\<rparr>) (runtime_attachments d)\<rparr>)"
  by (rule attachments_ok_calm [where h = "\<lambda>x. if P x then x\<lparr>a_leaseExpiresAt := l, a_lastSeenAt := t\<rparr> else x"])
    (auto simp: update_where_def same_generation_def controls_def split: if_splits)

lemma attachments_ok_insert:
  assumes ok: "attachments_ok d" and free: "\<not> attachment_conflict x d"
  shows "attachments_ok (d\<lparr>runtime_attachments := runtime_attachments d @ [x]\<rparr>)"
proof -
  have new: "a_attachmentId a \<noteq> a_attachmentId x" "\<not> viewer_row (a_runtimeId x) (a_generation x) (a_viewerId x) a"
    "controls x \<Longrightarrow> same_generation a x \<Longrightarrow> \<not> controls a"
    if "a \<in> set (runtime_attachments d)" for a
    using free that
    by (auto simp: attachment_conflict_def exists_row_iff live_controller_iff same_generation_def controls_def)
  show ?thesis
    unfolding attachments_ok_def
  proof (intro conjI ballI impI)
    show "distinct (map a_attachmentId (runtime_attachments (d\<lparr>runtime_attachments := runtime_attachments d @ [x]\<rparr>)))"
      using ok new(1) by (fastforce simp: attachments_ok_def)
  next
    fix a b
    assume "a \<in> set (runtime_attachments (d\<lparr>runtime_attachments := runtime_attachments d @ [x]\<rparr>))"
      "b \<in> set (runtime_attachments (d\<lparr>runtime_attachments := runtime_attachments d @ [x]\<rparr>))"
      and g: "same_generation a b" and c: "a_viewerId a = a_viewerId b \<or> controls a \<and> controls b"
    then consider "a \<in> set (runtime_attachments d)" "b \<in> set (runtime_attachments d)" | "a \<in> set (runtime_attachments d)" "b = x"
      | "a = x" "b \<in> set (runtime_attachments d)" | "a = x" "b = x"
      by auto
    then show "a_attachmentId a = a_attachmentId b"
    proof cases
      case 1
      then show ?thesis using attachments_okD [OF ok _ _ g c] by blast
    next
      case 2
      with new(2,3) [of a] g c show ?thesis by (auto simp: viewer_row_def same_generation_def)
    next
      case 3
      with new(2,3) [of b] g c show ?thesis by (auto simp: viewer_row_def same_generation_def)
    qed simp
  qed
qed

lemma attachments_ok_reattach:
  assumes ok: "attachments_ok d" and x: "x \<in> set (runtime_attachments d)" "a_attachmentId x = i"
    and gen: "a_runtimeId x = ar_runtimeId input" "a_generation x = nat (ar_generation input)"
    and free: "ar_mode input = Controller \<longrightarrow> \<not> lease_busy (ar_runtimeId input) (nat (ar_generation input)) i d"
  shows "attachments_ok (reattach_rows i input at seen d)"
proof (rule attachments_ok_rewrite [OF ok])
  let ?f = "\<lambda>a. a\<lparr>a_mode := ar_mode input, a_leaseExpiresAt := ar_leaseExpiresAt input,
    a_outputCursor := (case ar_outputCursor input of None \<Rightarrow> 0 | Some c \<Rightarrow> c),
    a_attachedAt := at, a_detachedAt := None, a_lastSeenAt := Some seen\<rparr>"
  let ?h = "\<lambda>a. if a_attachmentId a = i then ?f a else a"
  show "runtime_attachments (reattach_rows i input at seen d) = map ?h (runtime_attachments d)"
    by (simp add: reattach_rows_def update_where_def)
  show "a_attachmentId (?h a) = a_attachmentId a" "same_generation (?h a) a" "a_viewerId (?h a) = a_viewerId a" for a
    by (simp_all add: same_generation_def)
  have other: "False"
    if "q \<in> set (runtime_attachments d)" "a_attachmentId q \<noteq> i" "controls q" "a_attachmentId p = i"
      "p \<in> set (runtime_attachments d)" "same_generation p q" "controls (?h p)" for p q
  proof -
    have "p = x"
      using ok x that(4,5) by (auto simp: attachments_ok_def intro: distinct_keyD [of a_attachmentId])
    moreover have "ar_mode input = Controller"
      using that(4,7) by (simp add: controls_def)
    ultimately show False
      using free that gen by (auto simp: lease_busy_def exists_row_iff live_controller_iff same_generation_def)
  qed
  show "a_attachmentId a = a_attachmentId b"
    if ab: "a \<in> set (runtime_attachments d)" "b \<in> set (runtime_attachments d)" "same_generation a b"
      "controls (?h a)" "controls (?h b)" for a b
  proof (cases "a_attachmentId a = i"; cases "a_attachmentId b = i")
    assume "a_attachmentId a = i" "a_attachmentId b \<noteq> i"
    with ab other [of b a] show ?thesis by auto
  next
    assume "a_attachmentId a \<noteq> i" "a_attachmentId b = i"
    with ab other [of a b] show ?thesis by (auto simp: same_generation_def)
  next
    assume "a_attachmentId a \<noteq> i" "a_attachmentId b \<noteq> i"
    with ab show ?thesis by (intro attachments_okD [OF ok]) auto
  qed simp
qed

section \<open>Every runtime operation keeps the attachments\<close>

lemma quota_db: "quota m s = (q, s1) \<Longrightarrow> db s1 = db s"
  by (auto simp: quota_def split: option.splits)

lemma appendEventUnsafe_Inr:
  "appendEventUnsafe input s = (Inr e, s1) \<Longrightarrow>
   (\<exists>r. get_runtime (ae_runtimeId input) (db s) = Some r \<and> rt_generation r = ae_generation input) \<and>
   e_runtimeId e = ae_runtimeId input \<and> e_generation e = ae_generation input \<and>
   e_eventSeq e = Suc (last_seq (ae_runtimeId input) (ae_generation input) (db s)) \<and>
   db s1 = (db s)\<lparr>runtime_events := runtime_events (db s) @ [e]\<rparr>"
  by (auto simp: appendEventUnsafe_def Let_def split: if_splits option.splits)

lemma displace_db:
  "db (displace_controller i g override s) = db s \<or>
   (\<exists>j at seen. db (displace_controller i g override s) = detach_row j at seen (db s))"
  by (auto simp: displace_controller_def detach_now_def split: option.splits)

lemma attachments_ok_displace: "attachments_ok (db s) \<Longrightarrow> attachments_ok (db (displace_controller i g override s))"
  using displace_db [of i g override s] attachments_ok_detach by metis

lemma insert_attachment_ok: "preserves attachments_ok db (insert_attachment input)"
  by (rule preservesI) (auto simp: insert_attachment_def Let_def split: if_splits intro!: attachments_ok_insert)

lemma newest_by_mem: "newest_by f rows = Some r \<Longrightarrow> r \<in> set rows"
  by (induction rows arbitrary: r) (auto split: option.splits if_splits)

lemma displaced_row:
  assumes "x \<in> set (runtime_attachments (db s))"
  obtains y where "y \<in> set (runtime_attachments (db (displace_controller i g override s)))"
    "a_attachmentId y = a_attachmentId x" "same_generation y x"
proof -
  from displace_db [of i g override s] show ?thesis
  proof
    assume "db (displace_controller i g override s) = db s"
    with assms that [of x] show ?thesis by (simp add: same_generation_def)
  next
    assume "\<exists>j at seen. db (displace_controller i g override s) = detach_row j at seen (db s)"
    then obtain j at seen where "db (displace_controller i g override s) = detach_row j at seen (db s)" by blast
    with assms that [of "if a_attachmentId x = j \<and> a_detachedAt x = None
        then x\<lparr>a_detachedAt := Some at, a_lastSeenAt := Some seen\<rparr> else x"] show ?thesis
      by (auto simp: detach_row_def set_update_where same_generation_def)
  qed
qed

lemma reattach_ok:
  assumes ok: "attachments_ok (db s)" and run: "reattach x input s = (Inr a, s1)"
    and row: "y \<in> set (runtime_attachments (db s))" "a_attachmentId y = a_attachmentId x" "same_generation y x"
    and gen: "a_runtimeId x = ar_runtimeId input" "a_generation x = nat (ar_generation input)"
  shows "attachments_ok (db s1)"
proof -
  from run have free: "ar_mode input = Controller \<longrightarrow>
      \<not> lease_busy (ar_runtimeId input) (nat (ar_generation input)) (a_attachmentId x) (db s)"
    and s1: "db s1 = reattach_rows (a_attachmentId x) input (now s) (now (tick s)) (db s)"
    by (auto simp: reattach_def Let_def split: if_splits option.splits)
  show ?thesis
    unfolding s1
    by (rule attachments_ok_reattach [OF ok row(1,2) _ _ free]) (use row(3) gen in \<open>simp_all add: same_generation_def\<close>)
qed

definition retired_row :: "attach_runtime_input \<Rightarrow> db \<Rightarrow> runtime_attachment option" where
  "retired_row input d = newest_by a_attachedAt (filter (\<lambda>a. a_detachedAt a \<noteq> None)
     (filter (viewer_row (ar_runtimeId input) (nat (ar_generation input)) (ar_viewerId input)) (runtime_attachments d)))"

definition next_attachment :: "runtime_attachment option \<Rightarrow> attach_runtime_input \<Rightarrow> (repo, runtime_attachment) operation" where
  "next_attachment x input = (case x of None \<Rightarrow> insert_attachment input | Some a \<Rightarrow> reattach a input)"

lemma attach_live_cases:
  assumes "attach_live input r s = (Inr a, s1)"
  obtains "s1 = s"
    | s0 where "next_attachment (retired_row input (db s)) input s0 = (Inr a, s1)"
        "db s0 = db s \<or> s0 = displace_controller (ar_runtimeId input) (nat (ar_generation input)) (ar_operatorOverride input) s"
  using assms unfolding attach_live_def Let_def next_attachment_def retired_row_def
  by (fastforce simp: quota_db split: if_splits option.splits prod.splits)

lemma attach_live_ok: "preserves attachments_ok db (attach_live input r)"
proof (rule preservesI)
  fix s a s1
  assume ok: "attachments_ok (db s)" and run: "attach_live input r s = (Inr a, s1)"
  let ?i = "ar_runtimeId input" and ?g = "nat (ar_generation input)"
  have next_ok: "attachments_ok (db s1)"
    if "next_attachment (retired_row input (db s)) input s0 = (Inr a, s1)" "attachments_ok (db s0)"
      "\<And>x. x \<in> set (runtime_attachments (db s)) \<Longrightarrow> \<exists>y \<in> set (runtime_attachments (db s0)).
         a_attachmentId y = a_attachmentId x \<and> same_generation y x" for s0
  proof (cases "retired_row input (db s)")
    case None
    with that(1) have "insert_attachment input s0 = (Inr a, s1)" by (simp add: next_attachment_def)
    then show ?thesis by (rule preservesD [OF insert_attachment_ok that(2)])
  next
    case (Some x)
    then have x: "x \<in> set (runtime_attachments (db s))" "a_runtimeId x = ?i" "a_generation x = ?g"
      by (auto dest!: newest_by_mem simp: viewer_row_def retired_row_def)
    from that(3) [OF x(1)] obtain y where y: "y \<in> set (runtime_attachments (db s0))"
      "a_attachmentId y = a_attachmentId x" "same_generation y x" by blast
    from Some that(1) have "reattach x input s0 = (Inr a, s1)" by (simp add: next_attachment_def)
    then show ?thesis by (rule reattach_ok [OF that(2) _ y x(2,3)])
  qed
  from run show "attachments_ok (db s1)"
  proof (cases rule: attach_live_cases)
    case 1
    with ok show ?thesis by simp
  next
    case (2 s0)
    then have "attachments_ok (db s0)"
      using ok attachments_ok_displace by metis
    moreover have "\<exists>y \<in> set (runtime_attachments (db s0)). a_attachmentId y = a_attachmentId x \<and> same_generation y x"
      if "x \<in> set (runtime_attachments (db s))" for x
      using 2(2) that displaced_row [OF that, of ?i ?g "ar_operatorOverride input"]
      by (metis same_generation_def)
    ultimately show ?thesis
      using next_ok [OF 2(1)] by blast
  qed
qed

lemma attach_ok: "preserves attachments_ok db (attach_runtime input)"
proof -
  have body: "preserves attachments_ok db (\<lambda>s. case get_runtime (ar_runtimeId input) (db s) of
        None \<Rightarrow> (throw ''runtimeNotFound'', s)
      | Some r \<Rightarrow> (case assertSameGeneration r (ar_homeAuthorityId input) (ar_sessionId input) (ar_generation input) of
            Inl e \<Rightarrow> (Inl e, s)
          | Inr _ \<Rightarrow> if rt_state r \<in> {Exited, Terminated} \<or> (rt_state r = Crashed \<and> \<not> ar_allowRecovery input)
              then (throw ''runtimeUnavailable'', s) else attach_live input r s))"
    by (rule preservesI) (auto split: option.splits sum.splits if_splits dest: preservesD [OF attach_live_ok])
  show ?thesis
    by (rule preservesI)
      (auto simp: attach_runtime_def split: if_splits dest: preservesD [OF runtime_tx.run_preserves [OF body]])
qed

lemma detach_ok: "preserves attachments_ok db (detach_attachment i)"
  unfolding detach_attachment_def
  by (rule runtime_tx.run_preserves, rule preservesI)
    (auto simp: Let_def detach_now_def split: option.splits if_splits intro!: attachments_ok_detach)

lemma renew_ok: "preserves attachments_ok db (renewControllerLease i l)"
  unfolding renewControllerLease_def
  by (rule runtime_tx.run_preserves, rule preservesI)
    (auto simp: Let_def split: option.splits if_splits intro!: attachments_ok_renew)

section \<open>Invariants that only some tables can break\<close>

text \<open>
  \<open>runtime_frame I\<close>: the invariant \<open>I\<close> does not read the tables of runtimes, sessions, bindings, quotas and
  changes, and survives an event with the next sequence number. \<open>runtime_quiet\<close>: nor does it read the
  attachments.
\<close>

locale runtime_frame =
  fixes I :: "db \<Rightarrow> bool"
  assumes frame: "I (d\<lparr>runtimes := a\<rparr>) = I d" "I (d\<lparr>sessions := b\<rparr>) = I d" "I (d\<lparr>runtime_bindings := c\<rparr>) = I d"
      "I (d\<lparr>runtime_quotas := q\<rparr>) = I d" "I (insert_change k x p t d) = I d"
    and next_event: "I d \<Longrightarrow> e_eventSeq e = Suc (last_seq (e_runtimeId e) (e_generation e) d) \<Longrightarrow>
      I (d\<lparr>runtime_events := runtime_events d @ [e]\<rparr>)"
begin

lemma event_kept: "preserves I db (appendEventUnsafe input)"
proof (rule preservesI)
  fix s e s1
  assume ok: "I (db s)" and "appendEventUnsafe input s = (Inr e, s1)"
  from appendEventUnsafe_Inr [OF this(2)] next_event [OF ok, of e] show "I (db s1)"
    by simp
qed

lemma appendEvent_kept: "preserves I db (appendEvent input)"
  unfolding appendEvent_def by (rule runtime_tx.run_preserves [OF event_kept])

lemma emit_kept: "preserves I db (emitLifecycle listens i)"
proof (rule preservesI)
  fix s u s1
  assume ok: "I (db s)" and run: "emitLifecycle listens i s = (Inr u, s1)"
  have rec: "I (db s2)" if "recordRuntimeLifecycle c j rt g st e s = (Inr r, s2)" for c j rt g st e r s2
    using rooms_tx.committed [OF that [unfolded recordRuntimeLifecycle_def]] ok
    by (auto simp: Let_def frame dest!: appendChange_Inr)
  show "I (db s1)"
    using run ok rec
    by (auto simp: emitLifecycle_def andThen_Inr_iff succeed_def split: if_splits option.splits)
qed

lemma insert_runtime_kept: "preserves I db (insert_runtime sha input)"
  by (rule preservesI) (auto simp: insert_runtime_def Let_def frame split: if_splits option.splits)

lemma read_created_kept: "preserves I db (read_created input)"
  by (rule preservesI)
    (auto simp: read_created_def andThen_Inr_iff succeed_def split: option.splits dest: preservesD [OF event_kept])

lemma create_kept: "preserves I db (create_runtime sha input)"
proof -
  have "preserves I db (\<lambda>s. let (q, s1) = quota (cr_machineId input) s in
        if q_maxActiveRuntimes q \<le> active_count (cr_machineId input) (db s1) then (throw ''runtimeQuotaExceeded'', s1)
        else andThen (insert_runtime sha input) (\<lambda>_. read_created input) s1)"
    by (rule preservesI)
      (auto simp: Let_def quota_db split: prod.splits if_splits
        dest!: preservesD [OF preserves_andThen [OF insert_runtime_kept read_created_kept], rotated])
  from preservesD [OF runtime_tx.run_preserves [OF this]] show ?thesis
    by (intro preservesI) (auto simp: create_runtime_def split: if_splits)
qed

lemma claim_kept: "preserves I db (tryClaimProviderThreadId i t r)"
proof -
  have rows: "I (claim_rows j k u at d) = I d" for j k u at d
    using frame by (simp add: claim_rows_def)
  have "preserves I db (\<lambda>s. case get_runtime i (db s) of
          None \<Rightarrow> (Inr (Not_Claimed ''runtimeNotFound''), s)
        | Some q \<Rightarrow>
            if rt_providerThreadId q = Some t then (Inr (Claimed q), s)
            else if rt_providerThreadId q \<noteq> None \<and> \<not> r then (Inr (Not_Claimed ''alreadyBound''), s)
            else if (case providerThreadHolderUnsafe t (Some i) (db s) of None \<Rightarrow> False | Some i \<Rightarrow> i \<noteq> [])
            then (Inr (Not_Claimed ''conflict''), s)
            else let s1 = set_db (claim_rows i (rt_sessionId q) t (now s)) (tick s)
                 in (case get_runtime i (db s1) of None \<Rightarrow> (Inl SqliteMisuse, s1) | Some q \<Rightarrow> (Inr (Claimed q), s1)))"
    by (rule preservesI) (auto simp: Let_def rows split: option.splits if_splits)
  from preservesD [OF runtime_tx.run_preserves [OF this]] show ?thesis
    by (intro preservesI) (auto simp: tryClaimProviderThreadId_def split: if_splits)
qed

lemma setProviderThreadId_kept: "preserves I db (setProviderThreadId i t)"
  unfolding setProviderThreadId_def
  by (rule preserves_andThen [OF claim_kept], rule preservesI) (auto split: claim.splits if_splits)

lemma bind_kept: "preserves I db (bind_runtime listens input)"
proof -
  have "preserves I db (bind_checked input)"
    unfolding bind_checked_def
    by (rule runtime_tx.run_preserves, rule preservesI)
      (auto simp: Let_def frame split: option.splits sum.splits if_splits)
  from preservesD [OF preserves_andThen [OF this preserves_andThen [OF emit_kept preserves_succeed]]] show ?thesis
    by (intro preservesI) (auto simp: bind_runtime_def split: if_splits)
qed

lemma mark_checked_kept: "preserves I db (mark_checked i g st r)"
proof -
  have rows: "I (state_rows j h q x e at d) = I d" for j h q x e at d
    using frame by (simp add: state_rows_def)
  show ?thesis
    unfolding mark_checked_def
    by (rule runtime_tx.run_preserves, rule preservesI)
      (auto simp: Let_def rows andThen_Inr_iff split: option.splits if_splits prod.splits
        dest!: preservesD [OF event_kept, rotated])
qed

lemma setQuota_kept: "preserves I db (setQuota m a o1)"
  by (rule preservesI) (auto simp: setQuota_def Let_def frame split: if_splits)

end

locale runtime_quiet = runtime_frame +
  assumes attachments_free: "I (d\<lparr>runtime_attachments := w\<rparr>) = I d"
begin

lemma detach_rows_free: "I (db (detach_now i s)) = I (db s)"
  by (simp add: detach_now_def detach_row_def attachments_free)

lemma displace_free: "I (db (displace_controller i g r s)) = I (db s)"
  by (auto simp: displace_controller_def detach_rows_free split: option.splits)

lemma attach_kept: "preserves I db (attach_runtime input)"
proof -
  have next_kept: "I (db s1)" if "next_attachment x input s = (Inr b, s1)" "I (db s)" for x s b s1
    using that by (auto simp: next_attachment_def insert_attachment_def reattach_def reattach_rows_def Let_def
        attachments_free split: option.splits if_splits)
  have live: "preserves I db (attach_live input r)" for r
  proof (rule preservesI)
    fix s a s1
    assume ok: "I (db s)" and run: "attach_live input r s = (Inr a, s1)"
    from run show "I (db s1)"
    proof (cases rule: attach_live_cases)
      case (2 s0)
      then have "I (db s0)"
        using ok displace_free by metis
      with 2(1) show ?thesis by (rule next_kept)
    qed (use ok in simp)
  qed
  have body: "preserves I db (\<lambda>s. case get_runtime (ar_runtimeId input) (db s) of
        None \<Rightarrow> (throw ''runtimeNotFound'', s)
      | Some r \<Rightarrow> (case assertSameGeneration r (ar_homeAuthorityId input) (ar_sessionId input) (ar_generation input) of
            Inl e \<Rightarrow> (Inl e, s)
          | Inr _ \<Rightarrow> if rt_state r \<in> {Exited, Terminated} \<or> (rt_state r = Crashed \<and> \<not> ar_allowRecovery input)
              then (throw ''runtimeUnavailable'', s) else attach_live input r s))"
    by (rule preservesI) (auto split: option.splits sum.splits if_splits dest: preservesD [OF live])
  show ?thesis
    by (rule preservesI)
      (auto simp: attach_runtime_def split: if_splits dest: preservesD [OF runtime_tx.run_preserves [OF body]])
qed

lemma detach_kept: "preserves I db (detach_attachment i)"
  unfolding detach_attachment_def
  by (rule runtime_tx.run_preserves, rule preservesI)
    (auto simp: Let_def detach_rows_free split: option.splits if_splits)

lemma renew_kept: "preserves I db (renewControllerLease i l)"
  unfolding renewControllerLease_def
  by (rule runtime_tx.run_preserves, rule preservesI)
    (auto simp: Let_def attachments_free split: option.splits if_splits)

end

section \<open>Event sequences and consumed capabilities\<close>

definition event_seqs :: "string \<Rightarrow> nat \<Rightarrow> db \<Rightarrow> nat list" where
  "event_seqs i g d = map e_eventSeq (filter (\<lambda>e. e_runtimeId e = i \<and> e_generation e = g) (runtime_events d))"

definition events_ok :: "db \<Rightarrow> bool" where
  "events_ok d \<longleftrightarrow> (\<forall>i g. event_seqs i g d = [1..<Suc (length (event_seqs i g d))])"

lemma foldr_max_upt: "foldr max [1..<Suc n] (0::nat) = n"
  by (induction n) (auto simp: foldr_max [of _ "Suc _"])

lemma last_seq_events: "events_ok d \<Longrightarrow> last_seq i g d = length (event_seqs i g d)"
  unfolding events_ok_def last_seq_def event_seqs_def [symmetric] by (metis foldr_max_upt)

lemma events_ok_next:
  assumes "events_ok d" and "e_eventSeq e = Suc (last_seq (e_runtimeId e) (e_generation e) d)"
  shows "events_ok (d\<lparr>runtime_events := runtime_events d @ [e]\<rparr>)"
  unfolding events_ok_def
proof (intro allI)
  fix i g
  have old: "event_seqs i g d = [1..<Suc (length (event_seqs i g d))]"
    using assms(1) by (simp only: events_ok_def)
  show "event_seqs i g (d\<lparr>runtime_events := runtime_events d @ [e]\<rparr>) =
      [1..<Suc (length (event_seqs i g (d\<lparr>runtime_events := runtime_events d @ [e]\<rparr>)))]"
  proof (cases "e_runtimeId e = i \<and> e_generation e = g")
    case True
    then have new: "event_seqs i g (d\<lparr>runtime_events := runtime_events d @ [e]\<rparr>) =
        event_seqs i g d @ [Suc (length (event_seqs i g d))]"
      using assms last_seq_events [OF assms(1), of i g] by (simp add: event_seqs_def)
    show ?thesis
      unfolding new using old by simp
  next
    case False
    then have "event_seqs i g (d\<lparr>runtime_events := runtime_events d @ [e]\<rparr>) = event_seqs i g d"
      by (auto simp: event_seqs_def)
    with old show ?thesis by simp
  qed
qed

interpretation attachment_frame: runtime_frame attachments_ok
  by unfold_locales (simp_all add: attachments_ok_def)

lemma events_ok_cong: "runtime_events d' = runtime_events d \<Longrightarrow> events_ok d' = events_ok d"
  by (simp only: events_ok_def event_seqs_def)

interpretation event_frame: runtime_quiet events_ok
  by unfold_locales (rule events_ok_next, assumption+ | rule events_ok_cong, simp)+

interpretation replay_frame: runtime_quiet "\<lambda>d. k \<in> set (capability_replays d)" for k
  by unfold_locales simp_all

end
