(* ===== verification/RuntimeSafety.thy ===== *)
theory RuntimeSafety
  imports RuntimeProperties
begin

text \<open>
  The runtime repository as a transition system, the invariants of its tables in every state it can reach,
  and what a successful operation guarantees.
\<close>

section \<open>Requests\<close>

datatype runtime_request =
    Create_Runtime create_runtime_input
  | Claim_Thread string string bool
  | Set_Thread string string
  | Bind_Runtime bind_runtime_input
  | Attach_Viewer attach_runtime_input
  | Detach_Viewer string
  | Renew_Lease string time
  | Mark_State string nat runtime_state "string option"
  | Append_Event append_event_input
  | Consume_Capability capability_replay
  | Set_Quota string nat nat
  | Clear_Quota string

definition ignore :: "('s, 'a) operation \<Rightarrow> ('s, unit) operation" where
  "ignore m = andThen m (\<lambda>_. succeed ())"

fun perform_runtime :: "(nat list \<Rightarrow> string) \<Rightarrow> bool \<Rightarrow> runtime_request \<Rightarrow> (repo, unit) operation" where
  "perform_runtime sha listens (Create_Runtime input) = ignore (create_runtime sha input)"
| "perform_runtime sha listens (Claim_Thread i t r) = ignore (tryClaimProviderThreadId i t r)"
| "perform_runtime sha listens (Set_Thread i t) = ignore (setProviderThreadId i t)"
| "perform_runtime sha listens (Bind_Runtime input) = ignore (bind_runtime listens input)"
| "perform_runtime sha listens (Attach_Viewer input) = ignore (attach_runtime input)"
| "perform_runtime sha listens (Detach_Viewer i) = ignore (detach_attachment i)"
| "perform_runtime sha listens (Renew_Lease i l) = ignore (renewControllerLease i l)"
| "perform_runtime sha listens (Mark_State i g st r) = ignore (markState listens i g st r)"
| "perform_runtime sha listens (Append_Event input) = ignore (appendEvent input)"
| "perform_runtime sha listens (Consume_Capability k) = ignore (consumeCapability k)"
| "perform_runtime sha listens (Set_Quota m a o1) = ignore (setQuota m a o1)"
| "perform_runtime sha listens (Clear_Quota m) = modify (clearQuota m)"

inductive runtime_reachable :: "(nat list \<Rightarrow> string) \<Rightarrow> bool \<Rightarrow> repo \<Rightarrow> repo \<Rightarrow> bool" for sha listens where
  start: "runtime_reachable sha listens s s"
| step: "runtime_reachable sha listens s s1 \<Longrightarrow> perform_runtime sha listens q s1 = (r, s2) \<Longrightarrow>
    runtime_reachable sha listens s s2"

inductive_cases runtime_reachableE: "runtime_reachable sha listens s s1"

fun run_runtime :: "(nat list \<Rightarrow> string) \<Rightarrow> bool \<Rightarrow> runtime_request list \<Rightarrow> repo \<Rightarrow> repo" where
  "run_runtime sha listens [] s = s"
| "run_runtime sha listens (q # qs) s = run_runtime sha listens qs (snd (perform_runtime sha listens q s))"

lemma runtime_reachable_run:
  "runtime_reachable sha listens s s1 \<Longrightarrow> runtime_reachable sha listens s (run_runtime sha listens qs s1)"
proof (induction qs arbitrary: s1)
  case (Cons q qs)
  then have "runtime_reachable sha listens s (snd (perform_runtime sha listens q s1))"
    using runtime_reachable.step [of sha listens s s1 q "fst (perform_runtime sha listens q s1)"] by simp
  then show ?case using Cons.IH by simp
qed simp

section \<open>Which operations keep an invariant whatever their outcome\<close>

abbreviation safe :: "(db \<Rightarrow> bool) \<Rightarrow> repo \<Rightarrow> bool" where
  "safe I s \<equiv> idle s \<and> I (db s)"

lemma atomic_emit: "atomic (emitLifecycle listens i)"
proof -
  have "atomic (andThen (recordRuntimeLifecycle c j rt g st e) (\<lambda>_. succeed ()))" for c j rt g st e
  proof -
    have "atomic (recordRuntimeLifecycle c j rt g st e)"
      unfolding recordRuntimeLifecycle_def by (rule atomic_writeTx)
    then show ?thesis
      by (auto simp: atomic_def andThen_def succeed_def split: prod.splits sum.splits)
  qed
  then show ?thesis
    by (auto simp: atomic_def emitLifecycle_def split: option.splits)
qed

lemma atomic_runtime_ops:
  "atomic (create_runtime sha c)" "atomic (tryClaimProviderThreadId i t b)" "atomic (bind_checked bi)"
  "atomic (attach_runtime ai)" "atomic (detach_attachment i)" "atomic (renewControllerLease i l)"
  "atomic (mark_checked i g st r)" "atomic (appendEvent e)" "atomic (consumeCapability k)" "atomic (setQuota m a o1)"
proof -
  show "atomic (create_runtime sha c)" "atomic (attach_runtime ai)"
    using atomic_throw_if [OF atomic_throw_if [OF atomic_runTx]]
    by (simp_all add: create_runtime_def [abs_def] attach_runtime_def [abs_def])
  show "atomic (tryClaimProviderThreadId i t b)"
    using atomic_runTx by (auto simp: tryClaimProviderThreadId_def [abs_def] atomic_def)
  show "atomic (bind_checked bi)" "atomic (detach_attachment i)" "atomic (renewControllerLease i l)"
    "atomic (mark_checked i g st r)" "atomic (appendEvent e)" "atomic (consumeCapability k)"
    unfolding bind_checked_def detach_attachment_def renewControllerLease_def mark_checked_def appendEvent_def
      consumeCapability_def by (rule atomic_runTx)+
  show "atomic (setQuota m a o1)"
    by (auto simp: atomic_def setQuota_def Let_def idle_def set_db_def tick_def)
qed

context runtime_frame
begin

lemma emit_safe: "keeps (safe I) (emitLifecycle listens i)"
  by (rule atomic_keeps [OF atomic_emit emit_kept])

lemma bind_safe: "keeps (safe I) (bind_runtime listens input)"
proof -
  have "preserves I db (bind_checked input)"
    unfolding bind_checked_def
    by (rule runtime_tx.run_preserves, rule preservesI)
      (auto simp: Let_def frame split: option.splits sum.splits if_splits)
  then have "keeps (safe I) (andThen (bind_checked input)
      (\<lambda>b. andThen (emitLifecycle listens (br_runtimeId input)) (\<lambda>_. succeed b)))"
    by (intro keeps_andThen atomic_keeps [OF atomic_runtime_ops(3)] emit_safe keeps_succeed)
  then show ?thesis
    by (auto simp: keeps_def bind_runtime_def)
qed

lemma mark_safe: "keeps (safe I) (markState listens i g st r)"
  unfolding markState_def
  by (intro keeps_andThen atomic_keeps [OF atomic_runtime_ops(7) mark_checked_kept] emit_safe keeps_succeed)

lemma setProviderThreadId_safe: "keeps (safe I) (setProviderThreadId i t)"
  unfolding setProviderThreadId_def
  by (rule keeps_andThen [OF atomic_keeps [OF atomic_runtime_ops(2) claim_kept]])
    (auto simp: keeps_def split: claim.splits)

lemma clearQuota_safe: "keeps (safe I) (modify (clearQuota m))"
  by (rule keeps_modify) (auto simp: clearQuota_def frame idle_def set_db_def)

lemmas frame_safe =
  atomic_keeps [OF atomic_runtime_ops(1) create_kept] atomic_keeps [OF atomic_runtime_ops(2) claim_kept]
  atomic_keeps [OF atomic_runtime_ops(8) appendEvent_kept] atomic_keeps [OF atomic_runtime_ops(10) setQuota_kept]
  bind_safe mark_safe setProviderThreadId_safe clearQuota_safe

lemma keeps_ignore: "keeps (safe I) m \<Longrightarrow> keeps (safe I) (ignore m)"
  unfolding ignore_def by (rule keeps_andThen [OF _ keeps_succeed])

lemma perform_safe:
  assumes "\<And>input. preserves I db (attach_runtime input)" "\<And>i. preserves I db (detach_attachment i)"
    "\<And>i l. preserves I db (renewControllerLease i l)" "\<And>k. preserves I db (consumeCapability k)"
  shows "keeps (safe I) (perform_runtime sha listens q)"
  using atomic_keeps [OF atomic_runtime_ops(4) assms(1)] atomic_keeps [OF atomic_runtime_ops(5) assms(2)]
    atomic_keeps [OF atomic_runtime_ops(6) assms(3)] atomic_keeps [OF atomic_runtime_ops(9) assms(4)]
  by (cases q) (auto intro!: keeps_ignore frame_safe)

lemma reachable_safe:
  assumes "runtime_reachable sha listens s s1" and "safe I s"
    and "\<And>q. keeps (safe I) (perform_runtime sha listens q)"
  shows "safe I s1"
  using assms(1,2)
proof (induction rule: runtime_reachable.induct)
  case (step s s1 q r s2)
  then show ?case using keepsD [OF assms(3)] by blast
qed

end

lemma consume_table: "preserves I db (consumeCapability k)"
  if "\<And>d. I d \<Longrightarrow> I (d\<lparr>capability_replays := capability_replays d @ [k]\<rparr>)"
  unfolding consumeCapability_def
  by (rule runtime_tx.run_preserves, rule preservesI) (auto split: if_splits intro: that)

lemma attachments_perform: "keeps (safe attachments_ok) (perform_runtime sha listens q)"
  by (rule attachment_frame.perform_safe [OF attach_ok detach_ok renew_ok consume_table]) simp

lemma events_perform: "keeps (safe events_ok) (perform_runtime sha listens q)"
proof (rule event_frame.perform_safe [OF event_frame.attach_kept event_frame.detach_kept event_frame.renew_kept consume_table])
  show "events_ok d \<Longrightarrow> events_ok (d\<lparr>capability_replays := capability_replays d @ [k]\<rparr>)" for d k
    by (rule events_ok_cong [THEN iffD2]) simp_all
qed

lemma replay_perform: "keeps (safe (\<lambda>d. k \<in> set (capability_replays d))) (perform_runtime sha listens q)"
  by (rule replay_frame.perform_safe [OF replay_frame.attach_kept replay_frame.detach_kept replay_frame.renew_kept
        consume_table]) simp

section \<open>Properties\<close>

text \<open>
  C7. However creations, attachments, detachments, lease renewals and takeovers follow on one another, a
  generation of a runtime never has two live controllers, and a viewer never two attachment rows.
\<close>

theorem one_controller:
  assumes "runtime_reachable sha listens s s1" and "idle s" and "runtime_attachments (db s) = []"
    and "a \<in> set (runtime_attachments (db s1))" "b \<in> set (runtime_attachments (db s1))"
    and "a_runtimeId a = a_runtimeId b" "a_generation a = a_generation b"
    and "a_viewerId a = a_viewerId b \<or>
      a_mode a = Controller \<and> a_detachedAt a = None \<and> a_mode b = Controller \<and> a_detachedAt b = None"
  shows "a = b"
proof -
  have "safe attachments_ok s"
    using assms(2,3) by (simp add: attachments_ok_def)
  from attachment_frame.reachable_safe [OF assms(1) this attachments_perform]
  have ok: "attachments_ok (db s1)" by simp
  have "a_attachmentId a = a_attachmentId b"
    by (rule attachments_okD [OF ok assms(4,5)]) (use assms(6-8) in \<open>auto simp: same_generation_def controls_def\<close>)
  with ok assms(4,5) show ?thesis
    by (auto simp: attachments_ok_def intro: distinct_keyD)
qed

text \<open>
  C8. The events of a generation are numbered 1, 2, 3, ... without a gap, in the order in which they were
  appended, whatever operations append them.
\<close>

theorem events_gapless:
  assumes "runtime_reachable sha listens s s1" and "idle s" and "runtime_events (db s) = []"
  shows "map e_eventSeq (filter (\<lambda>e. e_runtimeId e = i \<and> e_generation e = g) (runtime_events (db s1))) =
    [1..<Suc (length (filter (\<lambda>e. e_runtimeId e = i \<and> e_generation e = g) (runtime_events (db s1))))]"
proof -
  have "safe events_ok s"
    using assms(2,3) by (simp add: events_ok_def event_seqs_def)
  from event_frame.reachable_safe [OF assms(1) this events_perform]
  have "events_ok (db s1)" by simp
  then have "event_seqs i g (db s1) = [1..<Suc (length (event_seqs i g (db s1)))]"
    by (simp only: events_ok_def)
  then show ?thesis
    by (simp only: event_seqs_def length_map)
qed

text \<open>
  C9. A capability is consumed at most once: once it was accepted, no later request, whatever happened in
  between, is accepted with the same capability id or the same nonce for that generation.
\<close>

theorem capability_single_use:
  assumes "idle s" and "consumeCapability k s = (Inr b, s1)" and "runtime_reachable sha listens s1 s2"
    and "k_runtimeId k' = k_runtimeId k" "k_generation k' = k_generation k"
    and "k_capabilityId k' = k_capabilityId k \<or> k_nonceHash k' = k_nonceHash k"
  shows "fst (consumeCapability k' s2) \<in> {throw ''capabilityExpired'', throw ''capabilityReplay''}"
proof -
  have "k \<in> set (capability_replays (db s1))"
    using runtime_tx.committed [OF assms(2) [unfolded consumeCapability_def]] by (auto split: if_splits)
  moreover have "idle s1"
    using atomicD(1) [OF atomic_runtime_ops(9) assms(1,2)] .
  ultimately have s2: "safe (\<lambda>d. k \<in> set (capability_replays d)) s2"
    using replay_frame.reachable_safe [OF assms(3) _ replay_perform, of k] by blast
  then have "replay_conflict k' (db s2)"
    using assms(4-6) by (auto simp: replay_conflict_def exists_row_iff)
  with s2 show ?thesis
    by (auto simp: consumeCapability_def runTx_def idle_def now_def split: prod.splits if_splits)
qed

text \<open>
  A concrete start: one session, no runtimes, and a stand-in for SHA-256 that the witnesses evaluate.
\<close>

definition demo_session :: session where
  "demo_session = \<lparr>s_id = ''wk'', s_registeredAt = 0, s_endedAt = None, s_displayName = None,
     s_role = Some Worker, s_providerThreadId = None, s_deliveryMode = Runtime_Delivery, s_externalOwner = None,
     s_externalAgentId = None, s_externalId = None\<rparr>"

definition runtime_start :: repo where
  "runtime_start = \<lparr>db = empty_db\<lparr>sessions := [demo_session]\<rparr>, transactionDepth = 0, outerTransaction = False,
     notified = [], clock = Suc, reads = 0, ids = (\<lambda>n. ''x'' @ digits n), drawn = 0\<rparr>"

definition quota_start :: repo where
  "quota_start = runtime_start\<lparr>db := (db runtime_start)\<lparr>runtime_quotas := [\<lparr>q_machineId = ''mac'',
     q_maxActiveRuntimes = 2, q_maxObserversPerRuntime = 2, q_updatedAt = 0\<rparr>]\<rparr>\<rparr>"

definition demo_sha :: "nat list \<Rightarrow> string" where
  "demo_sha bs = digits (sum_list bs)"

definition demo_create :: create_runtime_input where
  "demo_create = \<lparr>cr_runtimeId = ''rt'', cr_homeAuthorityId = ''home'', cr_sessionId = ''wk'', cr_generation = 1,
     cr_protocolVersion = 1, cr_transportKind = LocalPty, cr_machineId = ''mac'',
     cr_reconnectSecret = replicate 32 7, cr_sessionProof = None, cr_providerThreadId = None,
     cr_effectiveCwd = None, cr_effectiveHome = None\<rparr>"

definition demo_attach :: "string \<Rightarrow> string \<Rightarrow> time option \<Rightarrow> bool \<Rightarrow> attach_runtime_input" where
  "demo_attach i viewer lease override = \<lparr>ar_attachmentId = i, ar_runtimeId = ''rt'', ar_homeAuthorityId = ''home'',
     ar_sessionId = ''wk'', ar_generation = 1, ar_viewerId = viewer, ar_mode = Controller,
     ar_leaseExpiresAt = lease, ar_outputCursor = None, ar_operatorOverride = override, ar_allowRecovery = False\<rparr>"

definition demo_capability :: capability_replay where
  "demo_capability = \<lparr>k_runtimeId = ''rt'', k_generation = 1, k_capabilityId = ''cap'', k_nonceHash = ''nonce'',
     k_action = Input_Action, k_expiresAt = 100\<rparr>"

definition takeover :: "runtime_request list" where
  "takeover = [Create_Runtime demo_create, Attach_Viewer (demo_attach ''a1'' ''v1'' (Some 90) False),
     Attach_Viewer (demo_attach ''a2'' ''v2'' (Some 95) False), Attach_Viewer (demo_attach ''a3'' ''v3'' (Some 99) True),
     Mark_State ''rt'' 1 Running None]"

lemma takeover_reachable: "runtime_reachable demo_sha False quota_start (run_runtime demo_sha False takeover quota_start)"
  by (rule runtime_reachable_run [OF runtime_reachable.start])

lemma runtime_start_empty: "idle quota_start" "runtime_attachments (db quota_start) = []" "runtime_events (db quota_start) = []"
  by (simp_all add: quota_start_def runtime_start_def idle_def empty_db_def)

theorem one_controller_witness:
  "let s = run_runtime demo_sha False takeover quota_start in
   map (\<lambda>a. (a_attachmentId a, a_detachedAt a = None)) (runtime_attachments (db s)) = [(''a1'', False), (''a3'', True)] \<and>
   (\<forall>a \<in> set (runtime_attachments (db s)). \<forall>b \<in> set (runtime_attachments (db s)).
      live_controller ''rt'' 1 a \<and> live_controller ''rt'' 1 b \<longrightarrow> a = b)"
proof -
  let ?s = "run_runtime demo_sha False takeover quota_start"
  have "map (\<lambda>a. (a_attachmentId a, a_detachedAt a = None)) (runtime_attachments (db ?s)) = [(''a1'', False), (''a3'', True)]"
    by code_simp
  moreover have "a = b" if "a \<in> set (runtime_attachments (db ?s))" "b \<in> set (runtime_attachments (db ?s))"
    "live_controller ''rt'' 1 a" "live_controller ''rt'' 1 b" for a b
    using one_controller [OF takeover_reachable runtime_start_empty(1,2) that(1,2)] that(3,4)
    by (simp add: live_controller_def)
  ultimately show ?thesis by (simp add: Let_def)
qed

theorem events_gapless_witness:
  "let s = run_runtime demo_sha False takeover quota_start in
   map e_eventSeq (filter (\<lambda>e. e_runtimeId e = ''rt'' \<and> e_generation e = 1) (runtime_events (db s))) = [1, 2]"
proof -
  let ?s = "run_runtime demo_sha False takeover quota_start"
  have "length (filter (\<lambda>e. e_runtimeId e = ''rt'' \<and> e_generation e = 1) (runtime_events (db ?s))) = 2"
    by code_simp
  with events_gapless [OF takeover_reachable runtime_start_empty(1,3), of "''rt''" 1] show ?thesis
    by (simp add: Let_def numeral_2_eq_2)
qed

theorem capability_single_use_witness:
  "let s = run_runtime demo_sha False [Create_Runtime demo_create] quota_start;
       s1 = snd (consumeCapability demo_capability s) in
   fst (consumeCapability demo_capability s) = Inr True \<and>
   fst (consumeCapability (demo_capability\<lparr>k_capabilityId := ''other''\<rparr>) s1) = throw ''capabilityReplay''"
proof -
  let ?s = "run_runtime demo_sha False [Create_Runtime demo_create] quota_start"
  let ?s1 = "snd (consumeCapability demo_capability ?s)"
  let ?k = "demo_capability\<lparr>k_capabilityId := ''other''\<rparr>"
  have idle: "idle ?s" by code_simp
  have first: "fst (consumeCapability demo_capability ?s) = Inr True" by code_simp
  then have run: "consumeCapability demo_capability ?s = (Inr True, ?s1)"
    by (simp add: prod_eq_iff)
  have "fst (consumeCapability ?k ?s1) \<in> {throw ''capabilityExpired'', throw ''capabilityReplay''}"
    by (rule capability_single_use [OF idle run runtime_reachable.start]) (simp_all add: demo_capability_def)
  moreover have "fst (consumeCapability ?k ?s1) \<noteq> throw ''capabilityExpired''"
    by code_simp
  ultimately show ?thesis
    using first by (simp add: Let_def)
qed

section \<open>Creation and claims\<close>

text \<open>
  A creation that succeeds for a registered session has room in the machine's quota, stores the runtime
  in state creating with the hashed secret, and appends its created event; the machine's active runtimes do
  not exceed the quota afterwards.
\<close>

theorem create_within_quota:
  assumes "create_runtime sha input s = (Inr r, s1)" and "currentSession (cr_sessionId input) (db s) = Some x"
  shows "(\<exists>t. r = runtime_row sha input t x) \<and> runtimes (db s1) = runtimes (db s) @ [r] \<and>
    active_count (cr_machineId input) (db s1) = Suc (active_count (cr_machineId input) (db s)) \<and>
    active_count (cr_machineId input) (db s1) \<le> q_maxActiveRuntimes (fst (quota (cr_machineId input) s)) \<and>
    (\<exists>e. runtime_events (db s1) = runtime_events (db s) @ [e] \<and> e_kind e = Ev_created \<and> e_runtimeId e = cr_runtimeId input)"
proof -
  let ?m = "cr_machineId input"
  let ?body = "\<lambda>s. let (q, s1) = quota ?m s in
        if q_maxActiveRuntimes q \<le> active_count ?m (db s1) then (throw ''runtimeQuotaExceeded'', s1)
        else andThen (insert_runtime sha input) (\<lambda>_. read_created input) s1"
  from assms(1) have "runTx ?body s = (Inr r, s1)"
    by (auto simp: create_runtime_def split: if_splits)
  from runtime_tx.committed [OF this] obtain s0 s2 where tx: "db s0 = db s" "db s1 = db s2"
    and body: "?body s0 = (Inr r, s2)" by blast
  obtain q s3 where q: "quota ?m s0 = (q, s3)"
    by (cases "quota ?m s0")
  have limit: "q_maxActiveRuntimes q = q_maxActiveRuntimes (fst (quota ?m s))"
    using q tx(1) by (auto simp: quota_def split: option.splits)
  from body have body': "(if q_maxActiveRuntimes q \<le> active_count ?m (db s3) then (throw ''runtimeQuotaExceeded'', s3)
      else andThen (insert_runtime sha input) (\<lambda>_. read_created input) s3) = (Inr r, s2)"
    unfolding q by simp
  from body' have room: "active_count ?m (db s3) < q_maxActiveRuntimes q"
    by (cases "q_maxActiveRuntimes q \<le> active_count ?m (db s3)") simp_all
  from body' room have "andThen (insert_runtime sha input) (\<lambda>_. read_created input) s3 = (Inr r, s2)"
    by simp
  then obtain u s4 where ins: "insert_runtime sha input s3 = (Inr u, s4)" and read: "read_created input s4 = (Inr r, s2)"
    by (auto simp: andThen_Inr_iff)
  have s3: "db s3 = db s"
    using quota_db [OF q] tx(1) by simp
  let ?row = "runtime_row sha input (now s3) x"
  have fresh: "\<not> runtime_conflict ?row (db s)" and s4: "db s4 = (db s)\<lparr>runtimes := runtimes (db s) @ [?row]\<rparr>"
    using ins assms(2) s3 by (auto simp: insert_runtime_def Let_def split: if_splits)
  have "get_runtime (cr_runtimeId input) (db s) = None"
    using fresh by (auto simp: runtime_conflict_def exists_row_iff get_runtime_def lookup_by_None runtime_row_def)
  then have got: "get_runtime (cr_runtimeId input) (db s4) = Some ?row"
    using s4 by (simp add: get_runtime_def lookup_by_append runtime_row_def)
  from read got obtain e where r: "r = ?row" and ev: "appendEventUnsafe (created_event input) s4 = (Inr e, s2)"
    by (auto simp: read_created_def andThen_Inr_iff succeed_def)
  from appendEventUnsafe_Inr [OF ev] have s2: "db s2 = (db s4)\<lparr>runtime_events := runtime_events (db s4) @ [e]\<rparr>"
    and e: "e_runtimeId e = cr_runtimeId input"
    by (auto simp: created_event_def)
  have kind: "e_kind e = Ev_created"
    using ev by (auto simp: appendEventUnsafe_def Let_def created_event_def split: if_splits option.splits)
  have count: "active_count ?m (db s1) = Suc (active_count ?m (db s))"
    using tx(2) s2 s4 by (simp add: active_count_def count_where_append runtime_row_def active_state_def)
  with room limit s3 have "active_count ?m (db s1) \<le> q_maxActiveRuntimes (fst (quota ?m s))"
    by simp
  with r count tx(2) s2 s4 e kind show ?thesis by auto
qed

theorem create_within_quota_witness:
  "active_count ''mac'' (db (snd (create_runtime demo_sha demo_create quota_start))) = 1"
proof -
  have "succeeded (fst (create_runtime demo_sha demo_create quota_start))" by code_simp
  then obtain r where "create_runtime demo_sha demo_create quota_start =
      (Inr r, snd (create_runtime demo_sha demo_create quota_start))"
    by (metis prod.collapse succeeded_iff)
  moreover have "currentSession (cr_sessionId demo_create) (db quota_start) = Some demo_session" by code_simp
  ultimately have "active_count (cr_machineId demo_create) (db (snd (create_runtime demo_sha demo_create quota_start))) =
      Suc (active_count (cr_machineId demo_create) (db quota_start))"
    using create_within_quota by blast
  moreover have "active_count (cr_machineId demo_create) (db quota_start) = 0" by code_simp
  ultimately show ?thesis by (simp add: demo_create_def)
qed

text \<open>
  A runtime that newly claims a provider conversation is, afterwards, the only live runtime holding it:
  the claim fails when any other live runtime holds it.
\<close>

theorem claim_exclusive:
  assumes "tryClaimProviderThreadId i t allowReplace s = (Inr (Claimed r), s1)"
    and "get_runtime i (db s) = Some r0" "rt_providerThreadId r0 \<noteq> Some t"
    and "\<forall>q \<in> set (runtimes (db s)). rt_runtimeId q \<noteq> []"
  shows "rt_runtimeId r = i \<and> rt_providerThreadId r = Some t \<and> (rt_providerThreadId r0 = None \<or> allowReplace) \<and>
    (\<forall>q \<in> set (runtimes (db s1)). \<not> live_holder t (Some i) q)"
proof -
  let ?body = "\<lambda>s. case get_runtime i (db s) of
          None \<Rightarrow> (Inr (Not_Claimed ''runtimeNotFound''), s)
        | Some r \<Rightarrow>
            if rt_providerThreadId r = Some t then (Inr (Claimed r), s)
            else if rt_providerThreadId r \<noteq> None \<and> \<not> allowReplace then (Inr (Not_Claimed ''alreadyBound''), s)
            else if (case providerThreadHolderUnsafe t (Some i) (db s) of None \<Rightarrow> False | Some i \<Rightarrow> i \<noteq> [])
            then (Inr (Not_Claimed ''conflict''), s)
            else let s1 = set_db (claim_rows i (rt_sessionId r) t (now s)) (tick s)
                 in (case get_runtime i (db s1) of None \<Rightarrow> (Inl SqliteMisuse, s1) | Some q \<Rightarrow> (Inr (Claimed q), s1))"
  from assms(1) have "runTx ?body s = (Inr (Claimed r), s1)"
    by (auto simp: tryClaimProviderThreadId_def split: if_splits)
  from runtime_tx.committed [OF this] obtain s0 s2 where tx: "db s0 = db s" "db s1 = db s2"
    and body: "?body s0 = (Inr (Claimed r), s2)" by blast
  from body assms(2,3) tx have free: "\<not> (case providerThreadHolderUnsafe t (Some i) (db s) of None \<Rightarrow> False | Some i \<Rightarrow> i \<noteq> [])"
    and repl: "rt_providerThreadId r0 = None \<or> allowReplace"
    and s2: "db s2 = claim_rows i (rt_sessionId r0) t (now s0) (db s)" and r: "get_runtime i (db s2) = Some r"
    by (auto simp: Let_def split: if_splits option.splits)
  have none: "\<not> live_holder t (Some i) q" if q: "q \<in> set (runtimes (db s))" for q
  proof
    assume h: "live_holder t (Some i) q"
    then have "filter (live_holder t (Some i)) (runtimes (db s)) \<noteq> []"
      using q by (auto simp: filter_empty_conv)
    then obtain p ps where p: "sort_key rt_createdAt (filter (live_holder t (Some i)) (runtimes (db s))) = p # ps"
      by (metis neq_Nil_conv set_empty set_sort)
    then have "p \<in> set (runtimes (db s))"
      by (metis filter_is_subset list.set_intros(1) set_sort subset_iff)
    with assms(4) have "rt_runtimeId p \<noteq> []" by blast
    with p free show False by (simp add: providerThreadHolderUnsafe_def)
  qed
  have "\<not> live_holder t (Some i) q" if "q \<in> set (runtimes (db s1))" for q
  proof -
    from that tx s2 obtain p where p: "p \<in> set (runtimes (db s))"
      "q = (if rt_runtimeId p = i then p\<lparr>rt_providerThreadId := Some t, rt_updatedAt := now s0\<rparr> else p)"
      by (auto simp: claim_rows_def in_update_where)
    with none [OF p(1)] show ?thesis by (auto simp: live_holder_def split: if_splits)
  qed
  moreover have "rt_runtimeId r = i" "rt_providerThreadId r = Some t"
  proof -
    have "get_runtime i (db s2) = map_option (\<lambda>p. if rt_runtimeId p = i
        then p\<lparr>rt_providerThreadId := Some t, rt_updatedAt := now s0\<rparr> else p) (get_runtime i (db s))"
      using s2 by (simp add: get_runtime_def claim_rows_def lookup_by_update_where)
    with r assms(2) lookup_by_SomeD [of rt_runtimeId i "runtimes (db s)" r0]
    show "rt_runtimeId r = i" "rt_providerThreadId r = Some t"
      by (auto simp: get_runtime_def)
  qed
  ultimately show ?thesis using repl by blast
qed

theorem claim_exclusive_witness:
  "let s = run_runtime demo_sha False [Create_Runtime demo_create] quota_start;
       s1 = snd (tryClaimProviderThreadId ''rt'' ''thread'' False s) in
   \<forall>q \<in> set (runtimes (db s1)). \<not> live_holder ''thread'' (Some ''rt'') q"
proof -
  let ?s = "run_runtime demo_sha False [Create_Runtime demo_create] quota_start"
  let ?op = "tryClaimProviderThreadId ''rt'' ''thread'' False ?s"
  obtain r0 where r0: "get_runtime ''rt'' (db ?s) = Some r0"
  proof -
    have "get_runtime ''rt'' (db ?s) \<noteq> None" by code_simp
    then show ?thesis using that by blast
  qed
  have "(case get_runtime ''rt'' (db ?s) of Some r \<Rightarrow> rt_providerThreadId r = None | None \<Rightarrow> False)"
    by code_simp
  with r0 have unbound: "rt_providerThreadId r0 \<noteq> Some ''thread''" by simp
  have "(case fst ?op of Inr (Claimed r) \<Rightarrow> True | _ \<Rightarrow> False)" by code_simp
  then obtain r where "?op = (Inr (Claimed r), snd ?op)"
    by (cases ?op) (auto split: sum.splits claim.splits)
  moreover have "\<forall>q \<in> set (runtimes (db ?s)). rt_runtimeId q \<noteq> []" by code_simp
  ultimately show ?thesis
    using claim_exclusive [OF _ r0 unbound] by (simp add: Let_def)
qed

end
