(* ===== verification/History.thy ===== *)
theory History
  imports Messages
begin

text \<open>
  What \<open>src/roomsd/src/storage/repository.ts\<close> reads back from the journal: folded messages and
  snapshots, replay after a cursor, the bounded pages of a session, a channel or a reply thread, direct
  inboxes, control pages of many channels, and literal text search.
\<close>

section \<open>Folding messages with their delivery records\<close>

text \<open>
  \<open>foldMessageEvents\<close> keeps a \<open>Map\<close> from event id to message, in insertion order; a delivery record
  overwrites the statuses of the message it names, if that message is in the map.
\<close>

definition apply_delivery :: "statuses \<Rightarrow> string list \<Rightarrow> message \<Rightarrow> message" where
  "apply_delivery st delivered m =
     m\<lparr>msg_recipientStatuses := st, msg_deliveredRecipientSessionIds := map Some delivered\<rparr>"

definition fold_row :: "change \<Rightarrow> (string \<times> message) list \<Rightarrow> (string \<times> message) list" where
  "fold_row row acc =
     (if ch_kind row = ''message.sent''
      then (case ch_payload row of Message_Sent m \<Rightarrow> put_field (msg_id m) m acc | _ \<Rightarrow> acc)
      else if ch_kind row = ''message.delivery''
      then (case ch_payload row of
              Message_Delivery i st delivered _ \<Rightarrow>
                (case map_of acc i of None \<Rightarrow> acc | Some m \<Rightarrow> put_field i (apply_delivery st delivered m) acc)
            | _ \<Rightarrow> acc)
      else acc)"

definition fold_rows :: "change list \<Rightarrow> (string \<times> message) list \<Rightarrow> (string \<times> message) list" where
  "fold_rows rows acc = fold fold_row rows acc"

definition foldMessageEvents :: "change list \<Rightarrow> message list" where
  "foldMessageEvents rows = map snd (fold_rows rows [])"

section \<open>Snapshots and replay\<close>

record snapshot =
  sn_cursor :: nat
  sn_channel :: channel
  sn_sessions :: "session list"
  sn_memberships :: "membership list"
  sn_events :: "message list"

definition message_rows :: "string \<Rightarrow> change list \<Rightarrow> change list" where
  "message_rows channelId rows =
     filter (\<lambda>c. ch_channelId c = Some channelId \<and> starts_with ''message.'' (ch_kind c)) rows"

text \<open>\<open>snapshot\<close> opens its own read transaction, which SQLite refuses inside another one.\<close>

definition snapshot :: "string \<Rightarrow> repo \<Rightarrow> snapshot result" where
  "snapshot channelId s =
     (if transactionDepth s > 0 \<or> outerTransaction s then Inl SqliteMisuse
      else (case currentChannel channelId (db s) of
        None \<Rightarrow> throw ''channelNotFound''
      | Some c \<Rightarrow>
          Inr \<lparr>sn_cursor = latestCursor (db s), sn_channel = c,
               sn_sessions = List.map_filter (\<lambda>m. currentSession (m_sessionId m) (db s)) (active_members channelId (db s)),
               sn_memberships = active_members channelId (db s),
               sn_events = foldMessageEvents (message_rows channelId (changes (db s)))\<rparr>))"

definition after_rows :: "nat \<Rightarrow> db \<Rightarrow> change list" where
  "after_rows n d = filter (\<lambda>c. ch_cursor c > n) (changes d)"

definition replay :: "string \<Rightarrow> string option \<Rightarrow> db \<Rightarrow> change list result" where
  "replay afterCursor channelId d =
     (case cursor_decode afterCursor of
        None \<Rightarrow> throw ''invalidCursor''
      | Some n \<Rightarrow>
          Inr (case channelId of
                 None \<Rightarrow> after_rows n d
               | Some i \<Rightarrow> if i = [] then after_rows n d
                   else filter (\<lambda>c. ch_channelId c = Some i \<or> ch_channelId c = None) (after_rows n d)))"

definition valid_limit :: "int \<Rightarrow> nat \<Rightarrow> bool" where
  "valid_limit limit maximum \<longleftrightarrow> safe_integer limit \<and> 1 \<le> limit \<and> limit \<le> int maximum"

text \<open>Channel federation must never inherit channel-less global messages.\<close>

definition replayChannelMessages :: "string \<Rightarrow> string \<Rightarrow> int \<Rightarrow> db \<Rightarrow> change list result" where
  "replayChannelMessages afterCursor channelId limit d =
     (case cursor_decode afterCursor of
        None \<Rightarrow> throw ''invalidCursor''
      | Some n \<Rightarrow>
          if blank channelId then throw ''invalidChannel''
          else if \<not> valid_limit limit 100 then throw ''invalidLimit''
          else Inr (take (nat limit) (filter (\<lambda>c. ch_channelId c = Some channelId \<and> ch_kind c = ''message.sent'')
                     (after_rows n d))))"

section \<open>Newest-first pages\<close>

record message_page =
  pg_events :: "message list"
  pg_cursor :: nat
  pg_oldestCursor :: "nat option"
  pg_hasMore :: bool

text \<open>
  \<open>ORDER BY cursor DESC LIMIT limit + 1\<close>, then the extra row is cut and the page put back in cursor
  order.
\<close>

definition newest_page :: "nat \<Rightarrow> 'a list \<Rightarrow> 'a list \<times> bool" where
  "newest_page limit rows =
     (let fetched = take (limit + 1) (rev rows);
          hasMore = length fetched > limit;
          kept = (if hasMore then take limit fetched else fetched)
      in (rev kept, hasMore))"

lemma newest_page_eq: "newest_page limit rows = (drop (length rows - limit) rows, limit < length rows)"
proof (cases "limit < length rows")
  case True
  then have "Suc (length rows - Suc limit) = length rows - limit" by simp
  with True show ?thesis
    by (simp add: newest_page_def Let_def rev_take take_rev)
next
  case False
  then show ?thesis
    by (simp add: newest_page_def Let_def rev_take take_rev)
qed

definition sent_messages :: "change list \<Rightarrow> (nat \<times> message) list" where
  "sent_messages rows = List.map_filter (\<lambda>c. map_option (\<lambda>m. (ch_cursor c, m)) (sent_message c)) rows"

definition make_page :: "nat \<Rightarrow> nat \<Rightarrow> (nat \<times> message) list \<Rightarrow> message_page" where
  "make_page limit cursor rows =
     (let (kept, hasMore) = newest_page limit rows in
      \<lparr>pg_events = map snd kept, pg_cursor = cursor,
       pg_oldestCursor = (case kept of [] \<Rightarrow> None | (n, _) # _ \<Rightarrow> Some n), pg_hasMore = hasMore\<rparr>)"

text \<open>The messages a session sent, was addressed by, or was delivered.\<close>

definition relevant_to :: "string \<Rightarrow> message \<Rightarrow> bool" where
  "relevant_to sessionId m \<longleftrightarrow>
     msg_senderSessionId m = sessionId
     \<or> (case msg_target m of None \<Rightarrow> False | Some g \<Rightarrow> tg_sessionId g = Some sessionId)
     \<or> Some sessionId \<in> set (msg_deliveredRecipientSessionIds m)
     \<or> (case msg_target m of None \<Rightarrow> False
        | Some g \<Rightarrow> (case tg_sessionIds g of None \<Rightarrow> False | Some is \<Rightarrow> sessionId \<in> set is))"

definition correlated_reply :: "message \<Rightarrow> string option" where
  "correlated_reply m =
     (case msg_correlation m of
        None \<Rightarrow> None
      | Some c \<Rightarrow> (case jfield ''replyToEventId'' c of Some (JStr i) \<Rightarrow> Some i | _ \<Rightarrow> None))"

definition option_default :: "'a \<Rightarrow> 'a option \<Rightarrow> 'a" where
  "option_default a v = (case v of None \<Rightarrow> a | Some x \<Rightarrow> x)"

definition messageReplies ::
  "string \<Rightarrow> string option \<Rightarrow> string option \<Rightarrow> string option \<Rightarrow> int option \<Rightarrow> db \<Rightarrow> message_page result" where
  "messageReplies replyTo afterCursor channelId sessionId limit d =
     (case cursor_decode (option_default ''0'' afterCursor) of
        None \<Rightarrow> throw ''invalidCursor''
      | Some after \<Rightarrow>
          let lim = option_default 50 limit in
          if \<not> valid_limit lim 500 then throw ''invalidLimit''
          else (case messageById replyTo channelId d of
            Inl e \<Rightarrow> Inl e
          | Inr (parent, _) \<Rightarrow>
              Inr (make_page (nat lim) (latestCursor d)
                (filter (\<lambda>(_, m). correlated_reply m = Some replyTo \<and>
                    (case sessionId of None \<Rightarrow> True | Some i \<Rightarrow> i = [] \<or> relevant_to i m))
                  (sent_messages (filter (\<lambda>c. ch_channelId c = msg_channelId parent) (after_rows after d)))))))"

text \<open>\<open>COALESCE(MAX(cursor), n)\<close> over the rows after \<open>n\<close>.\<close>

definition latest_after :: "nat \<Rightarrow> change list \<Rightarrow> nat" where
  "latest_after n rows = (if rows = [] then n else foldr max (map ch_cursor rows) 0)"

definition sessionMessages ::
  "string \<Rightarrow> string option \<Rightarrow> string option \<Rightarrow> int option \<Rightarrow> db \<Rightarrow> message_page result" where
  "sessionMessages sessionId afterCursor channelId limit d =
     (case cursor_decode (option_default ''0'' afterCursor) of
        None \<Rightarrow> throw ''invalidCursor''
      | Some n \<Rightarrow>
          let lim = option_default 50 limit in
          if \<not> valid_limit lim 500 then throw ''invalidLimit''
          else let rows = filter (in_channel channelId) (after_rows n d)
               in Inr (make_page (nat lim) (latest_after n rows)
                         (filter (\<lambda>(_, m). relevant_to sessionId m) (sent_messages rows))))"

definition channelMessages ::
  "string \<Rightarrow> string option \<Rightarrow> int option \<Rightarrow> db \<Rightarrow> message_page result" where
  "channelMessages channelId afterCursor limit d =
     (case cursor_decode (option_default ''0'' afterCursor) of
        None \<Rightarrow> throw ''invalidCursor''
      | Some n \<Rightarrow>
          let lim = option_default 50 limit in
          if \<not> valid_limit lim 500 then throw ''invalidLimit''
          else if blank channelId then throw ''invalidChannel''
          else let rows = filter (\<lambda>c. ch_channelId c = Some channelId) (after_rows n d)
               in Inr (make_page (nat lim) (latest_after n rows) (sent_messages rows)))"

section \<open>Inboxes and deduplicated lookups\<close>

record inbox_item =
  ib_cursor :: nat
  ib_channel :: "string option"
  ib_message :: message
  ib_occurredAt :: time

definition direct_to :: "string \<Rightarrow> message \<Rightarrow> bool" where
  "direct_to sessionId m \<longleftrightarrow>
     (case msg_target m of None \<Rightarrow> False
      | Some g \<Rightarrow> tg_kind g = Some ''direct'' \<and> tg_sessionId g = Some sessionId)"

definition delivery_of :: "string \<Rightarrow> change \<Rightarrow> (statuses \<times> string list) option" where
  "delivery_of i c =
     (if ch_kind c = ''message.delivery''
      then (case ch_payload c of
              Message_Delivery j st delivered _ \<Rightarrow> if j = i then Some (st, delivered) else None
            | _ \<Rightarrow> None)
      else None)"

text \<open>The first delivery record of the message, as \<open>Array.prototype.find\<close> picks it.\<close>

definition with_first_delivery :: "db \<Rightarrow> message \<Rightarrow> message" where
  "with_first_delivery d m =
     (case List.map_filter (delivery_of (msg_id m)) (changes d) of
        [] \<Rightarrow> m
      | (st, delivered) # _ \<Rightarrow> apply_delivery st delivered m)"

definition listMessages :: "string \<Rightarrow> string \<Rightarrow> string option \<Rightarrow> db \<Rightarrow> (nat \<times> inbox_item list) result" where
  "listMessages sessionId afterCursor channelId d =
     (case cursor_decode afterCursor of
        None \<Rightarrow> throw ''invalidCursor''
      | Some n \<Rightarrow>
          Inr (latestCursor d,
            List.map_filter (\<lambda>c.
              (case sent_message c of
                 None \<Rightarrow> None
               | Some m \<Rightarrow>
                   if direct_to sessionId m \<and> in_channel channelId c
                   then Some \<lparr>ib_cursor = ch_cursor c, ib_channel = ch_channelId c,
                              ib_message = with_first_delivery d m, ib_occurredAt = ch_occurredAt c\<rparr>
                   else None)) (after_rows n d)))"

definition names_event :: "string \<Rightarrow> change \<Rightarrow> bool" where
  "names_event i c =
     (case ch_payload c of
        Message_Sent m \<Rightarrow> msg_id m = i
      | Message_Delivery j _ _ _ \<Rightarrow> j = i
      | Control_Committed k \<Rightarrow> ctl_id k = i
      | _ \<Rightarrow> False)"

definition messageByDeduplicationKey :: "string \<Rightarrow> string \<Rightarrow> db \<Rightarrow> (message option \<times> nat) option" where
  "messageByDeduplicationKey key channelId d =
     (case find (\<lambda>c. ch_channelId c = Some channelId \<and> sent_with_key (JStr key) c) (changes d) of
        None \<Rightarrow> None
      | Some row \<Rightarrow>
          (case sent_message row of
             None \<Rightarrow> None
           | Some stored \<Rightarrow>
               if msg_id stored = [] then None
               else let history = filter (\<lambda>c. ch_channelId c = Some channelId \<and> names_event (msg_id stored) c) (changes d);
                        folded = foldMessageEvents history
                    in Some (case folded of [] \<Rightarrow> None | m # _ \<Rightarrow> Some m, ch_cursor row)))"

section \<open>Control pages of many channels\<close>

record control_page =
  cp_events :: "control list"
  cp_cursor :: nat
  cp_hasMore :: bool

datatype control_answer = Control_Page control_page | Control_Error string

text \<open>\<open>unique\<close>: the first request of each non-blank channel id, in order.\<close>

fun unique_requests :: "(string \<times> string option) list \<Rightarrow> string list \<Rightarrow> (string \<times> string) list" where
  "unique_requests [] seen = []"
| "unique_requests ((rawId, afterCursor) # rest) seen =
     (let i = trim rawId in
      if i = [] \<or> i \<in> set seen then unique_requests rest seen
      else (i, option_default ''0'' afterCursor) # unique_requests rest (i # seen))"

definition control_rows :: "string \<Rightarrow> nat \<Rightarrow> db \<Rightarrow> (nat \<times> control) list" where
  "control_rows channelId n d =
     List.map_filter (\<lambda>c.
       if ch_kind c = ''control.committed'' \<and> ch_channelId c = Some channelId
       then map_option (\<lambda>k. (ch_cursor c, k)) (payload_control (ch_payload c)) else None) (after_rows n d)"

text \<open>The join repeats every control row once for each active membership of the reader.\<close>

definition control_page_of :: "string \<Rightarrow> string \<Rightarrow> nat \<Rightarrow> string \<Rightarrow> db \<Rightarrow> control_answer" where
  "control_page_of channelId sessionId limit cursor d =
     (case cursor_decode cursor of
        None \<Rightarrow> Control_Error ''invalidCursor''
      | Some n \<Rightarrow>
          if currentChannel channelId d = None then Control_Error ''channelNotFound''
          else if \<not> isActiveMember channelId sessionId None d then Control_Error ''controlReaderNotMember''
          else let rows = control_rows channelId n d;
                   joined = count_where (member_of channelId sessionId) (memberships d);
                   shown = concat (map (replicate joined) (take limit rows))
               in Control_Page \<lparr>cp_events = map snd shown,
                    cp_cursor = (if shown = [] then n else fst (last shown)),
                    cp_hasMore = limit < length rows\<rparr>)"

definition channelControlPages ::
  "(string \<times> string option) list \<Rightarrow> string \<Rightarrow> int \<Rightarrow> db \<Rightarrow> (string \<times> control_answer) list result" where
  "channelControlPages requests sessionId limit d =
     (let unique = unique_requests requests [] in
      if unique = [] then Inr []
      else if length unique > 100 then throw ''controlBatchTooLarge''
      else if blank sessionId then throw ''invalidSession''
      else if \<not> valid_limit limit 500 then throw ''invalidLimit''
      else Inr (map (\<lambda>(i, cursor). (i, control_page_of i sessionId (nat limit) cursor d)) unique))"

end
