(* ===== verification/Subscription.thy ===== *)
theory Subscription
  imports History
begin

text \<open>
  Streams of changes to a client. \<open>RoomsSubscriptionService\<close>
  (\<open>src/roomsd/src/api/subscriptions/subscription.ts\<close>) starts from a snapshot or a replay and queues the
  batches its source commits; the \<open>watch\<close> stream of the daemon
  (\<open>src/roomsd/src/runtime/native/composition.ts\<close>) replays first and listens afterwards. The source of a
  subscription is the locale \<open>change_feed\<close>, interpreted on the repository.
\<close>

section \<open>A subscription session\<close>

datatype stream_item = Snapshot_Item snapshot | Delta_Item "change list" nat

record subscription_input =
  sb_channelId :: string
  sb_afterCursor :: "string option"
  sb_filter :: "(change \<Rightarrow> bool) option"

text \<open>
  \<open>taken\<close> is what \<open>next()\<close> has resolved with so far, \<open>waiter\<close> whether a call of it is pending, \<open>listening\<close>
  whether the listener is registered with the source.
\<close>

record stream_session =
  queue :: "stream_item list"
  waiter :: bool
  closed :: bool
  delivered :: "nat option"
  acknowledged :: "nat option"
  listening :: bool
  taken :: "stream_item list"

definition new_session_state :: stream_session where
  "new_session_state = \<lparr>queue = [], waiter = False, closed = False, delivered = None, acknowledged = None,
     listening = False, taken = []\<rparr>"

definition close_stream :: "stream_session \<Rightarrow> stream_session" where
  "close_stream u =
     (if closed u then u else u\<lparr>closed := True, listening := False, queue := [], waiter := False\<rparr>)"

definition next_item :: "stream_session \<Rightarrow> stream_session" where
  "next_item u =
     (case queue u of
        item # rest \<Rightarrow>
          u\<lparr>queue := rest, taken := taken u @ [item],
            delivered := (case item of Delta_Item _ c \<Rightarrow> Some c | Snapshot_Item _ \<Rightarrow> delivered u)\<rparr>
      | [] \<Rightarrow> if closed u then u else u\<lparr>waiter := True\<rparr>)"

text \<open>\<open>BigInt("")\<close> is zero; any other malformed cursor was refused by the replay before.\<close>

definition cursor_value :: "string \<Rightarrow> nat" where
  "cursor_value c = (case cursor_decode c of None \<Rightarrow> 0 | Some n \<Rightarrow> n)"

definition after_cursor :: "subscription_input \<Rightarrow> stream_session \<Rightarrow> nat" where
  "after_cursor input u =
     (case sb_afterCursor input of
        Some c \<Rightarrow> cursor_value c
      | None \<Rightarrow> (case delivered u of None \<Rightarrow> 0 | Some n \<Rightarrow> n))"

definition wanted :: "subscription_input \<Rightarrow> change \<Rightarrow> bool" where
  "wanted input c \<longleftrightarrow>
     (ch_channelId c = Some (sb_channelId input) \<or> ch_channelId c = None)
     \<and> (case sb_filter input of None \<Rightarrow> True | Some f \<Rightarrow> f c)"

text \<open>The elements at the first index of their cursor.\<close>

fun first_of_cursor :: "nat list \<Rightarrow> change list \<Rightarrow> change list" where
  "first_of_cursor seen [] = []"
| "first_of_cursor seen (c # cs) =
     (if ch_cursor c \<in> set seen then first_of_cursor seen cs
      else c # first_of_cursor (ch_cursor c # seen) cs)"

definition unique_changes :: "nat \<Rightarrow> change list \<Rightarrow> change list" where
  "unique_changes after cs = sort_key ch_cursor (filter (\<lambda>c. ch_cursor c > after) (first_of_cursor [] cs))"

definition enqueueChanges :: "nat \<Rightarrow> subscription_input \<Rightarrow> change list \<Rightarrow> stream_session \<Rightarrow> stream_session" where
  "enqueueChanges maxBuffered input cs u =
     (if closed u then u
      else let unique = unique_changes (after_cursor input u) (filter (wanted input) cs) in
        if unique = [] then u
        else let u1 = u\<lparr>queue := queue u @ [Delta_Item unique (ch_cursor (last unique))]\<rparr> in
          if length (queue u1) > maxBuffered then close_stream u1
          else if waiter u1 then next_item (u1\<lparr>waiter := False\<rparr>)
          else u1)"

definition acknowledge :: "nat \<Rightarrow> stream_session \<Rightarrow> stream_session result" where
  "acknowledge cursor u =
     (if closed u then throw ''closed''
      else if (case delivered u of None \<Rightarrow> False | Some n \<Rightarrow> cursor > n) then throw ''closed''
      else Inr (if (case acknowledged u of None \<Rightarrow> True | Some n \<Rightarrow> cursor > n)
                then u\<lparr>acknowledged := Some cursor\<rparr> else u))"

text \<open>The source is given by its two reads, on the state it is in when the subscription starts.\<close>

definition start_stream ::
  "(string \<Rightarrow> snapshot result) \<Rightarrow> (string \<Rightarrow> string \<Rightarrow> change list result) \<Rightarrow> nat \<Rightarrow> subscription_input \<Rightarrow>
   stream_session" where
  "start_stream take_snapshot take_replay maxBuffered input =
     (let u = new_session_state in
      case sb_afterCursor input of
        Some c \<Rightarrow>
          if c \<noteq> [] then
            (case take_replay c (sb_channelId input) of
               Inl e \<Rightarrow> close_stream u
             | Inr cs \<Rightarrow> (enqueueChanges maxBuffered input cs u)\<lparr>listening := True\<rparr>)
          else (case take_snapshot (sb_channelId input) of
               Inl e \<Rightarrow> close_stream u
             | Inr sn \<Rightarrow> u\<lparr>delivered := Some (sn_cursor sn), queue := [Snapshot_Item sn], listening := True\<rparr>)
      | None \<Rightarrow>
          (case take_snapshot (sb_channelId input) of
             Inl e \<Rightarrow> close_stream u
           | Inr sn \<Rightarrow> u\<lparr>delivered := Some (sn_cursor sn), queue := [Snapshot_Item sn], listening := True\<rparr>))"

section \<open>The service\<close>

record subscription_service =
  nextId :: nat
  streams :: "(nat \<times> subscription_input \<times> stream_session) list"

definition subscribe ::
  "(string \<Rightarrow> snapshot result) \<Rightarrow> (string \<Rightarrow> string \<Rightarrow> change list result) \<Rightarrow> nat \<Rightarrow> subscription_input \<Rightarrow>
   subscription_service \<Rightarrow> nat \<times> subscription_service" where
  "subscribe take_snapshot take_replay maxBuffered input v =
     (let i = nextId v; u = start_stream take_snapshot take_replay maxBuffered input in
      (i, v\<lparr>nextId := Suc i, streams := (if closed u then streams v else streams v @ [(i, input, u)])\<rparr>))"

definition service_acknowledge :: "nat \<Rightarrow> nat \<Rightarrow> subscription_service \<Rightarrow> subscription_service result" where
  "service_acknowledge i cursor v =
     (case map_of (streams v) i of
        None \<Rightarrow> throw ''unknownSubscription''
      | Some (input, u) \<Rightarrow>
          (case acknowledge cursor u of
             Inl e \<Rightarrow> Inl e
           | Inr u1 \<Rightarrow> Inr (v\<lparr>streams := map (\<lambda>(j, x, w). if j = i then (j, x, u1) else (j, x, w)) (streams v)\<rparr>)))"

text \<open>A commit calls every registered listener; a stream that closes leaves the service.\<close>

definition commit_batch :: "nat \<Rightarrow> change list \<Rightarrow> subscription_service \<Rightarrow> subscription_service" where
  "commit_batch maxBuffered cs v =
     v\<lparr>streams := filter (\<lambda>(_, _, u). \<not> closed u)
        (map (\<lambda>(i, input, u). (i, input, if listening u then enqueueChanges maxBuffered input cs u else u)) (streams v))\<rparr>"

section \<open>The watch stream of the daemon\<close>

text \<open>
  An async generator: each pull runs it to its next \<open>yield\<close>, or to its \<open>await\<close> when there is nothing to
  yield. Between two pulls anything may be committed, but only in the last two phases is there a listener
  that hears of it: \<open>Watch_Waiting\<close> is the head of the outer loop, \<open>Watch_Draining\<close> the inner one.
\<close>

datatype watch_phase = Watch_Begin | Watch_Replaying "change list" | Watch_Waiting | Watch_Draining

record watch_stream =
  w_phase :: watch_phase
  w_queue :: "change list"
  w_out :: "stream_item list"
  w_failed :: "rooms_error option"

definition watch_start :: watch_stream where
  "watch_start = \<lparr>w_phase = Watch_Begin, w_queue = [], w_out = [], w_failed = None\<rparr>"

definition DEFAULT_MAX_BUFFERED_DELTA_BATCHES :: nat where
  "DEFAULT_MAX_BUFFERED_DELTA_BATCHES = 128"

definition yield_delta :: "change \<Rightarrow> watch_stream \<Rightarrow> watch_stream" where
  "yield_delta c w = w\<lparr>w_out := w_out w @ [Delta_Item [c] (ch_cursor c)]\<rparr>"

definition watch_waiting :: "watch_stream \<Rightarrow> watch_stream" where
  "watch_waiting w =
     (if w_queue w = [] then w\<lparr>w_phase := Watch_Waiting\<rparr>
      else if length (w_queue w) > DEFAULT_MAX_BUFFERED_DELTA_BATCHES
      then w\<lparr>w_failed := Some (RoomsCommandError ''backpressure'')\<rparr>
      else yield_delta (hd (w_queue w)) (w\<lparr>w_queue := tl (w_queue w), w_phase := Watch_Draining\<rparr>))"

definition watch_draining :: "watch_stream \<Rightarrow> watch_stream" where
  "watch_draining w =
     (case w_queue w of
        [] \<Rightarrow> watch_waiting w
      | c # rest \<Rightarrow> yield_delta c (w\<lparr>w_queue := rest\<rparr>))"

definition watch_replay :: "change list \<Rightarrow> watch_stream \<Rightarrow> watch_stream" where
  "watch_replay cs w =
     (case cs of
        [] \<Rightarrow> watch_waiting w
      | c # rest \<Rightarrow> yield_delta c (w\<lparr>w_phase := Watch_Replaying rest\<rparr>))"

definition watch_pull :: "string option \<Rightarrow> string option \<Rightarrow> repo \<Rightarrow> watch_stream \<Rightarrow> watch_stream" where
  "watch_pull channelId afterCursor s w =
     (if w_failed w \<noteq> None then w
      else (case w_phase w of
        Watch_Begin \<Rightarrow>
          let begin_replay = (case replay (option_default ''0'' afterCursor) channelId (db s) of
                Inl e \<Rightarrow> w\<lparr>w_failed := Some e\<rparr> | Inr cs \<Rightarrow> watch_replay cs w)
          in (case (channelId, afterCursor) of
                (Some c, None) \<Rightarrow>
                  if c = [] \<or> w_out w \<noteq> [] then begin_replay
                  else (case snapshot c s of
                          Inl e \<Rightarrow> w\<lparr>w_failed := Some e\<rparr>
                        | Inr sn \<Rightarrow> w\<lparr>w_out := [Snapshot_Item sn]\<rparr>)
              | _ \<Rightarrow> begin_replay)
      | Watch_Replaying cs \<Rightarrow> watch_replay cs w
      | Watch_Waiting \<Rightarrow> watch_waiting w
      | Watch_Draining \<Rightarrow> watch_draining w))"

definition watch_notify :: "string option \<Rightarrow> change \<Rightarrow> watch_stream \<Rightarrow> watch_stream" where
  "watch_notify channelId c w =
     (if w_phase w \<notin> {Watch_Waiting, Watch_Draining} then w
      else if (case channelId of None \<Rightarrow> False
               | Some i \<Rightarrow> i \<noteq> [] \<and> ch_channelId c \<noteq> None \<and> ch_channelId c \<noteq> Some i) then w
      else w\<lparr>w_queue := w_queue w @ [c]\<rparr>)"

end
