(* ===== verification/SubscriptionProperties.thy ===== *)
theory SubscriptionProperties
  imports Subscription Commands
begin

text \<open>
  A subscription delivers every relevant change exactly once and in order, whatever its source, as long as
  the source keeps the contract \<open>change_feed\<close>; the repository does. The daemon's own watch stream can lose
  changes.
\<close>

section \<open>Runs of a stream\<close>

text \<open>The changes a list of stream items carries.\<close>

definition deltas :: "stream_item list \<Rightarrow> change list" where
  "deltas is = concat (map (\<lambda>i. case i of Delta_Item cs _ \<Rightarrow> cs | Snapshot_Item _ \<Rightarrow> []) is)"

lemma deltas_simps [simp]:
  "deltas [] = []" "deltas (Delta_Item cs n # is) = cs @ deltas is" "deltas (Snapshot_Item sn # is) = deltas is"
  "deltas (xs @ ys) = deltas xs @ deltas ys"
  by (simp_all add: deltas_def)

text \<open>
  A stream alongside its source's journal: batches are committed under fresh, higher cursors, and the
  consumer takes items whenever it likes.
\<close>

inductive streamed ::
  "nat \<Rightarrow> subscription_input \<Rightarrow> change list \<Rightarrow> stream_session \<Rightarrow> change list \<Rightarrow> stream_session \<Rightarrow> bool"
  for maxBuffered input js0 u0 where
  begin_stream: "streamed maxBuffered input js0 u0 js0 u0"
| commit: "streamed maxBuffered input js0 u0 js u \<Longrightarrow> sorted_wrt (<) (0 # map ch_cursor (js @ cs)) \<Longrightarrow>
    streamed maxBuffered input js0 u0 (js @ cs) (if listening u then enqueueChanges maxBuffered input cs u else u)"
| pull: "streamed maxBuffered input js0 u0 js u \<Longrightarrow> streamed maxBuffered input js0 u0 js (next_item u)"

inductive_cases streamedE: "streamed maxBuffered input js0 u0 js u"

definition max_cursor :: "change list \<Rightarrow> nat" where
  "max_cursor js = foldr max (map ch_cursor js) 0"

lemma max_cursor_ge: "c \<in> set js \<Longrightarrow> ch_cursor c \<le> max_cursor js"
  by (simp add: max_cursor_def foldr_max_ge)

lemma max_cursor_append: "max_cursor js \<le> max_cursor (js @ cs)"
  using foldr_max_le [of "map ch_cursor js" "max_cursor (js @ cs)"] max_cursor_ge [of _ "js @ cs"]
  by (simp add: max_cursor_def)

lemma max_cursor_new:
  assumes "sorted_wrt (<) (0 # map ch_cursor (js @ cs))" and "c \<in> set cs"
  shows "max_cursor js < ch_cursor c"
proof -
  have "\<forall>x \<in> set (map ch_cursor js). x \<le> ch_cursor c - 1"
    using assms by (force simp: sorted_wrt_append)
  from foldr_max_le [OF this] have "max_cursor js \<le> ch_cursor c - 1"
    by (simp add: max_cursor_def)
  moreover have "0 < ch_cursor c"
    using assms by auto
  ultimately show ?thesis by simp
qed

lemma first_of_cursor_distinct:
  "distinct (map ch_cursor cs) \<Longrightarrow> set seen \<inter> ch_cursor ` set cs = {} \<Longrightarrow> first_of_cursor seen cs = cs"
  by (induction cs arbitrary: seen) auto

lemma sort_key_ascending: "sorted_wrt (<) (map ch_cursor cs) \<Longrightarrow> sort_key ch_cursor cs = cs"
  by (rule sort_key_id_if_sorted) (rule strict_sorted_imp_sorted)

lemma sorted_filter_cursor: "sorted_wrt (<) (map ch_cursor cs) \<Longrightarrow> sorted_wrt (<) (map ch_cursor (filter P cs))"
  by (simp add: sorted_wrt_map sorted_wrt_filter)

lemma unique_changes_ascending:
  "sorted_wrt (<) (map ch_cursor cs) \<Longrightarrow> unique_changes n cs = filter (\<lambda>c. ch_cursor c > n) cs"
  using sort_key_ascending [OF sorted_filter_cursor, of cs "\<lambda>c. ch_cursor c > n"]
  by (simp add: unique_changes_def first_of_cursor_distinct strict_sorted_iff)

section \<open>Exactly once\<close>

definition base_cursor :: "subscription_input \<Rightarrow> nat \<Rightarrow> nat" where
  "base_cursor input snapped =
     (case sb_afterCursor input of Some c \<Rightarrow> if c = [] then snapped else cursor_value c | None \<Rightarrow> snapped)"

text \<open>
  The invariant of an open stream: what was taken and what is queued are, together and in this order, the
  relevant changes after the base; and a stream that compares with what it delivered never compares with a
  cursor beyond the journal.
\<close>

definition stream_ok :: "subscription_input \<Rightarrow> nat \<Rightarrow> change list \<Rightarrow> stream_session \<Rightarrow> bool" where
  "stream_ok input base js u \<longleftrightarrow> closed u \<or>
     listening u \<and>
     deltas (taken u) @ deltas (queue u) = filter (\<lambda>c. wanted input c \<and> ch_cursor c > base) js \<and>
     (\<forall>cs n. Delta_Item cs n \<in> set (queue u) \<longrightarrow> n \<le> max_cursor js) \<and>
     (after_cursor input u = base \<or> after_cursor input u \<le> max_cursor js \<and> base \<le> max_cursor js) \<and>
     (\<forall>c. sb_afterCursor input = Some c \<longrightarrow> c \<noteq> [] \<longrightarrow> base = cursor_value c) \<and>
     (case delivered u of None \<Rightarrow> sb_afterCursor input \<noteq> None \<and> sb_afterCursor input \<noteq> Some []
      | Some n \<Rightarrow> n \<le> max_cursor js) \<and>
     ((\<forall>c. sb_afterCursor input = Some c \<longrightarrow> c = []) \<longrightarrow> base \<le> max_cursor js)"

lemma after_cursor_cases:
  "stream_ok input base js u \<Longrightarrow> \<not> closed u \<Longrightarrow>
   after_cursor input u = base \<or> after_cursor input u \<le> max_cursor js \<and> base \<le> max_cursor js"
  by (simp add: stream_ok_def)

lemma after_cursor_simps [simp]:
  "after_cursor input (u\<lparr>queue := q\<rparr>) = after_cursor input u"
  "after_cursor input (u\<lparr>waiter := b\<rparr>) = after_cursor input u"
  "after_cursor input (u\<lparr>taken := t\<rparr>) = after_cursor input u"
  "after_cursor input (u\<lparr>delivered := Some n\<rparr>) =
     (case sb_afterCursor input of None \<Rightarrow> n | Some c \<Rightarrow> cursor_value c)"
  by (simp_all add: after_cursor_def split: option.splits)

lemma stream_ok_closed: "stream_ok input base js (close_stream u)"
  by (simp add: stream_ok_def close_stream_def)

lemma cursor_value_Nil [simp]: "cursor_value [] = 0"
  by (simp add: cursor_value_def cursor_decode_def)

lemma stream_ok_pull:
  assumes ok: "stream_ok input base js u"
  shows "stream_ok input base js (next_item u)"
proof (cases "closed u \<or> queue u = []")
  case True
  with ok show ?thesis
    by (cases "queue u"; cases "closed u") (simp_all add: stream_ok_def next_item_def split: stream_item.splits)
next
  case False
  then obtain i rest where q: "queue u = i # rest" and o: "\<not> closed u"
    by (cases "queue u") auto
  show ?thesis
  proof (cases i)
    case (Snapshot_Item sn)
    with q have "next_item u = u\<lparr>queue := rest, taken := taken u @ [i]\<rparr>"
      by (simp add: next_item_def)
    with ok q o Snapshot_Item show ?thesis
      by (simp add: stream_ok_def)
  next
    case (Delta_Item cs n)
    with ok q o have "n \<le> max_cursor js"
      by (auto simp: stream_ok_def)
    moreover from q Delta_Item have "next_item u = u\<lparr>queue := rest, taken := taken u @ [i], delivered := Some n\<rparr>"
      by (simp add: next_item_def)
    ultimately show ?thesis
      using ok q o Delta_Item
      by (cases "sb_afterCursor input") (auto simp: stream_ok_def after_cursor_def)
  qed
qed

lemma stream_ok_commit:
  assumes ok: "stream_ok input base js u" and sorted: "sorted_wrt (<) (0 # map ch_cursor (js @ cs))"
  shows "stream_ok input base (js @ cs) (enqueueChanges maxBuffered input cs u)"
proof (cases "closed u")
  case True
  then show ?thesis by (simp add: enqueueChanges_def stream_ok_def)
next
  case False
  let ?new = "filter (\<lambda>c. wanted input c \<and> ch_cursor c > base) cs"
  have asc: "sorted_wrt (<) (map ch_cursor (filter (wanted input) cs))"
    using sorted by (intro sorted_filter_cursor) (simp add: sorted_wrt_append)
  have "ch_cursor c > after_cursor input u \<longleftrightarrow> ch_cursor c > base" if "c \<in> set cs" for c
    using after_cursor_cases [OF ok False] max_cursor_new [OF sorted that] by auto
  then have uniq: "unique_changes (after_cursor input u) (filter (wanted input) cs) = ?new"
    by (auto simp: unique_changes_ascending [OF asc] intro!: filter_cong)
  have mono: "max_cursor js \<le> max_cursor (js @ cs)"
    by (rule max_cursor_append)
  have old: "stream_ok input base (js @ cs) u" if "?new = []"
    using ok False mono that by (fastforce simp: stream_ok_def filter_empty_conv split: option.splits)
  let ?u = "u\<lparr>queue := queue u @ [Delta_Item ?new (ch_cursor (last ?new))]\<rparr>"
  have pushed: "stream_ok input base (js @ cs) ?u" if "?new \<noteq> []"
  proof -
    have "last ?new \<in> set (js @ cs)"
      using last_in_set [OF that] by auto
    then have "ch_cursor (last ?new) \<le> max_cursor (js @ cs)"
      by (rule max_cursor_ge)
    then show ?thesis
      using ok False mono
      by (auto simp: stream_ok_def split: option.splits intro: order_trans)
  qed
  have waiter: "stream_ok input base (js @ cs) (w\<lparr>waiter := False\<rparr>)" if "stream_ok input base (js @ cs) w" for w
    using that by (simp add: stream_ok_def)
  show ?thesis
    using False old pushed stream_ok_closed [of input base "js @ cs" ?u] stream_ok_pull [OF waiter [OF pushed]]
    by (simp add: enqueueChanges_def Let_def uniq)
qed

lemma enqueue_closed: "closed u \<Longrightarrow> enqueueChanges m input cs u = u"
  by (simp add: enqueueChanges_def)

lemma streamed_ok:
  assumes "streamed maxBuffered input js0 u0 js u" and "stream_ok input base js0 u0"
  shows "stream_ok input base js u"
  using assms
proof (induction rule: streamed.induct)
  case (commit js u cs)
  show ?case
  proof (cases "listening u")
    case True
    with stream_ok_commit commit show ?thesis by simp
  next
    case False
    with commit have "closed u"
      by (auto simp: stream_ok_def)
    with False show ?thesis by (simp add: stream_ok_def)
  qed
qed (auto intro: stream_ok_pull)

text \<open>The contract between a subscription and the source of its changes.\<close>

locale change_feed =
  fixes journal_of :: "'s \<Rightarrow> change list"
    and take_snapshot :: "string \<Rightarrow> 's \<Rightarrow> snapshot result"
    and take_replay :: "string \<Rightarrow> string \<Rightarrow> 's \<Rightarrow> change list result"
    and sound :: "'s \<Rightarrow> bool"
  assumes ascending: "sound s \<Longrightarrow> sorted_wrt (<) (map ch_cursor (journal_of s))"
    and snapshot_cursor: "sound s \<Longrightarrow> take_snapshot c s = Inr sn \<Longrightarrow> sn_cursor sn = max_cursor (journal_of s)"
    and replay_after: "sound s \<Longrightarrow> take_replay a c s = Inr cs \<Longrightarrow> \<exists>P. cursor_decode a \<noteq> None \<and>
      cs = filter P (journal_of s) \<and>
      (\<forall>x. ch_channelId x = Some c \<or> ch_channelId x = None \<longrightarrow> P x = (ch_cursor x > cursor_value a))"
begin

lemma start_ok:
  assumes s: "sound s" and max: "0 < maxBuffered"
    and u: "u = start_stream (\<lambda>c. take_snapshot c s) (\<lambda>a c. take_replay a c s) maxBuffered input"
  shows "stream_ok input (base_cursor input (max_cursor (journal_of s))) (journal_of s) u"
proof (cases "\<exists>c. sb_afterCursor input = Some c \<and> c \<noteq> []")
  case False
  have none: "filter (\<lambda>c. wanted input c \<and> ch_cursor c > max_cursor (journal_of s)) (journal_of s) = []"
    using max_cursor_ge by (force simp: filter_empty_conv)
  from False show ?thesis
    unfolding u using snapshot_cursor [OF s] none
    by (cases "take_snapshot (sb_channelId input) s"; cases "sb_afterCursor input")
      (auto simp: start_stream_def stream_ok_def base_cursor_def new_session_state_def after_cursor_def
        close_stream_def)
next
  case True
  then obtain c where c: "sb_afterCursor input = Some c" "c \<noteq> []" by blast
  show ?thesis
  proof (cases "take_replay c (sb_channelId input) s")
    case (Inl e)
    with c show ?thesis
      by (simp add: u start_stream_def stream_ok_closed)
  next
    case (Inr cs)
    from replay_after [OF s Inr] obtain P where P: "cs = filter P (journal_of s)"
      "\<And>x. ch_channelId x = Some (sb_channelId input) \<or> ch_channelId x = None \<Longrightarrow> P x = (ch_cursor x > cursor_value c)"
      by blast
    let ?new = "filter (\<lambda>x. wanted input x \<and> ch_cursor x > cursor_value c) (journal_of s)"
    have w: "filter (wanted input) cs = ?new"
      unfolding P(1) filter_filter using P(2) by (auto simp: wanted_def intro!: filter_cong)
    have "unique_changes (cursor_value c) (filter (wanted input) cs) = ?new"
      unfolding w using ascending [OF s]
      by (simp add: unique_changes_ascending sorted_filter_cursor conj_ac)
    moreover have "ch_cursor (last ?new) \<le> max_cursor (journal_of s)" if "?new \<noteq> []"
      using last_in_set [OF that] by (auto intro: max_cursor_ge)
    ultimately show ?thesis
      unfolding u using c Inr max
      by (auto simp: start_stream_def enqueueChanges_def Let_def new_session_state_def after_cursor_def stream_ok_def
          base_cursor_def)
  qed
qed

lemma exactly_once:
  assumes "sound s" and "0 < maxBuffered"
    and "u0 = start_stream (\<lambda>c. take_snapshot c s) (\<lambda>a c. take_replay a c s) maxBuffered input"
    and "streamed maxBuffered input (journal_of s) u0 js u" and "\<not> closed u"
  shows "deltas (taken u) @ deltas (queue u) =
    filter (\<lambda>c. wanted input c \<and> ch_cursor c > base_cursor input (max_cursor (journal_of s))) js"
  using streamed_ok [OF assms(4) start_ok [OF assms(1-3)]] assms(5) by (simp add: stream_ok_def)

end

text \<open>The repository is such a source.\<close>

interpretation rooms_feed: change_feed "\<lambda>s. changes (db s)" snapshot "\<lambda>a c s. replay a (Some c) (db s)"
  "\<lambda>s. journal_ok (db s)"
proof
  show "sorted_wrt (<) (map ch_cursor (changes (db s)))" if "journal_ok (db s)" for s
    using that by (simp add: journal_ok_def)
  show "sn_cursor sn = max_cursor (changes (db s))" if "journal_ok (db s)" "snapshot c s = Inr sn" for s c sn
    using that by (auto simp: snapshot_def latestCursor_def max_cursor_def split: if_splits option.splits)
  show "\<exists>P. cursor_decode a \<noteq> None \<and> cs = filter P (changes (db s)) \<and>
      (\<forall>x. ch_channelId x = Some c \<or> ch_channelId x = None \<longrightarrow> P x = (ch_cursor x > cursor_value a))"
    if "journal_ok (db s)" "replay a (Some c) (db s) = Inr cs" for s a c cs
  proof (cases "cursor_decode a")
    case None
    with that show ?thesis by (simp add: replay_def)
  next
    case (Some n)
    with that(2) show ?thesis
      by (intro exI [of _ "\<lambda>x. ch_cursor x > n \<and> (c = [] \<or> ch_channelId x = Some c \<or> ch_channelId x = None)"])
        (auto simp: replay_def after_rows_def cursor_value_def conj_ac split: if_splits)
  qed
qed


definition room_input :: subscription_input where
  "room_input = \<lparr>sb_channelId = ''room'', sb_afterCursor = None, sb_filter = None\<rparr>"

definition next_change :: "repo \<Rightarrow> string \<Rightarrow> change" where
  "next_change s kind = \<lparr>ch_cursor = Suc (latestCursor (db s)), ch_kind = kind, ch_channelId = Some ''room'',
     ch_payload = Channel_Closed ''room'' 99, ch_occurredAt = 99\<rparr>"


section \<open>The watch stream loses changes\<close>

definition watch_setup :: repo where
  "watch_setup = run_requests [Insert_Session (new_session ''op'' Operator), Register_Channel ''room'' operator_ctx] demo_start"

definition watch_closed :: repo where
  "watch_closed = snd (perform (Close_Channel ''room'' operator_ctx) watch_setup)"

definition watch_room :: "repo \<Rightarrow> watch_stream \<Rightarrow> watch_stream" where
  "watch_room = watch_pull (Some ''room'') (Some ''0'')"

definition notify_room :: "watch_stream \<Rightarrow> watch_stream" where
  "notify_room = fold (watch_notify (Some ''room'')) (drop (length (notified watch_setup)) (notified watch_closed))"


end
