(* ===== verification/Search.thy ===== *)
theory Search
  imports History
begin

text \<open>
  Text search over messages and channels (\<open>searchMessages\<close> and \<open>searchChannels\<close> of
  \<open>src/roomsd/src/storage/repository.ts\<close>). A query is literal text: the theorem is that the \<open>LIKE\<close> pattern
  built from it matches exactly the bodies that contain it, up to ASCII case. The collation of
  \<open>localeCompare\<close> is a parameter.
\<close>

section \<open>LIKE\<close>

definition same_letter :: "char \<Rightarrow> char \<Rightarrow> bool" where
  "same_letter p c \<longleftrightarrow> ascii_lower p = ascii_lower c"

text \<open>\<open>text LIKE pattern ESCAPE '\'\<close>, which compares without regard to ASCII case.\<close>

fun like :: "string \<Rightarrow> string \<Rightarrow> bool" where
  "like [] s = (s = [])"
| "like (p # ps) [] = (p = CHR ''%'' \<and> like ps [])"
| "like (p # ps) (c # cs) =
     (if p = CHR ''%'' then like ps (c # cs) \<or> like (p # ps) cs
      else if p = CHR ''_'' then like ps cs
      else if p = CHR 0x5C then
        (case ps of [] \<Rightarrow> False | q # qs \<Rightarrow> same_letter q c \<and> like qs cs)
      else same_letter p c \<and> like ps cs)"

definition special_letter :: "char \<Rightarrow> bool" where
  "special_letter c \<longleftrightarrow> c = CHR 0x5C \<or> c = CHR ''%'' \<or> c = CHR ''_''"

definition escape_like :: "string \<Rightarrow> string" where
  "escape_like needle = concat (map (\<lambda>c. if special_letter c then [CHR 0x5C, c] else [c]) needle)"

definition needle_of :: "string \<Rightarrow> string" where
  "needle_of query = map js_lower (trim query)"

definition likePattern :: "string \<Rightarrow> string result" where
  "likePattern query =
     (let needle = needle_of query in
      if needle = [] then throw ''invalidSearchQuery''
      else Inr (''%'' @ escape_like needle @ ''%''))"

lemma like_rest: "like ''%'' s"
  by (induction s) auto

lemma like_escaped:
  "like (escape_like needle @ ''%'') s \<longleftrightarrow>
   (\<exists>u v. s = u @ v \<and> map ascii_lower u = map ascii_lower needle)"
proof (induction needle arbitrary: s)
  case Nil
  then show ?case by (simp add: escape_like_def like_rest)
next
  case (Cons x needle)
  have step: "like (escape_like (x # needle) @ ''%'') (c # cs) \<longleftrightarrow>
      same_letter x c \<and> like (escape_like needle @ ''%'') cs" for c cs
    by (auto simp: escape_like_def special_letter_def)
  show ?case
  proof (cases s)
    case Nil
    then show ?thesis
      by (auto simp: escape_like_def special_letter_def)
  next
    case (Cons c cs)
    have "(\<exists>u v. c # cs = u @ v \<and> map ascii_lower u = map ascii_lower (x # needle)) \<longleftrightarrow>
        same_letter x c \<and> (\<exists>u v. cs = u @ v \<and> map ascii_lower u = map ascii_lower needle)"
      by (auto simp: same_letter_def Cons_eq_append_conv) (metis append_Cons list.simps(9))
    with step Cons.IH Cons show ?thesis
      by (simp only: Cons)
  qed
qed

lemma like_contains:
  "like (''%'' @ escape_like needle @ ''%'') s \<longleftrightarrow> occurs (map ascii_lower needle) (map ascii_lower s)"
proof -
  have any: "like (CHR ''%'' # ps) s \<longleftrightarrow> (\<exists>u v. s = u @ v \<and> like ps v)" for ps s
  proof (induction s)
    case Nil
    then show ?case by simp
  next
    case (Cons c cs)
    then show ?case
      by (auto simp: Cons_eq_append_conv)
  qed
  have "like (''%'' @ escape_like needle @ ''%'') s \<longleftrightarrow>
      (\<exists>u v w. s = u @ v @ w \<and> map ascii_lower v = map ascii_lower needle)"
    using any [of "escape_like needle @ ''%''" s] by (auto simp: like_escaped)
  also have "\<dots> \<longleftrightarrow> (\<exists>u w. map ascii_lower s = u @ map ascii_lower needle @ w)" (is "?l \<longleftrightarrow> ?r")
  proof
    assume ?l
    then show ?r by (metis map_append)
  next
    assume ?r
    then obtain u w where "map ascii_lower s = u @ map ascii_lower needle @ w" by blast
    then obtain u' v' where s: "s = u' @ v'" and v': "map ascii_lower v' = map ascii_lower needle @ w"
      by (metis map_eq_append_conv)
    from v' obtain v w' where "v' = v @ w'" "map ascii_lower v = map ascii_lower needle"
      by (metis map_eq_append_conv)
    with s show ?l by blast
  qed
  finally show ?thesis
    by (simp add: occurs_iff)
qed

section \<open>Limits\<close>

definition SEARCH_DEFAULT_LIMIT :: int where "SEARCH_DEFAULT_LIMIT = 20"
definition SEARCH_MAX_LIMIT :: int where "SEARCH_MAX_LIMIT = 500"

definition searchLimit :: "int option \<Rightarrow> nat result" where
  "searchLimit value =
     (let limit = (case value of None \<Rightarrow> SEARCH_DEFAULT_LIMIT | Some v \<Rightarrow> v) in
      if \<not> safe_integer limit \<or> limit < 1 \<or> limit > SEARCH_MAX_LIMIT then throw ''invalidLimit''
      else Inr (nat limit))"

section \<open>Messages\<close>

definition body_like :: "string \<Rightarrow> message \<Rightarrow> bool" where
  "body_like pattern m \<longleftrightarrow> like pattern (map ascii_lower (msg_body m))"

definition search_channel :: "string option \<Rightarrow> string option" where
  "search_channel channelId = nonblank channelId"

definition searchMessages :: "string \<Rightarrow> string option \<Rightarrow> int option \<Rightarrow> db \<Rightarrow> message list result" where
  "searchMessages query channelId limit d =
     (case searchLimit limit of
        Inl e \<Rightarrow> Inl e
      | Inr n \<Rightarrow>
          (case likePattern query of
             Inl e \<Rightarrow> Inl e
           | Inr pattern \<Rightarrow>
               Inr (take n (rev (map snd (filter (\<lambda>(_, m). body_like pattern m)
                 (sent_messages (filter (\<lambda>c. case search_channel channelId of
                    None \<Rightarrow> True | Some i \<Rightarrow> ch_channelId c = Some i) (changes d)))))))))"


end
