(* ===== verification/JsonText.thy ===== *)
theory JsonText
  imports Contracts
begin

text \<open>
  JSON text: \<open>JSON.stringify\<close> and the strict parser \<open>parseEnrollmentArtifactJson\<close> of
  \<open>src/roomsd/src/federation/codec.ts\<close>, which refuses a repeated key. The theorems: the parser always
  returns, it inverts \<open>JSON.stringify\<close>, and it refuses exactly the texts of values with a repeated key.
\<close>

section \<open>Objects\<close>

text \<open>
  Assigning the property \<open>__proto__\<close> of an object sets its prototype: such an entry is no own key, and
  lookups go on in it. Own keys stand in the order of their first assignment.
\<close>

definition proto_key :: string where
  "proto_key = ''__proto__''"

definition own_fields :: "(string \<times> 'v) list \<Rightarrow> (string \<times> 'v) list" where
  "own_fields kvs = filter (\<lambda>(k, _). k \<noteq> proto_key) kvs"

function get_prop :: "string \<Rightarrow> json \<Rightarrow> json option" where
  "get_prop k (JObj kvs) =
     (case map_of (own_fields kvs) k of
        Some v \<Rightarrow> Some v
      | None \<Rightarrow> (case map_of kvs proto_key of None \<Rightarrow> None | Some p \<Rightarrow> get_prop k p))"
| "get_prop k JNull = None" | "get_prop k (JBool b) = None" | "get_prop k (JNum n) = None" | "get_prop k (JFrac l) = None"
| "get_prop k (JStr s) = None" | "get_prop k (JArr vs) = None"
  by pat_completeness auto
termination
proof (relation "measure (size \<circ> snd)")
  fix k :: string and kvs and p :: json
  assume "map_of kvs proto_key = Some p"
  then have "(proto_key, p) \<in> set kvs" by (rule map_of_SomeD)
  then have "size p < Suc (size_list (size_prod (\<lambda>_. 0) size) kvs)"
    by (induction kvs) auto
  then show "((k, p), k, JObj kvs) \<in> measure (size \<circ> snd)"
    by simp
qed simp

section \<open>JSON.stringify\<close>

definition hex_char :: "nat \<Rightarrow> char" where
  "hex_char n = (if n < 10 then char_of (48 + n) else char_of (87 + n))"

definition json_escape :: "char \<Rightarrow> string" where
  "json_escape c = (let n = of_char c :: nat in
     if n = 34 then [CHR 0x5C, CHR 0x22] else if n = 92 then [CHR 0x5C, CHR 0x5C]
     else if n = 8 then [CHR 0x5C, CHR ''b''] else if n = 9 then [CHR 0x5C, CHR ''t'']
     else if n = 10 then [CHR 0x5C, CHR ''n''] else if n = 12 then [CHR 0x5C, CHR ''f'']
     else if n = 13 then [CHR 0x5C, CHR ''r'']
     else if n < 32 then [CHR 0x5C, CHR ''u'', CHR ''0'', CHR ''0'', hex_char (n div 16), hex_char (n mod 16)]
     else [c])"

definition json_quote :: "string \<Rightarrow> string" where
  "json_quote s = CHR 0x22 # concat (map json_escape s) @ [CHR 0x22]"

definition int_text :: "int \<Rightarrow> string" where
  "int_text n = (if n < 0 then CHR ''-'' # digits (nat (- n)) else digits (nat n))"

fun join_with :: "string \<Rightarrow> string list \<Rightarrow> string" where
  "join_with sep [] = []"
| "join_with sep [s] = s"
| "join_with sep (s # t # ss) = s @ sep @ join_with sep (t # ss)"

fun stringify :: "json \<Rightarrow> string" where
  "stringify JNull = ''null''"
| "stringify (JBool b) = (if b then ''true'' else ''false'')"
| "stringify (JNum n) = int_text n"
| "stringify (JFrac l) = l"
| "stringify (JStr s) = json_quote s"
| "stringify (JArr vs) = CHR ''['' # join_with '','' (map stringify vs) @ [CHR '']'']"
| "stringify (JObj kvs) = CHR ''{'' # join_with '',''
     (map (\<lambda>(k, t). json_quote k @ CHR '':'' # t) (own_fields (map (\<lambda>p. (fst p, stringify (snd p))) kvs)))
     @ [CHR ''}'']"

section \<open>The strict parser\<close>

text \<open>
  The parser works on the text that is left; the code's position is the length of the text less that of what
  is left. \<open>Fuel\<close> bounds the depth of the calls.
\<close>

datatype parse_error = Failed string string | Fuel

type_synonym 'a parse = "parse_error + ('a \<times> string)"

definition json_space :: "char \<Rightarrow> bool" where
  "json_space c \<longleftrightarrow> c = CHR '' '' \<or> c = CHR 0x09 \<or> c = CHR 0x0A \<or> c = CHR 0x0D"

definition skipWhitespace :: "string \<Rightarrow> string" where
  "skipWhitespace s = dropWhile json_space s"

definition expect :: "char \<Rightarrow> string \<Rightarrow> string option" where
  "expect c s = (case s of [] \<Rightarrow> None | d # r \<Rightarrow> if d = c then Some r else None)"

definition is_digit :: "char \<Rightarrow> bool" where
  "is_digit c \<longleftrightarrow> digit_value c \<noteq> None"

definition hex_value :: "char \<Rightarrow> nat option" where
  "hex_value c = (let n = of_char c :: nat in
     if 48 \<le> n \<and> n \<le> 57 then Some (n - 48)
     else if 97 \<le> n \<and> n \<le> 102 then Some (n - 87)
     else if 65 \<le> n \<and> n \<le> 70 then Some (n - 55) else None)"

fun hex_number :: "nat \<Rightarrow> string \<Rightarrow> nat option" where
  "hex_number acc [] = Some acc"
| "hex_number acc (c # cs) = (case hex_value c of None \<Rightarrow> None | Some d \<Rightarrow> hex_number (16 * acc + d) cs)"

definition simple_escape :: "char \<Rightarrow> char option" where
  "simple_escape e =
     map_of [(CHR 0x22, CHR 0x22), (CHR 0x5C, CHR 0x5C), (CHR ''/'', CHR ''/''), (CHR ''b'', CHR 0x08),
       (CHR ''f'', CHR 0x0C), (CHR ''n'', CHR 0x0A), (CHR ''r'', CHR 0x0D), (CHR ''t'', CHR 0x09)] e"

text \<open>
  \<open>parseString\<close> after the opening quote. Text consists of code units up to 255, so an escape above is the
  one branch the code does not have.
\<close>

definition parse_escape :: "string \<Rightarrow> char parse" where
  "parse_escape cs =
     (case cs of
        [] \<Rightarrow> Inl (Failed ''invalid escape sequence'' [])
      | e # es \<Rightarrow>
          (case simple_escape e of
             Some x \<Rightarrow> Inr (x, es)
           | None \<Rightarrow>
               if e = CHR ''u'' then
                 (case (if length es < 4 then None else hex_number 0 (take 4 es)) of
                    None \<Rightarrow> Inl (Failed ''invalid unicode escape'' (e # es))
                  | Some n \<Rightarrow>
                      if n < 256 then Inr (char_of n, drop 4 es)
                      else Inl (Failed ''code unit outside the alphabet'' (e # es)))
               else Inl (Failed ''invalid escape sequence'' (e # es))))"

lemma parse_escape_length: "parse_escape s = Inr (c, r) \<Longrightarrow> length r < length s"
  by (auto simp: parse_escape_def split: list.splits option.splits if_splits)

function parse_string :: "string \<Rightarrow> string \<Rightarrow> string parse" where
  "parse_string acc [] = Inl (Failed ''unterminated string'' [])"
| "parse_string acc (c # cs) =
     (if c = CHR 0x22 then Inr (acc, cs)
      else if c = CHR 0x5C then
        (case parse_escape cs of Inl e \<Rightarrow> Inl e | Inr (x, r) \<Rightarrow> parse_string (acc @ [x]) r)
      else if (of_char c :: nat) < 32 then Inl (Failed ''unescaped control character in string'' (c # cs))
      else parse_string (acc @ [c]) cs)"
  by pat_completeness auto
termination
  by (relation "measure (length \<circ> snd)") (auto dest: parse_escape_length)

text \<open>
  The value of a literal: an integer when the exponent makes it one. (Rounding to a double, which changes
  literals of more than 15 digits, is not modelled.)
\<close>

definition literal_value :: "bool \<Rightarrow> nat \<Rightarrow> int \<Rightarrow> string \<Rightarrow> json" where
  "literal_value neg m e lit =
     (let sgn = (if neg then -1 else 1) in
      if 0 \<le> e then JNum (sgn * int m * 10 ^ nat e)
      else if m mod 10 ^ nat (- e) = 0 then JNum (sgn * int (m div 10 ^ nat (- e)))
      else JFrac lit)"

definition scan_whole :: "string \<Rightarrow> string \<times> string" where
  "scan_whole s = (case expect CHR ''0'' s of Some r \<Rightarrow> (''0'', r) | None \<Rightarrow> (takeWhile is_digit s, dropWhile is_digit s))"

definition scan_fraction :: "string \<Rightarrow> string option \<times> string" where
  "scan_fraction s =
     (case expect CHR ''.'' s of
        None \<Rightarrow> (Some [], s)
      | Some r \<Rightarrow> (if takeWhile is_digit r = [] then None else Some (takeWhile is_digit r), dropWhile is_digit r))"

definition scan_exponent :: "string \<Rightarrow> int option \<times> string" where
  "scan_exponent s =
     (case (case expect CHR ''e'' s of Some r \<Rightarrow> Some r | None \<Rightarrow> expect CHR ''E'' s) of
        None \<Rightarrow> (Some 0, s)
      | Some r \<Rightarrow>
          (let (sgn, t) = (case expect CHR ''-'' r of Some t \<Rightarrow> (-1, t)
                           | None \<Rightarrow> (1, (case expect CHR ''+'' r of Some t \<Rightarrow> t | None \<Rightarrow> r)))
           in (if takeWhile is_digit t = [] then None else Some (sgn * int (the (number 0 (takeWhile is_digit t)))),
               dropWhile is_digit t)))"

definition parse_number :: "string \<Rightarrow> json parse" where
  "parse_number s =
     (let (neg, s1) = (case expect CHR ''-'' s of None \<Rightarrow> (False, s) | Some r \<Rightarrow> (True, r));
          (whole, s2) = scan_whole s1;
          (fraction, s3) = scan_fraction s2;
          (power, rest) = scan_exponent s3
      in case (if whole = [] then None else fraction, power) of
           (Some digs, Some e) \<Rightarrow>
             Inr (literal_value neg (the (number 0 (whole @ digs))) (e - int (length digs))
                    (take (length s - length rest) s), rest)
         | _ \<Rightarrow> Inl (Failed ''invalid number'' rest))"

text \<open>\<open>result[key] = value\<close>: the prototype can only be an object or null.\<close>

definition assign :: "string \<Rightarrow> json \<Rightarrow> (string \<times> json) list \<Rightarrow> (string \<times> json) list" where
  "assign k v kvs =
     (if k = proto_key then (case v of JObj _ \<Rightarrow> put_field k v kvs | JArr _ \<Rightarrow> put_field k v kvs
                             | JNull \<Rightarrow> put_field k v kvs | _ \<Rightarrow> kvs)
      else put_field k v kvs)"

definition has_own :: "string \<Rightarrow> (string \<times> 'v) list \<Rightarrow> bool" where
  "has_own k kvs \<longleftrightarrow> k \<in> set (map fst (own_fields kvs))"

definition parse_scalar :: "string \<Rightarrow> json parse" where
  "parse_scalar s =
     (case s of
        [] \<Rightarrow> Inl (Failed ''unexpected end of JSON input'' [])
      | c # cs \<Rightarrow>
          if c = CHR 0x22 then (case parse_string [] cs of Inl e \<Rightarrow> Inl e | Inr (t, r) \<Rightarrow> Inr (JStr t, r))
          else if c = CHR ''-'' \<or> is_digit c then parse_number s
          else if starts_with ''true'' s then Inr (JBool True, drop 4 s)
          else if starts_with ''false'' s then Inr (JBool False, drop 5 s)
          else if starts_with ''null'' s then Inr (JNull, drop 4 s)
          else Inl (Failed ''unexpected token'' s))"

text \<open>A key and its colon.\<close>

definition parse_key :: "string \<Rightarrow> string parse" where
  "parse_key s =
     (case expect CHR 0x22 (skipWhitespace s) of
        None \<Rightarrow> Inl (Failed ''expected an object key'' (skipWhitespace s))
      | Some r \<Rightarrow>
          (case parse_string [] r of
             Inl e \<Rightarrow> Inl e
           | Inr (key, r1) \<Rightarrow>
               (case expect CHR '':'' (skipWhitespace r1) of
                  None \<Rightarrow> Inl (Failed (''expected '' @ [CHR 0x27, CHR '':'', CHR 0x27] @ '' after object key'') (skipWhitespace r1))
                | Some r2 \<Rightarrow> Inr (key, r2))))"

text \<open>What follows a member or an element: a comma, or the closing bracket.\<close>

definition parse_next :: "char \<Rightarrow> string \<Rightarrow> string \<Rightarrow> bool parse" where
  "parse_next closing place r =
     (case expect CHR '','' (skipWhitespace r) of
        Some r1 \<Rightarrow> Inr (True, r1)
      | None \<Rightarrow>
          (case expect closing (skipWhitespace r) of
             Some r1 \<Rightarrow> Inr (False, r1)
           | None \<Rightarrow> Inl (Failed (''expected '' @ [CHR 0x27, CHR '','', CHR 0x27] @ '' or '' @ [CHR 0x27, closing, CHR 0x27]
               @ '' in '' @ place) (skipWhitespace r))))"

fun parse_value :: "nat \<Rightarrow> string \<Rightarrow> json parse"
and parse_members :: "nat \<Rightarrow> (string \<times> json) list \<Rightarrow> string \<Rightarrow> json parse"
and parse_elements :: "nat \<Rightarrow> json list \<Rightarrow> string \<Rightarrow> json parse" where
  "parse_value 0 s = Inl Fuel"
| "parse_value (Suc k) s =
     (case expect CHR ''{'' (skipWhitespace s) of
        Some cs \<Rightarrow>
          (case expect CHR ''}'' (skipWhitespace cs) of Some r \<Rightarrow> Inr (JObj [], r) | None \<Rightarrow> parse_members k [] cs)
      | None \<Rightarrow>
          (case expect CHR ''['' (skipWhitespace s) of
             Some cs \<Rightarrow>
               (case expect CHR '']'' (skipWhitespace cs) of Some r \<Rightarrow> Inr (JArr [], r) | None \<Rightarrow> parse_elements k [] cs)
           | None \<Rightarrow> parse_scalar (skipWhitespace s)))"
| "parse_members 0 acc s = Inl Fuel"
| "parse_members (Suc k) acc s =
     (case parse_key s of
        Inl e \<Rightarrow> Inl e
      | Inr (key, r) \<Rightarrow>
          (case parse_value k r of
             Inl e \<Rightarrow> Inl e
           | Inr (v, r1) \<Rightarrow>
               if has_own key acc then Inl (Failed (''duplicate object key '' @ [CHR 0x22] @ key @ [CHR 0x22]) r1)
               else (case parse_next CHR ''}'' ''object'' r1 of
                       Inl e \<Rightarrow> Inl e
                     | Inr (again, r2) \<Rightarrow>
                         if again then parse_members k (assign key v acc) r2 else Inr (JObj (assign key v acc), r2))))"
| "parse_elements 0 acc s = Inl Fuel"
| "parse_elements (Suc k) acc s =
     (case parse_value k s of
        Inl e \<Rightarrow> Inl e
      | Inr (v, r) \<Rightarrow>
          (case parse_next CHR '']'' ''array'' r of
             Inl e \<Rightarrow> Inl e
           | Inr (again, r1) \<Rightarrow> if again then parse_elements k (acc @ [v]) r1 else Inr (JArr (acc @ [v]), r1)))"

text \<open>The thrown message ends in the position; the whole text is one value.\<close>

definition parseEnrollmentArtifactJson :: "string \<Rightarrow> parse_error + json" where
  "parseEnrollmentArtifactJson s =
     (case parse_value (Suc (2 * length s)) s of
        Inl e \<Rightarrow> Inl e
      | Inr (v, r) \<Rightarrow>
          if skipWhitespace r \<noteq> [] then Inl (Failed ''unexpected trailing content after JSON value'' (skipWhitespace r))
          else Inr v)"

definition failure_message :: "string \<Rightarrow> parse_error \<Rightarrow> string" where
  "failure_message s e =
     (case e of Fuel \<Rightarrow> []
      | Failed m r \<Rightarrow> ''invalid Rooms federation envelope: '' @ m @ '' at position '' @ digits (length s - length r))"

section \<open>The parser always returns\<close>

lemma expect_simps [simp]: "expect c [] = None" "expect c (d # r) = (if d = c then Some r else None)"
  by (simp_all add: expect_def)

lemma expect_Some: "expect c s = Some r \<longleftrightarrow> s = c # r"
  by (cases s) auto

lemma length_skip: "length (skipWhitespace s) \<le> length s"
  by (simp add: skipWhitespace_def length_dropWhile_le)

lemma expect_skip_length: "expect c (skipWhitespace s) = Some r \<Longrightarrow> length r < length s"
  using length_skip [of s] by (auto simp: expect_Some)

lemma parse_string_length: "parse_string acc s = Inr (t, r) \<Longrightarrow> length r < length s"
proof (induction acc s rule: parse_string.induct)
  case (2 acc c cs)
  show ?case
  proof (cases "c = CHR 0x5C")
    case True
    with "2.prems" obtain x r1 where "parse_escape cs = Inr (x, r1)" "parse_string (acc @ [x]) r1 = Inr (t, r)"
      by (auto split: sum.splits)
    with True "2.IH"(1) parse_escape_length show ?thesis
      by fastforce
  next
    case False
    with "2.prems" "2.IH"(2) show ?thesis
      by (auto split: if_splits)
  qed
qed simp

lemma scan_length:
  "scan_whole s = (w, r) \<Longrightarrow> w \<noteq> [] \<Longrightarrow> length r < length s"
  "scan_fraction s = (f, r) \<Longrightarrow> length r \<le> length s"
  "scan_exponent s = (e, r) \<Longrightarrow> length r \<le> length s"
proof -
  have drop: "length (dropWhile P t) \<le> length t" for P and t :: string
    by (rule length_dropWhile_le)
  show "scan_whole s = (w, r) \<Longrightarrow> w \<noteq> [] \<Longrightarrow> length r < length s"
    using drop [of is_digit "tl s"] by (cases s) (auto simp: scan_whole_def split: option.splits if_splits)
  show "scan_fraction s = (f, r) \<Longrightarrow> length r \<le> length s"
    using drop [of is_digit "tl s"] by (auto simp: scan_fraction_def expect_Some split: option.splits)
  show "scan_exponent s = (e, r) \<Longrightarrow> length r \<le> length s"
    using drop [of is_digit "tl s"] drop [of is_digit "tl (tl s)"]
    by (auto simp: scan_exponent_def expect_Some Let_def split: option.splits prod.splits)
qed

lemma parse_number_length: "parse_number s = Inr (v, r) \<Longrightarrow> length r < length s"
  by (auto simp: parse_number_def expect_Some split: prod.splits option.splits if_splits dest!: scan_length)

lemma parse_scalar_length: "parse_scalar s = Inr (v, r) \<Longrightarrow> length r < length s"
  by (cases s) (auto simp: parse_scalar_def starts_with_def split: if_splits sum.splits
      dest!: parse_string_length dest: parse_number_length)

lemma parse_key_length: "parse_key s = Inr (v, r) \<Longrightarrow> length r < length s"
  by (auto simp: parse_key_def split: option.splits sum.splits prod.splits
      dest!: expect_skip_length parse_string_length)

lemma parse_next_length: "parse_next c place s = Inr (v, r) \<Longrightarrow> length r < length s"
  by (auto simp: parse_next_def split: option.splits dest!: expect_skip_length)

lemma parse_length:
  "parse_value k s = Inr (v, r) \<Longrightarrow> length r < length s"
  "parse_members k acc s = Inr (v, r) \<Longrightarrow> length r < length s"
  "parse_elements k vs s = Inr (v, r) \<Longrightarrow> length r < length s"
proof (induction k s and k acc s and k vs s arbitrary: v r and v r and v r
    rule: parse_value_parse_members_parse_elements.induct)
  case (2 k s)
  have skip: "length (skipWhitespace s) \<le> length s" by (rule length_skip)
  show ?case
  proof (cases "expect CHR ''{'' (skipWhitespace s)")
    case object: (Some cs)
    then have cs: "length cs < length s" by (rule expect_skip_length)
    show ?thesis
    proof (cases "expect CHR ''}'' (skipWhitespace cs)")
      case None
      with "2.prems" object have "parse_members k [] cs = Inr (v, r)" by simp
      with "2.IH" object None cs show ?thesis by (meson less_trans)
    next
      case (Some r')
      with "2.prems" object expect_skip_length [OF Some] cs show ?thesis by simp
    qed
  next
    case nobject: None
    show ?thesis
    proof (cases "expect CHR ''['' (skipWhitespace s)")
      case array: (Some cs)
      then have cs: "length cs < length s" by (rule expect_skip_length)
      show ?thesis
      proof (cases "expect CHR '']'' (skipWhitespace cs)")
        case None
        with "2.prems" nobject array have "parse_elements k [] cs = Inr (v, r)" by simp
        with "2.IH" nobject array None cs show ?thesis by (meson less_trans)
      next
        case (Some r')
        with "2.prems" nobject array expect_skip_length [OF Some] cs show ?thesis by simp
      qed
    next
      case None
      with "2.prems" nobject have "parse_scalar (skipWhitespace s) = Inr (v, r)" by simp
      with parse_scalar_length skip show ?thesis by fastforce
    qed
  qed
next
  case (4 k acc s)
  then show ?case
    by (fastforce split: sum.splits prod.splits if_splits dest!: parse_key_length parse_next_length)
next
  case (6 k acc s)
  then show ?case
    by (fastforce split: sum.splits prod.splits if_splits dest!: parse_next_length)
qed simp_all

lemma not_Fuel [simp]: "parse_escape s \<noteq> Inl Fuel" "parse_next c place s \<noteq> Inl Fuel"
  by (auto simp: parse_escape_def parse_next_def split: list.splits option.splits)

lemma parse_number_not_Fuel [simp]: "parse_number s \<noteq> Inl Fuel"
  by (simp add: parse_number_def split: prod.splits option.splits)

lemma parse_string_not_Fuel [simp]: "parse_string acc s \<noteq> Inl Fuel"
  by (induction acc s rule: parse_string.induct) (auto split: sum.splits)

lemma parse_scalar_not_Fuel [simp]: "parse_scalar s \<noteq> Inl Fuel"
  by (cases s) (auto simp: parse_scalar_def split: sum.splits)

lemma parse_key_not_Fuel [simp]: "parse_key s \<noteq> Inl Fuel"
  by (auto simp: parse_key_def split: option.splits sum.splits)

lemma expect_fuel: "expect c (skipWhitespace s) = Some r \<Longrightarrow> 2 * length s < Suc k \<Longrightarrow> Suc (2 * length r) < k"
  and expect_fuel': "expect c (skipWhitespace s) = Some r \<Longrightarrow> 2 * length s < Suc k \<Longrightarrow> 2 * length r < k"
  using expect_skip_length by fastforce+

lemma parse_enough_fuel:
  "2 * length s < k \<Longrightarrow> parse_value k s \<noteq> Inl Fuel"
  "2 * length s < k \<Longrightarrow> parse_members k acc s \<noteq> Inl Fuel"
  "Suc (2 * length s) < k \<Longrightarrow> parse_elements k vs s \<noteq> Inl Fuel"
proof (induction k s and k acc s and k vs s rule: parse_value_parse_members_parse_elements.induct)
  case (2 k s)
  then show ?case
    by (auto split: option.splits intro: expect_fuel expect_fuel')
next
  case (4 k acc s)
  show ?case
  proof
    assume fuel: "parse_members (Suc k) acc s = Inl Fuel"
    then obtain key r where key: "parse_key s = Inr (key, r)"
      by (auto split: sum.splits)
    with "4.prems" have r: "2 * length r < k"
      using parse_key_length by fastforce
    with "4.IH"(1) [OF key refl] fuel key obtain v r1 where v: "parse_value k r = Inr (v, r1)"
      by (auto split: sum.splits)
    with fuel key obtain again r2 where n: "parse_next CHR ''}'' ''object'' r1 = Inr (again, r2)" "\<not> has_own key acc"
      by (auto split: sum.splits if_splits)
    have "2 * length r2 < k"
      using r parse_length(1) [OF v] parse_next_length [OF n(1)] by simp
    with "4.IH"(2) [OF key refl v refl n(2) n(1) refl] fuel key v n show False
      by (simp split: if_splits)
  qed
next
  case (6 k vs s)
  show ?case
  proof
    assume fuel: "parse_elements (Suc k) vs s = Inl Fuel"
    with "6.IH"(1) "6.prems" obtain v r where v: "parse_value k s = Inr (v, r)"
      by (auto split: sum.splits)
    with fuel obtain again r1 where n: "parse_next CHR '']'' ''array'' r = Inr (again, r1)"
      by (auto split: sum.splits)
    have "Suc (2 * length r1) < k"
      using "6.prems" parse_length(1) [OF v] parse_next_length [OF n] by simp
    with "6.IH"(2) [OF v refl n refl] fuel v n show False
      by (simp split: if_splits)
  qed
qed simp_all

text \<open>
  C13. The strict parser always returns: its recursion, bounded in the model by twice the length of the text,
  never reaches that bound, so every text is parsed to a value or refused with a message and a position.
\<close>

theorem strict_parser_total: "parseEnrollmentArtifactJson s \<noteq> Inl Fuel"
  using parse_enough_fuel(1) [of s "Suc (2 * length s)"]
  by (auto simp: parseEnrollmentArtifactJson_def split: sum.splits)

section \<open>The parser inverts JSON.stringify\<close>

lemma hex_value_char: "n < 16 \<Longrightarrow> hex_value (hex_char n) = Some n"
  by (auto simp: hex_value_def hex_char_def)

lemma parse_escape_unicode:
  "n < 32 \<Longrightarrow> parse_escape (CHR ''u'' # CHR ''0'' # CHR ''0'' # hex_char (n div 16) # hex_char (n mod 16) # t) = Inr (char_of n, t)"
proof -
  assume n: "n < 32"
  have zero: "hex_value CHR ''0'' = Some 0"
    by code_simp
  have "hex_number 0 [CHR ''0'', CHR ''0'', hex_char (n div 16), hex_char (n mod 16)] = Some n"
    using n zero by (simp add: hex_value_char)
  then show ?thesis
    using n by (simp add: parse_escape_def simple_escape_def)
qed

lemma char_of_control:
  "char_of (8 :: nat) = CHR 0x08" "char_of (9 :: nat) = CHR 0x09" "char_of (10 :: nat) = CHR 0x0A"
  "char_of (12 :: nat) = CHR 0x0C" "char_of (13 :: nat) = CHR 0x0D"
  "char_of (34 :: nat) = CHR 0x22" "char_of (92 :: nat) = CHR 0x5C"
  by code_simp+

lemma parse_string_escape: "parse_string acc (json_escape c @ t) = parse_string (acc @ [c]) t"
proof -
  define n where "n = (of_char c :: nat)"
  have c: "c = char_of n"
    by (simp add: n_def)
  consider "n = 34" | "n = 92" | "n < 32" | "n \<noteq> 34" "n \<noteq> 92" "32 \<le> n" by linarith
  then show ?thesis
  proof cases
    case 3
    consider "n = 8" | "n = 9" | "n = 10" | "n = 12" | "n = 13" | "n \<notin> {8, 9, 10, 12, 13}" by blast
    then show ?thesis
    proof cases
      case 6
      with 3 have "json_escape c = CHR 0x5C # CHR ''u'' # CHR ''0'' # CHR ''0'' # [hex_char (n div 16), hex_char (n mod 16)]"
        by (simp add: json_escape_def n_def [symmetric] Let_def)
      with 3 show ?thesis
        by (simp add: parse_escape_unicode c)
    qed (simp_all add: json_escape_def n_def [symmetric] Let_def parse_escape_def simple_escape_def c char_of_control)
  next
    case 4
    then have "c \<noteq> CHR 0x22" "c \<noteq> CHR 0x5C"
      by (auto simp: n_def)
    with 4 show ?thesis
      by (simp add: json_escape_def n_def [symmetric] Let_def)
  qed (simp_all add: json_escape_def n_def [symmetric] Let_def parse_escape_def simple_escape_def c char_of_control)
qed

lemma parse_string_quoted: "parse_string acc (concat (map json_escape s) @ CHR 0x22 # r) = Inr (acc @ s, r)"
  by (induction s arbitrary: acc) (simp_all add: parse_string_escape)

text \<open>What ends a value inside an array, an object or the text.\<close>

definition delimited :: "string \<Rightarrow> bool" where
  "delimited r \<longleftrightarrow> r = [] \<or> hd r \<in> {CHR '','', CHR '']'', CHR ''}''}"

lemma delimited_simps [simp]:
  "delimited []" "delimited (CHR '','' # r)" "delimited (CHR '']'' # r)" "delimited (CHR ''}'' # r)"
  by (simp_all add: delimited_def)

lemma is_digit_digits: "c \<in> set (digits n) \<Longrightarrow> is_digit c"
proof (induction n rule: digits.induct)
  case (1 n)
  have "is_digit (digit_char d)" if "d < 10" for d
    using that by (simp add: is_digit_def)
  with 1 show ?case
    by (subst (asm) digits.simps) (auto split: if_splits)
qed

lemma not_digit: "\<not> is_digit CHR '',''" "\<not> is_digit CHR '']''" "\<not> is_digit CHR ''}''" "\<not> is_digit CHR ''-''"
  "\<not> is_digit CHR ''{''" "\<not> is_digit CHR ''[''" "\<not> is_digit CHR 0x22" "\<not> is_digit CHR '' ''"
  "\<not> is_digit CHR 0x09" "\<not> is_digit CHR 0x0A" "\<not> is_digit CHR 0x0D"
  "\<not> is_digit CHR ''n''" "\<not> is_digit CHR ''t''" "\<not> is_digit CHR ''f''"
  by code_simp+

lemma digits_neq_Nil [simp]: "digits n \<noteq> []"
  by (subst digits.simps) simp

lemma scan_number:
  assumes "delimited r"
  shows "scan_whole (digits n @ r) = (digits n, r)" "scan_fraction r = (Some [], r)" "scan_exponent r = (Some 0, r)"
proof -
  have stop: "takeWhile is_digit r = []" "dropWhile is_digit r = r"
    using assms by (cases r; auto simp: delimited_def not_digit)+
  show "scan_whole (digits n @ r) = (digits n, r)"
  proof (cases "n = 0")
    case False
    then obtain c cs where c: "digits n = c # cs" "c \<noteq> CHR ''0''"
      using digits_Cons by blast
    then have "scan_whole (digits n @ r) = (takeWhile is_digit (digits n @ r), dropWhile is_digit (digits n @ r))"
      by (simp add: scan_whole_def)
    then show ?thesis
      using stop by (simp add: takeWhile_append dropWhile_append is_digit_digits)
  qed (simp add: scan_whole_def digits.simps)
  show "scan_fraction r = (Some [], r)" "scan_exponent r = (Some 0, r)"
    using assms by (cases r; auto simp: delimited_def scan_fraction_def scan_exponent_def)+
qed

lemma parse_number_text: "delimited r \<Longrightarrow> parse_number (int_text n @ r) = Inr (JNum n, r)"
proof -
  assume r: "delimited r"
  have "expect CHR ''-'' (digits m @ r) = None" for m
  proof -
    obtain c cs where c: "digits m = c # cs"
      using digits_neq_Nil by (meson neq_Nil_conv)
    then have "is_digit c"
      using is_digit_digits [of c m] by simp
    with c show ?thesis
      using not_digit(4) by auto
  qed
  then show ?thesis
    by (simp add: parse_number_def int_text_def scan_number [OF r] number_digits literal_value_def)
qed

lemma int_text_start: "\<exists>c cs. int_text n = c # cs \<and> (c = CHR ''-'' \<or> is_digit c)"
proof -
  obtain c cs where "digits (nat n) = c # cs"
    using digits_neq_Nil by (meson neq_Nil_conv)
  then show ?thesis
    using is_digit_digits [of c "nat n"] by (simp add: int_text_def)
qed

lemma skip_simps [simp]:
  "skipWhitespace [] = []"
  "\<not> json_space c \<Longrightarrow> skipWhitespace (c # cs) = c # cs"
  by (simp_all add: skipWhitespace_def)

lemma not_space [simp]:
  "\<not> json_space CHR ''{''" "\<not> json_space CHR ''}''" "\<not> json_space CHR ''[''" "\<not> json_space CHR '']''"
  "\<not> json_space CHR '',''" "\<not> json_space CHR '':''" "\<not> json_space CHR 0x22" "\<not> json_space CHR ''-''"
  "\<not> json_space CHR ''t''" "\<not> json_space CHR ''f''" "\<not> json_space CHR ''n''"
  by (simp_all add: json_space_def)

lemma digit_not_space: "is_digit c \<Longrightarrow> \<not> json_space c"
  using not_digit by (auto simp: json_space_def)

lemma parse_next_simps [simp]:
  "parse_next c place (CHR '','' # r) = Inr (True, r)"
  "parse_next CHR '']'' place (CHR '']'' # r) = Inr (False, r)"
  "parse_next CHR ''}'' place (CHR ''}'' # r) = Inr (False, r)"
  by (simp_all add: parse_next_def)

lemma parse_key_text [simp]: "parse_key (json_quote key @ CHR '':'' # r) = Inr (key, r)"
  using parse_string_quoted [of "[]" key "CHR '':'' # r"] by (simp add: parse_key_def json_quote_def)

text \<open>Values whose text is their own: no literals of fractions, no prototypes. And those without a repeated key.\<close>

fun plain :: "json \<Rightarrow> bool" where
  "plain (JFrac _) = False"
| "plain (JArr vs) = list_all plain vs"
| "plain (JObj kvs) = list_all (\<lambda>p. fst p \<noteq> proto_key \<and> plain (snd p)) kvs"
| "plain _ = True"

fun unique_keys :: "json \<Rightarrow> bool" where
  "unique_keys (JArr vs) = list_all unique_keys vs"
| "unique_keys (JObj kvs) = (distinct (map fst kvs) \<and> list_all (\<lambda>p. unique_keys (snd p)) kvs)"
| "unique_keys _ = True"

definition outcome :: "bool \<Rightarrow> 'a \<Rightarrow> 'e + 'a \<Rightarrow> bool" where
  "outcome ok x res \<longleftrightarrow> (if ok then res = Inr x else (\<exists>e. res = Inl e))"

definition reads_back :: "json \<Rightarrow> bool" where
  "reads_back v \<longleftrightarrow> (\<forall>k r. delimited r \<longrightarrow> 2 * length (stringify v @ r) < k \<longrightarrow>
     outcome (unique_keys v) (v, r) (parse_value k (stringify v @ r)))"

lemma parse_elements_text:
  assumes "vs \<noteq> []" and "\<forall>v \<in> set vs. reads_back v"
    and "Suc (2 * length (join_with '','' (map stringify vs) @ CHR '']'' # r)) < k"
  shows "outcome (list_all unique_keys vs) (JArr (acc @ vs), r)
    (parse_elements k acc (join_with '','' (map stringify vs) @ CHR '']'' # r))"
  using assms
proof (induction vs arbitrary: k acc)
  case (Cons v vs)
  define rest where "rest = (if vs = [] then CHR '']'' # r else CHR '','' # join_with '','' (map stringify vs) @ CHR '']'' # r)"
  have shape: "join_with '','' (map stringify (v # vs)) @ CHR '']'' # r = stringify v @ rest"
    by (cases vs) (simp_all add: rest_def)
  obtain k' where k: "k = Suc k'"
    using Cons.prems(3) by (cases k) auto
  have "delimited rest"
    by (simp add: rest_def)
  moreover have "2 * length (stringify v @ rest) < k'"
    using Cons.prems(3) by (simp only: shape k) (simp)?
  ultimately have v: "outcome (unique_keys v) (v, rest) (parse_value k' (stringify v @ rest))"
    using Cons.prems(2) by (simp add: reads_back_def)
  show ?case
  proof (cases "unique_keys v")
    case False
    with v show ?thesis
      unfolding shape k by (auto simp: outcome_def)
  next
    case True
    with v have step: "parse_value k' (stringify v @ rest) = Inr (v, rest)"
      by (simp add: outcome_def)
    show ?thesis
    proof (cases "vs = []")
      case True
      with step \<open>unique_keys v\<close> show ?thesis
        unfolding shape k by (simp add: rest_def outcome_def)
    next
      case False
      have "Suc (2 * length (join_with '','' (map stringify vs) @ CHR '']'' # r)) < k'"
        using Cons.prems(3) False by (simp only: shape k) (simp add: rest_def)
      with Cons.IH [OF False, of k' "acc @ [v]"] Cons.prems(2) False step \<open>unique_keys v\<close> show ?thesis
        unfolding shape k by (simp add: rest_def)
    qed
  qed
qed simp

lemma put_field_absent: "k \<notin> fst ` set kvs \<Longrightarrow> put_field k v kvs = kvs @ [(k, v)]"
  by (induction kvs) auto

definition member_text :: "string \<times> json \<Rightarrow> string" where
  "member_text p = json_quote (fst p) @ CHR '':'' # stringify (snd p)"

definition no_proto :: "(string \<times> json) list \<Rightarrow> bool" where
  "no_proto kvs \<longleftrightarrow> proto_key \<notin> fst ` set kvs"

lemma has_own_no_proto: "no_proto kvs \<Longrightarrow> has_own k kvs \<longleftrightarrow> k \<in> fst ` set kvs"
  by (force simp: has_own_def own_fields_def no_proto_def)

lemma stringify_JObj:
  "no_proto kvs \<Longrightarrow> stringify (JObj kvs) = CHR ''{'' # join_with '','' (map member_text kvs) @ [CHR ''}'']"
proof -
  assume "no_proto kvs"
  then have "own_fields (map (\<lambda>p. (fst p, stringify (snd p))) kvs) = map (\<lambda>p. (fst p, stringify (snd p))) kvs"
    by (force simp: own_fields_def no_proto_def filter_id_conv)
  then show ?thesis
    by (simp add: member_text_def [abs_def] comp_def)
qed

lemma parse_members_text:
  assumes "kvs \<noteq> []" and "\<forall>p \<in> set kvs. reads_back (snd p)" and "no_proto (acc @ kvs)"
    and "2 * length (join_with '','' (map member_text kvs) @ CHR ''}'' # r) < k"
  shows "outcome (distinct (map fst kvs) \<and> fst ` set acc \<inter> fst ` set kvs = {} \<and> list_all (\<lambda>p. unique_keys (snd p)) kvs)
    (JObj (acc @ kvs), r) (parse_members k acc (join_with '','' (map member_text kvs) @ CHR ''}'' # r))"
  using assms
proof (induction kvs arbitrary: k acc)
  case (Cons p kvs)
  obtain key v where p: "p = (key, v)" by (cases p)
  define rest where "rest = (if kvs = [] then CHR ''}'' # r else CHR '','' # join_with '','' (map member_text kvs) @ CHR ''}'' # r)"
  have shape: "join_with '','' (map member_text (p # kvs)) @ CHR ''}'' # r = json_quote key @ CHR '':'' # stringify v @ rest"
    by (cases kvs) (simp_all add: rest_def p member_text_def)
  obtain k' where k: "k = Suc k'"
    using Cons.prems(4) by (cases k) auto
  have "delimited rest"
    by (simp add: rest_def)
  moreover have "2 * length (stringify v @ rest) < k'"
    using Cons.prems(4) by (simp only: shape k) (simp)?
  ultimately have v: "outcome (unique_keys v) (v, rest) (parse_value k' (stringify v @ rest))"
    using Cons.prems(2) by (simp add: reads_back_def p)
  have own: "has_own key acc \<longleftrightarrow> key \<in> fst ` set acc" and noproto: "key \<noteq> proto_key"
    using Cons.prems(3) has_own_no_proto [of acc key] by (auto simp: p no_proto_def)
  show ?case
  proof (cases "unique_keys v \<and> key \<notin> fst ` set acc")
    case False
    then have "\<exists>e. parse_members k acc (json_quote key @ CHR '':'' # stringify v @ rest) = Inl e"
      using v by (cases "unique_keys v") (auto simp: k outcome_def own)
    moreover have "\<not> (fst ` set acc \<inter> fst ` set (p # kvs) = {} \<and> list_all (\<lambda>p. unique_keys (snd p)) (p # kvs))"
      using False by (auto simp: p)
    ultimately show ?thesis
      unfolding shape outcome_def by argo
  next
    case True
    with v have step: "parse_value k' (stringify v @ rest) = Inr (v, rest)"
      by (simp add: outcome_def)
    have assign: "assign key v acc = acc @ [(key, v)]"
      using True noproto by (simp add: assign_def put_field_absent)
    show ?thesis
    proof (cases "kvs = []")
      case empty: True
      with step True show ?thesis
        unfolding shape k by (simp add: rest_def outcome_def own assign p)
    next
      case False
      have "2 * length (join_with '','' (map member_text kvs) @ CHR ''}'' # r) < k'"
        using Cons.prems(4) False by (simp only: shape k) (simp add: rest_def)
      moreover have "no_proto ((acc @ [(key, v)]) @ kvs)"
        using Cons.prems(3) by (simp add: p)
      ultimately have "outcome (distinct (map fst kvs) \<and> fst ` set (acc @ [(key, v)]) \<inter> fst ` set kvs = {} \<and>
          list_all (\<lambda>p. unique_keys (snd p)) kvs) (JObj ((acc @ [(key, v)]) @ kvs), r)
          (parse_members k' (acc @ [(key, v)]) (join_with '','' (map member_text kvs) @ CHR ''}'' # r))"
        using Cons.IH [OF False, of "acc @ [(key, v)]" k'] Cons.prems(2) by simp
      moreover have "(distinct (map fst kvs) \<and> fst ` set (acc @ [(key, v)]) \<inter> fst ` set kvs = {} \<and>
          list_all (\<lambda>p. unique_keys (snd p)) kvs) \<longleftrightarrow>
          (distinct (map fst (p # kvs)) \<and> fst ` set acc \<inter> fst ` set (p # kvs) = {} \<and> list_all (\<lambda>p. unique_keys (snd p)) (p # kvs))"
        using True by (auto simp: p)
      ultimately show ?thesis
        using False step True unfolding shape k by (simp add: rest_def own assign p)
    qed
  qed
qed simp

lemma stringify_start: "plain v \<Longrightarrow> \<exists>c cs. stringify v = c # cs \<and> \<not> json_space c \<and> c \<noteq> CHR '']''"
proof (cases v)
  case (JNum n)
  then show ?thesis
    using int_text_start [of n] digit_not_space not_digit by auto
qed (auto simp: json_quote_def)

lemma reads_backI:
  "(\<And>k r. delimited r \<Longrightarrow> outcome (unique_keys v) (v, r) (parse_value (Suc k) (stringify v @ r))) \<Longrightarrow> reads_back v"
  unfolding reads_back_def by (metis gr0_conv_Suc gr_zeroI not_less_zero)

lemma reads_back_plain: "plain v \<Longrightarrow> reads_back v"
proof (induction v)
  case JNull
  show ?case
    by (rule reads_backI) (simp add: outcome_def parse_scalar_def starts_with_def not_digit)
next
  case (JBool b)
  show ?case
    by (rule reads_backI) (simp add: outcome_def parse_scalar_def starts_with_def not_digit)
next
  case (JNum n)
  obtain c cs where "int_text n = c # cs" "c = CHR ''-'' \<or> is_digit c"
    using int_text_start by blast
  moreover from this have "\<not> json_space c" "c \<noteq> CHR ''{''" "c \<noteq> CHR ''[''" "c \<noteq> CHR 0x22"
    using digit_not_space not_digit by auto
  ultimately show ?case
    using parse_number_text [of _ n] by (intro reads_backI) (auto simp: outcome_def parse_scalar_def)
next
  case (JStr s)
  show ?case
    using parse_string_quoted [of "[]" s]
    by (intro reads_backI) (auto simp: outcome_def parse_scalar_def json_quote_def)
next
  case (JArr vs)
  show ?case
    unfolding reads_back_def
  proof (intro allI impI)
    fix k r
    assume r: "delimited r" and fuel: "2 * length (stringify (JArr vs) @ r) < k"
    then obtain k' where k: "k = Suc k'"
      by (cases k) auto
    show "outcome (unique_keys (JArr vs)) (JArr vs, r) (parse_value k (stringify (JArr vs) @ r))"
    proof (cases "vs = []")
      case True
      then show ?thesis by (simp add: k outcome_def)
    next
      case False
      have "\<forall>v \<in> set vs. reads_back v"
        using JArr by (simp add: list_all_iff)
      moreover have "expect CHR '']'' (skipWhitespace (join_with '','' (map stringify vs) @ CHR '']'' # r)) = None"
      proof -
        obtain v vs' where "vs = v # vs'" "plain v"
          using False JArr.prems by (cases vs) auto
        with stringify_start [of v] show ?thesis
          by (cases vs') auto
      qed
      ultimately show ?thesis
        using parse_elements_text [OF False, of r k' "[]"] fuel by (simp add: k)
    qed
  qed
next
  case (JObj kvs)
  show ?case
    unfolding reads_back_def
  proof (intro allI impI)
    fix k r
    assume r: "delimited r" and fuel: "2 * length (stringify (JObj kvs) @ r) < k"
    then obtain k' where k: "k = Suc k'"
      by (cases k) auto
    have np: "no_proto kvs"
      using JObj.prems by (force simp: no_proto_def list_all_iff)
    show "outcome (unique_keys (JObj kvs)) (JObj kvs, r) (parse_value k (stringify (JObj kvs) @ r))"
    proof (cases kvs)
      case Nil
      then show ?thesis by (simp add: k outcome_def own_fields_def)
    next
      case (Cons p kvs')
      have "\<forall>p \<in> set kvs. reads_back (snd p)"
        using JObj by (auto simp: list_all_iff)
      moreover have "expect CHR ''}'' (skipWhitespace (join_with '','' (map member_text kvs) @ CHR ''}'' # r)) = None"
        by (cases kvs') (simp_all add: Cons member_text_def json_quote_def)
      ultimately show ?thesis
        using parse_members_text [of kvs "[]" r k'] np Cons fuel
        unfolding stringify_JObj [OF np] by (simp add: k)
    qed
  qed
qed simp

lemma parse_stringify: "plain v \<Longrightarrow> unique_keys v \<Longrightarrow> parseEnrollmentArtifactJson (stringify v) = Inr v"
  using reads_back_plain [of v, unfolded reads_back_def, rule_format, of "[]" "Suc (2 * length (stringify v))"]
  by (auto simp: parseEnrollmentArtifactJson_def outcome_def)


definition demo_artifact :: json where
  "demo_artifact = JObj [(''kind'', JStr ''offer''), (''seq'', JNum (-7)), (''body'', JArr [JBool True, JNull, JStr [CHR 0x22, CHR 0x0A]])]"


text \<open>
  The key \<open>__proto__\<close> escapes that check: given twice it is accepted, and what it holds is no key of the
  object, yet a property of it.
\<close>

theorem proto_key_repeated:
  "parseEnrollmentArtifactJson (''{'' @ json_quote ''__proto__'' @ '':{},'' @ json_quote ''__proto__'' @ '':{'' @ json_quote ''seq'' @ '':1}}'')
   = Inr (JObj [(''__proto__'', JObj [(''seq'', JNum 1)])])"
  by code_simp

end
