(* ===== verification/Codec.thy ===== *)
theory Codec
  imports JsonText
begin

text \<open>
  The federation codec (\<open>src/roomsd/src/federation/codec.ts\<close>): transport policies, enrollment artifacts and peer
  envelopes, validated before use; with the path check of \<open>federation/remote-command-port.ts\<close>. A thrown error
  is its message. \<open>Date.parse\<close>, \<open>isIP\<close> and \<open>JSON.parse\<close> are the parameter \<open>host\<close>.
\<close>

section \<open>Checks\<close>

type_synonym 'a checked = "string + 'a"

definition check :: "'a checked \<Rightarrow> ('a \<Rightarrow> 'b checked) \<Rightarrow> 'b checked" where
  "check m f = (case m of Inl e \<Rightarrow> Inl e | Inr a \<Rightarrow> f a)"

lemma check_simps [simp]: "check (Inl e) f = Inl e" "check (Inr a) f = f a"
  by (simp_all add: check_def)

lemma check_Inr_iff: "check m f = Inr b \<longleftrightarrow> (\<exists>a. m = Inr a \<and> f a = Inr b)"
  by (cases m) auto

text \<open>
  \<open>json_parse\<close> is \<open>JSON.parse\<close>, \<open>None\<close> when it throws. It gives an object with a key \<open>__proto__\<close> an own key of
  that name; since a field of that name stands for the prototype here, such a key gets another name.
\<close>

record relay_host =
  date_parse :: "string \<Rightarrow> int option"
  is_ip :: "string \<Rightarrow> nat"
  json_parse :: "string \<Rightarrow> json option"

abbreviation relayError :: "string \<Rightarrow> 'a checked" where
  "relayError m \<equiv> Inl (''Rooms relay protocol: '' @ m)"

abbreviation codecError :: "string \<Rightarrow> 'a checked" where
  "codecError m \<equiv> Inl (''invalid Rooms federation envelope: '' @ m)"

text \<open>\<open>String(value)\<close>\<close>

fun js_string :: "json \<Rightarrow> string" where
  "js_string JNull = ''null''"
| "js_string (JBool b) = (if b then ''true'' else ''false'')"
| "js_string (JNum n) = int_text n"
| "js_string (JFrac l) = l"
| "js_string (JStr s) = s"
| "js_string (JArr vs) = join_with '','' (map (\<lambda>v. if v = JNull then [] else js_string v) vs)"
| "js_string (JObj kvs) = ''[object Object]''"

definition string_of :: "json option \<Rightarrow> string" where
  "string_of v = (case v of None \<Rightarrow> ''undefined'' | Some j \<Rightarrow> js_string j)"

section \<open>Patterns\<close>

definition uuid_pattern :: "string \<Rightarrow> bool" where
  "uuid_pattern s \<longleftrightarrow> length s = 36 \<and>
     list_all (\<lambda>(i, c). if i \<in> {8, 13, 18, 23} then c = CHR ''-'' else hex_digit c) (zip [0..<36] s)"

definition nonce_pattern :: "string \<Rightarrow> bool" where
  "nonce_pattern s \<longleftrightarrow> 64 \<le> length s \<and> list_all hex_digit s"

definition base64_char :: "char \<Rightarrow> bool" where
  "base64_char c \<longleftrightarrow> (let n = of_char c :: nat in
     65 \<le> n \<and> n \<le> 90 \<or> 97 \<le> n \<and> n \<le> 122 \<or> 48 \<le> n \<and> n \<le> 57 \<or> c = CHR ''+'' \<or> c = CHR ''/'')"

definition base64_pattern :: "string \<Rightarrow> bool" where
  "base64_pattern s \<longleftrightarrow> takeWhile base64_char s \<noteq> [] \<and> dropWhile base64_char s \<in> {[], ''='', ''==''}"

definition authority_pattern :: "string \<Rightarrow> bool" where
  "authority_pattern s \<longleftrightarrow> starts_with ''authority-'' s \<and> sha256_hex (drop 10 s)"

section \<open>Transport policies\<close>

definition own_keys :: "json \<Rightarrow> string list" where
  "own_keys v = (case v of JObj kvs \<Rightarrow> map fst (own_fields kvs) | _ \<Rightarrow> [])"

definition record_of :: "json option \<Rightarrow> string \<Rightarrow> json checked" where
  "record_of v field =
     (case v of Some (JObj kvs) \<Rightarrow> Inr (JObj kvs) | _ \<Rightarrow> codecError (field @ '' must be an object''))"

definition exactKeys :: "json \<Rightarrow> string list \<Rightarrow> string \<Rightarrow> string list \<Rightarrow> unit checked" where
  "exactKeys v required field optional =
     (case find (\<lambda>k. k \<notin> set (required @ optional)) (own_keys v) of
        Some k \<Rightarrow> codecError (field @ '' has unknown field '' @ k)
      | None \<Rightarrow>
          (case find (\<lambda>k. get_prop k v = None) required of
             Some k \<Rightarrow> codecError (field @ '' is missing '' @ k)
           | None \<Rightarrow> Inr ()))"

definition nonBlankField :: "json option \<Rightarrow> string \<Rightarrow> string checked" where
  "nonBlankField v field =
     (case v of
        Some (JStr s) \<Rightarrow> if blank s then codecError (field @ '' must be non-blank'') else Inr s
      | _ \<Rightarrow> codecError (field @ '' must be non-blank''))"

definition timestamp :: "relay_host \<Rightarrow> json option \<Rightarrow> string \<Rightarrow> int checked" where
  "timestamp host v field =
     check (nonBlankField v field) (\<lambda>s.
       case date_parse host s of None \<Rightarrow> codecError (field @ '' must be an ISO timestamp'') | Some t \<Rightarrow> Inr t)"

fun split_on :: "char \<Rightarrow> string \<Rightarrow> string list" where
  "split_on c [] = [[]]"
| "split_on c (d # s) =
     (if d = c then [] # split_on c s
      else case split_on c s of [] \<Rightarrow> [[d]] | t # ts \<Rightarrow> (d # t) # ts)"

text \<open>\<open>100.(6[4-9]|[7-9][0-9]|1[01][0-9]|12[0-7])\<close>, then two groups of one to three digits, each at most 255.\<close>

definition octet :: "string \<Rightarrow> bool" where
  "octet s \<longleftrightarrow> 1 \<le> length s \<and> length s \<le> 3 \<and> list_all is_digit s \<and>
     (case number 0 s of None \<Rightarrow> False | Some n \<Rightarrow> n \<le> 255)"

definition ipv4_tailscale :: "string \<Rightarrow> bool" where
  "ipv4_tailscale s \<longleftrightarrow>
     (case split_on CHR ''.'' s of
        [a, b, c, d] \<Rightarrow> a = ''100'' \<and> b \<in> set (map digits [64..<128]) \<and> octet c \<and> octet d
      | _ \<Rightarrow> False)"

definition isTailscaleAddress :: "relay_host \<Rightarrow> json option \<Rightarrow> bool" where
  "isTailscaleAddress host v \<longleftrightarrow>
     (case v of
        Some (JStr s) \<Rightarrow>
          \<not> occurs ''://'' s \<and> trim s = s \<and>
          (if is_ip host s = 4 then ipv4_tailscale s
           else is_ip host s = 6 \<and> starts_with ''fd7a:115c:a1e0:'' (map js_lower s))
      | _ \<Rightarrow> False)"

definition absolutePath :: "json option \<Rightarrow> string \<Rightarrow> string checked" where
  "absolutePath v field =
     check (nonBlankField v field) (\<lambda>p.
       if starts_with ''/'' p then Inr p else codecError (field @ '' must be absolute''))"

definition port :: "json option \<Rightarrow> string \<Rightarrow> int checked" where
  "port v field =
     (case v of
        Some (JNum n) \<Rightarrow> if n < 1 \<or> n > 65535 then codecError (field @ '' must be a valid local port'') else Inr n
      | _ \<Rightarrow> codecError (field @ '' must be a valid local port''))"

definition validateTransportPolicy :: "relay_host \<Rightarrow> int \<Rightarrow> json option \<Rightarrow> unit checked" where
  "validateTransportPolicy host now value =
     check (record_of value ''transport policy'') (\<lambda>policy.
       if get_prop ''kind'' policy = Some (JStr ''localUnix'') then
         check (exactKeys policy [''kind'', ''path''] ''localUnix'' []) (\<lambda>_.
         check (absolutePath (get_prop ''path'' policy) ''local Unix path'') (\<lambda>_. Inr ()))
       else if get_prop ''kind'' policy = Some (JStr ''loopbackSsh'') then
         check (exactKeys policy [''kind'', ''peerAuthorityId'', ''sshDestination'', ''sshUser'', ''localEndpoint'', ''localPort'']
           ''loopbackSsh'' []) (\<lambda>_.
         check (nonBlankField (get_prop ''peerAuthorityId'' policy) ''peerAuthorityId'') (\<lambda>_.
         check (nonBlankField (get_prop ''sshDestination'' policy) ''SSH destination'') (\<lambda>_.
         check (nonBlankField (get_prop ''sshUser'' policy) ''SSH user'') (\<lambda>_.
         if get_prop ''localEndpoint'' policy \<notin> {Some (JStr ''127.0.0.1''), Some (JStr ''::1''), Some (JStr ''localhost'')}
         then codecError ''loopback SSH Rooms endpoint must be 127.0.0.1, ::1, or localhost''
         else check (port (get_prop ''localPort'' policy) ''loopback SSH local port'') (\<lambda>_. Inr ())))))
       else if get_prop ''kind'' policy = Some (JStr ''tailscalePeer'') then
         check (exactKeys policy [''kind'', ''peerAuthorityId'', ''address'', ''nodeIdentity'', ''verifiedAt''] ''tailscalePeer'' []) (\<lambda>_.
         if \<not> isTailscaleAddress host (get_prop ''address'' policy)
         then codecError ''tailscale peer requires a verified Tailscale address''
         else check (nonBlankField (get_prop ''peerAuthorityId'' policy) ''peerAuthorityId'') (\<lambda>_.
         check (nonBlankField (get_prop ''nodeIdentity'' policy) ''Tailscale node identity'') (\<lambda>_.
         check (timestamp host (get_prop ''verifiedAt'' policy) ''verifiedAt'') (\<lambda>verifiedAt.
         if verifiedAt > now then codecError ''verifiedAt cannot be in the future'' else Inr ()))))
       else codecError ''transport policy kind is not supported'')"

section \<open>Remote paths\<close>

definition path_char :: "char \<Rightarrow> bool" where
  "path_char c \<longleftrightarrow> (let n = of_char c :: nat in
     65 \<le> n \<and> n \<le> 90 \<or> 97 \<le> n \<and> n \<le> 122 \<or> 48 \<le> n \<and> n \<le> 57 \<or>
     c = CHR ''.'' \<or> c = CHR ''_'' \<or> c = CHR ''-'' \<or> c = CHR ''/'')"

definition assertSafeRemoteAbsolutePath :: "string \<Rightarrow> string \<Rightarrow> string checked" where
  "assertSafeRemoteAbsolutePath value label =
     (if value = [] then Inl (label @ '' must be a non-blank string'')
      else if length value > 1024 then Inl (label @ '' must be at most 1024 characters'')
      else if \<not> (starts_with ''/'' value \<and> list_all path_char value)
      then Inl (label @ '' must be an absolute path using only letters, digits, '' @
        [CHR 0x27] @ ''.'' @ [CHR 0x27] @ '', '' @ [CHR 0x27] @ ''_'' @ [CHR 0x27] @ '', '' @
        [CHR 0x27] @ ''-'' @ [CHR 0x27] @ '', and '' @ [CHR 0x27] @ ''/'' @ [CHR 0x27])
      else if ''..'' \<in> set (split_on CHR ''/'' value) then Inl (label @ '' must not contain '' @ [CHR 0x27] @ ''..'' @ [CHR 0x27])
      else Inr value)"

section \<open>Enrollment artifacts\<close>

definition FEDERATION_PROTOCOL_VERSION :: int where "FEDERATION_PROTOCOL_VERSION = 1"

definition ENROLLMENT_MAX_ARTIFACT_BYTES :: nat where "ENROLLMENT_MAX_ARTIFACT_BYTES = 8192"

definition ENROLLMENT_MAX_TTL_MS :: int where "ENROLLMENT_MAX_TTL_MS = 60 * 60 * 1000"

definition assertBoundedEnrollmentArtifact :: "string \<Rightarrow> string \<Rightarrow> unit checked" where
  "assertBoundedEnrollmentArtifact serialized label =
     (if utf8_bytes serialized > ENROLLMENT_MAX_ARTIFACT_BYTES
      then codecError (label @ '' exceeds the maximum artifact size of '' @ digits ENROLLMENT_MAX_ARTIFACT_BYTES @ '' bytes'')
      else Inr ())"

text \<open>A non-blank field that matches a pattern.\<close>

definition patternField :: "(string \<Rightarrow> bool) \<Rightarrow> string \<Rightarrow> json option \<Rightarrow> string \<Rightarrow> string checked" where
  "patternField ok must v field =
     check (nonBlankField v field) (\<lambda>s. if ok s then Inr s else codecError (field @ must))"

definition enrollmentIdField :: "json option \<Rightarrow> string \<Rightarrow> string checked" where
  "enrollmentIdField = patternField uuid_pattern '' must be a UUID''"

definition codec_nonceField :: "json option \<Rightarrow> string \<Rightarrow> string checked" where
  "codec_nonceField = patternField nonce_pattern '' must be a lowercase hex string of at least 256 bits''"

definition codec_fingerprintField :: "json option \<Rightarrow> string \<Rightarrow> string checked" where
  "codec_fingerprintField = patternField sha256_hex '' must be a SHA-256 hex fingerprint''"

definition codec_base64Field :: "json option \<Rightarrow> string \<Rightarrow> string checked" where
  "codec_base64Field = patternField (\<lambda>s. base64_pattern s \<and> length s mod 4 = 0) '' must be base64-encoded''"

definition codec_versionField :: "json option \<Rightarrow> unit checked" where
  "codec_versionField v =
     (if v = Some (JNum FEDERATION_PROTOCOL_VERSION) then Inr () else codecError (''unsupported version '' @ string_of v))"

definition transportPeerMatches :: "json option \<Rightarrow> string \<Rightarrow> string \<Rightarrow> unit checked" where
  "transportPeerMatches policy expectedPeer field =
     (let p = (case policy of None \<Rightarrow> JNull | Some p \<Rightarrow> p) in
      if get_prop ''kind'' p \<in> {Some (JStr ''loopbackSsh''), Some (JStr ''tailscalePeer'')} \<and>
         get_prop ''peerAuthorityId'' p \<noteq> Some (JStr expectedPeer)
      then codecError (field @ ''.peerAuthorityId does not match the other enrollment party; transport substitution'')
      else Inr ())"

definition enrollmentWindow :: "relay_host \<Rightarrow> json option \<Rightarrow> json option \<Rightarrow> unit checked" where
  "enrollmentWindow host issued expires =
     check (timestamp host issued ''issuedAt'') (\<lambda>issuedAt.
     check (timestamp host expires ''expiresAt'') (\<lambda>expiresAt.
     if expiresAt \<le> issuedAt then codecError ''expiresAt must be after issuedAt''
     else if expiresAt - issuedAt > ENROLLMENT_MAX_TTL_MS
     then codecError ''enrollment validity window exceeds the maximum allowed TTL''
     else Inr ()))"

definition validateEnrollmentOffer :: "relay_host \<Rightarrow> int \<Rightarrow> json option \<Rightarrow> unit checked" where
  "validateEnrollmentOffer host now value =
     check (record_of value ''enrollment offer'') (\<lambda>offer.
     check (exactKeys offer [''kind'', ''version'', ''enrollmentId'', ''origin'', ''destination'',
       ''originPublicKeySpkiB64'', ''originFingerprint'', ''originTransportPolicy'',
       ''originNonce'', ''issuedAt'', ''expiresAt'', ''signature''] ''enrollment offer'' []) (\<lambda>_.
     if get_prop ''kind'' offer \<noteq> Some (JStr ''enrollmentOffer'') then codecError ''enrollment offer kind mismatch''
     else
     check (codec_versionField (get_prop ''version'' offer)) (\<lambda>_.
     check (enrollmentIdField (get_prop ''enrollmentId'' offer) ''enrollmentId'') (\<lambda>_.
     check (nonBlankField (get_prop ''origin'' offer) ''origin'') (\<lambda>origin.
     check (nonBlankField (get_prop ''destination'' offer) ''destination'') (\<lambda>destination.
     if origin = destination then codecError ''origin and destination must differ''
     else
     check (codec_base64Field (get_prop ''originPublicKeySpkiB64'' offer) ''originPublicKeySpkiB64'') (\<lambda>_.
     check (codec_fingerprintField (get_prop ''originFingerprint'' offer) ''originFingerprint'') (\<lambda>_.
     check (validateTransportPolicy host now (get_prop ''originTransportPolicy'' offer)) (\<lambda>_.
     check (transportPeerMatches (get_prop ''originTransportPolicy'' offer) destination ''originTransportPolicy'') (\<lambda>_.
     check (codec_nonceField (get_prop ''originNonce'' offer) ''originNonce'') (\<lambda>_.
     check (enrollmentWindow host (get_prop ''issuedAt'' offer) (get_prop ''expiresAt'' offer)) (\<lambda>_.
     check (codec_base64Field (get_prop ''signature'' offer) ''signature'') (\<lambda>_. Inr ())))))))))))))"

text \<open>The challenge, the accept and the confirm share one shape.\<close>

definition validateEnrollmentTranscript :: "relay_host \<Rightarrow> string \<Rightarrow> int \<Rightarrow> json option \<Rightarrow> json checked" where
  "validateEnrollmentTranscript host expectedKind now value =
     check (record_of value expectedKind) (\<lambda>artifact.
     check (exactKeys artifact [''kind'', ''version'', ''enrollmentId'', ''origin'', ''destination'',
       ''originPublicKeySpkiB64'', ''originFingerprint'', ''originTransportPolicy'',
       ''destinationPublicKeySpkiB64'', ''destinationFingerprint'', ''destinationTransportPolicy'',
       ''originNonce'', ''destinationNonce'', ''issuedAt'', ''expiresAt'', ''signature''] expectedKind []) (\<lambda>_.
     if get_prop ''kind'' artifact \<noteq> Some (JStr expectedKind) then codecError (expectedKind @ '' kind mismatch'')
     else
     check (codec_versionField (get_prop ''version'' artifact)) (\<lambda>_.
     check (enrollmentIdField (get_prop ''enrollmentId'' artifact) ''enrollmentId'') (\<lambda>_.
     check (nonBlankField (get_prop ''origin'' artifact) ''origin'') (\<lambda>origin.
     check (nonBlankField (get_prop ''destination'' artifact) ''destination'') (\<lambda>destination.
     if origin = destination then codecError ''origin and destination must differ''
     else
     check (codec_base64Field (get_prop ''originPublicKeySpkiB64'' artifact) ''originPublicKeySpkiB64'') (\<lambda>_.
     check (codec_fingerprintField (get_prop ''originFingerprint'' artifact) ''originFingerprint'') (\<lambda>_.
     check (validateTransportPolicy host now (get_prop ''originTransportPolicy'' artifact)) (\<lambda>_.
     check (transportPeerMatches (get_prop ''originTransportPolicy'' artifact) destination ''originTransportPolicy'') (\<lambda>_.
     check (codec_base64Field (get_prop ''destinationPublicKeySpkiB64'' artifact) ''destinationPublicKeySpkiB64'') (\<lambda>_.
     check (codec_fingerprintField (get_prop ''destinationFingerprint'' artifact) ''destinationFingerprint'') (\<lambda>_.
     check (validateTransportPolicy host now (get_prop ''destinationTransportPolicy'' artifact)) (\<lambda>_.
     check (transportPeerMatches (get_prop ''destinationTransportPolicy'' artifact) origin ''destinationTransportPolicy'') (\<lambda>_.
     check (codec_nonceField (get_prop ''originNonce'' artifact) ''originNonce'') (\<lambda>_.
     check (codec_nonceField (get_prop ''destinationNonce'' artifact) ''destinationNonce'') (\<lambda>_.
     check (enrollmentWindow host (get_prop ''issuedAt'' artifact) (get_prop ''expiresAt'' artifact)) (\<lambda>_.
     check (codec_base64Field (get_prop ''signature'' artifact) ''signature'') (\<lambda>_. Inr artifact))))))))))))))))))"

definition validateEnrollmentChallenge :: "relay_host \<Rightarrow> int \<Rightarrow> json option \<Rightarrow> unit checked" where
  "validateEnrollmentChallenge host now value =
     check (validateEnrollmentTranscript host ''enrollmentChallenge'' now value) (\<lambda>_. Inr ())"

definition validateEnrollmentAccept :: "relay_host \<Rightarrow> int \<Rightarrow> json option \<Rightarrow> unit checked" where
  "validateEnrollmentAccept host now value =
     check (validateEnrollmentTranscript host ''enrollmentAccept'' now value) (\<lambda>_. Inr ())"

definition validateEnrollmentConfirm :: "relay_host \<Rightarrow> int \<Rightarrow> json option \<Rightarrow> unit checked" where
  "validateEnrollmentConfirm host now value =
     check (validateEnrollmentTranscript host ''enrollmentConfirm'' now value) (\<lambda>_. Inr ())"

section \<open>Envelopes\<close>

definition codec_cursor :: "string \<Rightarrow> string checked" where
  "codec_cursor s = (if cursor_decode s = None then codecError ''cursor must be a non-negative decimal string'' else Inr s)"

definition cursorField :: "json option \<Rightarrow> string \<Rightarrow> string checked" where
  "cursorField v field =
     (case v of Some (JStr s) \<Rightarrow> codec_cursor s | _ \<Rightarrow> codecError (field @ '' must be a cursor''))"

definition optionalCursor :: "json option \<Rightarrow> string \<Rightarrow> unit checked" where
  "optionalCursor v field = (if v = None then Inr () else check (cursorField v field) (\<lambda>_. Inr ()))"

definition optionalString :: "json option \<Rightarrow> string \<Rightarrow> unit checked" where
  "optionalString v field =
     (case v of None \<Rightarrow> Inr () | Some (JStr _) \<Rightarrow> Inr () | _ \<Rightarrow> codecError (field @ '' must be a string''))"

definition validateHome :: "json option \<Rightarrow> string \<Rightarrow> string checked" where
  "validateHome v field =
     check (record_of v field) (\<lambda>home.
     check (exactKeys home [''authorityId''] field []) (\<lambda>_.
     nonBlankField (get_prop ''authorityId'' home) (field @ ''.authorityId'')))"

definition one_of :: "json option \<Rightarrow> string list \<Rightarrow> bool" where
  "one_of v names \<longleftrightarrow> (case v of Some (JStr s) \<Rightarrow> s \<in> set names | _ \<Rightarrow> False)"

definition validateDeliveryItem :: "json \<Rightarrow> unit checked" where
  "validateDeliveryItem value =
     check (record_of (Some value) ''delivery item'') (\<lambda>item.
     check (exactKeys item [''cursor'', ''kind'', ''channelId'', ''sessionId''] ''delivery item'' [''body'']) (\<lambda>_.
     check (cursorField (get_prop ''cursor'' item) ''delivery cursor'') (\<lambda>_.
     if \<not> one_of (get_prop ''kind'' item) [''message'', ''membership'', ''lifecycle'']
     then codecError ''invalid delivery kind''
     else
     check (nonBlankField (get_prop ''channelId'' item) ''delivery channelId'') (\<lambda>_.
     check (nonBlankField (get_prop ''sessionId'' item) ''delivery sessionId'') (\<lambda>_.
     optionalString (get_prop ''body'' item) ''delivery body'')))))"

fun check_each :: "('a \<Rightarrow> unit checked) \<Rightarrow> 'a list \<Rightarrow> unit checked" where
  "check_each f [] = Inr ()"
| "check_each f (x # xs) = check (f x) (\<lambda>_. check_each f xs)"

definition envelope_kinds :: "string list" where
  "envelope_kinds = [''enrollmentRevoke'', ''forwardCommand'', ''deliveryBatch'', ''deliveryAck'', ''error'']"

definition AUTHORITY_KEYS :: "string list" where
  "AUTHORITY_KEYS = [''origin'', ''destination'', ''home'', ''sourceAuthorityId'', ''targetAuthorityId'']"

definition validatePayload :: "json option \<Rightarrow> unit checked" where
  "validatePayload value =
     check (record_of value ''payload'') (\<lambda>payload.
     if \<not> one_of (get_prop ''kind'' payload) envelope_kinds
     then codecError (''unsupported payload kind '' @ string_of (get_prop ''kind'' payload))
     else (case find (\<lambda>k. k \<in> set AUTHORITY_KEYS) (own_keys payload) of
       Some k \<Rightarrow> codecError (''payload cannot override envelope authority with '' @ k)
     | None \<Rightarrow>
       let kind = string_of (get_prop ''kind'' payload) in
       if kind = ''enrollmentRevoke'' then
         check (exactKeys payload [''kind'', ''revokedAuthorityId'', ''reason''] kind []) (\<lambda>_.
         check (nonBlankField (get_prop ''revokedAuthorityId'' payload) ''revokedAuthorityId'') (\<lambda>_.
         check (nonBlankField (get_prop ''reason'' payload) ''reason'') (\<lambda>_. Inr ())))
       else if kind = ''forwardCommand'' then
         check (exactKeys payload [''kind'', ''command'', ''channelId'', ''sessionId''] kind [''body'', ''cursor'']) (\<lambda>_.
         if \<not> one_of (get_prop ''command'' payload) [''channel.join'', ''channel.leave'', ''message.send'', ''session.lookup'']
         then codecError ''invalid forward command''
         else
         check (nonBlankField (get_prop ''channelId'' payload) ''channelId'') (\<lambda>_.
         check (nonBlankField (get_prop ''sessionId'' payload) ''sessionId'') (\<lambda>_.
         check (optionalString (get_prop ''body'' payload) ''body'') (\<lambda>_.
         optionalCursor (get_prop ''cursor'' payload) ''cursor''))))
       else if kind = ''deliveryBatch'' then
         check (exactKeys payload [''kind'', ''channelId'', ''recipientSessionId'', ''cursorStart'', ''cursorEnd'', ''items''] kind []) (\<lambda>_.
         check (nonBlankField (get_prop ''channelId'' payload) ''channelId'') (\<lambda>_.
         check (nonBlankField (get_prop ''recipientSessionId'' payload) ''recipientSessionId'') (\<lambda>_.
         check (cursorField (get_prop ''cursorStart'' payload) ''cursorStart'') (\<lambda>_.
         check (cursorField (get_prop ''cursorEnd'' payload) ''cursorEnd'') (\<lambda>_.
         case get_prop ''items'' payload of
           Some (JArr items) \<Rightarrow> check_each validateDeliveryItem items
         | _ \<Rightarrow> codecError ''items must be an array'')))))
       else if kind = ''deliveryAck'' then
         check (exactKeys payload [''kind'', ''channelId'', ''recipientSessionId'', ''cursor''] kind []) (\<lambda>_.
         check (nonBlankField (get_prop ''channelId'' payload) ''channelId'') (\<lambda>_.
         check (nonBlankField (get_prop ''recipientSessionId'' payload) ''recipientSessionId'') (\<lambda>_.
         check (cursorField (get_prop ''cursor'' payload) ''cursor'') (\<lambda>_. Inr ()))))
       else
         check (exactKeys payload [''kind'', ''code'', ''message''] kind []) (\<lambda>_.
         if \<not> one_of (get_prop ''code'' payload)
           [''unauthorized'', ''unknownAuthority'', ''invalidRequest'', ''expired'', ''duplicate'', ''unavailable'']
         then codecError ''invalid error code''
         else check (nonBlankField (get_prop ''message'' payload) ''message'') (\<lambda>_. Inr ()))))"

definition validateEnvelope :: "relay_host \<Rightarrow> int \<Rightarrow> json option \<Rightarrow> unit checked" where
  "validateEnvelope host now value =
     check (record_of value ''envelope'') (\<lambda>envelope.
     check (exactKeys envelope [''version'', ''envelopeId'', ''requestId'', ''deduplicationId'', ''createdAt'', ''expiresAt'',
       ''origin'', ''destination'', ''payload''] ''envelope'' []) (\<lambda>_.
     check (codec_versionField (get_prop ''version'' envelope)) (\<lambda>_.
     check (nonBlankField (get_prop ''envelopeId'' envelope) ''envelopeId'') (\<lambda>_.
     check (nonBlankField (get_prop ''requestId'' envelope) ''requestId'') (\<lambda>_.
     check (nonBlankField (get_prop ''deduplicationId'' envelope) ''deduplicationId'') (\<lambda>_.
     check (timestamp host (get_prop ''createdAt'' envelope) ''createdAt'') (\<lambda>createdAt.
     check (timestamp host (get_prop ''expiresAt'' envelope) ''expiresAt'') (\<lambda>expiresAt.
     if expiresAt \<le> createdAt then codecError ''expiresAt must be after createdAt''
     else if expiresAt \<le> now then codecError ''envelope is expired''
     else
     check (validateHome (get_prop ''origin'' envelope) ''origin'') (\<lambda>origin.
     check (validateHome (get_prop ''destination'' envelope) ''destination'') (\<lambda>destination.
     if origin = destination then codecError ''origin and destination must differ''
     else validatePayload (get_prop ''payload'' envelope)))))))))))"

definition encodeEnvelope :: "relay_host \<Rightarrow> int \<Rightarrow> json \<Rightarrow> string checked" where
  "encodeEnvelope host now envelope =
     check (validateEnvelope host now (Some envelope)) (\<lambda>_. Inr (stringify envelope @ [CHR 0x0A]))"

definition decodeEnvelope :: "relay_host \<Rightarrow> int \<Rightarrow> string \<Rightarrow> json checked" where
  "decodeEnvelope host now serialized =
     (case json_parse host serialized of
        None \<Rightarrow> codecError ''payload is not valid JSON''
      | Some value \<Rightarrow> check (validateEnvelope host now (Some value)) (\<lambda>_. Inr value))"

end
