(* ===== verification/Effects.thy ===== *)
theory Effects
  imports Codec
begin

text \<open>
  Operations of the federation layer: they change a state and return a value or throw an error, whose message
  is kept, because the messages reach the peer. \<open>stable I m\<close> says that \<open>m\<close> keeps the predicate \<open>I\<close> of the
  state whatever its outcome; \<open>stable_intros\<close> collects the rules by which it follows from the parts.
\<close>

type_synonym ('s, 'a) effect = "'s \<Rightarrow> 'a checked \<times> 's"

definition give :: "'a \<Rightarrow> ('s, 'a) effect" where
  "give a s = (Inr a, s)"

definition fail_with :: "string \<Rightarrow> ('s, 'a) effect" where
  "fail_with m s = (Inl m, s)"

definition seq :: "('s, 'a) effect \<Rightarrow> ('a \<Rightarrow> ('s, 'b) effect) \<Rightarrow> ('s, 'b) effect" where
  "seq m k s = (case m s of (Inl e, s1) \<Rightarrow> (Inl e, s1) | (Inr a, s1) \<Rightarrow> k a s1)"

definition lifted :: "'a checked \<Rightarrow> ('s, 'a) effect" where
  "lifted r s = (r, s)"

definition asking :: "('s \<Rightarrow> 'a checked) \<Rightarrow> ('s, 'a) effect" where
  "asking f s = (f s, s)"

definition change_state :: "('s \<Rightarrow> 's) \<Rightarrow> ('s, unit) effect" where
  "change_state f s = (Inr (), f s)"

text \<open>\<open>try m catch h\<close>\<close>

definition catching :: "('s, 'a) effect \<Rightarrow> (string \<Rightarrow> ('s, 'a) effect) \<Rightarrow> ('s, 'a) effect" where
  "catching m h s = (case m s of (Inl e, s1) \<Rightarrow> h e s1 | (Inr a, s1) \<Rightarrow> (Inr a, s1))"

named_theorems effect_simps "unfolding of the combinators of effects"

lemma effect_steps [effect_simps]: "give a s = (Inr a, s)" "fail_with m s = (Inl m, s)" "lifted r s = (r, s)"
    "asking f s = (f s, s)" "change_state g s = (Inr (), g s)"
  by (simp_all add: give_def fail_with_def lifted_def asking_def change_state_def)

lemma seq_Inr_iff: "seq m k s = (Inr b, s2) \<longleftrightarrow> (\<exists>a s1. m s = (Inr a, s1) \<and> k a s1 = (Inr b, s2))"
  by (auto simp: seq_def split: prod.splits sum.splits)

lemma seq_steps [effect_simps]:
  "m s = (Inr a, s1) \<Longrightarrow> seq m k s = k a s1"
  "m s = (Inl e, s1) \<Longrightarrow> seq m k s = (Inl e, s1)"
  by (simp_all add: seq_def)

lemma seq_simps [simp]:
  "seq (give a) k = k a" "seq (fail_with e) k = fail_with e" "seq (lifted (Inr a)) k = k a"
  "seq (lifted (Inl e)) k = fail_with e" "lifted (Inr b) = give b"
  by (simp_all add: fun_eq_iff seq_def give_def fail_with_def lifted_def)

lemma seq_change_state: "seq (change_state f) k s = k () (f s)"
  by (simp add: seq_def change_state_def)

lemma seq_asking: "seq (asking f) k s = (case f s of Inl e \<Rightarrow> (Inl e, s) | Inr a \<Rightarrow> k a s)"
  by (simp add: seq_def asking_def split: sum.split)

lemma seq_lifted: "seq (lifted r) k s = (case r of Inl e \<Rightarrow> (Inl e, s) | Inr a \<Rightarrow> k a s)"
  by (simp add: seq_def lifted_def split: sum.split)

section \<open>What an effect keeps\<close>

named_theorems stable_intros "an effect keeps a predicate of the state"

definition stable :: "('s \<Rightarrow> bool) \<Rightarrow> ('s, 'a) effect \<Rightarrow> bool" where
  "stable I m \<longleftrightarrow> (\<forall>s. I s \<longrightarrow> I (snd (m s)))"

lemma stableI: "(\<And>s. I s \<Longrightarrow> I (snd (m s))) \<Longrightarrow> stable I m"
  by (simp add: stable_def)

lemma stableD: "stable I m \<Longrightarrow> I s \<Longrightarrow> I (snd (m s))"
  by (simp add: stable_def)

lemma stable_pure [stable_intros]:
  "stable I (give a)" "stable I (fail_with e)" "stable I (lifted r)" "stable I (asking f)" "stable I (Pair r)"
  by (simp_all add: stable_def give_def fail_with_def lifted_def asking_def)

lemma stable_change_state: "(\<And>s. I s \<Longrightarrow> I (f s)) \<Longrightarrow> stable I (change_state f)"
  by (simp add: stable_def change_state_def)

lemma stable_seq [stable_intros]:
  assumes "stable I m" and "\<And>a. stable I (k a)"
  shows "stable I (seq m k)"
  using assms by (auto simp: stable_def seq_def split: prod.split sum.split)

lemma stable_catching [stable_intros]:
  assumes "stable I m" and "\<And>e. stable I (h e)"
  shows "stable I (catching m h)"
  using assms by (auto simp: stable_def catching_def split: prod.split sum.split)

lemma stable_if [stable_intros]:
  "stable I m \<Longrightarrow> stable I n \<Longrightarrow> stable I (if b then m else n)"
  "stable I m \<Longrightarrow> stable I n \<Longrightarrow> stable I (\<lambda>s. if P s then m s else n s)"
  by (simp_all add: stable_def)

lemma stable_cases [stable_intros]:
  "stable I m \<Longrightarrow> (\<And>a. stable I (k a)) \<Longrightarrow> stable I (case_option m k v)"
  "(\<And>a. stable I (f a)) \<Longrightarrow> (\<And>b. stable I (g b)) \<Longrightarrow> stable I (case_sum f g w)"
  "(\<And>a b. stable I (h a b)) \<Longrightarrow> stable I (case_prod h p)"
  by (simp_all add: stable_def split: option.split sum.split prod.split)

end
