(* ===== verification/Files.thy ===== *)
theory Files
  imports Effects
begin

text \<open>
  The file system as the federation layer uses it (\<open>node:fs\<close>): absolute paths as their components, a map from
  paths to directories, files and symbolic links with their permission bits, and the calls that read and change
  it. A call that fails throws its error code. Disk errors and concurrent writers are outside the model.
\<close>

type_synonym path = "string list"

datatype node = Dir (node_mode: int) | File (node_mode: int) (contents: string) | Link path

text \<open>The entries of a file system; an entry shadows those behind it.\<close>

type_synonym fs = "(path \<times> node) list"

definition path_text :: "path \<Rightarrow> string" where
  "path_text p = (if p = [] then ''/'' else concat (map (\<lambda>c. CHR ''/'' # c) p))"

text \<open>The root is a directory that is always there.\<close>

definition node_at :: "fs \<Rightarrow> path \<Rightarrow> node option" where
  "node_at s p = (if p = [] then Some (Dir 493) else map_of s p)"

definition is_dir :: "node option \<Rightarrow> bool" where
  "is_dir v = (case v of Some (Dir _) \<Rightarrow> True | _ \<Rightarrow> False)"

definition is_file :: "node option \<Rightarrow> bool" where
  "is_file v = (case v of Some (File _ _) \<Rightarrow> True | _ \<Rightarrow> False)"

definition is_link :: "node option \<Rightarrow> bool" where
  "is_link v = (case v of Some (Link _) \<Rightarrow> True | _ \<Rightarrow> False)"

text \<open>\<open>lstatSync\<close>: below a file it throws \<open>ENOTDIR\<close>. Paths below a symbolic link are refused before they are used.\<close>

definition lstat :: "fs \<Rightarrow> path \<Rightarrow> node option checked" where
  "lstat s p =
     (if list_ex (\<lambda>n. is_file (node_at s (take n p))) [0..<length p] then Inl ''ENOTDIR'' else Inr (node_at s p))"

text \<open>\<open>statSync\<close> follows symbolic links, forty at most.\<close>

fun follow :: "nat \<Rightarrow> fs \<Rightarrow> path \<Rightarrow> node checked" where
  "follow hops s p =
     (case node_at s p of
        None \<Rightarrow> Inl ''ENOENT''
      | Some (Link q) \<Rightarrow> (case hops of 0 \<Rightarrow> Inl ''ELOOP'' | Suc n \<Rightarrow> follow n s q)
      | Some v \<Rightarrow> Inr v)"

definition stat_mode :: "fs \<Rightarrow> path \<Rightarrow> int checked" where
  "stat_mode s p = check (follow 40 s p) (\<lambda>v. Inr (node_mode v mod 512))"

definition readFileSync :: "fs \<Rightarrow> path \<Rightarrow> string checked" where
  "readFileSync s p = check (follow 40 s p) (\<lambda>v. case v of File _ t \<Rightarrow> Inr t | _ \<Rightarrow> Inl ''EISDIR'')"

text \<open>The calls that write. \<open>umasked\<close> is what the process' umask leaves of a mode.\<close>

definition remove_node :: "path \<Rightarrow> fs \<Rightarrow> fs" where
  "remove_node p s = filter (\<lambda>e. fst e \<noteq> p) s"

definition put_node :: "path \<Rightarrow> node \<Rightarrow> fs \<Rightarrow> fs" where
  "put_node p v s = (p, v) # remove_node p s"

lemma map_of_remove_node [simp]: "map_of (remove_node p s) q = (if q = p then None else map_of s q)"
  by (induction s) (auto simp: remove_node_def)

lemma node_at_put_node [simp]: "p \<noteq> [] \<Longrightarrow> node_at (put_node p v s) q = (if q = p then Some v else node_at s q)"
  by (auto simp: node_at_def put_node_def)

lemma node_at_remove_node [simp]: "p \<noteq> [] \<Longrightarrow> node_at (remove_node p s) q = (if q = p then None else node_at s q)"
  by (auto simp: node_at_def)

definition mkdirSync :: "(int \<Rightarrow> int) \<Rightarrow> path \<Rightarrow> int \<Rightarrow> (fs, unit) effect" where
  "mkdirSync umasked p mode s =
     (if \<not> is_dir (node_at s (butlast p)) then (Inl ''ENOENT'', s)
      else if node_at s p \<noteq> None then (Inl ''EEXIST'', s)
      else (Inr (), put_node p (Dir (umasked mode)) s))"

text \<open>\<open>openSync(path, "wx", mode)\<close>, \<open>fchmodSync\<close>, \<open>writeFileSync\<close>, \<open>fsyncSync\<close> and \<open>closeSync\<close>\<close>

definition write_new_file :: "path \<Rightarrow> int \<Rightarrow> string \<Rightarrow> (fs, unit) effect" where
  "write_new_file p mode text s =
     (if \<not> is_dir (node_at s (butlast p)) then (Inl ''ENOENT'', s)
      else if node_at s p \<noteq> None then (Inl ''EEXIST'', s)
      else (Inr (), put_node p (File mode text) s))"

text \<open>\<open>readdirSync\<close>: the names of the entries of a directory\<close>

definition readdirSync :: "fs \<Rightarrow> path \<Rightarrow> string list" where
  "readdirSync s p = remdups (map (last \<circ> fst) (filter (\<lambda>e. fst e \<noteq> [] \<and> butlast (fst e) = p) s))"

definition below :: "path \<Rightarrow> path \<Rightarrow> bool" where
  "below p q \<longleftrightarrow> take (length p) q = p"

text \<open>\<open>renameSync\<close>: a file replaces what is no directory, a directory moves with what is below it.\<close>

definition renameSync :: "path \<Rightarrow> path \<Rightarrow> (fs, unit) effect" where
  "renameSync p q s =
     (case node_at s p of
        None \<Rightarrow> (Inl ''ENOENT'', s)
      | Some (Dir mode) \<Rightarrow>
          if node_at s q \<noteq> None then (Inl ''ENOTEMPTY'', s)
          else (Inr (), map (\<lambda>e. if below p (fst e) then (q @ drop (length p) (fst e), snd e) else e) s)
      | Some v \<Rightarrow>
          if is_dir (node_at s q) then (Inl ''EISDIR'', s)
          else (Inr (), if p = q then s else remove_node p (put_node q v s)))"

text \<open>\<open>rmSync(path, {recursive: true, force: true})\<close>\<close>

definition rmSync :: "path \<Rightarrow> (fs, unit) effect" where
  "rmSync p = change_state (filter (\<lambda>e. \<not> below p (fst e)))"

section \<open>The checks before a path is used\<close>

text \<open>
  The modules \<open>peer-trust.ts\<close>, \<open>enrollment.ts\<close> and \<open>machine-identity.ts\<close> each have these helpers, with their own
  error texts: \<open>err\<close> makes the error of a message.
\<close>

definition existsAsAny :: "fs \<Rightarrow> path \<Rightarrow> bool checked" where
  "existsAsAny s p = check (lstat s p) (\<lambda>v. Inr (v \<noteq> None))"

fun assertSafeFrom :: "(string \<Rightarrow> string) \<Rightarrow> fs \<Rightarrow> path \<Rightarrow> path \<Rightarrow> unit checked" where
  "assertSafeFrom err s current [] = Inr ()"
| "assertSafeFrom err s current (c # cs) =
     check (lstat s (current @ [c])) (\<lambda>v.
       if v = None then Inr ()
       else if is_link v then Inl (err (''path contains a symlink: '' @ path_text (current @ [c])))
       else assertSafeFrom err s (current @ [c]) cs)"

definition assertSafePath :: "(string \<Rightarrow> string) \<Rightarrow> fs \<Rightarrow> path \<Rightarrow> unit checked" where
  "assertSafePath err s p = assertSafeFrom err s [] p"

definition assertRegularNonSymlink :: "(string \<Rightarrow> string) \<Rightarrow> fs \<Rightarrow> path \<Rightarrow> string \<Rightarrow> unit checked" where
  "assertRegularNonSymlink err s p label =
     check (lstat s p) (\<lambda>v.
       if v = None then Inl ''ENOENT''
       else if is_link v then Inl (err (label @ '' must not be a symlink''))
       else if \<not> is_file v then Inl (err (label @ '' must be a regular file'')) else Inr ())"

definition assertRegularDirectory :: "(string \<Rightarrow> string) \<Rightarrow> fs \<Rightarrow> path \<Rightarrow> string \<Rightarrow> unit checked" where
  "assertRegularDirectory err s p label =
     check (lstat s p) (\<lambda>v.
       if v = None then Inl ''ENOENT''
       else if is_link v then Inl (err (label @ '' must not be a symlink''))
       else if \<not> is_dir v then Inl (err (label @ '' must be a directory'')) else Inr ())"

definition octal :: "nat \<Rightarrow> string" where
  "octal n = (if n < 8 then digits n else if n < 64 then digits (n div 8) @ digits (n mod 8)
     else digits (n div 64) @ digits (n div 8 mod 8) @ digits (n mod 8))"

definition assertMode :: "(string \<Rightarrow> string) \<Rightarrow> fs \<Rightarrow> path \<Rightarrow> int \<Rightarrow> string \<Rightarrow> unit checked" where
  "assertMode err s p mode label =
     check (stat_mode s p) (\<lambda>actual.
       if actual \<noteq> mode then Inl (err (label @ '' permissions must be '' @ octal (nat mode) @ '', found '' @ octal (nat actual)))
       else Inr ())"

section \<open>JSON files\<close>

text \<open>\<open>JSON.stringify(value, null, 2)\<close> at an indentation\<close>

definition laid_out :: "nat \<Rightarrow> char \<Rightarrow> string list \<Rightarrow> char \<Rightarrow> string" where
  "laid_out n opening items closing =
     (if items = [] then [opening, closing]
      else opening # CHR 0x0A # join_with ('','' @ [CHR 0x0A]) (map (\<lambda>t. replicate (n + 2) (CHR '' '') @ t) items)
        @ CHR 0x0A # replicate n (CHR '' '') @ [closing])"

fun pretty :: "nat \<Rightarrow> json \<Rightarrow> string" where
  "pretty n (JArr vs) = laid_out n (CHR ''['') (map (pretty (n + 2)) vs) (CHR '']'')"
| "pretty n (JObj kvs) = laid_out n (CHR ''{'')
     (map (\<lambda>(k, t). json_quote k @ '': '' @ t) (own_fields (map (\<lambda>p. (fst p, pretty (n + 2) (snd p))) kvs))) (CHR ''}'')"
| "pretty n v = stringify v"

definition json_file :: "json \<Rightarrow> string" where
  "json_file v = pretty 0 v @ [CHR 0x0A]"

definition DIRECTORY_MODE :: int where "DIRECTORY_MODE = 448"
definition FILE_MODE :: int where "FILE_MODE = 384"

end
