(* ===== verification/EnrollmentCrypto.thy ===== *)
theory EnrollmentCrypto
  imports Files
begin

text \<open>
  Signatures and transcripts (\<open>src/roomsd/src/federation/enrollment-crypto.ts\<close>) over \<open>node:crypto\<close>, which is the
  parameter \<open>crypto\<close>, and what else an operation takes from its machine: clock, random values, state directory.
  A private key object is its PEM text, a public key object its SPKI DER.
\<close>

record crypto =
  pem_public :: "string \<Rightarrow> (bool \<times> string) checked"   \<comment> \<open>\<open>createPublicKey\<close> of a PEM text: is it Ed25519, its DER\<close>
  spki_public :: "string \<Rightarrow> (bool \<times> string) checked"  \<comment> \<open>\<open>createPublicKey\<close> of a base64 SPKI\<close>
  pem_private :: "string \<Rightarrow> string checked"   \<comment> \<open>\<open>createPrivateKey\<close> of a PEM text: the DER of its public key\<close>
  sha256_digest :: "string \<Rightarrow> string"   \<comment> \<open>the digest in hexadecimal\<close>
  der_base64 :: "string \<Rightarrow> string"
  der_pem :: "string \<Rightarrow> string"
  base64_bytes :: "string \<Rightarrow> string"   \<comment> \<open>\<open>Buffer.from(text, "base64")\<close>\<close>
  ed_sign :: "string \<Rightarrow> string \<Rightarrow> string"   \<comment> \<open>private key, text; base64 of the signature\<close>
  ed_verify :: "string \<Rightarrow> string \<Rightarrow> string \<Rightarrow> bool checked"   \<comment> \<open>public key, text, signature\<close>

record machine =
  m_host :: relay_host
  m_crypto :: crypto
  m_now :: int   \<comment> \<open>\<open>Date.now()\<close>\<close>
  m_iso :: "int \<Rightarrow> string"   \<comment> \<open>\<open>new Date(ms).toISOString()\<close>\<close>
  m_uuid :: string   \<comment> \<open>\<open>randomUUID()\<close>\<close>
  m_temporary :: string   \<comment> \<open>\<open>randomUUID()\<close> in the name of a temporary file\<close>
  m_nonce :: string   \<comment> \<open>\<open>randomBytes(32).toString("hex")\<close>\<close>
  m_keypair :: "string \<times> string"   \<comment> \<open>\<open>generateKeyPairSync("ed25519")\<close> as PEM texts, private and public\<close>
  m_resolve :: "string option \<Rightarrow> path checked"   \<comment> \<open>\<open>resolveRoomsStateDir\<close>\<close>
  m_umasked :: "int \<Rightarrow> int"

abbreviation now_iso :: "machine \<Rightarrow> string" where
  "now_iso m \<equiv> m_iso m (m_now m)"

abbreviation enrollmentError :: "string \<Rightarrow> 'a checked" where
  "enrollmentError e \<equiv> Inl (''Rooms peer enrollment: '' @ e)"

definition canonicalPublicKeyDerFromSpkiBase64 :: "crypto \<Rightarrow> string \<Rightarrow> string checked" where
  "canonicalPublicKeyDerFromSpkiBase64 c spkiBase64 =
     (case spki_public c spkiBase64 of
        Inl _ \<Rightarrow> enrollmentError ''public key is not a valid SPKI-encoded key''
      | Inr (ed25519, der) \<Rightarrow> if \<not> ed25519 then enrollmentError ''public key must be Ed25519'' else Inr der)"

definition spkiBase64FromPublicKey :: "crypto \<Rightarrow> string \<Rightarrow> string" where
  "spkiBase64FromPublicKey c publicKey = der_base64 c publicKey"

definition fingerprintForDer :: "crypto \<Rightarrow> string \<Rightarrow> string" where
  "fingerprintForDer c der = sha256_digest c der"

definition authority_of :: "string \<Rightarrow> string" where
  "authority_of fingerprint = ''authority-'' @ fingerprint"

definition ENROLLMENT_TRANSCRIPT_DOMAIN :: string where
  "ENROLLMENT_TRANSCRIPT_DOMAIN = ''rooms-federation-enrollment-v1''"

record transcript_fields =
  tf_version :: json
  tf_enrollmentId :: string
  tf_origin :: string
  tf_destination :: string
  tf_originPublicKeySpkiB64 :: string
  tf_originFingerprint :: string
  tf_originTransportPolicy :: json
  tf_destinationPublicKeySpkiB64 :: "string option"
  tf_destinationFingerprint :: "string option"
  tf_destinationTransportPolicy :: json
  tf_originNonce :: string
  tf_destinationNonce :: "string option"
  tf_issuedAt :: string
  tf_expiresAt :: string

definition json_or_null :: "string option \<Rightarrow> json" where
  "json_or_null v = (case v of None \<Rightarrow> JNull | Some s \<Rightarrow> JStr s)"

definition canonicalEnrollmentTranscript :: "string \<Rightarrow> transcript_fields \<Rightarrow> string" where
  "canonicalEnrollmentTranscript domainKind f =
     ENROLLMENT_TRANSCRIPT_DOMAIN @ '':'' @ domainKind @ [CHR 0x0A] @ stringify (JObj
     [(''version'', tf_version f), (''enrollmentId'', JStr (tf_enrollmentId f)), (''origin'', JStr (tf_origin f)),
      (''destination'', JStr (tf_destination f)), (''originPublicKeySpkiB64'', JStr (tf_originPublicKeySpkiB64 f)),
      (''originFingerprint'', JStr (tf_originFingerprint f)), (''originTransportPolicy'', tf_originTransportPolicy f),
      (''destinationPublicKeySpkiB64'', json_or_null (tf_destinationPublicKeySpkiB64 f)),
      (''destinationFingerprint'', json_or_null (tf_destinationFingerprint f)),
      (''destinationTransportPolicy'', tf_destinationTransportPolicy f), (''originNonce'', JStr (tf_originNonce f)),
      (''destinationNonce'', json_or_null (tf_destinationNonce f)), (''issuedAt'', JStr (tf_issuedAt f)),
      (''expiresAt'', JStr (tf_expiresAt f))])"

definition signEnrollmentTranscript :: "crypto \<Rightarrow> string \<Rightarrow> string \<Rightarrow> string" where
  "signEnrollmentTranscript c privateKey transcript = ed_sign c privateKey transcript"

definition verifyEnrollmentTranscript :: "crypto \<Rightarrow> string \<Rightarrow> string \<Rightarrow> string \<Rightarrow> bool" where
  "verifyEnrollmentTranscript c publicKey transcript signatureB64 =
     (let signature = base64_bytes c signatureB64 in
      if length signature \<noteq> 64 then False
      else (case ed_verify c publicKey transcript signature of Inl _ \<Rightarrow> False | Inr ok \<Rightarrow> ok))"

end
