(* ===== verification/MachineIdentity.thy ===== *)
theory MachineIdentity
  imports EnrollmentCrypto
begin

text \<open>
  The Ed25519 identity of a machine (\<open>src/roomsd/src/identity/machine-identity.ts\<close>): created once under the
  state directory, validated whenever it is read. \<open>resolveRoomsStateDir\<close> is a parameter of the machine.
\<close>

record identity_status =
  id_authorityId :: string
  id_publicFingerprint :: string
  id_statePath :: path

record signing_keys =
  sk_authorityId :: string
  sk_publicFingerprint :: string
  sk_privateKey :: string
  sk_publicKey :: string

definition PRIVATE_KEY_FILE :: string where "PRIVATE_KEY_FILE = ''daemon-ed25519-private.pem''"
definition PUBLIC_KEY_FILE :: string where "PUBLIC_KEY_FILE = ''daemon-ed25519-public.pem''"
definition METADATA_FILE :: string where "METADATA_FILE = ''identity.json''"

definition identity_dir :: "path \<Rightarrow> path" where
  "identity_dir stateDir = stateDir @ [''federation'', ''identity'']"

definition rooms_err :: "string \<Rightarrow> string" where
  "rooms_err e = ''Rooms '' @ e"

definition identity_err :: "string \<Rightarrow> string" where
  "identity_err e = ''Rooms identity '' @ e"

record identity_metadata =
  im_authorityId :: string
  im_publicFingerprint :: string
  im_createdAt :: string

definition metadata_json :: "identity_metadata \<Rightarrow> json" where
  "metadata_json d = JObj
     [(''version'', JNum 1), (''authorityId'', JStr (im_authorityId d)), (''publicFingerprint'', JStr (im_publicFingerprint d)),
      (''publicKeyFile'', JStr PUBLIC_KEY_FILE), (''createdAt'', JStr (im_createdAt d))]"

definition metadata_text :: "json \<Rightarrow> string \<Rightarrow> string checked" where
  "metadata_text v field =
     (case get_prop field v of
        Some (JStr s) \<Rightarrow> if blank s then Inl (''Rooms identity metadata '' @ field @ '' is invalid'') else Inr s
      | _ \<Rightarrow> Inl (''Rooms identity metadata '' @ field @ '' is invalid''))"

definition metadata_keys :: "string list" where
  "metadata_keys = [''version'', ''authorityId'', ''publicFingerprint'', ''publicKeyFile'', ''createdAt'']"

definition parseMetadata :: "relay_host \<Rightarrow> string \<Rightarrow> identity_metadata checked" where
  "parseMetadata host serialized =
     (case json_parse host serialized of
        None \<Rightarrow> Inl ''Rooms identity metadata is malformed JSON''
      | Some (JObj kvs) \<Rightarrow>
          (let v = JObj kvs in
           if list_ex (\<lambda>k. k \<notin> set metadata_keys) (own_keys v) \<or> list_ex (\<lambda>k. get_prop k v = None) metadata_keys
           then Inl ''Rooms identity metadata fields are malformed''
           else if get_prop ''version'' v \<noteq> Some (JNum 1) \<or> get_prop ''publicKeyFile'' v \<noteq> Some (JStr PUBLIC_KEY_FILE)
           then Inl ''Rooms identity metadata version or key file is invalid''
           else check (metadata_text v ''authorityId'') (\<lambda>authority.
             check (metadata_text v ''publicFingerprint'') (\<lambda>fingerprint.
             check (metadata_text v ''createdAt'') (\<lambda>createdAt.
             if \<not> sha256_hex fingerprint then Inl ''Rooms identity fingerprint is invalid''
             else if date_parse host createdAt = None then Inl ''Rooms identity createdAt is invalid''
             else Inr \<lparr>im_authorityId = authority, im_publicFingerprint = fingerprint, im_createdAt = createdAt\<rparr>))))
      | Some _ \<Rightarrow> Inl ''Rooms identity metadata must be an object'')"

definition secretFile :: "fs \<Rightarrow> path \<Rightarrow> string \<Rightarrow> unit checked" where
  "secretFile s file label =
     check (existsAsAny s file) (\<lambda>e.
       if \<not> e then Inl (''Rooms identity is incomplete: missing '' @ label)
       else check (assertRegularNonSymlink rooms_err s file label) (\<lambda>_. assertMode rooms_err s file FILE_MODE label))"

definition validateIdentity :: "machine \<Rightarrow> fs \<Rightarrow> path \<Rightarrow> identity_status checked" where
  "validateIdentity m s dir =
     check (assertSafePath identity_err s dir) (\<lambda>_.
     check (assertMode rooms_err s dir DIRECTORY_MODE ''identity directory'') (\<lambda>_.
     check (secretFile s (dir @ [PRIVATE_KEY_FILE]) ''private key'') (\<lambda>_.
     check (secretFile s (dir @ [PUBLIC_KEY_FILE]) ''public key'') (\<lambda>_.
     check (secretFile s (dir @ [METADATA_FILE]) ''identity metadata'') (\<lambda>_.
     check (readFileSync s (dir @ [METADATA_FILE])) (\<lambda>text.
     check (parseMetadata (m_host m) text) (\<lambda>metadata.
     check (readFileSync s (dir @ [PRIVATE_KEY_FILE])) (\<lambda>privatePem.
     check (pem_private (m_crypto m) privatePem) (\<lambda>derived.
     check (readFileSync s (dir @ [PUBLIC_KEY_FILE])) (\<lambda>publicPem.
     check (pem_public (m_crypto m) publicPem) (\<lambda>(_, publicDer).
     if derived \<noteq> publicDer then Inl ''Rooms identity private/public key mismatch''
     else let fingerprint = sha256_digest (m_crypto m) publicDer in
       if im_publicFingerprint metadata \<noteq> fingerprint then Inl ''Rooms identity public fingerprint mismatch''
       else if im_authorityId metadata \<noteq> authority_of fingerprint then Inl ''Rooms identity authority id mismatch''
       else Inr \<lparr>id_authorityId = im_authorityId metadata, id_publicFingerprint = fingerprint, id_statePath = dir\<rparr>)))))))))))"

definition validated :: "machine \<Rightarrow> fs \<Rightarrow> path \<Rightarrow> identity_status checked" where
  "validated m s stateDir =
     check (assertSafePath identity_err s stateDir) (\<lambda>_.
     check (existsAsAny s (identity_dir stateDir)) (\<lambda>e.
       if \<not> e then Inl (''Rooms identity is uninitialized at '' @ path_text (identity_dir stateDir))
       else validateIdentity m s (identity_dir stateDir)))"

definition readMachineIdentityStatus :: "machine \<Rightarrow> string option \<Rightarrow> fs \<Rightarrow> identity_status checked" where
  "readMachineIdentityStatus m stateDirInput s = check (m_resolve m stateDirInput) (\<lambda>stateDir. validated m s stateDir)"

definition loadMachineSigningKeys :: "machine \<Rightarrow> string option \<Rightarrow> fs \<Rightarrow> signing_keys checked" where
  "loadMachineSigningKeys m stateDirInput s =
     check (m_resolve m stateDirInput) (\<lambda>stateDir.
     check (validated m s stateDir) (\<lambda>status.
     check (readFileSync s (identity_dir stateDir @ [PRIVATE_KEY_FILE])) (\<lambda>privatePem.
     check (pem_private (m_crypto m) privatePem) (\<lambda>_.
     check (readFileSync s (identity_dir stateDir @ [PUBLIC_KEY_FILE])) (\<lambda>publicPem.
     check (pem_public (m_crypto m) publicPem) (\<lambda>(_, publicDer).
     Inr \<lparr>sk_authorityId = id_authorityId status, sk_publicFingerprint = id_publicFingerprint status,
       sk_privateKey = privatePem, sk_publicKey = publicDer\<rparr>))))))"

section \<open>Setup\<close>

definition ensureDirectory :: "machine \<Rightarrow> path \<Rightarrow> string \<Rightarrow> (fs, unit) effect" where
  "ensureDirectory m p label =
     seq (asking (\<lambda>s. existsAsAny s p)) (\<lambda>e.
     seq (if e then give () else mkdirSync (m_umasked m) p DIRECTORY_MODE) (\<lambda>_.
     seq (asking (\<lambda>s. assertRegularDirectory rooms_err s p label)) (\<lambda>_.
     asking (\<lambda>s. assertMode rooms_err s p DIRECTORY_MODE label))))"

definition writeSecret :: "path \<Rightarrow> string \<Rightarrow> (fs, unit) effect" where
  "writeSecret p text =
     seq (write_new_file p FILE_MODE text) (\<lambda>_. asking (\<lambda>s. assertMode rooms_err s p FILE_MODE ''identity file''))"

definition fill_identity :: "machine \<Rightarrow> path \<Rightarrow> path \<Rightarrow> (fs, unit) effect" where
  "fill_identity m temporary dir =
     seq (asking (\<lambda>s. assertMode rooms_err s temporary DIRECTORY_MODE ''identity temporary directory'')) (\<lambda>_.
     seq (lifted (pem_public (m_crypto m) (snd (m_keypair m)))) (\<lambda>(_, der).
     let fingerprint = sha256_digest (m_crypto m) der;
         metadata = \<lparr>im_authorityId = authority_of fingerprint, im_publicFingerprint = fingerprint, im_createdAt = now_iso m\<rparr> in
     seq (writeSecret (temporary @ [PRIVATE_KEY_FILE]) (fst (m_keypair m))) (\<lambda>_.
     seq (writeSecret (temporary @ [PUBLIC_KEY_FILE]) (snd (m_keypair m))) (\<lambda>_.
     seq (writeSecret (temporary @ [METADATA_FILE]) (json_file (metadata_json metadata))) (\<lambda>_.
     renameSync temporary dir)))))"

definition setupMachineIdentity :: "machine \<Rightarrow> string option \<Rightarrow> (fs, identity_status) effect" where
  "setupMachineIdentity m stateDirInput =
     seq (lifted (m_resolve m stateDirInput)) (\<lambda>stateDir.
     let dir = identity_dir stateDir; parent = stateDir @ [''federation''];
         temporary = parent @ [''.identity.tmp-'' @ m_temporary m] in
     seq (asking (\<lambda>s. assertSafePath identity_err s stateDir)) (\<lambda>_.
     seq (ensureDirectory m stateDir ''state directory'') (\<lambda>_.
     seq (ensureDirectory m parent ''federation directory'') (\<lambda>_.
     seq (asking (\<lambda>s. assertSafePath identity_err s dir)) (\<lambda>_.
     seq (asking (\<lambda>s. existsAsAny s dir)) (\<lambda>there.
     if there then asking (\<lambda>s. validateIdentity m s dir)
     else
     seq (asking (\<lambda>s. if list_ex (starts_with ''.identity.tmp-'') (readdirSync s parent)
       then Inl (''incomplete identity temporary state exists under '' @ path_text parent @ ''; remove it after inspection'')
       else Inr ())) (\<lambda>_.
     seq (mkdirSync (m_umasked m) temporary DIRECTORY_MODE) (\<lambda>_.
     seq (catching (fill_identity m temporary dir)
       (\<lambda>e. seq (asking (\<lambda>s. existsAsAny s dir)) (\<lambda>made. if made then rmSync temporary else fail_with e))) (\<lambda>_.
     asking (\<lambda>s. validateIdentity m s dir))))))))))"

end
