(* ===== verification/PeerTrust.thy ===== *)
theory PeerTrust
  imports MachineIdentity
begin

text \<open>
  The trust records of enrolled peers (\<open>src/roomsd/src/federation/peer-trust.ts\<close>), one JSON file for each peer
  under the state directory.
\<close>

section \<open>Records\<close>

datatype trust_state = Pending | Confirming | TrustActive | Revoked

record peer_trust =
  pt_authorityId :: string
  pt_publicKeyPem :: string
  pt_fingerprint :: string
  pt_transportPolicy :: json
  pt_state :: trust_state
  pt_createdAt :: string
  pt_updatedAt :: string
  pt_revokedAt :: "string option"
  pt_revokedReason :: "string option"

abbreviation trustError :: "string \<Rightarrow> 'a checked" where
  "trustError e \<equiv> Inl (''Rooms peer trust: '' @ e)"

definition trust_err :: "string \<Rightarrow> string" where
  "trust_err e = ''Rooms peer trust: '' @ e"

definition trust_state_text :: "trust_state \<Rightarrow> string" where
  "trust_state_text st =
     (case st of Pending \<Rightarrow> ''pending'' | Confirming \<Rightarrow> ''confirming'' | TrustActive \<Rightarrow> ''active'' | Revoked \<Rightarrow> ''revoked'')"

definition trust_state_of :: "json option \<Rightarrow> trust_state option" where
  "trust_state_of v =
     (if v = Some (JStr ''pending'') then Some Pending else if v = Some (JStr ''confirming'') then Some Confirming
      else if v = Some (JStr ''active'') then Some TrustActive else if v = Some (JStr ''revoked'') then Some Revoked else None)"

definition trust_json :: "peer_trust \<Rightarrow> json" where
  "trust_json r = JObj
     [(''version'', JNum 1), (''authorityId'', JStr (pt_authorityId r)), (''publicKeyPem'', JStr (pt_publicKeyPem r)),
      (''fingerprint'', JStr (pt_fingerprint r)), (''transportPolicy'', pt_transportPolicy r),
      (''state'', JStr (trust_state_text (pt_state r))), (''createdAt'', JStr (pt_createdAt r)),
      (''updatedAt'', JStr (pt_updatedAt r)), (''revokedAt'', json_or_null (pt_revokedAt r)),
      (''revokedReason'', json_or_null (pt_revokedReason r))]"

section \<open>Bounds on what is stored\<close>

definition nonBlank :: "json option \<Rightarrow> string \<Rightarrow> string checked" where
  "nonBlank v field =
     (case v of Some (JStr s) \<Rightarrow> if blank s then trustError (field @ '' must be non-blank'') else Inr s
      | _ \<Rightarrow> trustError (field @ '' must be non-blank''))"

text \<open>\<open>toAuthorityId\<close> of \<open>codec.ts\<close> refuses a blank id, which \<open>nonBlank\<close> has refused before.\<close>

definition boundAuthorityId :: "json option \<Rightarrow> string checked" where
  "boundAuthorityId v =
     check (nonBlank v ''authority id'') (\<lambda>a.
       if authority_pattern a then Inr a else trustError (''authority id '' @ a @ '' is not a well-formed Rooms authority id''))"

definition assertWellFormedAuthorityId :: "string \<Rightarrow> string checked" where
  "assertWellFormedAuthorityId a = boundAuthorityId (Some (JStr a))"

definition boundPeerKey :: "crypto \<Rightarrow> json option \<Rightarrow> json option \<Rightarrow> (string \<times> string \<times> string) checked" where
  "boundPeerKey c authorityIdInput pemInput =
     check (nonBlank pemInput ''peer public key'') (\<lambda>pem.
     case pem_public c pem of
       Inl _ \<Rightarrow> trustError ''peer public key is not a valid PEM-encoded key''
     | Inr (ed25519, der) \<Rightarrow>
         if \<not> ed25519 then trustError ''peer public key must be Ed25519''
         else let fingerprint = sha256_digest c der in
           check (boundAuthorityId authorityIdInput) (\<lambda>authority.
             if authority \<noteq> authority_of fingerprint
             then trustError (''authority id '' @ authority @ '' does not match the fingerprint of the supplied public key; authority mismatch'')
             else Inr (authority, fingerprint, pem)))"

definition boundTransportPolicy :: "machine \<Rightarrow> json option \<Rightarrow> string \<Rightarrow> json checked" where
  "boundTransportPolicy m v authority =
     (case validateTransportPolicy (m_host m) (m_now m) v of
        Inl e \<Rightarrow> trustError e
      | Inr _ \<Rightarrow>
          (case v of
             None \<Rightarrow> trustError ''transport policy is invalid''
           | Some policy \<Rightarrow>
               if get_prop ''kind'' policy \<in> {Some (JStr ''loopbackSsh''), Some (JStr ''tailscalePeer'')} \<and>
                  get_prop ''peerAuthorityId'' policy \<noteq> Some (JStr authority)
               then trustError ''transport policy peerAuthorityId does not match the pinned peer authority id; authority mismatch''
               else Inr policy))"

definition sameTransportPolicy :: "json \<Rightarrow> json \<Rightarrow> bool" where
  "sameTransportPolicy left right \<longleftrightarrow> stringify left = stringify right"

section \<open>Reading a record\<close>

definition trust_keys :: "string list" where
  "trust_keys = [''version'', ''authorityId'', ''publicKeyPem'', ''fingerprint'', ''transportPolicy'', ''state'', ''createdAt'',
     ''updatedAt'', ''revokedAt'', ''revokedReason'']"

definition dated :: "relay_host \<Rightarrow> json option \<Rightarrow> bool" where
  "dated host v \<longleftrightarrow> (case v of Some (JStr s) \<Rightarrow> date_parse host s \<noteq> None | _ \<Rightarrow> False)"

definition text_field :: "json \<Rightarrow> string \<Rightarrow> string option" where
  "text_field v k = (case get_prop k v of Some (JStr s) \<Rightarrow> Some s | _ \<Rightarrow> None)"

definition parseRecord :: "machine \<Rightarrow> string \<Rightarrow> string \<Rightarrow> peer_trust checked" where
  "parseRecord m serialized expectedAuthorityId =
     (case json_parse (m_host m) serialized of
        None \<Rightarrow> trustError ''peer trust record is malformed JSON''
      | Some (JObj kvs) \<Rightarrow>
         (let v = JObj kvs in
          if list_ex (\<lambda>k. k \<notin> set trust_keys) (own_keys v) \<or> list_ex (\<lambda>k. get_prop k v = None) trust_keys
          then trustError ''peer trust record fields are malformed''
          else if get_prop ''version'' v \<noteq> Some (JNum 1) then trustError ''peer trust record version is unsupported''
          else if get_prop ''authorityId'' v \<noteq> Some (JStr expectedAuthorityId)
          then trustError ''peer trust record authority id does not match its storage location''
          else (case trust_state_of (get_prop ''state'' v) of
             None \<Rightarrow> trustError ''peer trust record state is invalid''
           | Some st \<Rightarrow>
               if \<not> dated (m_host m) (get_prop ''createdAt'' v) then trustError ''peer trust record createdAt is invalid''
               else if \<not> dated (m_host m) (get_prop ''updatedAt'' v) then trustError ''peer trust record updatedAt is invalid''
               else if st = Revoked \<and> (\<not> dated (m_host m) (get_prop ''revokedAt'' v) \<or>
                 (case get_prop ''revokedReason'' v of Some (JStr r) \<Rightarrow> blank r | _ \<Rightarrow> True))
               then trustError ''revoked peer trust record must carry a revocation timestamp and reason''
               else if st \<noteq> Revoked \<and> (get_prop ''revokedAt'' v \<noteq> Some JNull \<or> get_prop ''revokedReason'' v \<noteq> Some JNull)
               then trustError ''non-revoked peer trust record must not carry revocation fields''
               else check (boundPeerKey (m_crypto m) (get_prop ''authorityId'' v) (get_prop ''publicKeyPem'' v)) (\<lambda>(authority, fingerprint, pem).
                 if get_prop ''fingerprint'' v \<noteq> Some (JStr fingerprint)
                 then trustError ''peer trust record fingerprint does not match its stored public key''
                 else check (boundTransportPolicy m (get_prop ''transportPolicy'' v) authority) (\<lambda>policy.
                   Inr \<lparr>pt_authorityId = authority, pt_publicKeyPem = pem, pt_fingerprint = fingerprint,
                     pt_transportPolicy = policy, pt_state = st,
                     pt_createdAt = the (text_field v ''createdAt''), pt_updatedAt = the (text_field v ''updatedAt''),
                     pt_revokedAt = text_field v ''revokedAt'', pt_revokedReason = text_field v ''revokedReason''\<rparr>))))
      | Some _ \<Rightarrow> trustError ''peer trust record must be an object'')"

definition peers_dir :: "path \<Rightarrow> path" where
  "peers_dir stateDir = stateDir @ [''federation'', ''peers'']"

definition recordPath :: "path \<Rightarrow> string \<Rightarrow> path" where
  "recordPath peersDir authority = peersDir @ [authority @ ''.json'']"

definition ensurePeersDir :: "machine \<Rightarrow> path \<Rightarrow> (fs, path) effect" where
  "ensurePeersDir m stateDir =
     (let p = peers_dir stateDir in
      seq (asking (\<lambda>s. assertSafePath trust_err s p)) (\<lambda>_.
      seq (asking (\<lambda>s. existsAsAny s p)) (\<lambda>e.
      seq (if e then give () else mkdirSync (m_umasked m) p DIRECTORY_MODE) (\<lambda>_.
      seq (asking (\<lambda>s. assertRegularDirectory trust_err s p ''federation peers directory'')) (\<lambda>_.
      seq (asking (\<lambda>s. assertMode trust_err s p DIRECTORY_MODE ''federation peers directory'')) (\<lambda>_.
      give p))))))"

definition tryReadRecord :: "machine \<Rightarrow> path \<Rightarrow> string \<Rightarrow> fs \<Rightarrow> peer_trust option checked" where
  "tryReadRecord m p authority s =
     check (assertSafePath trust_err s p) (\<lambda>_.
     check (existsAsAny s p) (\<lambda>e.
     if \<not> e then Inr None
     else check (assertRegularNonSymlink trust_err s p ''peer trust record'') (\<lambda>_.
       check (assertMode trust_err s p FILE_MODE ''peer trust record'') (\<lambda>_.
       check (readFileSync s p) (\<lambda>text.
       check (parseRecord m text authority) (\<lambda>r. Inr (Some r)))))))"

definition readRecordOrThrow :: "machine \<Rightarrow> path \<Rightarrow> string \<Rightarrow> string \<Rightarrow> fs \<Rightarrow> peer_trust checked" where
  "readRecordOrThrow m p authority action s =
     check (tryReadRecord m p authority s) (\<lambda>r.
       case r of None \<Rightarrow> trustError (''no local trust record for authority '' @ authority @ ''; nothing to '' @ action)
       | Some r \<Rightarrow> Inr r)"

definition writeRecord :: "machine \<Rightarrow> path \<Rightarrow> peer_trust \<Rightarrow> (fs, unit) effect" where
  "writeRecord m p r =
     (let temporary = butlast p @ [''.'' @ last p @ ''.tmp-'' @ m_temporary m] in
      seq (write_new_file temporary FILE_MODE (json_file (trust_json r))) (\<lambda>_.
      seq (renameSync temporary p) (\<lambda>_.
      asking (\<lambda>s. assertMode trust_err s p FILE_MODE ''peer trust record''))))"

definition requireIdentity :: "machine \<Rightarrow> string option \<Rightarrow> (fs, path) effect" where
  "requireIdentity m stateDirInput =
     seq (lifted (m_resolve m stateDirInput)) (\<lambda>stateDir.
     seq (asking (readMachineIdentityStatus m (Some (path_text stateDir)))) (\<lambda>_. give stateDir))"

section \<open>Operations\<close>

definition pin_conflict :: "string \<Rightarrow> string" where
  "pin_conflict authority = ''authority '' @ authority @
     '' is already pinned to different key material or transport policy; revoke it before re-enrolling''"

definition same_pin :: "peer_trust \<Rightarrow> string \<Rightarrow> string \<Rightarrow> json \<Rightarrow> bool" where
  "same_pin r fingerprint pem policy \<longleftrightarrow>
     pt_fingerprint r = fingerprint \<and> pt_publicKeyPem r = pem \<and> sameTransportPolicy (pt_transportPolicy r) policy"

definition new_trust :: "machine \<Rightarrow> string \<Rightarrow> string \<Rightarrow> string \<Rightarrow> json \<Rightarrow> trust_state \<Rightarrow> peer_trust" where
  "new_trust m authority fingerprint pem policy st =
     \<lparr>pt_authorityId = authority, pt_publicKeyPem = pem, pt_fingerprint = fingerprint, pt_transportPolicy = policy,
      pt_state = st, pt_createdAt = now_iso m, pt_updatedAt = now_iso m, pt_revokedAt = None, pt_revokedReason = None\<rparr>"

definition save_trust :: "machine \<Rightarrow> path \<Rightarrow> peer_trust \<Rightarrow> (fs, peer_trust) effect" where
  "save_trust m p r = seq (writeRecord m p r) (\<lambda>_. give r)"

definition preparePeerTrust :: "machine \<Rightarrow> string option \<Rightarrow> string \<Rightarrow> string \<Rightarrow> json \<Rightarrow> (fs, peer_trust) effect" where
  "preparePeerTrust m stateDirInput authorityIdInput pemInput policyInput =
     seq (requireIdentity m stateDirInput) (\<lambda>stateDir.
     seq (lifted (boundPeerKey (m_crypto m) (Some (JStr authorityIdInput)) (Some (JStr pemInput)))) (\<lambda>(authority, fingerprint, pem).
     seq (lifted (boundTransportPolicy m (Some policyInput) authority)) (\<lambda>policy.
     seq (ensurePeersDir m stateDir) (\<lambda>dir.
     let p = recordPath dir authority in
     seq (asking (tryReadRecord m p authority)) (\<lambda>existing.
     case existing of
       Some r \<Rightarrow>
         if pt_state r = Revoked
         then lifted (trustError (''authority '' @ authority @ '' is durably revoked; re-enrollment is not permitted''))
         else if same_pin r fingerprint pem policy then give r
         else lifted (trustError (pin_conflict authority))
     | None \<Rightarrow> save_trust m p (new_trust m authority fingerprint pem policy Pending))))))"

definition advancePeerTrustFromEnrollmentProof ::
    "machine \<Rightarrow> string option \<Rightarrow> string \<Rightarrow> string \<Rightarrow> json option \<Rightarrow> trust_state \<Rightarrow> (fs, peer_trust) effect" where
  "advancePeerTrustFromEnrollmentProof m stateDirInput authorityIdInput pemInput policyInput toState =
     seq (requireIdentity m stateDirInput) (\<lambda>stateDir.
     seq (lifted (boundPeerKey (m_crypto m) (Some (JStr authorityIdInput)) (Some (JStr pemInput)))) (\<lambda>(authority, fingerprint, pem).
     seq (lifted (boundTransportPolicy m policyInput authority)) (\<lambda>policy.
     seq (ensurePeersDir m stateDir) (\<lambda>dir.
     let p = recordPath dir authority in
     seq (asking (tryReadRecord m p authority)) (\<lambda>existing.
     case existing of
       Some r \<Rightarrow>
         if pt_state r = Revoked
         then lifted (trustError (''authority '' @ authority @ '' is durably revoked; enrollment is not permitted''))
         else if \<not> same_pin r fingerprint pem policy then lifted (trustError (pin_conflict authority))
         else if pt_state r = TrustActive \<or> pt_state r = toState then give r
         else save_trust m p (r\<lparr>pt_state := toState, pt_updatedAt := now_iso m\<rparr>)
     | None \<Rightarrow> save_trust m p (new_trust m authority fingerprint pem policy toState))))))"

definition revokePeerTrust :: "machine \<Rightarrow> string option \<Rightarrow> string \<Rightarrow> string \<Rightarrow> (fs, peer_trust) effect" where
  "revokePeerTrust m stateDirInput authorityIdInput reasonInput =
     seq (requireIdentity m stateDirInput) (\<lambda>stateDir.
     seq (lifted (boundAuthorityId (Some (JStr authorityIdInput)))) (\<lambda>authority.
     seq (lifted (nonBlank (Some (JStr reasonInput)) ''revocation reason'')) (\<lambda>reason.
     seq (ensurePeersDir m stateDir) (\<lambda>dir.
     let p = recordPath dir authority in
     seq (asking (readRecordOrThrow m p authority ''revoke'')) (\<lambda>r.
     if pt_state r = Revoked then give r
     else save_trust m p (r\<lparr>pt_state := Revoked, pt_updatedAt := now_iso m, pt_revokedAt := Some (now_iso m),
       pt_revokedReason := Some reason\<rparr>))))))"

definition readPeerTrust :: "machine \<Rightarrow> string \<Rightarrow> string option \<Rightarrow> (fs, peer_trust) effect" where
  "readPeerTrust m authorityIdInput stateDirInput =
     seq (requireIdentity m stateDirInput) (\<lambda>stateDir.
     seq (lifted (boundAuthorityId (Some (JStr authorityIdInput)))) (\<lambda>authority.
     seq (ensurePeersDir m stateDir) (\<lambda>dir.
     asking (readRecordOrThrow m (recordPath dir authority) authority ''inspect''))))"

definition readActivePeerTrust :: "machine \<Rightarrow> string \<Rightarrow> string option \<Rightarrow> (fs, peer_trust option) effect" where
  "readActivePeerTrust m authorityIdInput stateDirInput =
     seq (requireIdentity m stateDirInput) (\<lambda>stateDir.
     seq (lifted (boundAuthorityId (Some (JStr authorityIdInput)))) (\<lambda>authority.
     seq (ensurePeersDir m stateDir) (\<lambda>dir.
     seq (asking (tryReadRecord m (recordPath dir authority) authority)) (\<lambda>existing.
     give (case existing of
       Some r \<Rightarrow> if pt_state r = TrustActive then Some r else None
     | None \<Rightarrow> None)))))"

text \<open>The entries in the order of their names.\<close>

definition listed :: "machine \<Rightarrow> path \<Rightarrow> string \<Rightarrow> fs \<Rightarrow> peer_trust checked" where
  "listed m dir entry s =
     check (boundAuthorityId (Some (JStr (if entry = ''.json'' then entry else take (length entry - 5) entry)))) (\<lambda>authority.
       readRecordOrThrow m (dir @ [entry]) authority ''inspect'' s)"

fun list_each :: "('a \<Rightarrow> 'b checked) \<Rightarrow> 'a list \<Rightarrow> 'b list checked" where
  "list_each f [] = Inr []"
| "list_each f (x # xs) = check (f x) (\<lambda>y. check (list_each f xs) (\<lambda>ys. Inr (y # ys)))"

fun name_le :: "string \<Rightarrow> string \<Rightarrow> bool" where
  "name_le [] t = True"
| "name_le (c # s) [] = False"
| "name_le (c # s) (d # t) = (if c = d then name_le s t else (of_char c :: nat) < of_char d)"

fun insert_name :: "string \<Rightarrow> string list \<Rightarrow> string list" where
  "insert_name x [] = [x]"
| "insert_name x (y # ys) = (if name_le x y then x # y # ys else y # insert_name x ys)"

definition listPeerTrust :: "machine \<Rightarrow> string option \<Rightarrow> (fs, peer_trust list) effect" where
  "listPeerTrust m stateDirInput =
     seq (requireIdentity m stateDirInput) (\<lambda>stateDir.
     seq (ensurePeersDir m stateDir) (\<lambda>dir.
     asking (\<lambda>s. list_each (\<lambda>entry. listed m dir entry s)
       (foldr insert_name (filter (ends_with ''.json'') (readdirSync s dir)) []))))"

end
