(* ===== verification/DemoMachines.thy ===== *)
theory DemoMachines
  imports PeerTrust
begin

text \<open>
  Two concrete machines, \<open>A\<close> and \<open>B\<close>, that have enrolled each other, for the witnesses: keys are one letter,
  a signature is the key and a filling, and the files hold short texts that \<open>JSON.parse\<close> maps to their values.
\<close>

definition demo_other :: "string \<Rightarrow> string" where
  "demo_other k = (if k = ''A'' then ''B'' else ''A'')"

definition demo_digest :: "string \<Rightarrow> string" where
  "demo_digest der = replicate 63 (CHR ''0'') @ (if der = ''A'' then ''a'' else ''b'')"

definition demo_authority :: "string \<Rightarrow> string" where
  "demo_authority k = authority_of (demo_digest k)"

definition demo_signature :: "string \<Rightarrow> string" where
  "demo_signature k = k @ replicate 63 (CHR ''s'')"

definition demo_crypto :: crypto where
  "demo_crypto = \<lparr>pem_public = (\<lambda>p. Inr (True, p)), spki_public = (\<lambda>p. Inr (True, take 1 p)), pem_private = Inr,
     sha256_digest = demo_digest, der_base64 = (\<lambda>d. d @ ''AA=''), der_pem = (\<lambda>d. d),
     base64_bytes = (\<lambda>t. t), ed_sign = (\<lambda>k t. demo_signature k), ed_verify = (\<lambda>k t g. Inr (g = demo_signature k))\<rparr>"

definition demo_policy :: "string \<Rightarrow> json" where
  "demo_policy peer = JObj [(''kind'', JStr ''loopbackSsh''), (''peerAuthorityId'', JStr peer), (''sshDestination'', JStr ''h''),
     (''sshUser'', JStr ''u''), (''localEndpoint'', JStr ''::1''), (''localPort'', JNum 22)]"

definition demo_record :: "string \<Rightarrow> trust_state \<Rightarrow> peer_trust" where
  "demo_record k st = \<lparr>pt_authorityId = demo_authority k, pt_publicKeyPem = k, pt_fingerprint = demo_digest k,
     pt_transportPolicy = demo_policy (demo_authority k), pt_state = st, pt_createdAt = ''t0'', pt_updatedAt = ''t0'',
     pt_revokedAt = (if st = Revoked then Some ''t0'' else None), pt_revokedReason = (if st = Revoked then Some ''lost'' else None)\<rparr>"

definition demo_metadata :: "string \<Rightarrow> identity_metadata" where
  "demo_metadata k = \<lparr>im_authorityId = demo_authority k, im_publicFingerprint = demo_digest k, im_createdAt = ''t0''\<rparr>"

definition demo_parse :: "string \<Rightarrow> json option" where
  "demo_parse t =
     (if t = ''MA'' then Some (metadata_json (demo_metadata ''A'')) else if t = ''MB'' then Some (metadata_json (demo_metadata ''B''))
      else if t = ''TA'' then Some (trust_json (demo_record ''A'' TrustActive)) else if t = ''TB'' then Some (trust_json (demo_record ''B'' TrustActive))
      else if t = ''RB'' then Some (trust_json (demo_record ''B'' Revoked)) else None)"

definition demo_machine_host :: relay_host where
  "demo_machine_host = \<lparr>date_parse = (\<lambda>t. if t = ''t0'' then Some 0 else if t = ''t1'' then Some 60000 else None),
     is_ip = (\<lambda>_. 0), json_parse = demo_parse\<rparr>"

definition demo_machine :: machine where
  "demo_machine = \<lparr>m_host = demo_machine_host, m_crypto = demo_crypto, m_now = 0,
     m_iso = (\<lambda>t. if t = 0 then ''t0'' else ''t1''), m_uuid = ''01234567-89ab-cdef-0123-456789abcdef'',
     m_temporary = ''x'', m_nonce = replicate 64 (CHR ''0''), m_keypair = (''A'', ''A''),
     m_resolve = (\<lambda>_. Inr [''s'']), m_umasked = (\<lambda>mode. mode)\<rparr>"

text \<open>The disk of machine \<open>k\<close>, with \<open>trust\<close> in the file of its peer.\<close>

definition demo_files :: "string \<Rightarrow> string \<Rightarrow> fs" where
  "demo_files k trust =
     [([''s''], Dir DIRECTORY_MODE), ([''s'', ''federation''], Dir DIRECTORY_MODE),
      (identity_dir [''s''], Dir DIRECTORY_MODE),
      (identity_dir [''s''] @ [PRIVATE_KEY_FILE], File FILE_MODE k), (identity_dir [''s''] @ [PUBLIC_KEY_FILE], File FILE_MODE k),
      (identity_dir [''s''] @ [METADATA_FILE], File FILE_MODE (CHR ''M'' # k)),
      (peers_dir [''s''], Dir DIRECTORY_MODE),
      (recordPath (peers_dir [''s'']) (demo_authority (demo_other k)), File FILE_MODE trust)]"

end
