(* ===== verification/PeerTrustProperties.thy ===== *)
theory PeerTrustProperties
  imports DemoMachines
begin

text \<open>
  What the trust store guarantees, whatever sequence of its operations runs on whatever file system: the file
  of a peer changes only along the life cycle of trust, a revoked record never changes again, and what
  \<open>readActivePeerTrust\<close> returns is an intact, active record that pins the key it names.
\<close>

section \<open>The life cycle\<close>

inductive trust_step :: "peer_trust option \<Rightarrow> peer_trust \<Rightarrow> bool" where
  enrolled: "pt_state r \<noteq> Revoked \<Longrightarrow> trust_step None r"
| advanced: "pt_state r \<in> {Pending, Confirming} \<Longrightarrow> st \<in> {Confirming, TrustActive} \<Longrightarrow> st \<noteq> pt_state r \<Longrightarrow>
    trust_step (Some r) (r\<lparr>pt_state := st, pt_updatedAt := t\<rparr>)"
| revoked: "pt_state r \<noteq> Revoked \<Longrightarrow> \<not> blank reason \<Longrightarrow>
    trust_step (Some r) (r\<lparr>pt_state := Revoked, pt_updatedAt := t, pt_revokedAt := Some t, pt_revokedReason := Some reason\<rparr>)"

inductive_cases trust_step_SomeE: "trust_step (Some r) r1"

datatype trust_op =
    Prepare string string json
  | Advance string string "json option" bool
  | Revoke string string
  | Read string
  | ReadActive string
  | ListPeers

definition ignoring :: "(fs, 'a) effect \<Rightarrow> (fs, unit) effect" where
  "ignoring m = seq m (\<lambda>_. give ())"

fun run_trust :: "machine \<Rightarrow> string option \<Rightarrow> trust_op \<Rightarrow> (fs, unit) effect" where
  "run_trust m d (Prepare a pem policy) = ignoring (preparePeerTrust m d a pem policy)"
| "run_trust m d (Advance a pem policy active) = ignoring
     (advancePeerTrustFromEnrollmentProof m d a pem policy (if active then TrustActive else Confirming))"
| "run_trust m d (Revoke a reason) = ignoring (revokePeerTrust m d a reason)"
| "run_trust m d (Read a) = ignoring (readPeerTrust m a d)"
| "run_trust m d (ReadActive a) = ignoring (readActivePeerTrust m a d)"
| "run_trust m d ListPeers = ignoring (listPeerTrust m d)"

text \<open>The record a file holds.\<close>

definition stored :: "machine \<Rightarrow> path \<Rightarrow> string \<Rightarrow> fs \<Rightarrow> peer_trust option" where
  "stored m p a s =
     (case node_at s p of
        Some (File _ text) \<Rightarrow> (case parseRecord m text a of Inr r \<Rightarrow> Some r | Inl _ \<Rightarrow> None)
      | _ \<Rightarrow> None)"

lemma tryReadRecord_stored:
  assumes "tryReadRecord m p a s = Inr r"
  shows "stored m p a s = r" and "r = None \<Longrightarrow> node_at s p = None"
proof -
  have "stored m p a s = r \<and> (r = None \<longrightarrow> node_at s p = None)"
  proof (cases "node_at s p")
    case None
    with assms show ?thesis
      by (auto simp: tryReadRecord_def check_Inr_iff existsAsAny_def lstat_def stored_def split: if_splits)
  next
    case (Some v)
    with assms show ?thesis
      by (cases v) (auto simp: tryReadRecord_def check_Inr_iff existsAsAny_def lstat_def stored_def readFileSync_def
        assertRegularNonSymlink_def is_link_def is_file_def split: if_splits)
  qed
  then show "stored m p a s = r" and "r = None \<Longrightarrow> node_at s p = None"
    by blast+
qed

section \<open>What the operations leave alone\<close>

abbreviation quiet :: "path \<Rightarrow> (fs, 'a) effect \<Rightarrow> bool" where
  "quiet q m \<equiv> \<forall>v. stable (\<lambda>s. node_at s q = v) m"

lemma quiet_intros [stable_intros]:
  "q \<noteq> p \<Longrightarrow> stable (\<lambda>s. node_at s q = v) (mkdirSync f p mode)"
  "q \<noteq> p \<Longrightarrow> stable (\<lambda>s. node_at s q = v) (write_new_file p mode text)"
  by (auto simp: stable_def mkdirSync_def write_new_file_def node_at_def put_node_def)

lemma quiet_ensurePeersDir [stable_intros]:
  "q \<noteq> peers_dir d \<Longrightarrow> stable (\<lambda>s. node_at s q = v) (ensurePeersDir m d)"
  by (auto simp: ensurePeersDir_def Let_def intro!: stable_intros)

lemma quiet_requireIdentity [stable_intros]: "stable I (requireIdentity m d)"
  by (auto simp: requireIdentity_def intro!: stable_intros)

text \<open>\<open>follows m q a run s\<close>: the file at \<open>q\<close> is as it was in \<open>s\<close>, or went one step along the life cycle.\<close>

definition follows :: "machine \<Rightarrow> path \<Rightarrow> string \<Rightarrow> (fs, 'a) effect \<Rightarrow> fs \<Rightarrow> bool" where
  "follows m q a run s \<longleftrightarrow>
     node_at (snd (run s)) q = node_at s q \<or>
     (\<exists>r. node_at (snd (run s)) q = Some (File FILE_MODE (json_file (trust_json r))) \<and> trust_step (stored m q a s) r \<and>
       (stored m q a s = None \<longrightarrow> node_at s q = None))"

lemma follows_quiet: "quiet q run \<Longrightarrow> follows m q a run s"
  by (simp add: follows_def stable_def)

lemma follows_seq:
  assumes "quiet q n" and "\<And>x t. n s = (Inr x, t) \<Longrightarrow> follows m q a (k x) t"
  shows "follows m q a (seq n k) s"
proof -
  obtain r s1 where n: "n s = (r, s1)" by (cases "n s")
  then have same: "node_at s1 q = node_at s q"
    using assms(1) by (auto simp: stable_def) (metis snd_conv)
  then have "stored m q a s1 = stored m q a s"
    by (simp add: stored_def)
  with same n assms(2) [of _ s1] show ?thesis
    by (cases r) (simp_all add: seq_def follows_def)
qed

lemma follows_asking:
  assumes "\<And>x. f s = Inr x \<Longrightarrow> follows m q a (k x) s"
  shows "follows m q a (seq (asking f) k) s"
  using assms by (cases "f s") (auto simp: seq_asking follows_def)

lemma follows_ignoring: "follows m q a run s \<Longrightarrow> follows m q a (ignoring run) s"
proof -
  have "snd (ignoring run s) = snd (run s)"
    by (auto simp: ignoring_def seq_def give_def split: prod.split sum.split)
  then show "follows m q a run s \<Longrightarrow> follows m q a (ignoring run) s"
    by (simp add: follows_def)
qed

section \<open>Writing a record\<close>

definition temporary_path :: "machine \<Rightarrow> path \<Rightarrow> path" where
  "temporary_path m p = butlast p @ [''.'' @ last p @ ''.tmp-'' @ m_temporary m]"

lemma record_path_facts:
  assumes "authority_pattern a"
  shows "recordPath (peers_dir d) a \<noteq> peers_dir d2"
    and "recordPath (peers_dir d) a \<noteq> temporary_path m (recordPath (peers_dir d2) b)"
    and "recordPath (peers_dir d) a = recordPath (peers_dir d2) b \<longleftrightarrow> d = d2 \<and> a = b"
    and "recordPath (peers_dir d) a \<noteq> []"
proof -
  obtain x where a: "a = ''authority-'' @ x"
    using assms starts_withE [of "''authority-''" a] by (auto simp: authority_pattern_def)
  show "recordPath (peers_dir d) a \<noteq> peers_dir d2"
    using a by (auto simp: recordPath_def peers_dir_def)
  show "recordPath (peers_dir d) a \<noteq> temporary_path m (recordPath (peers_dir d2) b)"
    using a by (auto simp: recordPath_def peers_dir_def temporary_path_def butlast_append)
  show "recordPath (peers_dir d) a = recordPath (peers_dir d2) b \<longleftrightarrow> d = d2 \<and> a = b"
    by (auto simp: recordPath_def peers_dir_def)
  show "recordPath (peers_dir d) a \<noteq> []"
    by (simp add: recordPath_def)
qed

lemma save_trust_at:
  assumes "q \<noteq> temporary_path m p" and "p \<noteq> []"
  shows "node_at (snd (save_trust m p r s)) q = node_at s q \<or>
    q = p \<and> node_at (snd (save_trust m p r s)) q = Some (File FILE_MODE (json_file (trust_json r)))"
proof -
  let ?t = "temporary_path m p" and ?v = "File FILE_MODE (json_file (trust_json r))"
  obtain w1 s1 where w: "write_new_file ?t FILE_MODE (json_file (trust_json r)) s = (w1, s1)"
    by (metis surj_pair)
  show ?thesis
  proof (cases w1)
    case (Inl e)
    with w have "s1 = s" by (auto simp: write_new_file_def split: if_splits)
    with w Inl show ?thesis
      by (simp add: save_trust_def writeRecord_def temporary_path_def Let_def effect_simps)
  next
    case (Inr u)
    with w have s1: "s1 = put_node ?t ?v s"
      by (auto simp: write_new_file_def split: if_splits)
    have t: "?t \<noteq> []" by (simp add: temporary_path_def)
    have "snd (save_trust m p r s) = snd (renameSync ?t p s1)"
      using w Inr by (cases "renameSync ?t p s1"; cases "fst (renameSync ?t p s1)";
        cases "assertMode trust_err (snd (renameSync ?t p s1)) p FILE_MODE ''peer trust record''")
        (auto simp: save_trust_def writeRecord_def temporary_path_def Let_def seq_def asking_def give_def)
    then show ?thesis
      using assms t s1 by (auto simp: renameSync_def)
  qed
qed

lemma follows_save:
  assumes "authority_pattern a" and "trust_step (stored m (recordPath (peers_dir d) a) a s) r \<and>
    (stored m (recordPath (peers_dir d) a) a s = None \<longrightarrow> node_at s (recordPath (peers_dir d) a) = None) \<or> (d, a) \<noteq> (d2, b)"
  shows "follows m (recordPath (peers_dir d) a) a (save_trust m (recordPath (peers_dir d2) b) r) s"
  using save_trust_at [OF record_path_facts(2) [OF assms(1), of d m d2 b], of r s] assms(2)
    record_path_facts(3) [OF assms(1), of d d2 b]
  by (auto simp: follows_def recordPath_def)


lemma ensurePeersDir_value: "ensurePeersDir m d s = (Inr x, t) \<Longrightarrow> x = peers_dir d"
  by (auto simp: ensurePeersDir_def Let_def seq_Inr_iff give_def)

text \<open>The decision of an operation on what it read, for the file of its peer.\<close>

lemma follows_decision:
  assumes "authority_pattern a"
    and "\<And>r t. tryReadRecord m (recordPath (peers_dir d2) b) b t = Inr r \<Longrightarrow>
      (\<exists>x. k r = save_trust m (recordPath (peers_dir d2) b) x \<and> trust_step r x) \<or> quiet (recordPath (peers_dir d) a) (k r)"
  shows "follows m (recordPath (peers_dir d) a) a
    (seq (asking (tryReadRecord m (recordPath (peers_dir d2) b) b)) k) s"
proof (rule follows_asking)
  fix r
  assume read: "tryReadRecord m (recordPath (peers_dir d2) b) b s = Inr r"
  consider x where "k r = save_trust m (recordPath (peers_dir d2) b) x" "trust_step r x"
    | "quiet (recordPath (peers_dir d) a) (k r)"
    using assms(2) [OF read] by blast
  then show "follows m (recordPath (peers_dir d) a) a (k r) s"
  proof cases
    case 1
    have "trust_step (stored m (recordPath (peers_dir d) a) a s) x \<and>
      (stored m (recordPath (peers_dir d) a) a s = None \<longrightarrow> node_at s (recordPath (peers_dir d) a) = None) \<or> (d, a) \<noteq> (d2, b)"
      using 1(2) tryReadRecord_stored [OF read] by auto
    with 1(1) show ?thesis
      using follows_save [OF assms(1)] by simp
  next
    case 2
    then show ?thesis by (rule follows_quiet)
  qed
qed

lemma quiet_pure: "quiet q (give x)" "quiet q (fail_with e)" "quiet q (lifted r)"
  by (auto intro!: stable_intros)

lemma follows_dir:
  assumes "authority_pattern a"
    and "\<And>r. (\<exists>x. K (peers_dir d2) r = save_trust m (recordPath (peers_dir d2) b) x \<and> trust_step r x) \<or>
      quiet (recordPath (peers_dir d) a) (K (peers_dir d2) r)"
  shows "follows m (recordPath (peers_dir d) a) a
    (seq (ensurePeersDir m d2) (\<lambda>dir. seq (asking (tryReadRecord m (recordPath dir b) b)) (K dir))) s"
proof (rule follows_seq)
  show "quiet (recordPath (peers_dir d) a) (ensurePeersDir m d2)"
    using record_path_facts(1) [OF assms(1)] by (auto intro!: stable_intros)
  fix dir t
  assume "ensurePeersDir m d2 s = (Inr dir, t)"
  then have "dir = peers_dir d2" by (rule ensurePeersDir_value)
  then show "follows m (recordPath (peers_dir d) a) a (seq (asking (tryReadRecord m (recordPath dir b) b)) (K dir)) t"
    using follows_decision [OF assms(1)] assms(2) by blast
qed

lemma follows_requireIdentity:
  "(\<And>x t. follows m q a (k x) t) \<Longrightarrow> follows m q a (seq (requireIdentity m d) k) s"
  by (rule follows_seq) (auto intro!: stable_intros)

lemma follows_lifted:
  "(\<And>x. follows m q a (k x) s) \<Longrightarrow> follows m q a (seq (lifted r) k) s"
  by (cases r) (auto simp: follows_quiet quiet_pure)

lemma follows_prepare:
  assumes "authority_pattern a"
  shows "follows m (recordPath (peers_dir d) a) a (preparePeerTrust m sd b pem policy) s"
  unfolding preparePeerTrust_def Let_def
  apply (rule follows_requireIdentity)
  apply (rule follows_lifted)
  apply (simp only: split_paired_all prod.case)
  apply (rule follows_lifted)
  apply (rule follows_dir [OF assms])
  subgoal for _ _ _ _ _ _ r
    by (cases r) (auto simp: new_trust_def quiet_pure intro!: trust_step.enrolled)
  done

lemma follows_advance:
  assumes "authority_pattern a" and "st \<in> {Confirming, TrustActive}"
  shows "follows m (recordPath (peers_dir d) a) a (advancePeerTrustFromEnrollmentProof m sd b pem policy st) s"
  unfolding advancePeerTrustFromEnrollmentProof_def Let_def
  apply (rule follows_requireIdentity)
  apply (rule follows_lifted)
  apply (simp only: split_paired_all prod.case)
  apply (rule follows_lifted)
  apply (rule follows_dir [OF assms(1)])
  subgoal for _ _ _ _ _ _ r
    using assms(2) by (cases r; cases "pt_state (the r)")
      (auto simp: new_trust_def quiet_pure intro!: trust_step.enrolled trust_step.advanced)
  done

lemma readRecordOrThrow_seq:
  "seq (asking (readRecordOrThrow m p a act)) k =
   seq (asking (tryReadRecord m p a)) (\<lambda>r. case r of
     None \<Rightarrow> fail_with (''Rooms peer trust: no local trust record for authority '' @ a @ ''; nothing to '' @ act) | Some r \<Rightarrow> k r)"
  by (auto simp: fun_eq_iff seq_asking readRecordOrThrow_def fail_with_def check_def split: sum.split option.split)

lemma follows_revoke:
  assumes "authority_pattern a"
  shows "follows m (recordPath (peers_dir d) a) a (revokePeerTrust m sd b reason) s"
proof (cases "blank reason")
  case True
  show ?thesis
    unfolding revokePeerTrust_def
    apply (rule follows_requireIdentity)
    apply (rule follows_lifted)
    apply (simp add: True nonBlank_def follows_quiet quiet_pure)
    done
next
  case False
  show ?thesis
    unfolding revokePeerTrust_def Let_def readRecordOrThrow_seq
    apply (rule follows_requireIdentity)
    apply (rule follows_lifted)
    apply (simp add: False nonBlank_def)
    apply (rule follows_dir [OF assms])
    subgoal for _ _ _ r
      by (cases r) (auto simp: False quiet_pure intro!: trust_step.revoked)
    done
qed

lemma quiet_reads:
  assumes "authority_pattern a"
  shows "quiet (recordPath (peers_dir d) a) (readPeerTrust m b sd)"
    and "quiet (recordPath (peers_dir d) a) (readActivePeerTrust m b sd)"
    and "quiet (recordPath (peers_dir d) a) (listPeerTrust m sd)"
  using record_path_facts(1) [OF assms]
  by (auto simp: readPeerTrust_def readActivePeerTrust_def listPeerTrust_def intro!: stable_intros)

lemma follows_run_trust:
  assumes "authority_pattern a"
  shows "follows m (recordPath (peers_dir d) a) a (run_trust m sd operation) s"
  using follows_quiet [OF quiet_reads(1) [OF assms]] follows_quiet [OF quiet_reads(2) [OF assms]]
    follows_quiet [OF quiet_reads(3) [OF assms]]
  by (cases operation) (auto intro!: follows_ignoring follows_prepare follows_advance follows_revoke assms)

text \<open>
  C16. Every operation of the trust store, on any file system, run by any machine, leaves the file of a
  well-formed authority as it is or replaces it by the text of a record one step further in the life cycle
  of trust, counted from the record the file held; a file that holds no readable record is never replaced.\<close>

theorem trust_store_refines:
  assumes "authority_pattern a" and "snd (run_trust m sd operation s) = s1"
  shows "node_at s1 (recordPath (peers_dir d) a) = node_at s (recordPath (peers_dir d) a) \<or>
    (\<exists>r. node_at s1 (recordPath (peers_dir d) a) = Some (File FILE_MODE (json_file (trust_json r))) \<and>
      trust_step (stored m (recordPath (peers_dir d) a) a s) r \<and>
      (stored m (recordPath (peers_dir d) a) a s = None \<longrightarrow> node_at s (recordPath (peers_dir d) a) = None))"
  using follows_run_trust [OF assms(1), of m d sd operation s] assms(2) by (simp add: follows_def)

section \<open>Revocation\<close>

definition revoked_file :: "relay_host \<Rightarrow> fs \<Rightarrow> path \<Rightarrow> bool" where
  "revoked_file host s p \<longleftrightarrow>
     (\<exists>mode text v. node_at s p = Some (File mode text) \<and> json_parse host text = Some v \<and>
       get_prop ''state'' v = Some (JStr ''revoked''))"

fun run_trust_all :: "(machine \<times> string option \<times> trust_op) list \<Rightarrow> fs \<Rightarrow> fs" where
  "run_trust_all [] s = s"
| "run_trust_all ((m, sd, operation) # ops) s = run_trust_all ops (snd (run_trust m sd operation s))"

lemma parse_revoked:
  assumes "parseRecord m text a = Inr r" and "json_parse (m_host m) text = Some v" and "get_prop ''state'' v = Some (JStr ''revoked'')"
  shows "pt_state r = Revoked"
proof -
  obtain kvs where v: "v = JObj kvs"
    using assms(3) by (cases v) auto
  from assms(3) have "trust_state_of (get_prop ''state'' v) = Some Revoked"
    by (simp add: trust_state_of_def)
  then show ?thesis
    using assms(1,2) unfolding v parseRecord_def Let_def
    by (auto simp: check_Inr_iff simp del: get_prop.simps split: if_splits prod.splits)
qed

lemma revoked_file_stays:
  assumes "authority_pattern a" and "revoked_file (m_host m) s (recordPath (peers_dir d) a)"
  shows "node_at (snd (run_trust m sd operation s)) (recordPath (peers_dir d) a) = node_at s (recordPath (peers_dir d) a)"
proof (rule ccontr)
  let ?q = "recordPath (peers_dir d) a"
  assume changed: "\<not> ?thesis"
  obtain mode body v where held: "node_at s ?q = Some (File mode body)"
    and v: "json_parse (m_host m) body = Some v" "get_prop ''state'' v = Some (JStr ''revoked'')"
    using assms(2) by (auto simp: revoked_file_def)
  obtain r where step: "trust_step (stored m ?q a s) r" and known: "stored m ?q a s \<noteq> None"
    using follows_run_trust [OF assms(1), of m d sd operation s] changed held by (auto simp: follows_def)
  then obtain r0 where r0: "stored m ?q a s = Some r0" "parseRecord m body a = Inr r0"
    using held by (auto simp: stored_def split: sum.splits)
  have "pt_state r0 = Revoked"
    by (rule parse_revoked [OF r0(2) v])
  with step r0(1) show False
    by (auto elim: trust_step_SomeE)
qed

text \<open>
  C17. Revocation is final: once the file of a peer records the state revoked, no sequence of operations of
  the trust store, by any machines and for any peers, changes that file.\<close>

theorem revoked_is_terminal:
  assumes "authority_pattern a" and "revoked_file host s (recordPath (peers_dir d) a)"
    and "\<forall>(m, sd, operation) \<in> set ops. m_host m = host"
  shows "node_at (run_trust_all ops s) (recordPath (peers_dir d) a) = node_at s (recordPath (peers_dir d) a)"
  using assms(2,3)
proof (induction ops arbitrary: s)
  case (Cons step ops)
  obtain m sd operation where [simp]: "step = (m, sd, operation)"
    by (cases step)
  let ?s = "snd (run_trust m sd operation s)"
  have "m_host m = host"
    using Cons.prems(2) by simp
  with revoked_file_stays [OF assms(1)] Cons.prems(1)
  have same: "node_at ?s (recordPath (peers_dir d) a) = node_at s (recordPath (peers_dir d) a)"
    by simp
  with Cons.prems(1) have "revoked_file host ?s (recordPath (peers_dir d) a)"
    by (simp add: revoked_file_def)
  with Cons.IH [of ?s] Cons.prems(2) same show ?case
    by simp
qed simp

section \<open>Active trust\<close>

lemma parseRecord_sound:
  assumes "parseRecord m body a = Inr r"
  shows "pt_authorityId r = a" and "authority_pattern a" and "a = authority_of (pt_fingerprint r)"
    and "\<exists>der. pem_public (m_crypto m) (pt_publicKeyPem r) = Inr (True, der) \<and> pt_fingerprint r = sha256_digest (m_crypto m) der"
    and "validateTransportPolicy (m_host m) (m_now m) (Some (pt_transportPolicy r)) = Inr ()"
    and "get_prop ''kind'' (pt_transportPolicy r) = Some (JStr ''loopbackSsh'') \<Longrightarrow>
      get_prop ''peerAuthorityId'' (pt_transportPolicy r) = Some (JStr a)"
proof -
  obtain kvs where v: "json_parse (m_host m) body = Some (JObj kvs)"
    using assms by (auto simp: parseRecord_def split: option.splits json.splits)
  define v where "v = JObj kvs"
  from assms v obtain fingerprint pem policy authority where
      id: "get_prop ''authorityId'' v = Some (JStr a)"
    and key: "boundPeerKey (m_crypto m) (get_prop ''authorityId'' v) (get_prop ''publicKeyPem'' v) = Inr (authority, fingerprint, pem)"
    and pol: "boundTransportPolicy m (get_prop ''transportPolicy'' v) authority = Inr policy"
    and r: "pt_authorityId r = authority" "pt_publicKeyPem r = pem" "pt_fingerprint r = fingerprint" "pt_transportPolicy r = policy"
    unfolding parseRecord_def v_def
    by (auto simp: check_Inr_iff Let_def simp del: get_prop.simps split: if_splits option.splits prod.splits)
  from key id have a: "authority = a" "authority_pattern a" "a = authority_of fingerprint"
    and pem: "\<exists>der. pem_public (m_crypto m) pem = Inr (True, der) \<and> fingerprint = sha256_digest (m_crypto m) der"
    by (auto simp: boundPeerKey_def boundAuthorityId_def nonBlank_def check_Inr_iff Let_def
      split: option.splits json.splits if_splits sum.splits prod.splits)
  from pol a(1) have p: "validateTransportPolicy (m_host m) (m_now m) (Some policy) = Inr ()"
      "get_prop ''kind'' policy = Some (JStr ''loopbackSsh'') \<Longrightarrow> get_prop ''peerAuthorityId'' policy = Some (JStr a)"
    by (auto simp: boundTransportPolicy_def simp del: get_prop.simps split: option.splits if_splits sum.splits)
  show "pt_authorityId r = a" "authority_pattern a" "a = authority_of (pt_fingerprint r)"
    "\<exists>der. pem_public (m_crypto m) (pt_publicKeyPem r) = Inr (True, der) \<and> pt_fingerprint r = sha256_digest (m_crypto m) der"
    "validateTransportPolicy (m_host m) (m_now m) (Some (pt_transportPolicy r)) = Inr ()"
    "get_prop ''kind'' (pt_transportPolicy r) = Some (JStr ''loopbackSsh'') \<Longrightarrow>
      get_prop ''peerAuthorityId'' (pt_transportPolicy r) = Some (JStr a)"
    using a pem p by (simp_all add: r)
qed

lemma tryReadRecord_file:
  assumes "tryReadRecord m p a s = Inr (Some r)"
  obtains mode body where "node_at s p = Some (File mode body)" "mode mod 512 = FILE_MODE" "parseRecord m body a = Inr r"
proof -
  from assms have "\<exists>mode body. node_at s p = Some (File mode body) \<and> mode mod 512 = FILE_MODE \<and> parseRecord m body a = Inr r"
    by (cases "node_at s p"; cases "the (node_at s p)")
      (auto simp: tryReadRecord_def check_Inr_iff existsAsAny_def lstat_def readFileSync_def assertMode_def stat_mode_def
        assertRegularNonSymlink_def is_link_def is_file_def split: if_splits)
  then show thesis using that by blast
qed

lemma readActive_file:
  assumes "readActivePeerTrust m a sd s = (Inr (Some r), s1)"
  obtains dir where "m_resolve m sd = Inr dir" "tryReadRecord m (recordPath (peers_dir dir) a) a s1 = Inr (Some r)"
    "pt_state r = TrustActive" "boundAuthorityId (Some (JStr a)) = Inr a"
proof -
  from assms obtain dir where dir: "m_resolve m sd = Inr dir"
    and "seq (lifted (boundAuthorityId (Some (JStr a)))) (\<lambda>authority.
     seq (ensurePeersDir m dir) (\<lambda>dir.
     seq (asking (tryReadRecord m (recordPath dir authority) authority)) (\<lambda>existing.
     give (case existing of
       Some r \<Rightarrow> if pt_state r = TrustActive then Some r else None
     | None \<Rightarrow> None)))) s = (Inr (Some r), s1)"
    by (auto simp: readActivePeerTrust_def requireIdentity_def seq_Inr_iff effect_simps)
  moreover have "boundAuthorityId (Some (JStr a)) = Inr x \<Longrightarrow> x = a" for x
    by (auto simp: boundAuthorityId_def nonBlank_def split: if_splits)
  ultimately show thesis
    using that [OF dir] by (auto simp: seq_Inr_iff effect_simps split: option.splits if_splits dest!: ensurePeersDir_value)
qed

text \<open>
  C18. What \<open>readActivePeerTrust\<close> returns is a record in the state active, read from a regular file of mode
  600 under the state directory, for the authority asked for; the authority is the fingerprint of the Ed25519
  key it pins, its transport policy is valid, and an SSH policy names that authority.\<close>

theorem active_trust_sound:
  assumes "readActivePeerTrust m a sd s = (Inr (Some r), s1)"
  shows "pt_state r = TrustActive \<and> pt_authorityId r = a \<and> a = authority_of (pt_fingerprint r) \<and>
    (\<exists>der. pem_public (m_crypto m) (pt_publicKeyPem r) = Inr (True, der) \<and> pt_fingerprint r = sha256_digest (m_crypto m) der) \<and>
    validateTransportPolicy (m_host m) (m_now m) (Some (pt_transportPolicy r)) = Inr () \<and>
    (get_prop ''kind'' (pt_transportPolicy r) = Some (JStr ''loopbackSsh'') \<longrightarrow>
      get_prop ''peerAuthorityId'' (pt_transportPolicy r) = Some (JStr a)) \<and>
    (\<exists>dir mode body. m_resolve m sd = Inr dir \<and> node_at s1 (recordPath (peers_dir dir) a) = Some (File mode body) \<and>
      mode mod 512 = FILE_MODE)"
proof -
  obtain dir where dir: "m_resolve m sd = Inr dir" "tryReadRecord m (recordPath (peers_dir dir) a) a s1 = Inr (Some r)"
    and active: "pt_state r = TrustActive"
    using readActive_file [OF assms] .
  obtain mode body where file_there: "node_at s1 (recordPath (peers_dir dir) a) = Some (File mode body)" "mode mod 512 = FILE_MODE"
    and parsed: "parseRecord m body a = Inr r"
    using tryReadRecord_file [OF dir(2)] .
  show ?thesis
    using active dir(1) file_there parseRecord_sound [OF parsed] by blast
qed

section \<open>Witnesses\<close>

abbreviation demo_peer :: string where
  "demo_peer \<equiv> demo_authority ''B''"

lemma active_trust_sound_witness:
  "\<exists>r s1. readActivePeerTrust demo_machine demo_peer None (demo_files ''A'' ''TB'') = (Inr (Some r), s1) \<and>
     pt_state r = TrustActive \<and> pt_authorityId r = demo_peer"
proof -
  let ?run = "readActivePeerTrust demo_machine demo_peer None (demo_files ''A'' ''TB'')"
  have "case fst ?run of Inr (Some _) \<Rightarrow> True | _ \<Rightarrow> False"
    by code_simp
  then obtain r s1 where run: "?run = (Inr (Some r), s1)"
    by (cases ?run) (auto split: sum.splits option.splits)
  then show ?thesis
    using active_trust_sound [OF run] by blast
qed

lemma revoked_is_terminal_witness:
  "let p = recordPath (peers_dir [''s'']) demo_peer;
       ops = [(demo_machine, None, Prepare demo_peer ''B'' (demo_policy demo_peer)),
              (demo_machine, None, Advance demo_peer ''B'' (Some (demo_policy demo_peer)) True), (demo_machine, None, ListPeers)] in
   node_at (run_trust_all ops (demo_files ''A'' ''RB'')) p = node_at (demo_files ''A'' ''RB'') p"
  unfolding Let_def
proof (rule revoked_is_terminal)
  show "authority_pattern demo_peer" by code_simp
  have "case node_at (demo_files ''A'' ''RB'') (recordPath (peers_dir [''s'']) demo_peer) of
      Some (File mode t) \<Rightarrow> (case json_parse demo_machine_host t of
        Some v \<Rightarrow> get_prop ''state'' v = Some (JStr ''revoked'') | None \<Rightarrow> False)
    | _ \<Rightarrow> False"
    by code_simp
  then show "revoked_file demo_machine_host (demo_files ''A'' ''RB'') (recordPath (peers_dir [''s'']) demo_peer)"
    by (auto simp: revoked_file_def split: option.splits node.splits)
  show "\<forall>(m, sd, operation) \<in> set [(demo_machine, None, Prepare demo_peer ''B'' (demo_policy demo_peer)),
      (demo_machine, None, Advance demo_peer ''B'' (Some (demo_policy demo_peer)) True), (demo_machine, None, ListPeers)].
      m_host m = demo_machine_host"
    by (simp add: demo_machine_def)
qed

lemma trust_store_refines_witness:
  "let q = recordPath (peers_dir [''s'']) demo_peer; s = demo_files ''A'' ''TB'';
       s1 = snd (run_trust demo_machine None (Revoke demo_peer ''lost'') s) in
   node_at s1 q = node_at s q \<or>
    (\<exists>r. node_at s1 q = Some (File FILE_MODE (json_file (trust_json r))) \<and>
      trust_step (stored demo_machine q demo_peer s) r \<and>
      (stored demo_machine q demo_peer s = None \<longrightarrow> node_at s q = None))"
proof -
  have "authority_pattern demo_peer" by code_simp
  then show ?thesis
    unfolding Let_def by (rule trust_store_refines) (rule refl)
qed

end
