(* ===== verification/Enrollment.thy ===== *)
theory Enrollment
  imports PeerTrust
begin

text \<open>
  Mutual enrollment of two machines (\<open>src/roomsd/src/federation/enrollment.ts\<close>): offer, challenge, accept, confirm
  and finalize. Each stage validates the artifact of the other side, checks it against the ledger entry of this
  enrollment, verifies its signature, advances the trust in the peer and moves the ledger entry on. Artifacts and
  ledger entries are the JSON objects the code casts.
\<close>

definition enroll_err :: "string \<Rightarrow> string" where
  "enroll_err e = ''Rooms peer enrollment: '' @ e"

definition DEFAULT_TTL_SECONDS :: int where "DEFAULT_TTL_SECONDS = 300"
definition MIN_TTL_SECONDS :: int where "MIN_TTL_SECONDS = 30"
definition MAX_TTL_SECONDS :: int where "MAX_TTL_SECONDS = 3600"
definition CLOCK_SKEW_TOLERANCE_MS :: int where "CLOCK_SKEW_TOLERANCE_MS = 30000"

section \<open>Fields of an artifact\<close>

text \<open>A validated field is a string; a policy is any value.\<close>

definition fld :: "json \<Rightarrow> string \<Rightarrow> string" where
  "fld v k = (case get_prop k v of Some (JStr s) \<Rightarrow> s | _ \<Rightarrow> [])"

definition value_at :: "json \<Rightarrow> string \<Rightarrow> json" where
  "value_at v k = (case get_prop k v of Some x \<Rightarrow> x | None \<Rightarrow> JNull)"

definition offer_transcript :: "json \<Rightarrow> transcript_fields" where
  "offer_transcript v = \<lparr>tf_version = value_at v ''version'', tf_enrollmentId = fld v ''enrollmentId'', tf_origin = fld v ''origin'',
     tf_destination = fld v ''destination'', tf_originPublicKeySpkiB64 = fld v ''originPublicKeySpkiB64'',
     tf_originFingerprint = fld v ''originFingerprint'', tf_originTransportPolicy = value_at v ''originTransportPolicy'',
     tf_destinationPublicKeySpkiB64 = None, tf_destinationFingerprint = None, tf_destinationTransportPolicy = JNull,
     tf_originNonce = fld v ''originNonce'', tf_destinationNonce = None,
     tf_issuedAt = fld v ''issuedAt'', tf_expiresAt = fld v ''expiresAt''\<rparr>"

definition full_transcript :: "json \<Rightarrow> transcript_fields" where
  "full_transcript v = (offer_transcript v)\<lparr>
     tf_destinationPublicKeySpkiB64 := Some (fld v ''destinationPublicKeySpkiB64''),
     tf_destinationFingerprint := Some (fld v ''destinationFingerprint''),
     tf_destinationTransportPolicy := value_at v ''destinationTransportPolicy'',
     tf_destinationNonce := Some (fld v ''destinationNonce'')\<rparr>"

definition offer_json :: "transcript_fields \<Rightarrow> string \<Rightarrow> json" where
  "offer_json f signature = JObj
     [(''kind'', JStr ''enrollmentOffer''), (''version'', tf_version f), (''enrollmentId'', JStr (tf_enrollmentId f)),
      (''origin'', JStr (tf_origin f)), (''destination'', JStr (tf_destination f)),
      (''originPublicKeySpkiB64'', JStr (tf_originPublicKeySpkiB64 f)), (''originFingerprint'', JStr (tf_originFingerprint f)),
      (''originTransportPolicy'', tf_originTransportPolicy f), (''originNonce'', JStr (tf_originNonce f)),
      (''issuedAt'', JStr (tf_issuedAt f)), (''expiresAt'', JStr (tf_expiresAt f)), (''signature'', JStr signature)]"

definition artifact_json :: "string \<Rightarrow> transcript_fields \<Rightarrow> string \<Rightarrow> json" where
  "artifact_json kind f signature = JObj
     [(''kind'', JStr kind), (''version'', tf_version f), (''enrollmentId'', JStr (tf_enrollmentId f)),
      (''origin'', JStr (tf_origin f)), (''destination'', JStr (tf_destination f)),
      (''originPublicKeySpkiB64'', JStr (tf_originPublicKeySpkiB64 f)), (''originFingerprint'', JStr (tf_originFingerprint f)),
      (''originTransportPolicy'', tf_originTransportPolicy f),
      (''destinationPublicKeySpkiB64'', json_or_null (tf_destinationPublicKeySpkiB64 f)),
      (''destinationFingerprint'', json_or_null (tf_destinationFingerprint f)),
      (''destinationTransportPolicy'', tf_destinationTransportPolicy f), (''originNonce'', JStr (tf_originNonce f)),
      (''destinationNonce'', json_or_null (tf_destinationNonce f)),
      (''issuedAt'', JStr (tf_issuedAt f)), (''expiresAt'', JStr (tf_expiresAt f)), (''signature'', JStr signature)]"

definition ledger_json :: "transcript_fields \<Rightarrow> string \<Rightarrow> string \<Rightarrow> string \<Rightarrow> json" where
  "ledger_json f role stage now = JObj
     [(''version'', JNum 1), (''enrollmentId'', JStr (tf_enrollmentId f)), (''role'', JStr role), (''stage'', JStr stage),
      (''origin'', JStr (tf_origin f)), (''destination'', JStr (tf_destination f)),
      (''originPublicKeySpkiB64'', JStr (tf_originPublicKeySpkiB64 f)), (''originFingerprint'', JStr (tf_originFingerprint f)),
      (''originTransportPolicy'', tf_originTransportPolicy f),
      (''destinationPublicKeySpkiB64'', json_or_null (tf_destinationPublicKeySpkiB64 f)),
      (''destinationFingerprint'', json_or_null (tf_destinationFingerprint f)),
      (''destinationTransportPolicy'', tf_destinationTransportPolicy f), (''originNonce'', JStr (tf_originNonce f)),
      (''destinationNonce'', json_or_null (tf_destinationNonce f)),
      (''issuedAt'', JStr (tf_issuedAt f)), (''expiresAt'', JStr (tf_expiresAt f)),
      (''createdAt'', JStr now), (''updatedAt'', JStr now)]"

text \<open>\<open>{...ledger, key: value, ...}\<close>\<close>

definition spread :: "json \<Rightarrow> (string \<times> json) list \<Rightarrow> json" where
  "spread v updates =
     (case v of JObj kvs \<Rightarrow> JObj (foldl (\<lambda>acc (k, x). put_field k x acc) (own_fields kvs) updates) | _ \<Rightarrow> JObj updates)"

section \<open>Checks\<close>

definition boundedTtlSeconds :: "int option \<Rightarrow> int checked" where
  "boundedTtlSeconds v =
     (case v of
        None \<Rightarrow> Inr DEFAULT_TTL_SECONDS
      | Some n \<Rightarrow>
          if n < MIN_TTL_SECONDS \<or> n > MAX_TTL_SECONDS
          then enrollmentError (''ttlSeconds must be an integer between '' @ int_text MIN_TTL_SECONDS @ '' and '' @ int_text MAX_TTL_SECONDS)
          else Inr n)"

definition assertTransportPeerMatches :: "json \<Rightarrow> string \<Rightarrow> string \<Rightarrow> unit checked" where
  "assertTransportPeerMatches policy expectedPeer field =
     (if get_prop ''kind'' policy \<in> {Some (JStr ''loopbackSsh''), Some (JStr ''tailscalePeer'')} \<and>
         get_prop ''peerAuthorityId'' policy \<noteq> Some (JStr expectedPeer)
      then enrollmentError (field @ ''.peerAuthorityId does not match the enrollment peer; transport substitution'')
      else Inr ())"

definition assertNotExpired :: "machine \<Rightarrow> string \<Rightarrow> string \<Rightarrow> unit checked" where
  "assertNotExpired m issuedAt expiresAt =
     (if \<exists>t \<in> set_option (date_parse (m_host m) expiresAt). t \<le> m_now m
      then enrollmentError ''expired: enrollment artifact has passed its expiresAt''
      else if \<exists>t \<in> set_option (date_parse (m_host m) issuedAt). t - m_now m > CLOCK_SKEW_TOLERANCE_MS
      then enrollmentError ''expiry/clock-skew violation: enrollment artifact issuedAt is too far in the future''
      else Inr ())"

definition assertKeyMatchesArtifact :: "crypto \<Rightarrow> string \<Rightarrow> string \<Rightarrow> string \<Rightarrow> string \<Rightarrow> unit checked" where
  "assertKeyMatchesArtifact c der authority fingerprint label =
     (let computed = fingerprintForDer c der in
      if computed \<noteq> fingerprint then enrollmentError (label @ '' fingerprint does not match '' @ label @ '' public key'')
      else if authority_of computed \<noteq> authority
      then enrollmentError (label @ '' AuthorityId does not match '' @ label @ '' public key; authority mismatch'')
      else Inr ())"

definition same_policy :: "json option \<Rightarrow> json option \<Rightarrow> bool" where
  "same_policy left right \<longleftrightarrow> map_option stringify left = map_option stringify right"

definition echoes :: "string list \<Rightarrow> json \<Rightarrow> json \<Rightarrow> bool" where
  "echoes ks artifact ledger \<longleftrightarrow> list_all (\<lambda>k. get_prop k artifact = get_prop k ledger) ks"

definition assertEchoesLedgerOrigin :: "json \<Rightarrow> json \<Rightarrow> unit checked" where
  "assertEchoesLedgerOrigin artifact ledger =
     (if \<not> echoes [''origin'', ''destination'', ''originPublicKeySpkiB64'', ''originFingerprint'', ''originNonce'', ''issuedAt'', ''expiresAt''] artifact ledger \<or>
         \<not> same_policy (get_prop ''originTransportPolicy'' artifact) (get_prop ''originTransportPolicy'' ledger)
      then enrollmentError ''mutation: enrollment challenge does not echo the original offer fields''
      else Inr ())"

definition assertEchoesLedgerFull :: "json \<Rightarrow> json \<Rightarrow> unit checked" where
  "assertEchoesLedgerFull artifact ledger =
     (if \<not> echoes [''origin'', ''destination'', ''originPublicKeySpkiB64'', ''originFingerprint'',
           ''destinationPublicKeySpkiB64'', ''destinationFingerprint'', ''originNonce'', ''destinationNonce'', ''issuedAt'', ''expiresAt''] artifact ledger \<or>
         \<not> same_policy (get_prop ''originTransportPolicy'' artifact) (get_prop ''originTransportPolicy'' ledger) \<or>
         \<not> same_policy (get_prop ''destinationTransportPolicy'' artifact) (get_prop ''destinationTransportPolicy'' ledger)
      then enrollmentError (''mutation: enrollment artifact does not echo its predecessor'' @ [CHR 0x27] @ ''s fields'')
      else Inr ())"

definition pemFromDer :: "crypto \<Rightarrow> string \<Rightarrow> string" where
  "pemFromDer c der = der_pem c der"

definition parseArtifact :: "string \<Rightarrow> string \<Rightarrow> json checked" where
  "parseArtifact raw label =
     (case parseEnrollmentArtifactJson raw of
        Inl e \<Rightarrow> enrollmentError (label @ '' is not valid JSON ('' @ failure_message raw e @ '')'')
      | Inr (JObj kvs) \<Rightarrow> Inr (JObj kvs)
      | Inr _ \<Rightarrow> enrollmentError (label @ '' must be an object''))"

section \<open>The ledger\<close>

definition enrollments_dir :: "path \<Rightarrow> path" where
  "enrollments_dir stateDir = stateDir @ [''federation'', ''enrollments'']"

definition enrollmentsDir :: "machine \<Rightarrow> path \<Rightarrow> (fs, path) effect" where
  "enrollmentsDir m stateDir =
     (let p = enrollments_dir stateDir in
      seq (asking (\<lambda>s. assertSafePath enroll_err s p)) (\<lambda>_.
      seq (asking (\<lambda>s. existsAsAny s p)) (\<lambda>e.
      seq (if e then give () else mkdirSync (m_umasked m) p DIRECTORY_MODE) (\<lambda>_.
      seq (asking (\<lambda>s. assertRegularDirectory enroll_err s p ''federation enrollments directory'')) (\<lambda>_.
      seq (asking (\<lambda>s. assertMode enroll_err s p DIRECTORY_MODE ''federation enrollments directory'')) (\<lambda>_.
      give p))))))"

definition ledgerPath :: "machine \<Rightarrow> path \<Rightarrow> string \<Rightarrow> (fs, path) effect" where
  "ledgerPath m stateDir enrollmentId =
     (if \<not> uuid_pattern enrollmentId then lifted (enrollmentError ''enrollmentId must be a UUID'')
      else seq (enrollmentsDir m stateDir) (\<lambda>dir.
        let p = dir @ [enrollmentId @ ''.json''] in
        seq (asking (\<lambda>s. assertSafePath enroll_err s p)) (\<lambda>_. give p)))"

definition parseLedgerEntry :: "relay_host \<Rightarrow> string \<Rightarrow> string \<Rightarrow> json checked" where
  "parseLedgerEntry host serialized expectedEnrollmentId =
     (case json_parse host serialized of
        None \<Rightarrow> enrollmentError ''enrollment ledger entry is malformed JSON''
      | Some (JObj kvs) \<Rightarrow>
          if get_prop ''enrollmentId'' (JObj kvs) \<noteq> Some (JStr expectedEnrollmentId)
          then enrollmentError ''enrollment ledger entry id does not match its storage location''
          else Inr (JObj kvs)
      | Some _ \<Rightarrow> enrollmentError ''enrollment ledger entry must be an object'')"

definition readLedgerEntry :: "machine \<Rightarrow> path \<Rightarrow> string \<Rightarrow> (fs, json option) effect" where
  "readLedgerEntry m stateDir enrollmentId =
     seq (ledgerPath m stateDir enrollmentId) (\<lambda>p.
     asking (\<lambda>s.
       check (existsAsAny s p) (\<lambda>e.
       if \<not> e then Inr None
       else check (assertRegularNonSymlink enroll_err s p ''enrollment ledger entry'') (\<lambda>_.
         check (assertMode enroll_err s p FILE_MODE ''enrollment ledger entry'') (\<lambda>_.
         check (readFileSync s p) (\<lambda>t.
         check (parseLedgerEntry (m_host m) t enrollmentId) (\<lambda>v. Inr (Some v))))))))"

definition createLedgerEntry :: "machine \<Rightarrow> path \<Rightarrow> json \<Rightarrow> (fs, unit) effect" where
  "createLedgerEntry m stateDir entry =
     seq (ledgerPath m stateDir (fld entry ''enrollmentId'')) (\<lambda>p.
     seq (write_new_file p FILE_MODE (json_file entry)) (\<lambda>_.
     asking (\<lambda>s. assertMode enroll_err s p FILE_MODE ''enrollment ledger entry'')))"

definition updateLedgerEntry :: "machine \<Rightarrow> path \<Rightarrow> json \<Rightarrow> (fs, unit) effect" where
  "updateLedgerEntry m stateDir entry =
     seq (ledgerPath m stateDir (fld entry ''enrollmentId'')) (\<lambda>p.
     seq (enrollmentsDir m stateDir) (\<lambda>dir.
     let temporary = dir @ [''.'' @ fld entry ''enrollmentId'' @ ''.json.tmp-'' @ m_temporary m] in
     seq (write_new_file temporary FILE_MODE (json_file entry)) (\<lambda>_.
     seq (renameSync temporary p) (\<lambda>_.
     asking (\<lambda>s. assertMode enroll_err s p FILE_MODE ''enrollment ledger entry'')))))"

section \<open>The stages\<close>

definition createEnrollmentOffer :: "machine \<Rightarrow> string option \<Rightarrow> string \<Rightarrow> json \<Rightarrow> int option \<Rightarrow> (fs, json) effect" where
  "createEnrollmentOffer m stateDirInput peerAuthorityId transportPolicy ttl =
     seq (lifted (m_resolve m stateDirInput)) (\<lambda>stateDir.
     seq (asking (loadMachineSigningKeys m (Some (path_text stateDir)))) (\<lambda>keys.
     let origin = sk_authorityId keys in
     seq (lifted (assertWellFormedAuthorityId peerAuthorityId)) (\<lambda>destination.
     if origin = destination
     then lifted (enrollmentError (''cannot enroll with this Rooms identity'' @ [CHR 0x27] @ ''s own authority id (self-pair)''))
     else
     seq (lifted (validateTransportPolicy (m_host m) (m_now m) (Some transportPolicy))) (\<lambda>_.
     seq (lifted (assertTransportPeerMatches transportPolicy destination ''transport policy'')) (\<lambda>_.
     seq (lifted (boundedTtlSeconds ttl)) (\<lambda>ttlSeconds.
     let publicKey = spkiBase64FromPublicKey (m_crypto m) (sk_publicKey keys) in
     seq (lifted (canonicalPublicKeyDerFromSpkiBase64 (m_crypto m) publicKey)) (\<lambda>der.
     let fields = \<lparr>tf_version = JNum FEDERATION_PROTOCOL_VERSION, tf_enrollmentId = m_uuid m, tf_origin = origin,
           tf_destination = destination, tf_originPublicKeySpkiB64 = publicKey,
           tf_originFingerprint = fingerprintForDer (m_crypto m) der, tf_originTransportPolicy = transportPolicy,
           tf_destinationPublicKeySpkiB64 = None, tf_destinationFingerprint = None, tf_destinationTransportPolicy = JNull,
           tf_originNonce = m_nonce m, tf_destinationNonce = None,
           tf_issuedAt = m_iso m (m_now m), tf_expiresAt = m_iso m (m_now m + ttlSeconds * 1000)\<rparr>;
         signature = signEnrollmentTranscript (m_crypto m) (sk_privateKey keys) (canonicalEnrollmentTranscript ''offer'' fields);
         artifact = offer_json fields signature in
     seq (lifted (validateEnrollmentOffer (m_host m) (m_now m) (Some artifact))) (\<lambda>_.
     seq (createLedgerEntry m stateDir (ledger_json fields ''initiator'' ''offered'' (now_iso m))) (\<lambda>_.
     give artifact)))))))))"

definition createEnrollmentChallenge :: "machine \<Rightarrow> string option \<Rightarrow> string \<Rightarrow> json \<Rightarrow> (fs, json \<times> peer_trust) effect" where
  "createEnrollmentChallenge m stateDirInput offerRaw transportPolicy =
     seq (lifted (assertBoundedEnrollmentArtifact offerRaw ''enrollment offer'')) (\<lambda>_.
     seq (lifted (parseArtifact offerRaw ''enrollment offer'')) (\<lambda>offer.
     seq (lifted (validateEnrollmentOffer (m_host m) (m_now m) (Some offer))) (\<lambda>_.
     seq (lifted (m_resolve m stateDirInput)) (\<lambda>stateDir.
     seq (asking (loadMachineSigningKeys m (Some (path_text stateDir)))) (\<lambda>keys.
     let destination = sk_authorityId keys in
     if fld offer ''destination'' \<noteq> destination
     then lifted (enrollmentError ''wrong destination: enrollment offer is not addressed to this Rooms identity'')
     else if fld offer ''origin'' = destination
     then lifted (enrollmentError ''reflection: enrollment offer origin cannot be this Rooms identity'')
     else
     seq (lifted (assertNotExpired m (fld offer ''issuedAt'') (fld offer ''expiresAt''))) (\<lambda>_.
     seq (lifted (canonicalPublicKeyDerFromSpkiBase64 (m_crypto m) (fld offer ''originPublicKeySpkiB64''))) (\<lambda>originDer.
     seq (lifted (assertKeyMatchesArtifact (m_crypto m) originDer (fld offer ''origin'') (fld offer ''originFingerprint'') ''origin'')) (\<lambda>_.
     if \<not> verifyEnrollmentTranscript (m_crypto m) originDer (canonicalEnrollmentTranscript ''offer'' (offer_transcript offer))
         (fld offer ''signature'')
     then lifted (enrollmentError ''enrollment offer signature is invalid'')
     else
     seq (readLedgerEntry m stateDir (fld offer ''enrollmentId'')) (\<lambda>ledger.
     if ledger \<noteq> None then lifted (enrollmentError ''replay: this enrollment id has already been processed'')
     else
     seq (lifted (validateTransportPolicy (m_host m) (m_now m) (Some transportPolicy))) (\<lambda>_.
     seq (lifted (assertTransportPeerMatches transportPolicy (fld offer ''origin'') ''transport policy'')) (\<lambda>_.
     seq (advancePeerTrustFromEnrollmentProof m (Some (path_text stateDir)) (fld offer ''origin'')
       (pemFromDer (m_crypto m) originDer) (Some transportPolicy) Confirming) (\<lambda>peer.
     let publicKey = spkiBase64FromPublicKey (m_crypto m) (sk_publicKey keys) in
     seq (lifted (canonicalPublicKeyDerFromSpkiBase64 (m_crypto m) publicKey)) (\<lambda>der.
     let fields = (offer_transcript offer)\<lparr>tf_destinationPublicKeySpkiB64 := Some publicKey,
           tf_destinationFingerprint := Some (fingerprintForDer (m_crypto m) der),
           tf_destinationTransportPolicy := transportPolicy, tf_destinationNonce := Some (m_nonce m)\<rparr>;
         signature = signEnrollmentTranscript (m_crypto m) (sk_privateKey keys) (canonicalEnrollmentTranscript ''challenge'' fields);
         artifact = artifact_json ''enrollmentChallenge'' fields signature in
     seq (lifted (validateEnrollmentChallenge (m_host m) (m_now m) (Some artifact))) (\<lambda>_.
     seq (createLedgerEntry m stateDir (ledger_json fields ''responder'' ''challenged'' (now_iso m))) (\<lambda>_.
     give (artifact, peer))))))))))))))))"

definition createEnrollmentAccept :: "machine \<Rightarrow> string option \<Rightarrow> string \<Rightarrow> (fs, json \<times> peer_trust) effect" where
  "createEnrollmentAccept m stateDirInput challengeRaw =
     seq (lifted (assertBoundedEnrollmentArtifact challengeRaw ''enrollment challenge'')) (\<lambda>_.
     seq (lifted (parseArtifact challengeRaw ''enrollment challenge'')) (\<lambda>challenge.
     seq (lifted (validateEnrollmentChallenge (m_host m) (m_now m) (Some challenge))) (\<lambda>_.
     seq (lifted (m_resolve m stateDirInput)) (\<lambda>stateDir.
     seq (asking (loadMachineSigningKeys m (Some (path_text stateDir)))) (\<lambda>keys.
     let origin = sk_authorityId keys in
     if fld challenge ''origin'' \<noteq> origin
     then lifted (enrollmentError ''wrong destination: enrollment challenge is not addressed back to this Rooms identity'')
     else if fld challenge ''destination'' = origin
     then lifted (enrollmentError ''reflection: enrollment challenge destination cannot be this Rooms identity'')
     else
     seq (readLedgerEntry m stateDir (fld challenge ''enrollmentId'')) (\<lambda>entry.
     case entry of
       None \<Rightarrow> lifted (enrollmentError ''no matching local enrollment offer found for this enrollment id'')
     | Some ledger \<Rightarrow>
     if get_prop ''role'' ledger \<noteq> Some (JStr ''initiator'')
     then lifted (enrollmentError ''no matching local enrollment offer found for this enrollment id'')
     else if get_prop ''stage'' ledger \<noteq> Some (JStr ''offered'')
     then lifted (enrollmentError ''replay: this enrollment has already advanced past its offer stage'')
     else
     seq (lifted (assertEchoesLedgerOrigin challenge ledger)) (\<lambda>_.
     seq (lifted (assertNotExpired m (fld challenge ''issuedAt'') (fld challenge ''expiresAt''))) (\<lambda>_.
     seq (lifted (canonicalPublicKeyDerFromSpkiBase64 (m_crypto m) (fld challenge ''destinationPublicKeySpkiB64''))) (\<lambda>destinationDer.
     seq (lifted (assertKeyMatchesArtifact (m_crypto m) destinationDer (fld challenge ''destination'')
       (fld challenge ''destinationFingerprint'') ''destination'')) (\<lambda>_.
     if \<not> verifyEnrollmentTranscript (m_crypto m) destinationDer
         (canonicalEnrollmentTranscript ''challenge'' (full_transcript challenge)) (fld challenge ''signature'')
     then lifted (enrollmentError ''enrollment challenge signature is invalid'')
     else
     seq (advancePeerTrustFromEnrollmentProof m (Some (path_text stateDir)) (fld challenge ''destination'')
       (pemFromDer (m_crypto m) destinationDer) (get_prop ''originTransportPolicy'' ledger) Confirming) (\<lambda>peer.
     let fields = full_transcript challenge;
         signature = signEnrollmentTranscript (m_crypto m) (sk_privateKey keys) (canonicalEnrollmentTranscript ''accept'' fields);
         artifact = artifact_json ''enrollmentAccept'' fields signature in
     seq (lifted (validateEnrollmentAccept (m_host m) (m_now m) (Some artifact))) (\<lambda>_.
     seq (updateLedgerEntry m stateDir (spread ledger [(''stage'', JStr ''accepted''),
       (''destinationPublicKeySpkiB64'', value_at challenge ''destinationPublicKeySpkiB64''),
       (''destinationFingerprint'', value_at challenge ''destinationFingerprint''),
       (''destinationTransportPolicy'', value_at challenge ''destinationTransportPolicy''),
       (''destinationNonce'', value_at challenge ''destinationNonce''), (''updatedAt'', JStr (now_iso m))])) (\<lambda>_.
     give (artifact, peer))))))))))))))"

definition createEnrollmentConfirm :: "machine \<Rightarrow> string option \<Rightarrow> string \<Rightarrow> (fs, json \<times> peer_trust) effect" where
  "createEnrollmentConfirm m stateDirInput acceptRaw =
     seq (lifted (assertBoundedEnrollmentArtifact acceptRaw ''enrollment accept'')) (\<lambda>_.
     seq (lifted (parseArtifact acceptRaw ''enrollment accept'')) (\<lambda>accept.
     seq (lifted (validateEnrollmentAccept (m_host m) (m_now m) (Some accept))) (\<lambda>_.
     seq (lifted (m_resolve m stateDirInput)) (\<lambda>stateDir.
     seq (asking (loadMachineSigningKeys m (Some (path_text stateDir)))) (\<lambda>keys.
     if fld accept ''destination'' \<noteq> sk_authorityId keys
     then lifted (enrollmentError ''wrong destination: enrollment accept is not addressed to this Rooms identity'')
     else
     seq (readLedgerEntry m stateDir (fld accept ''enrollmentId'')) (\<lambda>entry.
     case entry of
       None \<Rightarrow> lifted (enrollmentError ''no matching local enrollment challenge found for this enrollment id'')
     | Some ledger \<Rightarrow>
     if get_prop ''role'' ledger \<noteq> Some (JStr ''responder'')
     then lifted (enrollmentError ''no matching local enrollment challenge found for this enrollment id'')
     else if get_prop ''stage'' ledger \<noteq> Some (JStr ''challenged'')
     then lifted (enrollmentError ''replay: this enrollment has already advanced past its challenge stage'')
     else
     seq (lifted (assertEchoesLedgerFull accept ledger)) (\<lambda>_.
     seq (lifted (assertNotExpired m (fld accept ''issuedAt'') (fld accept ''expiresAt''))) (\<lambda>_.
     seq (lifted (canonicalPublicKeyDerFromSpkiBase64 (m_crypto m) (fld accept ''originPublicKeySpkiB64''))) (\<lambda>originDer.
     seq (lifted (assertKeyMatchesArtifact (m_crypto m) originDer (fld accept ''origin'') (fld accept ''originFingerprint'') ''origin'')) (\<lambda>_.
     if \<not> verifyEnrollmentTranscript (m_crypto m) originDer
         (canonicalEnrollmentTranscript ''accept'' (full_transcript accept)) (fld accept ''signature'')
     then lifted (enrollmentError ''enrollment accept signature is invalid'')
     else
     seq (advancePeerTrustFromEnrollmentProof m (Some (path_text stateDir)) (fld accept ''origin'')
       (pemFromDer (m_crypto m) originDer) (get_prop ''destinationTransportPolicy'' ledger) TrustActive) (\<lambda>peer.
     let fields = full_transcript accept;
         signature = signEnrollmentTranscript (m_crypto m) (sk_privateKey keys) (canonicalEnrollmentTranscript ''confirm'' fields);
         artifact = artifact_json ''enrollmentConfirm'' fields signature in
     seq (lifted (validateEnrollmentConfirm (m_host m) (m_now m) (Some artifact))) (\<lambda>_.
     seq (updateLedgerEntry m stateDir (spread ledger [(''stage'', JStr ''confirmed''), (''updatedAt'', JStr (now_iso m))])) (\<lambda>_.
     give (artifact, peer))))))))))))))"

definition finalizeEnrollment :: "machine \<Rightarrow> string option \<Rightarrow> string \<Rightarrow> (fs, peer_trust) effect" where
  "finalizeEnrollment m stateDirInput confirmRaw =
     seq (lifted (assertBoundedEnrollmentArtifact confirmRaw ''enrollment confirm'')) (\<lambda>_.
     seq (lifted (parseArtifact confirmRaw ''enrollment confirm'')) (\<lambda>confirm.
     seq (lifted (validateEnrollmentConfirm (m_host m) (m_now m) (Some confirm))) (\<lambda>_.
     seq (lifted (m_resolve m stateDirInput)) (\<lambda>stateDir.
     seq (asking (loadMachineSigningKeys m (Some (path_text stateDir)))) (\<lambda>keys.
     if fld confirm ''origin'' \<noteq> sk_authorityId keys
     then lifted (enrollmentError ''wrong destination: enrollment confirm is not addressed to this Rooms identity'')
     else
     seq (readLedgerEntry m stateDir (fld confirm ''enrollmentId'')) (\<lambda>entry.
     case entry of
       None \<Rightarrow> lifted (enrollmentError ''no matching local enrollment accept found for this enrollment id'')
     | Some ledger \<Rightarrow>
     if get_prop ''role'' ledger \<noteq> Some (JStr ''initiator'')
     then lifted (enrollmentError ''no matching local enrollment accept found for this enrollment id'')
     else if get_prop ''stage'' ledger \<noteq> Some (JStr ''accepted'')
     then lifted (enrollmentError ''replay: this enrollment has already advanced past its accept stage'')
     else
     seq (lifted (assertEchoesLedgerFull confirm ledger)) (\<lambda>_.
     seq (lifted (assertNotExpired m (fld confirm ''issuedAt'') (fld confirm ''expiresAt''))) (\<lambda>_.
     seq (lifted (canonicalPublicKeyDerFromSpkiBase64 (m_crypto m) (fld confirm ''destinationPublicKeySpkiB64''))) (\<lambda>destinationDer.
     seq (lifted (assertKeyMatchesArtifact (m_crypto m) destinationDer (fld confirm ''destination'')
       (fld confirm ''destinationFingerprint'') ''destination'')) (\<lambda>_.
     if \<not> verifyEnrollmentTranscript (m_crypto m) destinationDer
         (canonicalEnrollmentTranscript ''confirm'' (full_transcript confirm)) (fld confirm ''signature'')
     then lifted (enrollmentError ''enrollment confirm signature is invalid'')
     else
     seq (advancePeerTrustFromEnrollmentProof m (Some (path_text stateDir)) (fld confirm ''destination'')
       (pemFromDer (m_crypto m) destinationDer) (get_prop ''originTransportPolicy'' ledger) TrustActive) (\<lambda>peer.
     seq (updateLedgerEntry m stateDir (spread ledger [(''stage'', JStr ''confirmed''), (''updatedAt'', JStr (now_iso m))])) (\<lambda>_.
     give peer))))))))))))"

end
