(* ===== verification/RelayProtocol.thy ===== *)
theory RelayProtocol
  imports Codec
begin

text \<open>
  The wire contract of a relay connection (\<open>src/roomsd/src/federation/relay-protocol.ts\<close>): the frames, their
  validation, their encoding in one bounded line of JSON, and the incremental frame reader.
\<close>

section \<open>Frames\<close>

definition RELAY_PROTOCOL_VERSION :: int where "RELAY_PROTOCOL_VERSION = 3"
definition RELAY_HANDSHAKE_DOMAIN :: string where "RELAY_HANDSHAKE_DOMAIN = ''rooms-federation-relay-v1''"
definition RELAY_CHANNEL_KIND :: string where "RELAY_CHANNEL_KIND = ''sshStdio''"
definition RELAY_MAX_FRAME_BYTES :: nat where "RELAY_MAX_FRAME_BYTES = 16384"
definition RELAY_MAX_ECHO_PAYLOAD_BYTES :: nat where "RELAY_MAX_ECHO_PAYLOAD_BYTES = 4096"
definition RELAY_MAX_TERMINAL_BYTES :: nat where "RELAY_MAX_TERMINAL_BYTES = 8192"
definition RELAY_MAX_REASON_BYTES :: nat where "RELAY_MAX_REASON_BYTES = 512"
definition RELAY_DEFAULT_TTL_SECONDS :: int where "RELAY_DEFAULT_TTL_SECONDS = 60"
definition RELAY_MIN_TTL_SECONDS :: int where "RELAY_MIN_TTL_SECONDS = 10"
definition RELAY_MAX_TTL_SECONDS :: int where "RELAY_MAX_TTL_SECONDS = 300"
definition RELAY_CLOCK_SKEW_TOLERANCE_MS :: int where "RELAY_CLOCK_SKEW_TOLERANCE_MS = 30000"
definition MIN_NEGOTIATED_HEARTBEAT_INTERVAL_MS :: int where "MIN_NEGOTIATED_HEARTBEAT_INTERVAL_MS = 100"
definition MAX_NEGOTIATED_HEARTBEAT_INTERVAL_MS :: int where "MAX_NEGOTIATED_HEARTBEAT_INTERVAL_MS = 300000"

datatype relay_direction = InitiatorToResponder | ResponderToInitiator

datatype relay_role = Initiator | Responder

text \<open>A transport policy is the JSON value that was validated: the code only casts it.\<close>

record relay_init =
  ri_connectionId :: string
  ri_initiatorAuthorityId :: string
  ri_initiatorFingerprint :: string
  ri_initiatorPublicKeySpkiB64 :: string
  ri_initiatorTransportPolicy :: json
  ri_responderAuthorityId :: string
  ri_stateDir :: "string option"
  ri_heartbeatIntervalMs :: "int option"
  ri_nonce :: string
  ri_issuedAt :: string
  ri_expiresAt :: string
  ri_signature :: string

record relay_accept =
  ra_connectionId :: string
  ra_initiatorAuthorityId :: string
  ra_initiatorFingerprint :: string
  ra_initiatorPublicKeySpkiB64 :: string
  ra_initiatorTransportPolicy :: json
  ra_responderAuthorityId :: string
  ra_responderFingerprint :: string
  ra_responderPublicKeySpkiB64 :: string
  ra_responderTransportPolicy :: json
  ra_initiatorNonce :: string
  ra_responderNonce :: string
  ra_issuedAt :: string
  ra_expiresAt :: string
  ra_signature :: string

record peer_status =
  ps_connectionId :: string
  ps_authorityId :: string
  ps_peerAuthorityId :: string
  ps_role :: relay_role
  ps_connectedAt :: string
  ps_uptimeMs :: int

record relay_header =
  h_connectionId :: string
  h_direction :: relay_direction
  h_seq :: int

text \<open>
  The sequenced frames carry a header. A terminal frame is its kind, its stream and the object of its remaining
  fields. Where the code validates \<open>String(value)\<close> but keeps the value, the field is JSON.
\<close>

datatype relay_body =
    EchoRequest string
  | EchoResponse string
  | StatusRequest
  | StatusResponse peer_status
  | Heartbeat
  | Drain
  | CloseBody string
  | ProtocolError string string
  | ChannelCommand string string json string string
  | ChannelResult string bool int bool string
  | InventoryCommand string string json int int bool
  | InventoryResult string bool string
  | Terminal string string "(string \<times> json) list"

datatype relay_frame =
    HandshakeInit relay_init
  | HandshakeAccept relay_accept
  | HandshakeReject string string string
  | Sequenced relay_header relay_body

section \<open>Encoding\<close>

definition direction_text :: "relay_direction \<Rightarrow> string" where
  "direction_text d = (case d of InitiatorToResponder \<Rightarrow> ''initiatorToResponder'' | ResponderToInitiator \<Rightarrow> ''responderToInitiator'')"

definition role_text :: "relay_role \<Rightarrow> string" where
  "role_text r = (case r of Initiator \<Rightarrow> ''initiator'' | Responder \<Rightarrow> ''responder'')"

definition nullable :: "('a \<Rightarrow> json) \<Rightarrow> 'a option \<Rightarrow> json" where
  "nullable f v = (case v of None \<Rightarrow> JNull | Some a \<Rightarrow> f a)"

definition init_json :: "relay_init \<Rightarrow> json" where
  "init_json f = JObj
     [(''kind'', JStr ''relayHandshakeInit''), (''version'', JNum RELAY_PROTOCOL_VERSION), (''channel'', JStr RELAY_CHANNEL_KIND),
      (''connectionId'', JStr (ri_connectionId f)), (''initiatorAuthorityId'', JStr (ri_initiatorAuthorityId f)),
      (''initiatorFingerprint'', JStr (ri_initiatorFingerprint f)),
      (''initiatorPublicKeySpkiB64'', JStr (ri_initiatorPublicKeySpkiB64 f)),
      (''initiatorTransportPolicy'', ri_initiatorTransportPolicy f),
      (''responderAuthorityId'', JStr (ri_responderAuthorityId f)), (''stateDir'', nullable JStr (ri_stateDir f)),
      (''heartbeatIntervalMs'', nullable JNum (ri_heartbeatIntervalMs f)), (''nonce'', JStr (ri_nonce f)),
      (''issuedAt'', JStr (ri_issuedAt f)), (''expiresAt'', JStr (ri_expiresAt f)), (''signature'', JStr (ri_signature f))]"

definition accept_json :: "relay_accept \<Rightarrow> json" where
  "accept_json f = JObj
     [(''kind'', JStr ''relayHandshakeAccept''), (''version'', JNum RELAY_PROTOCOL_VERSION), (''channel'', JStr RELAY_CHANNEL_KIND),
      (''connectionId'', JStr (ra_connectionId f)), (''initiatorAuthorityId'', JStr (ra_initiatorAuthorityId f)),
      (''initiatorFingerprint'', JStr (ra_initiatorFingerprint f)),
      (''initiatorPublicKeySpkiB64'', JStr (ra_initiatorPublicKeySpkiB64 f)),
      (''initiatorTransportPolicy'', ra_initiatorTransportPolicy f),
      (''responderAuthorityId'', JStr (ra_responderAuthorityId f)), (''responderFingerprint'', JStr (ra_responderFingerprint f)),
      (''responderPublicKeySpkiB64'', JStr (ra_responderPublicKeySpkiB64 f)),
      (''responderTransportPolicy'', ra_responderTransportPolicy f), (''initiatorNonce'', JStr (ra_initiatorNonce f)),
      (''responderNonce'', JStr (ra_responderNonce f)), (''issuedAt'', JStr (ra_issuedAt f)),
      (''expiresAt'', JStr (ra_expiresAt f)), (''signature'', JStr (ra_signature f))]"

definition status_json :: "peer_status \<Rightarrow> json" where
  "status_json s = JObj
     [(''connectionId'', JStr (ps_connectionId s)), (''authorityId'', JStr (ps_authorityId s)),
      (''peerAuthorityId'', JStr (ps_peerAuthorityId s)), (''role'', JStr (role_text (ps_role s))),
      (''connectedAt'', JStr (ps_connectedAt s)), (''uptimeMs'', JNum (ps_uptimeMs s))]"

fun body_kind :: "relay_body \<Rightarrow> string" where
  "body_kind (EchoRequest _) = ''echoRequest''"
| "body_kind (EchoResponse _) = ''echoResponse''"
| "body_kind StatusRequest = ''statusRequest''"
| "body_kind (StatusResponse _) = ''statusResponse''"
| "body_kind Heartbeat = ''heartbeat''"
| "body_kind Drain = ''drain''"
| "body_kind (CloseBody _) = ''close''"
| "body_kind (ProtocolError _ _) = ''protocolError''"
| "body_kind (ChannelCommand _ _ _ _ _) = ''channelCommand''"
| "body_kind (ChannelResult _ _ _ _ _) = ''channelResult''"
| "body_kind (InventoryCommand _ _ _ _ _ _) = ''inventoryCommand''"
| "body_kind (InventoryResult _ _ _) = ''inventoryResult''"
| "body_kind (Terminal kind _ _) = kind"

fun body_fields :: "relay_body \<Rightarrow> (string \<times> json) list" where
  "body_fields (EchoRequest p) = [(''payload'', JStr p)]"
| "body_fields (EchoResponse p) = [(''payload'', JStr p)]"
| "body_fields StatusRequest = []"
| "body_fields (StatusResponse s) = [(''status'', status_json s)]"
| "body_fields Heartbeat = []"
| "body_fields Drain = []"
| "body_fields (CloseBody reason) = [(''reason'', JStr reason)]"
| "body_fields (ProtocolError code message) = [(''code'', JStr code), (''message'', JStr message)]"
| "body_fields (ChannelCommand requestId home operation actor payload) =
     [(''requestId'', JStr requestId), (''homeAuthorityId'', JStr home), (''operation'', operation),
      (''actorSessionId'', JStr actor), (''payload'', JStr payload)]"
| "body_fields (ChannelResult requestId ok chunkIndex final payload) =
     [(''requestId'', JStr requestId), (''ok'', JBool ok), (''chunkIndex'', JNum chunkIndex), (''final'', JBool final),
      (''payload'', JStr payload)]"
| "body_fields (InventoryCommand requestId authority resource cursor limit includeEnded) =
     [(''requestId'', JStr requestId), (''authorityId'', JStr authority), (''resource'', resource),
      (''cursor'', JNum cursor), (''limit'', JNum limit), (''includeEnded'', JBool includeEnded)]"
| "body_fields (InventoryResult requestId ok payload) =
     [(''requestId'', JStr requestId), (''ok'', JBool ok), (''payload'', JStr payload)]"
| "body_fields (Terminal kind streamId flds) = (''streamId'', JStr streamId) # flds"

fun frame_json :: "relay_frame \<Rightarrow> json" where
  "frame_json (HandshakeInit f) = init_json f"
| "frame_json (HandshakeAccept f) = accept_json f"
| "frame_json (HandshakeReject connectionId code message) = JObj
     [(''kind'', JStr ''relayHandshakeReject''), (''connectionId'', JStr connectionId), (''code'', JStr code), (''message'', JStr message)]"
| "frame_json (Sequenced h b) = JObj
     ([(''kind'', JStr (body_kind b)), (''connectionId'', JStr (h_connectionId h)),
       (''direction'', JStr (direction_text (h_direction h))), (''seq'', JNum (h_seq h))] @ body_fields b)"

definition encodeRelayFrame :: "relay_frame \<Rightarrow> string checked" where
  "encodeRelayFrame frame =
     (let line = stringify (frame_json frame) in
      if utf8_bytes line > RELAY_MAX_FRAME_BYTES
      then relayError (''outgoing frame exceeds the maximum size of '' @ digits RELAY_MAX_FRAME_BYTES @ '' bytes'')
      else Inr (line @ [CHR 0x0A]))"

text \<open>What the two sides sign: the domain, a line break and the fields in a fixed order.\<close>

definition canonicalRelayInitTranscript :: "relay_init \<Rightarrow> string" where
  "canonicalRelayInitTranscript f =
     RELAY_HANDSHAKE_DOMAIN @ '':init'' @ [CHR 0x0A] @ stringify (JObj
     [(''version'', JNum RELAY_PROTOCOL_VERSION), (''channel'', JStr RELAY_CHANNEL_KIND),
      (''connectionId'', JStr (ri_connectionId f)), (''initiatorAuthorityId'', JStr (ri_initiatorAuthorityId f)),
      (''initiatorFingerprint'', JStr (ri_initiatorFingerprint f)),
      (''initiatorPublicKeySpkiB64'', JStr (ri_initiatorPublicKeySpkiB64 f)),
      (''initiatorTransportPolicy'', ri_initiatorTransportPolicy f),
      (''responderAuthorityId'', JStr (ri_responderAuthorityId f)), (''nonce'', JStr (ri_nonce f)),
      (''issuedAt'', JStr (ri_issuedAt f)), (''expiresAt'', JStr (ri_expiresAt f))])"

definition canonicalRelayAcceptTranscript :: "relay_accept \<Rightarrow> string" where
  "canonicalRelayAcceptTranscript f =
     RELAY_HANDSHAKE_DOMAIN @ '':accept'' @ [CHR 0x0A] @ stringify (JObj
     [(''version'', JNum RELAY_PROTOCOL_VERSION), (''channel'', JStr RELAY_CHANNEL_KIND),
      (''connectionId'', JStr (ra_connectionId f)), (''initiatorAuthorityId'', JStr (ra_initiatorAuthorityId f)),
      (''initiatorFingerprint'', JStr (ra_initiatorFingerprint f)),
      (''initiatorPublicKeySpkiB64'', JStr (ra_initiatorPublicKeySpkiB64 f)),
      (''initiatorTransportPolicy'', ra_initiatorTransportPolicy f),
      (''responderAuthorityId'', JStr (ra_responderAuthorityId f)), (''responderFingerprint'', JStr (ra_responderFingerprint f)),
      (''responderPublicKeySpkiB64'', JStr (ra_responderPublicKeySpkiB64 f)),
      (''responderTransportPolicy'', ra_responderTransportPolicy f), (''initiatorNonce'', JStr (ra_initiatorNonce f)),
      (''responderNonce'', JStr (ra_responderNonce f)), (''issuedAt'', JStr (ra_issuedAt f)),
      (''expiresAt'', JStr (ra_expiresAt f))])"

section \<open>Validation of fields\<close>

definition assertExactKeys :: "json \<Rightarrow> string list \<Rightarrow> string \<Rightarrow> unit checked" where
  "assertExactKeys v allowed label =
     (case find (\<lambda>k. k \<notin> set allowed) (own_keys v) of
        Some k \<Rightarrow> relayError (label @ '' has unknown field '' @ k)
      | None \<Rightarrow>
          (case find (\<lambda>k. get_prop k v = None) allowed of
             Some k \<Rightarrow> relayError (label @ '' is missing '' @ k)
           | None \<Rightarrow> Inr ()))"

definition str_field :: "json option \<Rightarrow> string \<Rightarrow> string checked" where
  "str_field v field =
     (case v of
        Some (JStr s) \<Rightarrow> if s = [] then relayError (field @ '' must be a non-blank string'') else Inr s
      | _ \<Rightarrow> relayError (field @ '' must be a non-blank string''))"

definition boundedStr :: "json option \<Rightarrow> string \<Rightarrow> nat \<Rightarrow> string checked" where
  "boundedStr v field maxBytes =
     check (str_field v field) (\<lambda>s.
       if utf8_bytes s > maxBytes then relayError (field @ '' exceeds '' @ digits maxBytes @ '' bytes'') else Inr s)"

definition boundedBase64 :: "json option \<Rightarrow> string \<Rightarrow> nat \<Rightarrow> string checked" where
  "boundedBase64 v field maxBytes =
     check (boundedStr v field maxBytes) (\<lambda>s.
       if \<not> base64_pattern s \<or> length s mod 4 \<noteq> 0 then relayError (field @ '' must be base64-encoded'') else Inr s)"

definition authorityField :: "json option \<Rightarrow> string \<Rightarrow> string checked" where
  "authorityField v field =
     check (str_field v field) (\<lambda>s.
       if \<not> authority_pattern s then relayError (field @ '' is not a well-formed authority id'') else Inr s)"

definition fingerprintField :: "json option \<Rightarrow> string \<Rightarrow> string checked" where
  "fingerprintField v field =
     check (str_field v field) (\<lambda>s.
       if \<not> sha256_hex s then relayError (field @ '' must be a SHA-256 hex fingerprint'') else Inr s)"

definition base64Field :: "json option \<Rightarrow> string \<Rightarrow> string checked" where
  "base64Field v field =
     check (str_field v field) (\<lambda>s.
       if \<not> base64_pattern s \<or> length s mod 4 \<noteq> 0 then relayError (field @ '' must be base64-encoded'') else Inr s)"

definition nonceField :: "json option \<Rightarrow> string \<Rightarrow> string checked" where
  "nonceField v field =
     check (str_field v field) (\<lambda>s.
       if \<not> nonce_pattern s then relayError (field @ '' must be a lowercase hex string of at least 256 bits'') else Inr s)"

definition connectionIdField :: "json option \<Rightarrow> string checked" where
  "connectionIdField v =
     check (str_field v ''connectionId'') (\<lambda>s. if \<not> uuid_pattern s then relayError ''connectionId must be a UUID'' else Inr s)"

definition timestampField :: "relay_host \<Rightarrow> json option \<Rightarrow> string \<Rightarrow> string checked" where
  "timestampField host v field =
     check (str_field v field) (\<lambda>s.
       if date_parse host s = None then relayError (field @ '' must be an ISO timestamp'') else Inr s)"

definition transportPolicyField :: "relay_host \<Rightarrow> int \<Rightarrow> json option \<Rightarrow> string \<Rightarrow> json checked" where
  "transportPolicyField host now v field =
     (case validateTransportPolicy host now v of
        Inl e \<Rightarrow> relayError (field @ '': '' @ e)
      | Inr _ \<Rightarrow> Inr (case v of None \<Rightarrow> JNull | Some p \<Rightarrow> p))"

definition directionField :: "json option \<Rightarrow> relay_direction checked" where
  "directionField v =
     (if v = Some (JStr ''initiatorToResponder'') then Inr InitiatorToResponder
      else if v = Some (JStr ''responderToInitiator'') then Inr ResponderToInitiator
      else relayError ''direction must be initiatorToResponder or responderToInitiator'')"

definition seqField :: "json option \<Rightarrow> int checked" where
  "seqField v =
     (case v of Some (JNum n) \<Rightarrow> if n < 1 then relayError ''seq must be a positive integer'' else Inr n
      | _ \<Rightarrow> relayError ''seq must be a positive integer'')"

definition stateDirField :: "json option \<Rightarrow> string option checked" where
  "stateDirField v =
     (case v of
        Some JNull \<Rightarrow> Inr None
      | Some (JStr s) \<Rightarrow>
          (case assertSafeRemoteAbsolutePath s ''stateDir'' of Inl e \<Rightarrow> relayError e | Inr p \<Rightarrow> Inr (Some p))
      | _ \<Rightarrow> relayError ''stateDir must be null or a string'')"

definition heartbeatIntervalMsField :: "json option \<Rightarrow> int option checked" where
  "heartbeatIntervalMsField v =
     (let bad = relayError (''heartbeatIntervalMs must be null or an integer between '' @
         int_text MIN_NEGOTIATED_HEARTBEAT_INTERVAL_MS @ '' and '' @ int_text MAX_NEGOTIATED_HEARTBEAT_INTERVAL_MS) in
      case v of
        Some JNull \<Rightarrow> Inr None
      | Some (JNum n) \<Rightarrow>
          if n < MIN_NEGOTIATED_HEARTBEAT_INTERVAL_MS \<or> n > MAX_NEGOTIATED_HEARTBEAT_INTERVAL_MS then bad else Inr (Some n)
      | _ \<Rightarrow> bad)"

definition versionField :: "json option \<Rightarrow> unit checked" where
  "versionField v =
     (if v = Some (JNum RELAY_PROTOCOL_VERSION) then Inr ()
      else relayError (''unsupported relay protocol version '' @ string_of v))"

definition channelField :: "json option \<Rightarrow> unit checked" where
  "channelField v =
     (if v = Some (JStr RELAY_CHANNEL_KIND) then Inr () else relayError (''unsupported relay channel '' @ string_of v))"

definition windowField :: "relay_host \<Rightarrow> string \<Rightarrow> string \<Rightarrow> unit checked" where
  "windowField host issued expires =
     check (timestampField host (Some (JStr issued)) ''issuedAt'') (\<lambda>_.
     check (timestampField host (Some (JStr expires)) ''expiresAt'') (\<lambda>_.
     let issuedAt = the (date_parse host issued); expiresAt = the (date_parse host expires) in
     if expiresAt \<le> issuedAt then relayError ''expiresAt must be after issuedAt''
     else if expiresAt - issuedAt > RELAY_MAX_TTL_SECONDS * 1000
     then relayError ''handshake validity window exceeds the maximum allowed TTL''
     else Inr ()))"

definition booleanField :: "json option \<Rightarrow> string \<Rightarrow> bool checked" where
  "booleanField v message = (case v of Some (JBool b) \<Rightarrow> Inr b | _ \<Rightarrow> relayError message)"

text \<open>The header every sequenced frame starts with.\<close>

definition headerFields :: "json \<Rightarrow> relay_header checked" where
  "headerFields r =
     check (connectionIdField (get_prop ''connectionId'' r)) (\<lambda>c.
     check (directionField (get_prop ''direction'' r)) (\<lambda>d.
     check (seqField (get_prop ''seq'' r)) (\<lambda>n.
     Inr \<lparr>h_connectionId = c, h_direction = d, h_seq = n\<rparr>)))"

section \<open>Validation of frames\<close>

definition header_keys :: "string list" where
  "header_keys = [''kind'', ''connectionId'', ''direction'', ''seq'']"

definition validateHandshakeInit :: "relay_host \<Rightarrow> int \<Rightarrow> json \<Rightarrow> relay_frame checked" where
  "validateHandshakeInit host now r =
     check (assertExactKeys r [''kind'', ''version'', ''channel'', ''connectionId'', ''initiatorAuthorityId'',
       ''initiatorFingerprint'', ''initiatorPublicKeySpkiB64'', ''initiatorTransportPolicy'', ''responderAuthorityId'',
       ''stateDir'', ''heartbeatIntervalMs'', ''nonce'', ''issuedAt'', ''expiresAt'', ''signature''] ''relayHandshakeInit'') (\<lambda>_.
     check (versionField (get_prop ''version'' r)) (\<lambda>_.
     check (channelField (get_prop ''channel'' r)) (\<lambda>_.
     check (connectionIdField (get_prop ''connectionId'' r)) (\<lambda>connectionId.
     check (authorityField (get_prop ''initiatorAuthorityId'' r) ''initiatorAuthorityId'') (\<lambda>initiatorAuthorityId.
     check (authorityField (get_prop ''responderAuthorityId'' r) ''responderAuthorityId'') (\<lambda>responderAuthorityId.
     if initiatorAuthorityId = responderAuthorityId
     then relayError ''initiatorAuthorityId and responderAuthorityId must differ''
     else
     check (fingerprintField (get_prop ''initiatorFingerprint'' r) ''initiatorFingerprint'') (\<lambda>initiatorFingerprint.
     check (base64Field (get_prop ''initiatorPublicKeySpkiB64'' r) ''initiatorPublicKeySpkiB64'') (\<lambda>initiatorPublicKeySpkiB64.
     check (transportPolicyField host now (get_prop ''initiatorTransportPolicy'' r) ''initiatorTransportPolicy'') (\<lambda>policy.
     check (stateDirField (get_prop ''stateDir'' r)) (\<lambda>stateDir.
     check (heartbeatIntervalMsField (get_prop ''heartbeatIntervalMs'' r)) (\<lambda>heartbeatIntervalMs.
     check (nonceField (get_prop ''nonce'' r) ''nonce'') (\<lambda>nonce.
     check (timestampField host (get_prop ''issuedAt'' r) ''issuedAt'') (\<lambda>issuedAt.
     check (timestampField host (get_prop ''expiresAt'' r) ''expiresAt'') (\<lambda>expiresAt.
     check (windowField host issuedAt expiresAt) (\<lambda>_.
     check (base64Field (get_prop ''signature'' r) ''signature'') (\<lambda>signature.
     Inr (HandshakeInit \<lparr>ri_connectionId = connectionId, ri_initiatorAuthorityId = initiatorAuthorityId,
       ri_initiatorFingerprint = initiatorFingerprint, ri_initiatorPublicKeySpkiB64 = initiatorPublicKeySpkiB64,
       ri_initiatorTransportPolicy = policy, ri_responderAuthorityId = responderAuthorityId, ri_stateDir = stateDir,
       ri_heartbeatIntervalMs = heartbeatIntervalMs, ri_nonce = nonce, ri_issuedAt = issuedAt, ri_expiresAt = expiresAt,
       ri_signature = signature\<rparr>)))))))))))))))))"

definition validateHandshakeAccept :: "relay_host \<Rightarrow> int \<Rightarrow> json \<Rightarrow> relay_frame checked" where
  "validateHandshakeAccept host now r =
     check (assertExactKeys r [''kind'', ''version'', ''channel'', ''connectionId'', ''initiatorAuthorityId'',
       ''initiatorFingerprint'', ''initiatorPublicKeySpkiB64'', ''initiatorTransportPolicy'', ''responderAuthorityId'',
       ''responderFingerprint'', ''responderPublicKeySpkiB64'', ''responderTransportPolicy'', ''initiatorNonce'',
       ''responderNonce'', ''issuedAt'', ''expiresAt'', ''signature''] ''relayHandshakeAccept'') (\<lambda>_.
     check (versionField (get_prop ''version'' r)) (\<lambda>_.
     check (channelField (get_prop ''channel'' r)) (\<lambda>_.
     check (connectionIdField (get_prop ''connectionId'' r)) (\<lambda>connectionId.
     check (authorityField (get_prop ''initiatorAuthorityId'' r) ''initiatorAuthorityId'') (\<lambda>initiatorAuthorityId.
     check (authorityField (get_prop ''responderAuthorityId'' r) ''responderAuthorityId'') (\<lambda>responderAuthorityId.
     if initiatorAuthorityId = responderAuthorityId
     then relayError ''initiatorAuthorityId and responderAuthorityId must differ''
     else
     check (fingerprintField (get_prop ''initiatorFingerprint'' r) ''initiatorFingerprint'') (\<lambda>initiatorFingerprint.
     check (base64Field (get_prop ''initiatorPublicKeySpkiB64'' r) ''initiatorPublicKeySpkiB64'') (\<lambda>initiatorPublicKeySpkiB64.
     check (transportPolicyField host now (get_prop ''initiatorTransportPolicy'' r) ''initiatorTransportPolicy'') (\<lambda>initiatorPolicy.
     check (fingerprintField (get_prop ''responderFingerprint'' r) ''responderFingerprint'') (\<lambda>responderFingerprint.
     check (base64Field (get_prop ''responderPublicKeySpkiB64'' r) ''responderPublicKeySpkiB64'') (\<lambda>responderPublicKeySpkiB64.
     check (transportPolicyField host now (get_prop ''responderTransportPolicy'' r) ''responderTransportPolicy'') (\<lambda>responderPolicy.
     check (nonceField (get_prop ''initiatorNonce'' r) ''initiatorNonce'') (\<lambda>initiatorNonce.
     check (nonceField (get_prop ''responderNonce'' r) ''responderNonce'') (\<lambda>responderNonce.
     check (timestampField host (get_prop ''issuedAt'' r) ''issuedAt'') (\<lambda>issuedAt.
     check (timestampField host (get_prop ''expiresAt'' r) ''expiresAt'') (\<lambda>expiresAt.
     check (windowField host issuedAt expiresAt) (\<lambda>_.
     check (base64Field (get_prop ''signature'' r) ''signature'') (\<lambda>signature.
     Inr (HandshakeAccept \<lparr>ra_connectionId = connectionId, ra_initiatorAuthorityId = initiatorAuthorityId,
       ra_initiatorFingerprint = initiatorFingerprint, ra_initiatorPublicKeySpkiB64 = initiatorPublicKeySpkiB64,
       ra_initiatorTransportPolicy = initiatorPolicy, ra_responderAuthorityId = responderAuthorityId,
       ra_responderFingerprint = responderFingerprint, ra_responderPublicKeySpkiB64 = responderPublicKeySpkiB64,
       ra_responderTransportPolicy = responderPolicy, ra_initiatorNonce = initiatorNonce, ra_responderNonce = responderNonce,
       ra_issuedAt = issuedAt, ra_expiresAt = expiresAt, ra_signature = signature\<rparr>)))))))))))))))))))"

definition validateHandshakeReject :: "json \<Rightarrow> relay_frame checked" where
  "validateHandshakeReject r =
     check (assertExactKeys r [''kind'', ''connectionId'', ''code'', ''message''] ''relayHandshakeReject'') (\<lambda>_.
     check (connectionIdField (get_prop ''connectionId'' r)) (\<lambda>connectionId.
     check (boundedStr (get_prop ''code'' r) ''code'' 128) (\<lambda>code.
     check (boundedStr (get_prop ''message'' r) ''message'' RELAY_MAX_REASON_BYTES) (\<lambda>message.
     Inr (HandshakeReject connectionId code message)))))"

definition validateEchoFrame :: "string \<Rightarrow> json \<Rightarrow> relay_frame checked" where
  "validateEchoFrame kind r =
     check (assertExactKeys r (header_keys @ [''payload'']) kind) (\<lambda>_.
     check (headerFields r) (\<lambda>h.
     check (boundedStr (get_prop ''payload'' r) ''payload'' RELAY_MAX_ECHO_PAYLOAD_BYTES) (\<lambda>payload.
     Inr (Sequenced h (if kind = ''echoRequest'' then EchoRequest payload else EchoResponse payload)))))"

definition validateStatusRequest :: "json \<Rightarrow> relay_frame checked" where
  "validateStatusRequest r =
     check (assertExactKeys r header_keys ''statusRequest'') (\<lambda>_. check (headerFields r) (\<lambda>h. Inr (Sequenced h StatusRequest)))"

definition validatePeerStatus :: "relay_host \<Rightarrow> json option \<Rightarrow> peer_status checked" where
  "validatePeerStatus host v =
     (case v of
        Some (JObj kvs) \<Rightarrow>
          (let r = JObj kvs in
           check (assertExactKeys r [''connectionId'', ''authorityId'', ''peerAuthorityId'', ''role'', ''connectedAt'', ''uptimeMs''] ''status'') (\<lambda>_.
           check (connectionIdField (get_prop ''connectionId'' r)) (\<lambda>connectionId.
           check (authorityField (get_prop ''authorityId'' r) ''status.authorityId'') (\<lambda>authorityId.
           check (authorityField (get_prop ''peerAuthorityId'' r) ''status.peerAuthorityId'') (\<lambda>peerAuthorityId.
           check (if get_prop ''role'' r = Some (JStr ''initiator'') then Inr Initiator
                  else if get_prop ''role'' r = Some (JStr ''responder'') then Inr Responder
                  else relayError ''status.role must be initiator or responder'') (\<lambda>role.
           check (timestampField host (get_prop ''connectedAt'' r) ''status.connectedAt'') (\<lambda>connectedAt.
           case get_prop ''uptimeMs'' r of
             Some (JNum n) \<Rightarrow>
               if n < 0 then relayError ''status.uptimeMs must be a non-negative integer''
               else Inr \<lparr>ps_connectionId = connectionId, ps_authorityId = authorityId, ps_peerAuthorityId = peerAuthorityId,
                 ps_role = role, ps_connectedAt = connectedAt, ps_uptimeMs = n\<rparr>
           | _ \<Rightarrow> relayError ''status.uptimeMs must be a non-negative integer'')))))))
      | _ \<Rightarrow> relayError ''status must be an object'')"

definition validateStatusResponse :: "relay_host \<Rightarrow> json \<Rightarrow> relay_frame checked" where
  "validateStatusResponse host r =
     check (assertExactKeys r (header_keys @ [''status'']) ''statusResponse'') (\<lambda>_.
     check (headerFields r) (\<lambda>h.
     check (validatePeerStatus host (get_prop ''status'' r)) (\<lambda>status. Inr (Sequenced h (StatusResponse status)))))"

definition validateSeqOnlyFrame :: "json \<Rightarrow> string \<Rightarrow> relay_frame checked" where
  "validateSeqOnlyFrame r kind =
     check (assertExactKeys r header_keys kind) (\<lambda>_.
     check (headerFields r) (\<lambda>h. Inr (Sequenced h (if kind = ''heartbeat'' then Heartbeat else Drain))))"

definition validateCloseFrame :: "json \<Rightarrow> relay_frame checked" where
  "validateCloseFrame r =
     check (assertExactKeys r (header_keys @ [''reason'']) ''close'') (\<lambda>_.
     check (headerFields r) (\<lambda>h.
     check (boundedStr (get_prop ''reason'' r) ''reason'' RELAY_MAX_REASON_BYTES) (\<lambda>reason.
     Inr (Sequenced h (CloseBody reason)))))"

definition validateProtocolErrorFrame :: "json \<Rightarrow> relay_frame checked" where
  "validateProtocolErrorFrame r =
     check (assertExactKeys r (header_keys @ [''code'', ''message'']) ''protocolError'') (\<lambda>_.
     check (headerFields r) (\<lambda>h.
     check (boundedStr (get_prop ''code'' r) ''code'' 128) (\<lambda>code.
     check (boundedStr (get_prop ''message'' r) ''message'' RELAY_MAX_REASON_BYTES) (\<lambda>message.
     Inr (Sequenced h (ProtocolError code message))))))"

definition integerBetween :: "int \<Rightarrow> int option \<Rightarrow> json option \<Rightarrow> string \<Rightarrow> int checked" where
  "integerBetween low high v message =
     (case v of
        Some (JNum n) \<Rightarrow>
          if n < low \<or> (case high of None \<Rightarrow> False | Some b \<Rightarrow> n > b) then relayError message else Inr n
      | _ \<Rightarrow> relayError message)"

text \<open>\<open>Number.isSafeInteger\<close> with the bounds.\<close>

definition safeBetween :: "int \<Rightarrow> int option \<Rightarrow> json option \<Rightarrow> string \<Rightarrow> int checked" where
  "safeBetween low high v message =
     check (integerBetween low high v message) (\<lambda>n. if safe_integer n then Inr n else relayError message)"

definition validateInventoryFrame :: "string \<Rightarrow> json \<Rightarrow> relay_frame checked" where
  "validateInventoryFrame kind r =
     (if kind = ''inventoryCommand'' then
        check (assertExactKeys r (header_keys @ [''requestId'', ''authorityId'', ''resource'', ''cursor'', ''limit'', ''includeEnded'']) kind) (\<lambda>_.
        if string_of (get_prop ''resource'' r) \<notin> {''channels'', ''sessions'', ''providers''}
        then relayError ''invalid inventory resource''
        else
        check (safeBetween 0 None (get_prop ''cursor'' r) ''inventory cursor must be a non-negative integer'') (\<lambda>cursor.
        check (safeBetween 1 (Some 20) (get_prop ''limit'' r) ''inventory limit must be between 1 and 20'') (\<lambda>limit.
        check (booleanField (get_prop ''includeEnded'' r) ''includeEnded must be boolean'') (\<lambda>includeEnded.
        check (headerFields r) (\<lambda>h.
        check (boundedStr (get_prop ''requestId'' r) ''requestId'' 128) (\<lambda>requestId.
        check (authorityField (get_prop ''authorityId'' r) ''authorityId'') (\<lambda>authority.
        Inr (Sequenced h (InventoryCommand requestId authority (the (get_prop ''resource'' r)) cursor limit includeEnded)))))))))
      else
        check (assertExactKeys r (header_keys @ [''requestId'', ''ok'', ''payload'']) kind) (\<lambda>_.
        check (booleanField (get_prop ''ok'' r) ''ok must be boolean'') (\<lambda>ok.
        check (headerFields r) (\<lambda>h.
        check (boundedStr (get_prop ''requestId'' r) ''requestId'' 128) (\<lambda>requestId.
        check (boundedBase64 (get_prop ''payload'' r) ''payload'' RELAY_MAX_TERMINAL_BYTES) (\<lambda>payload.
        Inr (Sequenced h (InventoryResult requestId ok payload))))))))"

definition validateChannelFrame :: "string \<Rightarrow> json \<Rightarrow> relay_frame checked" where
  "validateChannelFrame kind r =
     (if kind = ''channelCommand'' then
        check (assertExactKeys r (header_keys @ [''requestId'', ''homeAuthorityId'', ''operation'', ''actorSessionId'', ''payload'']) kind) (\<lambda>_.
        if string_of (get_prop ''operation'' r) \<notin> {''register'', ''leave'', ''send'', ''directSend'', ''snapshot'', ''messages''}
        then relayError ''invalid channel operation''
        else
        check (headerFields r) (\<lambda>h.
        check (boundedStr (get_prop ''requestId'' r) ''requestId'' 128) (\<lambda>requestId.
        check (authorityField (get_prop ''homeAuthorityId'' r) ''homeAuthorityId'') (\<lambda>home.
        check (boundedStr (get_prop ''actorSessionId'' r) ''actorSessionId'' 512) (\<lambda>actor.
        check (boundedBase64 (get_prop ''payload'' r) ''payload'' RELAY_MAX_TERMINAL_BYTES) (\<lambda>payload.
        Inr (Sequenced h (ChannelCommand requestId home (the (get_prop ''operation'' r)) actor payload))))))))
      else
        check (assertExactKeys r (header_keys @ [''requestId'', ''ok'', ''chunkIndex'', ''final'', ''payload'']) kind) (\<lambda>_.
        check (booleanField (get_prop ''ok'' r) ''ok must be boolean'') (\<lambda>ok.
        check (safeBetween 0 None (get_prop ''chunkIndex'' r) ''channel result chunkIndex must be a non-negative integer'') (\<lambda>chunkIndex.
        check (booleanField (get_prop ''final'' r) ''channel result final must be boolean'') (\<lambda>final.
        check (headerFields r) (\<lambda>h.
        check (boundedStr (get_prop ''requestId'' r) ''requestId'' 128) (\<lambda>requestId.
        check (boundedBase64 (get_prop ''payload'' r) ''payload'' RELAY_MAX_TERMINAL_BYTES) (\<lambda>payload.
        Inr (Sequenced h (ChannelResult requestId ok chunkIndex final payload))))))))))"

text \<open>A terminal frame keeps its own fields; a field found only in a prototype passes the key check and is lost.\<close>

definition terminal_kinds :: "string list" where
  "terminal_kinds = [''terminalOpen'', ''terminalOpenAck'', ''terminalOutput'', ''terminalGap'', ''terminalInput'',
     ''terminalInputAck'', ''terminalResize'', ''terminalResizeAck'', ''terminalDetach'', ''terminalClose'']"

definition terminal_keys :: "string \<Rightarrow> string list" where
  "terminal_keys kind =
     (let bound = [''terminalOpenAck'', ''terminalInput'', ''terminalResize'', ''terminalDetach'', ''terminalOutput'', ''terminalGap''] in
      (if kind = ''terminalOpen'' \<or> kind \<in> set bound then [''homeAuthorityId'', ''sessionId''] else []) @
      (if kind \<in> set bound then [''runtimeId'', ''generation''] else []) @
      (if kind = ''terminalOpen'' then [''capability'', ''mode'', ''outputCursor''] else []) @
      (if kind = ''terminalInput'' then [''capabilityId'', ''inputSeq'', ''bytes''] else []) @
      (if kind = ''terminalResize'' then [''capabilityId'', ''columns'', ''rows''] else []) @
      (if kind = ''terminalOutput'' then [''outputCursor'', ''bytes''] else []) @
      (if kind = ''terminalOpenAck'' then [''outputCursor''] else []) @
      (if kind = ''terminalGap'' then [''replayFrom'', ''head''] else []) @
      (if kind = ''terminalInputAck'' then [''inputSeq'', ''outcome''] else []) @
      (if kind = ''terminalClose'' then [''reason''] else []))"

definition if_present :: "string \<Rightarrow> (json option \<Rightarrow> 'a checked) \<Rightarrow> (string \<times> json) list \<Rightarrow> unit checked" where
  "if_present k f flds = (case map_of flds k of None \<Rightarrow> Inr () | Some v \<Rightarrow> check (f (Some v)) (\<lambda>_. Inr ()))"

definition decimalField :: "string \<Rightarrow> json option \<Rightarrow> string checked" where
  "decimalField k v =
     check (boundedStr v k 32) (\<lambda>s.
       if cursor_decode s = None then relayError (k @ '' must be an unsigned decimal integer'') else Inr s)"

definition terminal_checks :: "string \<Rightarrow> (string \<times> json) list \<Rightarrow> unit checked" where
  "terminal_checks kind result =
     check (if_present ''homeAuthorityId'' (\<lambda>v. authorityField v ''homeAuthorityId'') result) (\<lambda>_.
     check (check_each (\<lambda>k. if_present k (\<lambda>v. boundedStr v k 256) result) [''sessionId'', ''runtimeId'', ''capabilityId'']) (\<lambda>_.
     check (check_each (\<lambda>k. if_present k (decimalField k) result) [''outputCursor'', ''replayFrom'', ''head'', ''inputSeq'']) (\<lambda>_.
     check (if_present ''generation'' (\<lambda>v. integerBetween 1 None v ''generation must be a positive integer'') result) (\<lambda>_.
     check (if_present ''bytes'' (\<lambda>v. boundedBase64 v ''bytes'' RELAY_MAX_TERMINAL_BYTES) result) (\<lambda>_.
     check (if_present ''capability'' (\<lambda>v. boundedBase64 v ''capability'' (8 * 1024)) result) (\<lambda>_.
     check (if_present ''columns'' (\<lambda>v. integerBetween 1 (Some 1000) v ''columns out of bounds'') result) (\<lambda>_.
     check (if_present ''rows'' (\<lambda>v. integerBetween 1 (Some 1000) v ''rows out of bounds'') result) (\<lambda>_.
     if kind = ''terminalOpen'' \<and> map_of result ''mode'' \<notin> {Some (JStr ''observe''), Some (JStr ''controller'')}
     then relayError ''invalid terminal mode''
     else if kind = ''terminalInputAck'' \<and> string_of (map_of result ''outcome'') \<notin> {''written'', ''duplicate'', ''uncertain''}
     then relayError ''invalid input outcome''
     else Inr ()))))))))"

definition own_object :: "json \<Rightarrow> (string \<times> json) list" where
  "own_object r = (case r of JObj kvs \<Rightarrow> own_fields kvs | _ \<Rightarrow> [])"

definition validateTerminalFrame :: "string \<Rightarrow> json \<Rightarrow> relay_frame checked" where
  "validateTerminalFrame kind r =
     check (assertExactKeys r (header_keys @ ''streamId'' # terminal_keys kind) kind) (\<lambda>_.
     check (headerFields r) (\<lambda>h.
     check (boundedStr (get_prop ''streamId'' r) ''streamId'' 128) (\<lambda>streamId.
     let result = filter (\<lambda>(k, _). k \<notin> set (header_keys @ [''streamId''])) (own_object r) in
     check (terminal_checks kind result) (\<lambda>_. Inr (Sequenced h (Terminal kind streamId result))))))"

definition validateRelayRecord :: "relay_host \<Rightarrow> int \<Rightarrow> json \<Rightarrow> relay_frame checked" where
  "validateRelayRecord host now r =
     (case get_prop ''kind'' r of
        Some (JStr kind) \<Rightarrow>
          if kind = ''relayHandshakeInit'' then validateHandshakeInit host now r
          else if kind = ''relayHandshakeAccept'' then validateHandshakeAccept host now r
          else if kind = ''relayHandshakeReject'' then validateHandshakeReject r
          else if kind \<in> {''echoRequest'', ''echoResponse''} then validateEchoFrame kind r
          else if kind = ''statusRequest'' then validateStatusRequest r
          else if kind = ''statusResponse'' then validateStatusResponse host r
          else if kind \<in> {''heartbeat'', ''drain''} then validateSeqOnlyFrame r kind
          else if kind = ''close'' then validateCloseFrame r
          else if kind = ''protocolError'' then validateProtocolErrorFrame r
          else if kind \<in> set terminal_kinds then validateTerminalFrame kind r
          else if kind \<in> {''channelCommand'', ''channelResult''} then validateChannelFrame kind r
          else if kind \<in> {''inventoryCommand'', ''inventoryResult''} then validateInventoryFrame kind r
          else relayError (''unknown frame kind '' @ json_quote kind)
      | Some v \<Rightarrow> relayError (''unknown frame kind '' @ stringify v)
      | None \<Rightarrow> relayError ''unknown frame kind undefined'')"

definition parseRelayFrame :: "relay_host \<Rightarrow> int \<Rightarrow> string \<Rightarrow> relay_frame checked" where
  "parseRelayFrame host now raw =
     (if utf8_bytes raw > RELAY_MAX_FRAME_BYTES
      then relayError (''incoming frame exceeds the maximum size of '' @ digits RELAY_MAX_FRAME_BYTES @ '' bytes'')
      else (case parseEnrollmentArtifactJson raw of
              Inl e \<Rightarrow> relayError (''frame is not valid JSON ('' @ failure_message raw e @ '')'')
            | Inr (JObj kvs) \<Rightarrow> validateRelayRecord host now (JObj kvs)
            | Inr _ \<Rightarrow> relayError ''frame must be an object''))"

section \<open>The frame reader\<close>

text \<open>The complete lines of the buffer, and what follows the last line break.\<close>

fun split_lines :: "string \<Rightarrow> string list \<times> string" where
  "split_lines [] = ([], [])"
| "split_lines (c # s) =
     (case split_lines s of
        (ls, rest) \<Rightarrow>
          if c = CHR 0x0A then ([] # ls, rest)
          else (case ls of [] \<Rightarrow> ([], c # rest) | l # ls' \<Rightarrow> ((c # l) # ls', rest)))"

text \<open>\<open>push\<close> returns the lines, or throws with the lines lost; the buffer is what follows them either way.\<close>

definition reader_push :: "string \<Rightarrow> string \<Rightarrow> string list checked \<times> string" where
  "reader_push buffer chunk =
     (case split_lines (buffer @ chunk) of
        (ls, rest) \<Rightarrow>
          (if utf8_bytes rest > RELAY_MAX_FRAME_BYTES
           then relayError (''incoming frame exceeds the maximum size of '' @ digits RELAY_MAX_FRAME_BYTES @
             '' bytes before a newline was found'')
           else Inr ls, rest))"

end
