(* ===== verification/RelayConnection.thy ===== *)
theory RelayConnection
  imports RelayProtocol PeerTrust
begin

text \<open>
  The relay connection (\<open>src/roomsd/src/federation/relay-connection.ts\<close>): the mutual handshake, the sequenced
  application frames, heartbeats that check the trust in the peer again, drain and close, and the bounded queue
  of outgoing lines. An operation changes the connection and may throw; what the code throws out of a callback
  is the error of the operation here.
\<close>

section \<open>State\<close>

datatype conn_state = Handshaking | Connected | Draining | Closed

datatype disconnect_reason =
    GracefulClose | PeerClosed | PeerDrained | ChildExited | ChildSignaled | ChildSpawnFailed | TransportError
  | HandshakeTimeout | HandshakeRejected | HandshakeExpired | MalformedHandshake | WrongDestination | WrongPeer
  | WrongConnection | WrongDirection | KeyMismatch | PeerNotActive | PeerTrustMismatch | PeerTrustRevoked
  | InvalidSignature | ProtocolDowngrade | SequenceViolation | UnknownField | OversizeFrame | QueueOverflow
  | IdleTimeout | ProtocolErrorReason

record conn_status =
  cs_state :: conn_state
  cs_connectionId :: "string option"
  cs_role :: relay_role
  cs_authorityId :: "string option"
  cs_peerAuthorityId :: "string option"
  cs_connectedAt :: "string option"
  cs_lastHeartbeatSentAt :: "string option"
  cs_lastHeartbeatReceivedAt :: "string option"
  cs_outgoingSeq :: int
  cs_incomingSeq :: int
  cs_disconnectReason :: "disconnect_reason option"
  cs_disconnectMessage :: "string option"

record pending_init =
  pi_connectionId :: string
  pi_nonce :: string
  pi_issuedAt :: string
  pi_expiresAt :: string
  pi_initiatorAuthorityId :: string
  pi_initiatorFingerprint :: string
  pi_initiatorPublicKeySpkiB64 :: string
  pi_initiatorTransportPolicy :: json
  pi_responderAuthorityId :: string

text \<open>What the connection tells its owner and its handler, in order.\<close>

datatype notice =
    StatusChanged conn_status
  | EchoReply string int
  | StatusReply peer_status int
  | ConnectionClosed conn_status
  | Destroyed

record conn =
  c_localStateDir :: path
  c_ownAuthorityId :: "string option"
  c_state :: conn_state
  c_connectionId :: "string option"
  c_peerAuthorityId :: "string option"
  c_remoteStateDir :: "path option"
  c_negotiatedHeartbeat :: "int option"
  c_connectedAt :: "string option"
  c_outgoingSeq :: int
  c_incomingSeq :: int
  c_lastHeartbeatSentAt :: "string option"
  c_lastHeartbeatReceivedAt :: "string option"
  c_lastReceivedMs :: int
  c_disconnectReason :: "disconnect_reason option"
  c_disconnectMessage :: "string option"
  c_pendingInit :: "pending_init option"
  c_heartbeatTimer :: "int option"
  c_idleTimer :: "int option"
  c_handshakeTimer :: bool
  c_queue :: "string list"
  c_queuedBytes :: nat
  c_destroyed :: bool
  c_buffer :: string   \<comment> \<open>of the frame reader\<close>
  c_wire :: "string list"   \<comment> \<open>the lines handed to \<open>duplex.write\<close>\<close>
  c_notices :: "notice list"

text \<open>
  The synchronous part of a handler of terminal, channel or inventory frames: what it sends on the connection,
  and whether it throws in the end. What it does later are calls of its own.
\<close>

datatype app_call = SendBody relay_body | CloseCall disconnect_reason string | DrainCall

type_synonym frame_handler = "relay_header \<Rightarrow> relay_body \<Rightarrow> app_call list \<times> string option"

record app_handler =
  handleEcho :: "string \<Rightarrow> string checked"
  handleStatus :: "peer_status \<Rightarrow> peer_status checked"
  handleTerminal :: "frame_handler option"
  handleChannel :: "frame_handler option"
  handleInventory :: "frame_handler option"

definition neutralRelayApplicationHandler :: app_handler where
  "neutralRelayApplicationHandler =
     \<lparr>handleEcho = Inr, handleStatus = Inr, handleTerminal = None, handleChannel = None, handleInventory = None\<rparr>"

record relay_config =
  cfg_role :: relay_role
  cfg_localStateDir :: "string option"
  cfg_peer :: "string option"
  cfg_remoteStateDir :: "string option"
  cfg_ttlSeconds :: "int option"
  cfg_heartbeatIntervalMs :: "int option"
  cfg_idleTimeoutMs :: "int option"
  cfg_maxQueuedFrames :: "nat option"
  cfg_maxQueuedBytes :: "nat option"
  cfg_handler :: app_handler

text \<open>
  What an event finds outside the connection: the machine with its clock, the files, and the answer of the
  stream to each write, counted from the first.
\<close>

record world =
  w_machine :: machine
  w_files :: fs
  w_accepts :: "nat \<Rightarrow> bool"

type_synonym 'a conn_op = "(conn, 'a) effect"

definition UNKNOWN_CONNECTION_ID :: string where
  "UNKNOWN_CONNECTION_ID = ''00000000-0000-0000-0000-000000000000''"

definition DEFAULT_HEARTBEAT_INTERVAL_MS :: int where "DEFAULT_HEARTBEAT_INTERVAL_MS = 5000"
definition DEFAULT_IDLE_TIMEOUT_MULTIPLE :: int where "DEFAULT_IDLE_TIMEOUT_MULTIPLE = 3"
definition DEFAULT_MAX_QUEUED_FRAMES :: nat where "DEFAULT_MAX_QUEUED_FRAMES = 256"
definition DEFAULT_MAX_QUEUED_BYTES :: nat where "DEFAULT_MAX_QUEUED_BYTES = 1048576"

definition maxQueuedFrames :: "relay_config \<Rightarrow> nat" where
  "maxQueuedFrames cfg = (case cfg_maxQueuedFrames cfg of Some n \<Rightarrow> n | None \<Rightarrow> DEFAULT_MAX_QUEUED_FRAMES)"

definition maxQueuedBytes :: "relay_config \<Rightarrow> nat" where
  "maxQueuedBytes cfg = (case cfg_maxQueuedBytes cfg of Some n \<Rightarrow> n | None \<Rightarrow> DEFAULT_MAX_QUEUED_BYTES)"

abbreviation connError :: "string \<Rightarrow> 'a checked" where
  "connError e \<equiv> Inl (''Rooms relay connection: '' @ e)"

definition new_connection :: "relay_config \<Rightarrow> world \<Rightarrow> conn checked" where
  "new_connection cfg w =
     (if cfg_role cfg = Initiator \<and> (case cfg_peer cfg of None \<Rightarrow> True | Some p \<Rightarrow> p = [])
      then connError ''initiator role requires peerAuthorityId''
      else check (m_resolve (w_machine w) (cfg_localStateDir cfg)) (\<lambda>dir.
        check (if cfg_role cfg = Initiator
               then check (loadMachineSigningKeys (w_machine w) (Some (path_text dir)) (w_files w)) (\<lambda>k. Inr (Some (sk_authorityId k)))
               else Inr None) (\<lambda>own.
        Inr \<lparr>c_localStateDir = dir, c_ownAuthorityId = own, c_state = Handshaking, c_connectionId = None,
          c_peerAuthorityId = None, c_remoteStateDir = None, c_negotiatedHeartbeat = None, c_connectedAt = None,
          c_outgoingSeq = 0, c_incomingSeq = 0, c_lastHeartbeatSentAt = None, c_lastHeartbeatReceivedAt = None,
          c_lastReceivedMs = 0, c_disconnectReason = None, c_disconnectMessage = None, c_pendingInit = None,
          c_heartbeatTimer = None, c_idleTimer = None, c_handshakeTimer = False, c_queue = [], c_queuedBytes = 0,
          c_destroyed = False, c_buffer = [], c_wire = [], c_notices = []\<rparr>)))"

definition status :: "relay_config \<Rightarrow> conn \<Rightarrow> conn_status" where
  "status cfg c = \<lparr>cs_state = c_state c, cs_connectionId = c_connectionId c, cs_role = cfg_role cfg,
     cs_authorityId = c_ownAuthorityId c, cs_peerAuthorityId = c_peerAuthorityId c, cs_connectedAt = c_connectedAt c,
     cs_lastHeartbeatSentAt = c_lastHeartbeatSentAt c, cs_lastHeartbeatReceivedAt = c_lastHeartbeatReceivedAt c,
     cs_outgoingSeq = c_outgoingSeq c, cs_incomingSeq = c_incomingSeq c,
     cs_disconnectReason = c_disconnectReason c, cs_disconnectMessage = c_disconnectMessage c\<rparr>"

section \<open>Closing and writing\<close>

definition notify :: "notice \<Rightarrow> unit conn_op" where
  "notify n = change_state (\<lambda>c. c\<lparr>c_notices := c_notices c @ [n]\<rparr>)"

definition emitStatus :: "relay_config \<Rightarrow> unit conn_op" where
  "emitStatus cfg c = notify (StatusChanged (status cfg c)) c"

definition fail_conn :: "relay_config \<Rightarrow> disconnect_reason \<Rightarrow> string \<Rightarrow> unit conn_op" where
  "fail_conn cfg reason message c =
     (if c_state c = Closed then (Inr (), c)
      else let c1 = c\<lparr>c_state := Closed, c_disconnectReason := Some reason, c_disconnectMessage := Some message,
             c_destroyed := True, c_heartbeatTimer := None, c_idleTimer := None, c_handshakeTimer := False\<rparr> in
        (Inr (), c1\<lparr>c_notices := c_notices c1 @
          [StatusChanged (status cfg c1), ConnectionClosed (status cfg c1), Destroyed]\<rparr>))"

definition enqueue :: "relay_config \<Rightarrow> string \<Rightarrow> unit conn_op" where
  "enqueue cfg line c =
     (if length (c_queue c) + 1 > maxQueuedFrames cfg \<or> c_queuedBytes c + length line > maxQueuedBytes cfg
      then fail_conn cfg QueueOverflow
        (''outgoing queue exceeded bounds ('' @ digits (maxQueuedFrames cfg) @ '' frames / '' @ digits (maxQueuedBytes cfg) @
         '' bytes); slow peer disconnected'') c
      else (Inr (), c\<lparr>c_queue := c_queue c @ [line], c_queuedBytes := c_queuedBytes c + length line\<rparr>))"

definition write_line :: "world \<Rightarrow> string \<Rightarrow> conn \<Rightarrow> bool \<times> conn" where
  "write_line w line c = (w_accepts w (length (c_wire c)), c\<lparr>c_wire := c_wire c @ [line]\<rparr>)"

definition writeFrame :: "relay_config \<Rightarrow> world \<Rightarrow> string \<Rightarrow> unit conn_op" where
  "writeFrame cfg w line c =
     (if c_destroyed c then (Inr (), c)
      else if c_queue c \<noteq> [] then enqueue cfg line c
      else (case write_line w line c of (ok, c1) \<Rightarrow> if ok then (Inr (), c1) else enqueue cfg line c1))"

fun flush_lines :: "world \<Rightarrow> string list \<Rightarrow> conn \<Rightarrow> conn" where
  "flush_lines w [] c = c"
| "flush_lines w (line # rest) c =
     (case write_line w line c of (ok, c1) \<Rightarrow>
        let c2 = c1\<lparr>c_queue := rest, c_queuedBytes := c_queuedBytes c1 - length line\<rparr> in
        if ok then flush_lines w rest c2 else c2)"

definition flushQueue :: "world \<Rightarrow> unit conn_op" where
  "flushQueue w c = (Inr (), flush_lines w (c_queue c) c)"

definition ownDirection :: "relay_config \<Rightarrow> relay_direction" where
  "ownDirection cfg = (case cfg_role cfg of Initiator \<Rightarrow> InitiatorToResponder | Responder \<Rightarrow> ResponderToInitiator)"

definition peerDirection :: "relay_config \<Rightarrow> relay_direction" where
  "peerDirection cfg = (case cfg_role cfg of Initiator \<Rightarrow> ResponderToInitiator | Responder \<Rightarrow> InitiatorToResponder)"

definition connection_id :: "conn \<Rightarrow> string" where
  "connection_id c = (case c_connectionId c of Some i \<Rightarrow> i | None \<Rightarrow> [])"

definition encodeNextSequencedRelayFrame :: "int \<Rightarrow> (int \<Rightarrow> relay_frame) \<Rightarrow> (int \<times> string) checked" where
  "encodeNextSequencedRelayFrame currentSeq factory =
     check (encodeRelayFrame (factory (currentSeq + 1))) (\<lambda>line. Inr (currentSeq + 1, line))"

definition sendSequencedFrame :: "relay_config \<Rightarrow> world \<Rightarrow> relay_body \<Rightarrow> unit conn_op" where
  "sendSequencedFrame cfg w body =
     seq (asking (\<lambda>c. encodeNextSequencedRelayFrame (c_outgoingSeq c) (\<lambda>n. Sequenced
       \<lparr>h_connectionId = connection_id c, h_direction = ownDirection cfg, h_seq = n\<rparr> body))) (\<lambda>(n, line).
     seq (change_state (\<lambda>c. c\<lparr>c_outgoingSeq := n\<rparr>)) (\<lambda>_.
     writeFrame cfg w line))"

definition close_conn :: "relay_config \<Rightarrow> world \<Rightarrow> disconnect_reason \<Rightarrow> string \<Rightarrow> unit conn_op" where
  "close_conn cfg w reason message c =
     (if c_state c = Closed then (Inr (), c)
      else seq (if c_connectionId c = None then give ()
                else catching (sendSequencedFrame cfg w (CloseBody message)) (\<lambda>_. give ()))
             (\<lambda>_. fail_conn cfg reason message) c)"

section \<open>Trust\<close>

definition active_trust :: "world \<Rightarrow> string \<Rightarrow> path \<Rightarrow> peer_trust option checked" where
  "active_trust w authority stateDir = fst (readActivePeerTrust (w_machine w) authority (Some (path_text stateDir)) (w_files w))"

definition revalidatePeerTrustOrClose :: "relay_config \<Rightarrow> world \<Rightarrow> unit conn_op" where
  "revalidatePeerTrustOrClose cfg w c =
     (case c_peerAuthorityId c of
        None \<Rightarrow> (Inr (), c)
      | Some peer \<Rightarrow>
          let stateDir = (case cfg_role cfg of Initiator \<Rightarrow> c_localStateDir c
             | Responder \<Rightarrow> (case c_remoteStateDir c of Some d \<Rightarrow> d | None \<Rightarrow> c_localStateDir c)) in
          seq (lifted (active_trust w peer stateDir)) (\<lambda>trust.
            if trust = None then close_conn cfg w PeerTrustRevoked ''peer trust is no longer active (revoked or not yet re-established)''
            else give ()) c)"

definition trustMatchesPresented :: "peer_trust \<Rightarrow> string \<Rightarrow> bool" where
  "trustMatchesPresented trust presentedFingerprint \<longleftrightarrow>
     pt_fingerprint trust = presentedFingerprint \<and>
     get_prop ''kind'' (pt_transportPolicy trust) = Some (JStr ''loopbackSsh'')"

section \<open>Calls of the owner\<close>

definition boundedTtl :: "int option \<Rightarrow> int checked" where
  "boundedTtl v =
     (case v of
        None \<Rightarrow> Inr RELAY_DEFAULT_TTL_SECONDS
      | Some n \<Rightarrow>
          if n < RELAY_MIN_TTL_SECONDS \<or> n > RELAY_MAX_TTL_SECONDS
          then connError (''ttlSeconds must be an integer between '' @ int_text RELAY_MIN_TTL_SECONDS @ '' and '' @ int_text RELAY_MAX_TTL_SECONDS)
          else Inr n)"

definition signed_init :: "relay_config \<Rightarrow> machine \<Rightarrow> signing_keys \<Rightarrow> string \<Rightarrow> string \<Rightarrow> string \<Rightarrow> json \<Rightarrow> int \<Rightarrow> relay_init" where
  "signed_init cfg m keys own peer fingerprint policy ttlSeconds =
     (let f = \<lparr>ri_connectionId = m_uuid m, ri_initiatorAuthorityId = own, ri_initiatorFingerprint = fingerprint,
        ri_initiatorPublicKeySpkiB64 = spkiBase64FromPublicKey (m_crypto m) (sk_publicKey keys),
        ri_initiatorTransportPolicy = policy, ri_responderAuthorityId = peer, ri_stateDir = cfg_remoteStateDir cfg,
        ri_heartbeatIntervalMs = cfg_heartbeatIntervalMs cfg, ri_nonce = m_nonce m,
        ri_issuedAt = m_iso m (m_now m), ri_expiresAt = m_iso m (m_now m + ttlSeconds * 1000), ri_signature = []\<rparr> in
      f\<lparr>ri_signature := signEnrollmentTranscript (m_crypto m) (sk_privateKey keys) (canonicalRelayInitTranscript f)\<rparr>)"

definition pending_of :: "relay_init \<Rightarrow> pending_init" where
  "pending_of f = \<lparr>pi_connectionId = ri_connectionId f, pi_nonce = ri_nonce f, pi_issuedAt = ri_issuedAt f,
     pi_expiresAt = ri_expiresAt f, pi_initiatorAuthorityId = ri_initiatorAuthorityId f,
     pi_initiatorFingerprint = ri_initiatorFingerprint f, pi_initiatorPublicKeySpkiB64 = ri_initiatorPublicKeySpkiB64 f,
     pi_initiatorTransportPolicy = ri_initiatorTransportPolicy f, pi_responderAuthorityId = ri_responderAuthorityId f\<rparr>"

definition sendInit :: "relay_config \<Rightarrow> world \<Rightarrow> string \<Rightarrow> string \<Rightarrow> path \<Rightarrow> unit conn_op" where
  "sendInit cfg w own peer stateDir =
     (let m = w_machine w in
      seq (lifted (active_trust w peer stateDir)) (\<lambda>trust.
      case trust of
        None \<Rightarrow> fail_conn cfg PeerNotActive (''no active local peer trust for '' @ peer @ ''; connection refused before dialing'')
      | Some r \<Rightarrow>
          seq (lifted (loadMachineSigningKeys m (Some (path_text stateDir)) (w_files w))) (\<lambda>keys.
          seq (lifted (boundedTtl (cfg_ttlSeconds cfg))) (\<lambda>ttlSeconds.
          seq (lifted (canonicalPublicKeyDerFromSpkiBase64 (m_crypto m) (spkiBase64FromPublicKey (m_crypto m) (sk_publicKey keys)))) (\<lambda>der.
          let init = signed_init cfg m keys own peer (fingerprintForDer (m_crypto m) der) (pt_transportPolicy r) ttlSeconds in
          seq (change_state (\<lambda>c. c\<lparr>c_connectionId := Some (ri_connectionId init), c_peerAuthorityId := Some peer,
            c_pendingInit := Some (pending_of init)\<rparr>)) (\<lambda>_.
          seq (lifted (encodeRelayFrame (HandshakeInit init))) (\<lambda>line.
          seq (writeFrame cfg w line) (\<lambda>_. emitStatus cfg))))))))"

definition start :: "relay_config \<Rightarrow> world \<Rightarrow> unit conn_op" where
  "start cfg w =
     seq (change_state (\<lambda>c. c\<lparr>c_handshakeTimer := True\<rparr>)) (\<lambda>_ c.
       if cfg_role cfg = Responder then (Inr (), c)
       else sendInit cfg w (the (c_ownAuthorityId c)) (the (cfg_peer cfg)) (c_localStateDir c) c)"

definition assertCanSendApplicationRequest :: "relay_config \<Rightarrow> unit conn_op" where
  "assertCanSendApplicationRequest cfg =
     asking (\<lambda>c.
       if cfg_role cfg \<noteq> Initiator then connError ''only the initiator sends echo/status requests''
       else if c_state c \<noteq> Connected then connError ''connection is not in the connected state''
       else Inr ())"

definition sendEcho :: "relay_config \<Rightarrow> world \<Rightarrow> string \<Rightarrow> unit conn_op" where
  "sendEcho cfg w payload = seq (assertCanSendApplicationRequest cfg) (\<lambda>_. sendSequencedFrame cfg w (EchoRequest payload))"

definition requestStatus :: "relay_config \<Rightarrow> world \<Rightarrow> unit conn_op" where
  "requestStatus cfg w = seq (assertCanSendApplicationRequest cfg) (\<lambda>_. sendSequencedFrame cfg w StatusRequest)"

definition sendHeartbeat :: "relay_config \<Rightarrow> world \<Rightarrow> unit conn_op" where
  "sendHeartbeat cfg w c =
     (if c_state c \<noteq> Connected \<and> c_state c \<noteq> Draining then (Inr (), c)
      else seq (sendSequencedFrame cfg w Heartbeat) (\<lambda>_.
           seq (change_state (\<lambda>c. c\<lparr>c_lastHeartbeatSentAt := Some (now_iso (w_machine w))\<rparr>)) (\<lambda>_.
           seq (revalidatePeerTrustOrClose cfg w) (\<lambda>_. emitStatus cfg))) c)"

definition drain :: "relay_config \<Rightarrow> world \<Rightarrow> unit conn_op" where
  "drain cfg w c =
     (if c_state c \<noteq> Connected then (Inr (), c)
      else seq (change_state (\<lambda>c. c\<lparr>c_state := Draining\<rparr>)) (\<lambda>_.
           seq (sendSequencedFrame cfg w Drain) (\<lambda>_. emitStatus cfg)) c)"

text \<open>\<open>sendTerminal\<close>, \<open>sendChannel\<close> and \<open>sendInventory\<close> differ in the type of the frame only.\<close>

definition send_body :: "relay_config \<Rightarrow> world \<Rightarrow> relay_body \<Rightarrow> unit conn_op" where
  "send_body cfg w body =
     seq (asking (\<lambda>c. if c_state c \<noteq> Connected \<and> c_state c \<noteq> Draining then connError ''connection is not available'' else Inr ()))
       (\<lambda>_. sendSequencedFrame cfg w body)"

fun app_calls :: "relay_config \<Rightarrow> world \<Rightarrow> app_call list \<Rightarrow> unit conn_op" where
  "app_calls cfg w [] = give ()"
| "app_calls cfg w (SendBody body # rest) = seq (send_body cfg w body) (\<lambda>_. app_calls cfg w rest)"
| "app_calls cfg w (CloseCall reason message # rest) = seq (close_conn cfg w reason message) (\<lambda>_. app_calls cfg w rest)"
| "app_calls cfg w (DrainCall # rest) = seq (drain cfg w) (\<lambda>_. app_calls cfg w rest)"

section \<open>The handshake\<close>

definition reasonFromRejectCode :: "string \<Rightarrow> disconnect_reason" where
  "reasonFromRejectCode code =
     (if code = ''wrongDestination'' then WrongDestination else if code = ''keyMismatch'' then KeyMismatch
      else if code = ''peerNotActive'' then PeerNotActive else if code = ''peerTrustMismatch'' then PeerTrustMismatch
      else if code = ''handshakeExpired'' then HandshakeExpired else if code = ''invalidSignature'' then InvalidSignature
      else if code = ''protocolDowngrade'' then ProtocolDowngrade else if code = ''malformedHandshake'' then MalformedHandshake
      else HandshakeRejected)"

definition rejectHandshake :: "relay_config \<Rightarrow> world \<Rightarrow> string \<Rightarrow> string \<Rightarrow> string \<Rightarrow> unit conn_op" where
  "rejectHandshake cfg w connectionId code message =
     seq (lifted (encodeRelayFrame (HandshakeReject connectionId code message))) (\<lambda>line.
     seq (writeFrame cfg w line) (\<lambda>_. fail_conn cfg (reasonFromRejectCode code) message))"

definition rejectHandshakeWithoutDetail :: "relay_config \<Rightarrow> world \<Rightarrow> string \<Rightarrow> unit conn_op" where
  "rejectHandshakeWithoutDetail cfg w connectionId =
     rejectHandshake cfg w connectionId ''malformedHandshake'' ''handshake rejected''"

definition becomeConnected :: "relay_config \<Rightarrow> world \<Rightarrow> unit conn_op" where
  "becomeConnected cfg w =
     seq (change_state (\<lambda>c.
       let heartbeat = (case cfg_heartbeatIntervalMs cfg of Some n \<Rightarrow> n | None \<Rightarrow>
             (case c_negotiatedHeartbeat c of Some n \<Rightarrow> n | None \<Rightarrow> DEFAULT_HEARTBEAT_INTERVAL_MS));
           idle = (case cfg_idleTimeoutMs cfg of Some n \<Rightarrow> n | None \<Rightarrow> heartbeat * DEFAULT_IDLE_TIMEOUT_MULTIPLE) in
       c\<lparr>c_handshakeTimer := False, c_state := Connected, c_connectedAt := Some (now_iso (w_machine w)),
         c_lastReceivedMs := m_now (w_machine w), c_heartbeatTimer := Some heartbeat, c_idleTimer := Some idle\<rparr>))
     (\<lambda>_. emitStatus cfg)"

definition signed_accept :: "machine \<Rightarrow> signing_keys \<Rightarrow> relay_init \<Rightarrow> string \<Rightarrow> json \<Rightarrow> relay_accept" where
  "signed_accept m keys init fingerprint policy =
     (let f = \<lparr>ra_connectionId = ri_connectionId init, ra_initiatorAuthorityId = ri_initiatorAuthorityId init,
        ra_initiatorFingerprint = ri_initiatorFingerprint init, ra_initiatorPublicKeySpkiB64 = ri_initiatorPublicKeySpkiB64 init,
        ra_initiatorTransportPolicy = ri_initiatorTransportPolicy init, ra_responderAuthorityId = sk_authorityId keys,
        ra_responderFingerprint = fingerprint, ra_responderPublicKeySpkiB64 = spkiBase64FromPublicKey (m_crypto m) (sk_publicKey keys),
        ra_responderTransportPolicy = policy, ra_initiatorNonce = ri_nonce init, ra_responderNonce = m_nonce m,
        ra_issuedAt = ri_issuedAt init, ra_expiresAt = ri_expiresAt init, ra_signature = []\<rparr> in
      f\<lparr>ra_signature := signEnrollmentTranscript (m_crypto m) (sk_privateKey keys) (canonicalRelayAcceptTranscript f)\<rparr>)"

definition expired :: "machine \<Rightarrow> string \<Rightarrow> bool" where
  "expired m expiresAt \<longleftrightarrow> (\<exists>t \<in> set_option (date_parse (m_host m) expiresAt). t \<le> m_now m)"

definition from_future :: "machine \<Rightarrow> string \<Rightarrow> bool" where
  "from_future m issuedAt \<longleftrightarrow> (\<exists>t \<in> set_option (date_parse (m_host m) issuedAt). t - m_now m > RELAY_CLOCK_SKEW_TOLERANCE_MS)"

definition onHandshakeInit :: "relay_config \<Rightarrow> world \<Rightarrow> relay_init \<Rightarrow> unit conn_op" where
  "onHandshakeInit cfg w init =
     (let m = w_machine w; crypto = m_crypto m; reject = rejectHandshake cfg w (ri_connectionId init) in
      seq (change_state (\<lambda>c. c\<lparr>c_connectionId := Some (ri_connectionId init)\<rparr>)) (\<lambda>_.
      case m_resolve m (case ri_stateDir init of Some d \<Rightarrow> Some d | None \<Rightarrow> cfg_localStateDir cfg) of
        Inl _ \<Rightarrow> rejectHandshakeWithoutDetail cfg w (ri_connectionId init)
      | Inr dir \<Rightarrow>
      seq (change_state (\<lambda>c. c\<lparr>c_remoteStateDir := Some dir, c_negotiatedHeartbeat := ri_heartbeatIntervalMs init\<rparr>)) (\<lambda>_.
      case loadMachineSigningKeys m (Some (path_text dir)) (w_files w) of
        Inl _ \<Rightarrow> rejectHandshakeWithoutDetail cfg w (ri_connectionId init)
      | Inr keys \<Rightarrow>
      let own = sk_authorityId keys in
      seq (change_state (\<lambda>c. c\<lparr>c_ownAuthorityId := Some own\<rparr>)) (\<lambda>_.
      if ri_responderAuthorityId init \<noteq> own
      then reject ''wrongDestination'' ''handshake is not addressed to this Rooms identity''
      else if ri_initiatorAuthorityId init = own
      then reject ''wrongDestination'' ''reflection: initiator cannot be this Rooms identity''
      else
      case canonicalPublicKeyDerFromSpkiBase64 crypto (ri_initiatorPublicKeySpkiB64 init) of
        Inl e \<Rightarrow> reject ''keyMismatch'' e
      | Inr initiatorDer \<Rightarrow>
      let recomputed = fingerprintForDer crypto initiatorDer in
      if recomputed \<noteq> ri_initiatorFingerprint init \<or> authority_of recomputed \<noteq> ri_initiatorAuthorityId init
      then reject ''keyMismatch'' ''initiator fingerprint/authority id does not match its presented public key''
      else
      seq (lifted (active_trust w (ri_initiatorAuthorityId init) dir)) (\<lambda>found.
      case found of
        None \<Rightarrow> reject ''peerNotActive'' (''no active local peer trust for '' @ ri_initiatorAuthorityId init)
      | Some trust \<Rightarrow>
      if \<not> trustMatchesPresented trust recomputed
      then reject ''peerTrustMismatch'' ''presented key/transport policy does not match the locally pinned peer trust record''
      else if expired m (ri_expiresAt init) then reject ''handshakeExpired'' ''handshake init has expired''
      else if from_future m (ri_issuedAt init)
      then reject ''handshakeExpired'' ''handshake init issuedAt is too far in the future''
      else if \<not> verifyEnrollmentTranscript crypto initiatorDer (canonicalRelayInitTranscript init) (ri_signature init)
      then reject ''invalidSignature'' ''handshake init signature is invalid''
      else
      seq (lifted (canonicalPublicKeyDerFromSpkiBase64 crypto (spkiBase64FromPublicKey crypto (sk_publicKey keys)))) (\<lambda>responderDer.
      let accept = signed_accept m keys init (fingerprintForDer crypto responderDer) (pt_transportPolicy trust) in
      seq (change_state (\<lambda>c. c\<lparr>c_peerAuthorityId := Some (ri_initiatorAuthorityId init)\<rparr>)) (\<lambda>_.
      seq (lifted (encodeRelayFrame (HandshakeAccept accept))) (\<lambda>line.
      seq (writeFrame cfg w line) (\<lambda>_. becomeConnected cfg w)))))))))"

text \<open>The accept must echo what this side offered.\<close>

definition echoes_init :: "pending_init \<Rightarrow> relay_accept \<Rightarrow> bool" where
  "echoes_init p a \<longleftrightarrow>
     ra_initiatorAuthorityId a = pi_initiatorAuthorityId p \<and> ra_initiatorFingerprint a = pi_initiatorFingerprint p \<and>
     ra_initiatorPublicKeySpkiB64 a = pi_initiatorPublicKeySpkiB64 p \<and>
     sameTransportPolicy (ra_initiatorTransportPolicy a) (pi_initiatorTransportPolicy p) \<and>
     ra_initiatorNonce a = pi_nonce p \<and> ra_issuedAt a = pi_issuedAt p \<and> ra_expiresAt a = pi_expiresAt p"

definition verifyAccept :: "relay_config \<Rightarrow> world \<Rightarrow> relay_accept \<Rightarrow> pending_init \<Rightarrow> path \<Rightarrow> unit conn_op" where
  "verifyAccept cfg w a p stateDir =
     (let m = w_machine w; crypto = m_crypto m in
      if ra_connectionId a \<noteq> pi_connectionId p
      then fail_conn cfg WrongConnection ''handshake accept connectionId does not match the pending init''
      else if \<not> echoes_init p a
      then fail_conn cfg ProtocolErrorReason
        (''handshake accept does not echo this side'' @ [CHR 0x27] @ ''s offered init fields exactly (mutation)'')
      else if ra_responderAuthorityId a \<noteq> pi_responderAuthorityId p
      then fail_conn cfg WrongPeer ''handshake accept responder authority id does not match the dialed peer''
      else if expired m (ra_expiresAt a) then fail_conn cfg HandshakeExpired ''handshake accept has expired''
      else
      seq (lifted (active_trust w (ra_responderAuthorityId a) stateDir)) (\<lambda>found.
      case found of
        None \<Rightarrow> fail_conn cfg PeerNotActive (''no active local peer trust for '' @ ra_responderAuthorityId a)
      | Some trust \<Rightarrow>
      case canonicalPublicKeyDerFromSpkiBase64 crypto (ra_responderPublicKeySpkiB64 a) of
        Inl e \<Rightarrow> fail_conn cfg KeyMismatch e
      | Inr responderDer \<Rightarrow>
      let recomputed = fingerprintForDer crypto responderDer in
      if recomputed \<noteq> ra_responderFingerprint a \<or> authority_of recomputed \<noteq> ra_responderAuthorityId a
      then fail_conn cfg KeyMismatch ''responder fingerprint/authority id does not match its presented public key''
      else if \<not> trustMatchesPresented trust recomputed
      then fail_conn cfg PeerTrustMismatch ''presented responder key/transport policy does not match the locally pinned peer trust record''
      else if \<not> verifyEnrollmentTranscript crypto responderDer (canonicalRelayAcceptTranscript a) (ra_signature a)
      then fail_conn cfg InvalidSignature ''handshake accept signature is invalid''
      else becomeConnected cfg w))"

definition onHandshakeAccept :: "relay_config \<Rightarrow> world \<Rightarrow> relay_accept \<Rightarrow> unit conn_op" where
  "onHandshakeAccept cfg w a c =
     (case c_pendingInit c of
        None \<Rightarrow> fail_conn cfg WrongConnection ''handshake accept connectionId does not match the pending init'' c
      | Some p \<Rightarrow> verifyAccept cfg w a p (c_localStateDir c) c)"

section \<open>Frames of the peer\<close>

text \<open>What follows a handler's synchronous part: a throw closes the connection.\<close>

definition run_handler :: "relay_config \<Rightarrow> world \<Rightarrow> app_call list \<times> string option \<Rightarrow> unit conn_op" where
  "run_handler cfg w handled =
     catching (seq (app_calls cfg w (fst handled)) (\<lambda>_. case snd handled of None \<Rightarrow> give () | Some e \<Rightarrow> fail_with e))
       (\<lambda>e. fail_conn cfg ProtocolErrorReason e)"

definition base_status :: "world \<Rightarrow> conn \<Rightarrow> peer_status" where
  "base_status w c =
     (let connectedAt = (case c_connectedAt c of Some t \<Rightarrow> t | None \<Rightarrow> []) in
      \<lparr>ps_connectionId = connection_id c, ps_authorityId = (case c_ownAuthorityId c of Some a \<Rightarrow> a | None \<Rightarrow> []),
       ps_peerAuthorityId = (case c_peerAuthorityId c of Some a \<Rightarrow> a | None \<Rightarrow> []), ps_role = Responder,
       ps_connectedAt = connectedAt,
       ps_uptimeMs = m_now (w_machine w) - (case date_parse (m_host (w_machine w)) connectedAt of Some t \<Rightarrow> t | None \<Rightarrow> 0)\<rparr>)"

fun onBody :: "relay_config \<Rightarrow> world \<Rightarrow> relay_header \<Rightarrow> relay_body \<Rightarrow> unit conn_op" where
  "onBody cfg w h (EchoRequest payload) =
     (if cfg_role cfg \<noteq> Responder then fail_conn cfg ProtocolErrorReason ''only a responder accepts echoRequest''
      else seq (lifted (handleEcho (cfg_handler cfg) payload)) (\<lambda>reply. sendSequencedFrame cfg w (EchoResponse reply)))"
| "onBody cfg w h (EchoResponse payload) = notify (EchoReply payload (h_seq h))"
| "onBody cfg w h StatusRequest =
     (if cfg_role cfg \<noteq> Responder then fail_conn cfg ProtocolErrorReason ''only a responder accepts statusRequest''
      else seq (asking (\<lambda>c. handleStatus (cfg_handler cfg) (base_status w c))) (\<lambda>st.
        sendSequencedFrame cfg w (StatusResponse st)))"
| "onBody cfg w h (StatusResponse st) = notify (StatusReply st (h_seq h))"
| "onBody cfg w h Heartbeat =
     seq (change_state (\<lambda>c. c\<lparr>c_lastHeartbeatReceivedAt := Some (now_iso (w_machine w))\<rparr>)) (\<lambda>_.
     seq (revalidatePeerTrustOrClose cfg w) (\<lambda>_. emitStatus cfg))"
| "onBody cfg w h Drain = close_conn cfg w PeerDrained ''peer initiated graceful drain''"
| "onBody cfg w h (CloseBody reason) = fail_conn cfg PeerClosed reason"
| "onBody cfg w h (ProtocolError code message) = fail_conn cfg ProtocolErrorReason (code @ '': '' @ message)"
| "onBody cfg w h (Terminal kind stream flds) =
     (case handleTerminal (cfg_handler cfg) of
        None \<Rightarrow> give () | Some f \<Rightarrow> run_handler cfg w (f h (Terminal kind stream flds)))"
| "onBody cfg w h (ChannelCommand requestId home operation actor payload) =
     (case handleChannel (cfg_handler cfg) of
        None \<Rightarrow> fail_conn cfg ProtocolErrorReason ''channel federation is unavailable''
      | Some f \<Rightarrow> run_handler cfg w (f h (ChannelCommand requestId home operation actor payload)))"
| "onBody cfg w h (ChannelResult requestId ok chunk final payload) =
     (case handleChannel (cfg_handler cfg) of
        None \<Rightarrow> fail_conn cfg ProtocolErrorReason ''channel federation is unavailable''
      | Some f \<Rightarrow> run_handler cfg w (f h (ChannelResult requestId ok chunk final payload)))"
| "onBody cfg w h (InventoryCommand requestId authority resource cur limit ended) =
     (case handleInventory (cfg_handler cfg) of
        None \<Rightarrow> fail_conn cfg ProtocolErrorReason ''machine inventory is unavailable''
      | Some f \<Rightarrow> run_handler cfg w (f h (InventoryCommand requestId authority resource cur limit ended)))"
| "onBody cfg w h (InventoryResult requestId ok payload) =
     (case handleInventory (cfg_handler cfg) of
        None \<Rightarrow> fail_conn cfg ProtocolErrorReason ''machine inventory is unavailable''
      | Some f \<Rightarrow> run_handler cfg w (f h (InventoryResult requestId ok payload)))"

definition onApplicationFrame :: "relay_config \<Rightarrow> world \<Rightarrow> relay_header \<Rightarrow> relay_body \<Rightarrow> unit conn_op" where
  "onApplicationFrame cfg w h body c =
     (if c_connectionId c \<noteq> Some (h_connectionId h)
      then fail_conn cfg WrongConnection (''frame connectionId '' @ h_connectionId h @ '' does not match this connection'') c
      else if h_direction h \<noteq> peerDirection cfg
      then fail_conn cfg WrongDirection (''frame direction '' @ direction_text (h_direction h) @
        '' is not valid for a peer-originated frame on this connection'') c
      else if h_seq h \<noteq> c_incomingSeq c + 1
      then fail_conn cfg SequenceViolation (''expected seq '' @ int_text (c_incomingSeq c + 1) @ '', received '' @
        int_text (h_seq h) @ '' (gap, duplicate, or replay)'') c
      else onBody cfg w h body (c\<lparr>c_incomingSeq := h_seq h\<rparr>))"

definition frame_kind :: "relay_frame \<Rightarrow> string" where
  "frame_kind f = (case f of HandshakeInit _ \<Rightarrow> ''relayHandshakeInit'' | HandshakeAccept _ \<Rightarrow> ''relayHandshakeAccept''
     | HandshakeReject _ _ _ \<Rightarrow> ''relayHandshakeReject'' | Sequenced _ b \<Rightarrow> body_kind b)"

definition reject_id :: "conn \<Rightarrow> string" where
  "reject_id c = (case c_connectionId c of Some i \<Rightarrow> i | None \<Rightarrow> UNKNOWN_CONNECTION_ID)"

definition onHandshakeFrame :: "relay_config \<Rightarrow> world \<Rightarrow> relay_frame \<Rightarrow> unit conn_op" where
  "onHandshakeFrame cfg w f c =
     (case cfg_role cfg of
        Responder \<Rightarrow>
          (case f of
             HandshakeInit init \<Rightarrow> onHandshakeInit cfg w init c
           | _ \<Rightarrow> rejectHandshake cfg w (reject_id c) ''protocolDowngrade'' (''expected relayHandshakeInit, received '' @ frame_kind f) c)
      | Initiator \<Rightarrow>
          (case f of
             HandshakeReject _ code message \<Rightarrow> fail_conn cfg HandshakeRejected (code @ '': '' @ message) c
           | HandshakeAccept a \<Rightarrow> onHandshakeAccept cfg w a c
           | _ \<Rightarrow> fail_conn cfg ProtocolDowngrade (''expected relayHandshakeAccept, received '' @ frame_kind f) c))"

definition handleMalformed :: "relay_config \<Rightarrow> world \<Rightarrow> string \<Rightarrow> unit conn_op" where
  "handleMalformed cfg w message c =
     (if cfg_role cfg = Responder \<and> c_state c = Handshaking
      then rejectHandshake cfg w (reject_id c) ''malformedHandshake'' message c
      else fail_conn cfg ProtocolErrorReason message c)"

definition onFrame :: "relay_config \<Rightarrow> world \<Rightarrow> relay_frame \<Rightarrow> unit conn_op" where
  "onFrame cfg w f c =
     (if c_state c = Handshaking then onHandshakeFrame cfg w f c
      else (case f of
        Sequenced h body \<Rightarrow> onApplicationFrame cfg w h body c
      | _ \<Rightarrow> fail_conn cfg ProtocolDowngrade
          (''received handshake frame '' @ frame_kind f @ '' after handshake already completed'') c))"

definition onLine :: "relay_config \<Rightarrow> world \<Rightarrow> string \<Rightarrow> unit conn_op" where
  "onLine cfg w line =
     (case parseRelayFrame (m_host (w_machine w)) (m_now (w_machine w)) line of
        Inl e \<Rightarrow> handleMalformed cfg w e
      | Inr f \<Rightarrow> seq (change_state (\<lambda>c. c\<lparr>c_lastReceivedMs := m_now (w_machine w)\<rparr>)) (\<lambda>_. onFrame cfg w f))"

fun onLines :: "relay_config \<Rightarrow> world \<Rightarrow> string list \<Rightarrow> unit conn_op" where
  "onLines cfg w [] c = (Inr (), c)"
| "onLines cfg w (line # ls) c =
     (if c_destroyed c then (Inr (), c) else seq (onLine cfg w line) (\<lambda>_. onLines cfg w ls) c)"

definition onData :: "relay_config \<Rightarrow> world \<Rightarrow> string \<Rightarrow> unit conn_op" where
  "onData cfg w chunk c =
     (if c_destroyed c then (Inr (), c)
      else (case reader_push (c_buffer c) chunk of (r, rest) \<Rightarrow>
        let c1 = c\<lparr>c_buffer := rest\<rparr> in
        (case r of Inl e \<Rightarrow> fail_conn cfg OversizeFrame e c1 | Inr ls \<Rightarrow> onLines cfg w ls c1)))"

section \<open>Events\<close>

text \<open>
  A timer fires only while it is set. The grace period of \<open>drain\<close> has no effect once the connection has left
  the state draining.
\<close>

datatype conn_event =
    Start | Data string | Writable | TransportClosed disconnect_reason string
  | HandshakeTimer | HeartbeatTimer | IdleTimer | DrainTimer
  | SendEcho string | RequestStatus | AppCalls "app_call list" | HandlerRejected string

fun on_event :: "relay_config \<Rightarrow> world \<Rightarrow> conn_event \<Rightarrow> unit conn_op" where
  "on_event cfg w Start c = start cfg w c"
| "on_event cfg w (Data chunk) c = onData cfg w chunk c"
| "on_event cfg w Writable c = flushQueue w c"
| "on_event cfg w (TransportClosed reason message) c = fail_conn cfg reason message c"
| "on_event cfg w HandshakeTimer c =
     (if c_handshakeTimer c \<and> c_state c = Handshaking
      then fail_conn cfg HandshakeTimeout ''handshake did not complete within the configured timeout'' c else (Inr (), c))"
| "on_event cfg w HeartbeatTimer c = (if c_heartbeatTimer c = None then (Inr (), c) else sendHeartbeat cfg w c)"
| "on_event cfg w IdleTimer c =
     (case c_idleTimer c of
        None \<Rightarrow> (Inr (), c)
      | Some idle \<Rightarrow>
          if m_now (w_machine w) - c_lastReceivedMs c > idle
          then fail_conn cfg IdleTimeout (''no frames received from peer within '' @ int_text idle @ ''ms'') c else (Inr (), c))"
| "on_event cfg w DrainTimer c =
     (if c_state c = Draining then close_conn cfg w GracefulClose ''drain grace period elapsed'' c else (Inr (), c))"
| "on_event cfg w (SendEcho payload) c = sendEcho cfg w payload c"
| "on_event cfg w RequestStatus c = requestStatus cfg w c"
| "on_event cfg w (AppCalls calls) c = app_calls cfg w calls c"
| "on_event cfg w (HandlerRejected message) c = fail_conn cfg ProtocolErrorReason message c"

text \<open>The states that events reach in the worlds \<open>W\<close>.\<close>

inductive reach_in :: "(world \<Rightarrow> bool) \<Rightarrow> relay_config \<Rightarrow> conn \<Rightarrow> bool" for W cfg where
  created: "W w \<Longrightarrow> new_connection cfg w = Inr c \<Longrightarrow> reach_in W cfg c"
| stepped: "reach_in W cfg c \<Longrightarrow> W w \<Longrightarrow> on_event cfg w ev c = (r, c1) \<Longrightarrow> reach_in W cfg c1"

abbreviation reachable :: "relay_config \<Rightarrow> conn \<Rightarrow> bool" where
  "reachable \<equiv> reach_in (\<lambda>_. True)"

end
