(* ===== verification/DemoConnections.thy ===== *)
theory DemoConnections
  imports RelayConnection DemoMachines
begin

text \<open>The demo machines at the two ends of a relay connection, and concrete connections, for the witnesses.\<close>

definition demo_world :: "string \<Rightarrow> world" where
  "demo_world k = \<lparr>w_machine = demo_machine, w_files = demo_files k (CHR ''T'' # demo_other k), w_accepts = (\<lambda>_. True)\<rparr>"

definition demo_end :: "relay_role \<Rightarrow> relay_config" where
  "demo_end role = \<lparr>cfg_role = role, cfg_localStateDir = None,
     cfg_peer = (if role = Initiator then Some (demo_authority ''B'') else None), cfg_remoteStateDir = None,
     cfg_ttlSeconds = None, cfg_heartbeatIntervalMs = None, cfg_idleTimeoutMs = None, cfg_maxQueuedFrames = None,
     cfg_maxQueuedBytes = None, cfg_handler = neutralRelayApplicationHandler\<rparr>"

definition demo_keys :: "string \<Rightarrow> signing_keys" where
  "demo_keys k = \<lparr>sk_authorityId = demo_authority k, sk_publicFingerprint = demo_digest k, sk_privateKey = k, sk_publicKey = k\<rparr>"

text \<open>A fresh connection of machine \<open>k\<close>.\<close>

definition demo_fresh :: "string \<Rightarrow> relay_role \<Rightarrow> conn" where
  "demo_fresh k role = (case new_connection (demo_end role) (demo_world k) of Inr c \<Rightarrow> c | Inl _ \<Rightarrow> undefined)"

lemma demo_new:
  assumes "k \<in> {''A'', ''B''}"
  shows "new_connection (demo_end role) (demo_world k) = Inr (demo_fresh k role)"
proof -
  have "case new_connection (demo_end role) (demo_world k) of Inr _ \<Rightarrow> True | Inl _ \<Rightarrow> False"
    using assms by (cases role; elim insertE emptyE; hypsubst; code_simp)
  then show ?thesis
    by (simp add: demo_fresh_def split: sum.splits)
qed

end
