(* ===== verification/RelayProtocolProperties.thy ===== *)
theory RelayProtocolProperties
  imports RelayProtocol
begin

text \<open>
  Properties of the relay protocol: whatever chunks the transport delivers, the reader yields exactly the lines
  that were written, and every well-formed frame that is encoded is read back as it was sent.
\<close>

section \<open>The reader\<close>

lemma split_lines_no_break: "CHR 0x0A \<notin> set s \<Longrightarrow> split_lines s = ([], s)"
  by (induction s) auto

lemma split_lines_break: "CHR 0x0A \<notin> set l \<Longrightarrow> split_lines (l @ CHR 0x0A # s) = (l # fst (split_lines s), snd (split_lines s))"
  by (induction l) (auto simp: case_prod_beta)

lemma split_lines_rest: "CHR 0x0A \<notin> set (snd (split_lines s))"
  by (induction s) (auto simp: case_prod_beta split: list.splits)

lemma split_lines_joined: "concat (map (\<lambda>l. l @ [CHR 0x0A]) (fst (split_lines s))) @ snd (split_lines s) = s"
  by (induction s) (auto simp: case_prod_beta split: list.splits)

lemma split_lines_append:
  "split_lines (s @ t) = (fst (split_lines s) @ fst (split_lines (snd (split_lines s) @ t)),
     snd (split_lines (snd (split_lines s) @ t)))"
proof (induction "length (fst (split_lines s))" arbitrary: s)
  case 0
  then have "split_lines s = ([], s)"
    using split_lines_joined [of s] by (cases "split_lines s") auto
  then show ?case by simp
next
  case (Suc n)
  then obtain l ls where fst: "fst (split_lines s) = l # ls"
    by (cases "fst (split_lines s)") auto
  define u where "u = concat (map (\<lambda>l. l @ [CHR 0x0A]) ls) @ snd (split_lines s)"
  have s: "s = l @ CHR 0x0A # u"
    using split_lines_joined [of s] fst by (simp add: u_def)
  have "CHR 0x0A \<notin> set l"
    using fst by (induction s arbitrary: l ls) (auto simp: case_prod_beta split: list.splits if_splits)
  from split_lines_break [OF this] s have *: "split_lines s = (l # fst (split_lines u), snd (split_lines u))"
    "split_lines (s @ t) = (l # fst (split_lines (u @ t)), snd (split_lines (u @ t)))"
    by simp_all
  with Suc.hyps(1) [of u] Suc.hyps(2) show ?case by simp
qed

text \<open>A connection's reads: the reader is fed one chunk after the other.\<close>

fun push_all :: "string \<Rightarrow> string list \<Rightarrow> (string list \<times> string) checked" where
  "push_all buffer [] = Inr ([], buffer)"
| "push_all buffer (chunk # chunks) =
     (case reader_push buffer chunk of
        (Inl e, _) \<Rightarrow> Inl e
      | (Inr ls, rest) \<Rightarrow> check (push_all rest chunks) (\<lambda>(ls', rest'). Inr (ls @ ls', rest')))"

lemma push_all_split:
  assumes "push_all (snd (split_lines s)) chunks = Inr (ls, rest)"
  shows "split_lines (s @ concat chunks) = (fst (split_lines s) @ ls, rest) \<and>
      (chunks \<noteq> [] \<longrightarrow> utf8_bytes rest \<le> RELAY_MAX_FRAME_BYTES)"
  using assms
proof (induction chunks arbitrary: s ls)
  case Nil
  then show ?case by (simp add: prod_eq_iff)
next
  case (Cons chunk chunks)
  let ?b = "snd (split_lines s)"
  from Cons.prems obtain ls1 ls2 where
    push: "reader_push ?b chunk = (Inr ls1, snd (split_lines (?b @ chunk)))" and
    ls1: "ls1 = fst (split_lines (?b @ chunk))" and
    small: "utf8_bytes (snd (split_lines (?b @ chunk))) \<le> RELAY_MAX_FRAME_BYTES" and
    more: "push_all (snd (split_lines (?b @ chunk))) chunks = Inr (ls2, rest)" and ls: "ls = ls1 @ ls2"
    by (auto simp: reader_push_def case_prod_beta check_Inr_iff split: if_splits)
  have after: "split_lines (s @ chunk) = (fst (split_lines s) @ ls1, snd (split_lines (?b @ chunk)))"
    using split_lines_append [of s chunk] ls1 by simp
  with Cons.IH [of "s @ chunk" ls2] more show ?case
    using ls small by (cases chunks) auto
qed

text \<open>
  Framing does not depend on the chunks: unless it refuses an oversized line, the reader returns the lines of
  the whole input, in order, none lost, split or joined, and keeps what follows the last line break, which is
  never more than the size of a frame.
\<close>

theorem reader_chunking:
  assumes "push_all (snd (split_lines s)) chunks = Inr (ls, rest)"
  shows "split_lines (s @ concat chunks) = (fst (split_lines s) @ ls, rest) \<and>
    concat (map (\<lambda>l. l @ [CHR 0x0A]) (fst (split_lines s) @ ls)) @ rest = s @ concat chunks \<and>
    (chunks \<noteq> [] \<longrightarrow> utf8_bytes rest \<le> RELAY_MAX_FRAME_BYTES)"
  using push_all_split [OF assms] split_lines_joined [of "s @ concat chunks"] by simp

section \<open>Frames\<close>

definition ok_str :: "nat \<Rightarrow> string \<Rightarrow> bool" where
  "ok_str n s \<longleftrightarrow> s \<noteq> [] \<and> utf8_bytes s \<le> n"

definition ok_base64 :: "string \<Rightarrow> bool" where
  "ok_base64 s \<longleftrightarrow> s \<noteq> [] \<and> base64_pattern s \<and> length s mod 4 = 0"

definition ok_policy :: "relay_host \<Rightarrow> int \<Rightarrow> json \<Rightarrow> bool" where
  "ok_policy host now p \<longleftrightarrow> validateTransportPolicy host now (Some p) = Inr () \<and> plain p \<and> unique_keys p"

definition ok_window :: "relay_host \<Rightarrow> string \<Rightarrow> string \<Rightarrow> bool" where
  "ok_window host issued expires \<longleftrightarrow> issued \<noteq> [] \<and> expires \<noteq> [] \<and>
     (case (date_parse host issued, date_parse host expires) of
        (Some a, Some b) \<Rightarrow> a < b \<and> b - a \<le> 300000 | _ \<Rightarrow> False)"

definition ok_init :: "relay_host \<Rightarrow> int \<Rightarrow> relay_init \<Rightarrow> bool" where
  "ok_init host now f \<longleftrightarrow>
     uuid_pattern (ri_connectionId f) \<and> authority_pattern (ri_initiatorAuthorityId f) \<and>
     authority_pattern (ri_responderAuthorityId f) \<and> ri_initiatorAuthorityId f \<noteq> ri_responderAuthorityId f \<and>
     sha256_hex (ri_initiatorFingerprint f) \<and> ok_base64 (ri_initiatorPublicKeySpkiB64 f) \<and>
     ok_policy host now (ri_initiatorTransportPolicy f) \<and>
     pred_option (\<lambda>d. assertSafeRemoteAbsolutePath d ''stateDir'' = Inr d) (ri_stateDir f) \<and>
     pred_option (\<lambda>n. 100 \<le> n \<and> n \<le> 300000) (ri_heartbeatIntervalMs f) \<and>
     nonce_pattern (ri_nonce f) \<and> ok_window host (ri_issuedAt f) (ri_expiresAt f) \<and> ok_base64 (ri_signature f)"

definition ok_accept :: "relay_host \<Rightarrow> int \<Rightarrow> relay_accept \<Rightarrow> bool" where
  "ok_accept host now f \<longleftrightarrow>
     uuid_pattern (ra_connectionId f) \<and> authority_pattern (ra_initiatorAuthorityId f) \<and>
     authority_pattern (ra_responderAuthorityId f) \<and> ra_initiatorAuthorityId f \<noteq> ra_responderAuthorityId f \<and>
     sha256_hex (ra_initiatorFingerprint f) \<and> ok_base64 (ra_initiatorPublicKeySpkiB64 f) \<and>
     ok_policy host now (ra_initiatorTransportPolicy f) \<and>
     sha256_hex (ra_responderFingerprint f) \<and> ok_base64 (ra_responderPublicKeySpkiB64 f) \<and>
     ok_policy host now (ra_responderTransportPolicy f) \<and> nonce_pattern (ra_initiatorNonce f) \<and>
     nonce_pattern (ra_responderNonce f) \<and> ok_window host (ra_issuedAt f) (ra_expiresAt f) \<and> ok_base64 (ra_signature f)"

definition ok_status :: "relay_host \<Rightarrow> peer_status \<Rightarrow> bool" where
  "ok_status host p \<longleftrightarrow>
     uuid_pattern (ps_connectionId p) \<and> authority_pattern (ps_authorityId p) \<and> authority_pattern (ps_peerAuthorityId p) \<and>
     ps_connectedAt p \<noteq> [] \<and> date_parse host (ps_connectedAt p) \<noteq> None \<and> 0 \<le> ps_uptimeMs p"

fun ok_body :: "relay_host \<Rightarrow> relay_body \<Rightarrow> bool" where
  "ok_body host (EchoRequest p) = ok_str 4096 p"
| "ok_body host (EchoResponse p) = ok_str 4096 p"
| "ok_body host (StatusResponse st) = ok_status host st"
| "ok_body host (CloseBody reason) = ok_str 512 reason"
| "ok_body host (ProtocolError code message) = (ok_str 128 code \<and> ok_str 512 message)"
| "ok_body host (ChannelCommand requestId home operation actor payload) =
     (ok_str 128 requestId \<and> authority_pattern home \<and>
      operation \<in> JStr ` {''register'', ''leave'', ''send'', ''directSend'', ''snapshot'', ''messages''} \<and>
      ok_str 512 actor \<and> ok_base64 payload \<and> utf8_bytes payload \<le> 8192)"
| "ok_body host (ChannelResult requestId ok chunkIndex final payload) =
     (ok_str 128 requestId \<and> 0 \<le> chunkIndex \<and> safe_integer chunkIndex \<and> ok_base64 payload \<and> utf8_bytes payload \<le> 8192)"
| "ok_body host (InventoryCommand requestId authority resource cursor limit includeEnded) =
     (ok_str 128 requestId \<and> authority_pattern authority \<and> resource \<in> JStr ` {''channels'', ''sessions'', ''providers''} \<and>
      0 \<le> cursor \<and> safe_integer cursor \<and> 1 \<le> limit \<and> limit \<le> 20)"
| "ok_body host (InventoryResult requestId ok payload) =
     (ok_str 128 requestId \<and> ok_base64 payload \<and> utf8_bytes payload \<le> 8192)"
| "ok_body host (Terminal kind streamId flds) =
     (kind \<in> set terminal_kinds \<and> ok_str 128 streamId \<and> distinct (map fst flds) \<and>
      set (map fst flds) = set (terminal_keys kind) \<and> list_all (\<lambda>p. plain (snd p) \<and> unique_keys (snd p)) flds \<and>
      terminal_checks kind flds = Inr ())"
| "ok_body host _ = True"

fun ok_frame :: "relay_host \<Rightarrow> int \<Rightarrow> relay_frame \<Rightarrow> bool" where
  "ok_frame host now (HandshakeInit f) = ok_init host now f"
| "ok_frame host now (HandshakeAccept f) = ok_accept host now f"
| "ok_frame host now (HandshakeReject c code message) = (uuid_pattern c \<and> ok_str 128 code \<and> ok_str 512 message)"
| "ok_frame host now (Sequenced h b) = (uuid_pattern (h_connectionId h) \<and> 1 \<le> h_seq h \<and> ok_body host b)"

lemma own_fields_id: "no_proto kvs \<Longrightarrow> own_fields kvs = kvs"
  by (force simp: own_fields_def no_proto_def filter_id_conv)

lemma get_prop_no_proto: "no_proto kvs \<Longrightarrow> get_prop k (JObj kvs) = map_of kvs k"
proof -
  assume np: "no_proto kvs"
  then have "map_of kvs proto_key = None"
    by (simp add: no_proto_def map_of_eq_None_iff)
  with own_fields_id [OF np] show ?thesis
    by (simp split: option.splits)
qed

declare get_prop.simps [simp del]

lemma own_keys_no_proto: "no_proto kvs \<Longrightarrow> own_keys (JObj kvs) = map fst kvs"
  by (simp add: own_keys_def own_fields_id)

lemma find_None_list_all: "find P xs = None \<longleftrightarrow> list_all (\<lambda>x. \<not> P x) xs"
  by (auto simp: find_None_iff list_all_iff)

text \<open>An object with exactly the allowed keys passes.\<close>

lemma assertExactKeys_ok:
  "no_proto kvs \<Longrightarrow> set (map fst kvs) = set allowed \<Longrightarrow> assertExactKeys (JObj kvs) allowed label = Inr ()"
proof -
  assume np: "no_proto kvs" and keys: "set (map fst kvs) = set allowed"
  have "find (\<lambda>k. k \<notin> set allowed) (own_keys (JObj kvs)) = None"
    using keys by (simp add: own_keys_no_proto [OF np] find_None_iff)
  moreover have "find (\<lambda>k. get_prop k (JObj kvs) = None) allowed = None"
    using keys by (auto simp: get_prop_no_proto [OF np] find_None_iff map_of_eq_None_iff)
  ultimately show ?thesis
    by (simp add: assertExactKeys_def)
qed

lemma pattern_nonempty:
  "uuid_pattern s \<Longrightarrow> s \<noteq> []" "authority_pattern s \<Longrightarrow> s \<noteq> []" "sha256_hex s \<Longrightarrow> s \<noteq> []" "nonce_pattern s \<Longrightarrow> s \<noteq> []"
  by (auto simp: uuid_pattern_def authority_pattern_def starts_with_def sha256_hex_def nonce_pattern_def)

lemma field_ok:
  "uuid_pattern s \<Longrightarrow> connectionIdField (Some (JStr s)) = Inr s"
  "authority_pattern s \<Longrightarrow> authorityField (Some (JStr s)) field = Inr s"
  "sha256_hex s \<Longrightarrow> fingerprintField (Some (JStr s)) field = Inr s"
  "nonce_pattern s \<Longrightarrow> nonceField (Some (JStr s)) field = Inr s"
  "ok_base64 s \<Longrightarrow> base64Field (Some (JStr s)) field = Inr s"
  "ok_str n s \<Longrightarrow> boundedStr (Some (JStr s)) field n = Inr s"
  "ok_base64 s \<Longrightarrow> utf8_bytes s \<le> n \<Longrightarrow> boundedBase64 (Some (JStr s)) field n = Inr s"
  "s \<noteq> [] \<Longrightarrow> date_parse host s \<noteq> None \<Longrightarrow> timestampField host (Some (JStr s)) field = Inr s"
  "ok_policy host now p \<Longrightarrow> transportPolicyField host now (Some p) field = Inr p"
  "1 \<le> m \<Longrightarrow> seqField (Some (JNum m)) = Inr m"
  "directionField (Some (JStr (direction_text d))) = Inr d"
  using pattern_nonempty [of s]
  by (auto simp: connectionIdField_def authorityField_def fingerprintField_def nonceField_def base64Field_def boundedStr_def
      boundedBase64_def timestampField_def transportPolicyField_def seqField_def directionField_def direction_text_def
      str_field_def ok_str_def ok_base64_def ok_policy_def split: relay_direction.splits)

lemma window_ok: "ok_window host issued expires \<Longrightarrow> windowField host issued expires = Inr ()"
  by (auto simp: ok_window_def windowField_def field_ok RELAY_MAX_TTL_SECONDS_def split: option.splits)

lemma window_times:
  "ok_window host issued expires \<Longrightarrow> timestampField host (Some (JStr issued)) field = Inr issued"
  "ok_window host issued expires \<Longrightarrow> timestampField host (Some (JStr expires)) field = Inr expires"
  by (auto simp: ok_window_def field_ok split: option.splits)

lemma version_ok: "versionField (Some (JNum RELAY_PROTOCOL_VERSION)) = Inr ()" "channelField (Some (JStr RELAY_CHANNEL_KIND)) = Inr ()"
  by (simp_all add: versionField_def channelField_def)

lemma stateDir_ok:
  "pred_option (\<lambda>d. assertSafeRemoteAbsolutePath d ''stateDir'' = Inr d) v \<Longrightarrow> stateDirField (Some (nullable JStr v)) = Inr v"
  by (cases v) (auto simp: stateDirField_def nullable_def)

lemma heartbeat_ok:
  "pred_option (\<lambda>n. 100 \<le> n \<and> n \<le> 300000) v \<Longrightarrow> heartbeatIntervalMsField (Some (nullable JNum v)) = Inr v"
  by (cases v) (auto simp: heartbeatIntervalMsField_def nullable_def MIN_NEGOTIATED_HEARTBEAT_INTERVAL_MS_def
      MAX_NEGOTIATED_HEARTBEAT_INTERVAL_MS_def)

lemma header_ok:
  assumes "no_proto kvs" and "map_of kvs ''connectionId'' = Some (JStr (h_connectionId h))"
    and "map_of kvs ''direction'' = Some (JStr (direction_text (h_direction h)))"
    and "map_of kvs ''seq'' = Some (JNum (h_seq h))" and "uuid_pattern (h_connectionId h)" "1 \<le> h_seq h"
  shows "headerFields (JObj kvs) = Inr h"
  using assms by (simp add: headerFields_def get_prop_no_proto field_ok)

lemma init_ok:
  assumes "ok_init host now f"
  shows "validateRelayRecord host now (init_json f) = Inr (HandshakeInit f)"
proof -
  have keys: "assertExactKeys (init_json f) [''kind'', ''version'', ''channel'', ''connectionId'', ''initiatorAuthorityId'',
       ''initiatorFingerprint'', ''initiatorPublicKeySpkiB64'', ''initiatorTransportPolicy'', ''responderAuthorityId'',
       ''stateDir'', ''heartbeatIntervalMs'', ''nonce'', ''issuedAt'', ''expiresAt'', ''signature''] label = Inr ()" for label
    unfolding init_json_def by (rule assertExactKeys_ok) (auto simp: no_proto_def proto_key_def)
  have lookup: "get_prop k (init_json f) = map_of (own_object (init_json f)) k" for k
    by (simp add: init_json_def own_object_def own_fields_id get_prop_no_proto no_proto_def proto_key_def)
  have obj: "own_object (init_json f) = (case init_json f of JObj kvs \<Rightarrow> kvs | _ \<Rightarrow> [])"
    by (simp add: init_json_def own_object_def own_fields_id no_proto_def proto_key_def)
  show ?thesis
    using assms unfolding validateRelayRecord_def validateHandshakeInit_def lookup keys obj
    by (simp add: ok_init_def init_json_def field_ok window_ok window_times [of host "ri_issuedAt f" "ri_expiresAt f"]
        version_ok stateDir_ok heartbeat_ok)
qed

lemma accept_ok:
  assumes "ok_accept host now f"
  shows "validateRelayRecord host now (accept_json f) = Inr (HandshakeAccept f)"
proof -
  have keys: "assertExactKeys (accept_json f) [''kind'', ''version'', ''channel'', ''connectionId'', ''initiatorAuthorityId'',
       ''initiatorFingerprint'', ''initiatorPublicKeySpkiB64'', ''initiatorTransportPolicy'', ''responderAuthorityId'',
       ''responderFingerprint'', ''responderPublicKeySpkiB64'', ''responderTransportPolicy'', ''initiatorNonce'',
       ''responderNonce'', ''issuedAt'', ''expiresAt'', ''signature''] label = Inr ()" for label
    unfolding accept_json_def by (rule assertExactKeys_ok) (auto simp: no_proto_def proto_key_def)
  have lookup: "get_prop k (accept_json f) = map_of (own_object (accept_json f)) k" for k
    by (simp add: accept_json_def own_object_def own_fields_id get_prop_no_proto no_proto_def proto_key_def)
  have obj: "own_object (accept_json f) = (case accept_json f of JObj kvs \<Rightarrow> kvs | _ \<Rightarrow> [])"
    by (simp add: accept_json_def own_object_def own_fields_id no_proto_def proto_key_def)
  show ?thesis
    using assms unfolding validateRelayRecord_def validateHandshakeAccept_def lookup keys obj
    by (simp add: ok_accept_def accept_json_def field_ok window_ok window_times [of host "ra_issuedAt f" "ra_expiresAt f"] version_ok)
qed

lemma status_ok: "ok_status host st \<Longrightarrow> validatePeerStatus host (Some (status_json st)) = Inr st"
proof -
  assume ok: "ok_status host st"
  have keys: "assertExactKeys (status_json st) [''connectionId'', ''authorityId'', ''peerAuthorityId'', ''role'', ''connectedAt'', ''uptimeMs''] label = Inr ()" for label
    unfolding status_json_def by (rule assertExactKeys_ok) (auto simp: no_proto_def proto_key_def)
  have lookup: "get_prop k (status_json st) = map_of (own_object (status_json st)) k" for k
    by (simp add: status_json_def own_object_def own_fields_id get_prop_no_proto no_proto_def proto_key_def)
  have obj: "own_object (status_json st) = (case status_json st of JObj kvs \<Rightarrow> kvs | _ \<Rightarrow> [])"
    by (simp add: status_json_def own_object_def own_fields_id no_proto_def proto_key_def)
  obtain kvs where kvs: "status_json st = JObj kvs" by (simp add: status_json_def)
  have "validatePeerStatus host (Some (status_json st)) =
      (let r = status_json st in
           check (assertExactKeys r [''connectionId'', ''authorityId'', ''peerAuthorityId'', ''role'', ''connectedAt'', ''uptimeMs''] ''status'') (\<lambda>_.
           check (connectionIdField (get_prop ''connectionId'' r)) (\<lambda>connectionId.
           check (authorityField (get_prop ''authorityId'' r) ''status.authorityId'') (\<lambda>authorityId.
           check (authorityField (get_prop ''peerAuthorityId'' r) ''status.peerAuthorityId'') (\<lambda>peerAuthorityId.
           check (if get_prop ''role'' r = Some (JStr ''initiator'') then Inr Initiator
                  else if get_prop ''role'' r = Some (JStr ''responder'') then Inr Responder
                  else relayError ''status.role must be initiator or responder'') (\<lambda>role.
           check (timestampField host (get_prop ''connectedAt'' r) ''status.connectedAt'') (\<lambda>connectedAt.
           case get_prop ''uptimeMs'' r of
             Some (JNum n) \<Rightarrow>
               if n < 0 then relayError ''status.uptimeMs must be a non-negative integer''
               else Inr \<lparr>ps_connectionId = connectionId, ps_authorityId = authorityId, ps_peerAuthorityId = peerAuthorityId,
                 ps_role = role, ps_connectedAt = connectedAt, ps_uptimeMs = n\<rparr>
           | _ \<Rightarrow> relayError ''status.uptimeMs must be a non-negative integer'')))))))"
    by (simp add: validatePeerStatus_def kvs)
  also have "\<dots> = Inr st"
    using ok unfolding Let_def keys lookup obj
    by (cases "ps_role st") (simp_all add: ok_status_def status_json_def field_ok role_text_def)
  finally show ?thesis .
qed

text \<open>A sequenced frame: its header and, under the keys of its kind, the fields of its body.\<close>

lemma sequenced_ok:
  assumes "no_proto (body_fields b)" "distinct (map fst (body_fields b))" "set (map fst (body_fields b)) \<inter> set header_keys = {}"
    and "uuid_pattern (h_connectionId h)" "1 \<le> h_seq h"
  shows "headerFields (frame_json (Sequenced h b)) = Inr h"
    and "set allowed = set header_keys \<union> set (map fst (body_fields b)) \<Longrightarrow>
      assertExactKeys (frame_json (Sequenced h b)) allowed label = Inr ()"
    and "get_prop ''kind'' (frame_json (Sequenced h b)) = Some (JStr (body_kind b))"
    and "k \<notin> set header_keys \<Longrightarrow> get_prop k (frame_json (Sequenced h b)) = map_of (body_fields b) k"
    and "filter (\<lambda>(k, _). k \<notin> set (header_keys @ [''streamId''])) (own_object (frame_json (Sequenced h b))) =
      filter (\<lambda>(k, _). k \<noteq> ''streamId'') (body_fields b)"
proof -
  define kvs where "kvs = [(''kind'', JStr (body_kind b)), (''connectionId'', JStr (h_connectionId h)),
       (''direction'', JStr (direction_text (h_direction h))), (''seq'', JNum (h_seq h))] @ body_fields b"
  have frame: "frame_json (Sequenced h b) = JObj kvs"
    by (simp add: kvs_def)
  have np: "no_proto kvs"
    using assms(1) by (auto simp: kvs_def no_proto_def proto_key_def)
  show "headerFields (frame_json (Sequenced h b)) = Inr h"
    unfolding frame by (rule header_ok [OF np]) (use assms(4,5) in \<open>simp_all add: kvs_def\<close>)
  show "set allowed = set header_keys \<union> set (map fst (body_fields b)) \<Longrightarrow>
      assertExactKeys (frame_json (Sequenced h b)) allowed label = Inr ()"
    unfolding frame by (rule assertExactKeys_ok [OF np]) (auto simp: kvs_def header_keys_def)
  show "get_prop ''kind'' (frame_json (Sequenced h b)) = Some (JStr (body_kind b))"
    by (simp only: frame get_prop_no_proto [OF np]) (simp add: kvs_def)
  show "k \<notin> set header_keys \<Longrightarrow> get_prop k (frame_json (Sequenced h b)) = map_of (body_fields b) k"
    by (simp only: frame get_prop_no_proto [OF np]) (simp add: kvs_def header_keys_def)
  have "filter (\<lambda>(k, _). k \<notin> set (header_keys @ [''streamId''])) (body_fields b) = filter (\<lambda>(k, _). k \<noteq> ''streamId'') (body_fields b)"
    using assms(3) by (intro filter_cong) auto
  then show "filter (\<lambda>(k, _). k \<notin> set (header_keys @ [''streamId''])) (own_object (frame_json (Sequenced h b))) =
      filter (\<lambda>(k, _). k \<noteq> ''streamId'') (body_fields b)"
    by (simp only: frame own_object_def json.case own_fields_id [OF np]) (simp add: kvs_def header_keys_def)
qed

lemma assertExactKeys_sequenced:
  assumes "no_proto (body_fields b)" "distinct (map fst (body_fields b))" "set (map fst (body_fields b)) \<inter> set header_keys = {}"
    and "uuid_pattern (h_connectionId h)" "1 \<le> h_seq h" and "map fst (body_fields b) = ks"
  shows "assertExactKeys (frame_json (Sequenced h b)) (header_keys @ ks) label = Inr ()"
  using sequenced_ok(2) [OF assms(1-5)] assms(6) by auto

lemmas sizes = RELAY_MAX_ECHO_PAYLOAD_BYTES_def RELAY_MAX_REASON_BYTES_def RELAY_MAX_TERMINAL_BYTES_def

lemma body_ok:
  assumes "uuid_pattern (h_connectionId h)" "1 \<le> h_seq h" and ok: "ok_body host b" and "\<And>kind i flds. b \<noteq> Terminal kind i flds"
  shows "validateRelayRecord host now (frame_json (Sequenced h b)) = Inr (Sequenced h b)"
proof -
  have nice: "no_proto (body_fields b)" "distinct (map fst (body_fields b))" "set (map fst (body_fields b)) \<inter> set header_keys = {}"
    using assms(4) by (cases b; force simp: no_proto_def proto_key_def header_keys_def)+
  define F where "F = frame_json (Sequenced h b)"
  have head: "headerFields F = Inr h" and kind: "get_prop ''kind'' F = Some (JStr (body_kind b))"
    and keys: "assertExactKeys F (header_keys @ map fst (body_fields b)) label = Inr ()"
    and field: "k \<noteq> ''kind'' \<Longrightarrow> k \<noteq> ''connectionId'' \<Longrightarrow> k \<noteq> ''direction'' \<Longrightarrow> k \<noteq> ''seq'' \<Longrightarrow> get_prop k F = map_of (body_fields b) k"
    for k label
    unfolding F_def using sequenced_ok [OF nice assms(1,2)] assertExactKeys_sequenced [OF nice assms(1,2)]
    by (auto simp: header_keys_def simp del: frame_json.simps)
  have "validateRelayRecord host now F = Inr (Sequenced h b)"
  proof (cases b)
    case (EchoRequest p)
    with ok show ?thesis
      using keys head kind by (auto simp: field validateRelayRecord_def terminal_kinds_def validateEchoFrame_def
          field_ok sizes)
  next
    case (EchoResponse p)
    with ok show ?thesis
      using keys head kind by (auto simp: field validateRelayRecord_def terminal_kinds_def validateEchoFrame_def
          field_ok sizes)
  next
    case StatusRequest
    with ok show ?thesis
      using keys head kind by (auto simp: field validateRelayRecord_def terminal_kinds_def validateStatusRequest_def
          field_ok sizes)
  next
    case (StatusResponse st)
    with ok show ?thesis
      using keys head kind by (auto simp: field validateRelayRecord_def terminal_kinds_def validateStatusResponse_def status_ok
          field_ok sizes)
  next
    case Heartbeat
    with ok show ?thesis
      using keys head kind by (auto simp: field validateRelayRecord_def terminal_kinds_def validateSeqOnlyFrame_def
          field_ok sizes)
  next
    case Drain
    with ok show ?thesis
      using keys head kind by (auto simp: field validateRelayRecord_def terminal_kinds_def validateSeqOnlyFrame_def
          field_ok sizes)
  next
    case (CloseBody reason)
    with ok show ?thesis
      using keys head kind by (auto simp: field validateRelayRecord_def terminal_kinds_def validateCloseFrame_def
          field_ok sizes)
  next
    case (ProtocolError code message)
    with ok show ?thesis
      using keys head kind by (auto simp: field validateRelayRecord_def terminal_kinds_def validateProtocolErrorFrame_def
          field_ok sizes)
  next
    case (ChannelCommand requestId home operation actor payload)
    with ok show ?thesis
      using keys head kind by (auto simp: field validateRelayRecord_def terminal_kinds_def validateChannelFrame_def string_of_def
          field_ok sizes)
  next
    case (ChannelResult requestId ok chunkIndex final payload)
    with ok show ?thesis
      using keys head kind by (auto simp: field validateRelayRecord_def terminal_kinds_def validateChannelFrame_def booleanField_def safeBetween_def integerBetween_def
          field_ok sizes)
  next
    case (InventoryCommand requestId authority resource cursor limit includeEnded)
    with ok show ?thesis
      using keys head kind by (auto simp: field validateRelayRecord_def terminal_kinds_def validateInventoryFrame_def string_of_def booleanField_def safeBetween_def integerBetween_def safe_integer_def
          field_ok sizes)
  next
    case (InventoryResult requestId ok payload)
    with ok show ?thesis
      using keys head kind by (auto simp: field validateRelayRecord_def terminal_kinds_def validateInventoryFrame_def booleanField_def
          field_ok sizes)
  qed (use assms(4) in simp)
  then show ?thesis
    by (simp only: F_def)
qed

lemma terminal_keys_fresh:
  "\<forall>kind \<in> set terminal_kinds. proto_key \<notin> set (terminal_keys kind) \<and> ''streamId'' \<notin> set (terminal_keys kind) \<and>
     set (terminal_keys kind) \<inter> set header_keys = {}"
  by code_simp

lemma terminal_nice:
  assumes ok: "ok_body host (Terminal kind streamId flds)"
  shows "no_proto (body_fields (Terminal kind streamId flds))" "distinct (map fst (body_fields (Terminal kind streamId flds)))"
    "set (map fst (body_fields (Terminal kind streamId flds))) \<inter> set header_keys = {}" "''streamId'' \<notin> fst ` set flds"
proof -
  have "kind \<in> set terminal_kinds" "distinct (map fst flds)" "set (map fst flds) = set (terminal_keys kind)"
    using ok by auto
  moreover from this have fresh: "proto_key \<notin> fst ` set flds" "''streamId'' \<notin> fst ` set flds" "fst ` set flds \<inter> set header_keys = {}"
    using terminal_keys_fresh by (metis list.set_map)+
  ultimately show "no_proto (body_fields (Terminal kind streamId flds))" "distinct (map fst (body_fields (Terminal kind streamId flds)))"
      "set (map fst (body_fields (Terminal kind streamId flds))) \<inter> set header_keys = {}" "''streamId'' \<notin> fst ` set flds"
    by (auto simp: no_proto_def proto_key_def header_keys_def)
qed

lemma terminal_ok:
  assumes "uuid_pattern (h_connectionId h)" "1 \<le> h_seq h" and ok: "ok_body host (Terminal kind streamId flds)"
  shows "validateRelayRecord host now (frame_json (Sequenced h (Terminal kind streamId flds))) = Inr (Sequenced h (Terminal kind streamId flds))"
proof -
  let ?b = "Terminal kind streamId flds"
  define F where "F = frame_json (Sequenced h ?b)"
  have kind: "kind \<in> set terminal_kinds" and same: "set (map fst flds) = set (terminal_keys kind)"
    using ok by auto
  note nice = terminal_nice(1-3) [OF ok]
  note facts = sequenced_ok [OF nice assms(1,2), folded F_def]
  have keys: "assertExactKeys F (header_keys @ ''streamId'' # terminal_keys kind) label = Inr ()" for label
    by (rule facts(2)) (use same in auto)
  have "filter (\<lambda>(k, _). k \<noteq> ''streamId'') flds = flds"
    using terminal_nice(4) [OF ok] by (force simp: filter_id_conv)
  then have own: "filter (\<lambda>(k, _). k \<notin> set (header_keys @ [''streamId''])) (own_object F) = flds"
    using facts(5) by simp
  have stream: "get_prop ''streamId'' F = Some (JStr streamId)"
    by (subst facts(4)) (simp_all add: header_keys_def)
  have "validateTerminalFrame kind F = Inr (Sequenced h ?b)"
    using ok by (simp only: validateTerminalFrame_def keys facts(1) stream own Let_def) (simp add: field_ok)
  moreover have "kind \<notin> {''relayHandshakeInit'', ''relayHandshakeAccept'', ''relayHandshakeReject'', ''echoRequest'', ''echoResponse'',
      ''statusRequest'', ''statusResponse'', ''heartbeat'', ''drain'', ''close'', ''protocolError''}"
    using kind by (auto simp: terminal_kinds_def)
  ultimately have "validateRelayRecord host now F = Inr (Sequenced h ?b)"
    using facts(3) kind by (simp add: validateRelayRecord_def)
  then show ?thesis
    by (simp only: F_def)
qed

lemma reject_ok:
  assumes "uuid_pattern c" "ok_str 128 code" "ok_str 512 message"
  shows "validateRelayRecord host now (frame_json (HandshakeReject c code message)) = Inr (HandshakeReject c code message)"
proof -
  let ?kvs = "[(''kind'', JStr ''relayHandshakeReject''), (''connectionId'', JStr c), (''code'', JStr code), (''message'', JStr message)]"
  have np: "no_proto ?kvs"
    by (simp add: no_proto_def proto_key_def)
  have keys: "assertExactKeys (JObj ?kvs) [''kind'', ''connectionId'', ''code'', ''message''] label = Inr ()" for label
    by (rule assertExactKeys_ok [OF np]) simp
  show ?thesis
    using assms by (simp add: validateRelayRecord_def validateHandshakeReject_def keys get_prop_no_proto [OF np] field_ok sizes)
qed

lemma record_ok: "ok_frame host now f \<Longrightarrow> validateRelayRecord host now (frame_json f) = Inr f"
proof (cases f)
  case (Sequenced h b)
  moreover assume "ok_frame host now f"
  ultimately show ?thesis
    using body_ok [of h host b now] terminal_ok [of h host _ _ _ now] by (cases b) (auto simp del: frame_json.simps)
qed (auto simp: init_ok accept_ok reject_ok simp del: frame_json.simps simp: frame_json.simps(1,2))

lemma sequenced_text:
  assumes "no_proto (body_fields b)" "distinct (map fst (body_fields b))" "set (map fst (body_fields b)) \<inter> set header_keys = {}"
    and "list_all (\<lambda>p. plain (snd p) \<and> unique_keys (snd p)) (body_fields b)"
  shows "plain (frame_json (Sequenced h b)) \<and> unique_keys (frame_json (Sequenced h b))"
proof -
  have "fst p \<noteq> proto_key \<and> plain (snd p)" if "p \<in> set (body_fields b)" for p
    using assms(1,4) that by (force simp: no_proto_def list_all_iff)
  moreover have "''kind'' \<notin> fst ` set (body_fields b)" "''connectionId'' \<notin> fst ` set (body_fields b)"
    "''direction'' \<notin> fst ` set (body_fields b)" "''seq'' \<notin> fst ` set (body_fields b)"
    using assms(3) by (auto simp: header_keys_def)
  ultimately show ?thesis
    using assms(2,4) by (simp add: list_all_iff proto_key_def)
qed

lemma frame_text_ok: "ok_frame host now f \<Longrightarrow> plain (frame_json f) \<and> unique_keys (frame_json f)"
proof (cases f)
  case (HandshakeInit i)
  assume "ok_frame host now f"
  with HandshakeInit show ?thesis
    by (auto simp: ok_init_def ok_policy_def init_json_def proto_key_def nullable_def split: option.splits)
next
  case (HandshakeAccept a)
  assume "ok_frame host now f"
  with HandshakeAccept show ?thesis
    by (auto simp: ok_accept_def ok_policy_def accept_json_def proto_key_def)
next
  case (HandshakeReject c code message)
  then show ?thesis by (simp add: proto_key_def)
next
  case (Sequenced h b)
  assume ok: "ok_frame host now f"
  have vals: "list_all (\<lambda>p. plain (snd p) \<and> unique_keys (snd p)) (body_fields b)"
    using ok Sequenced by (cases b) (auto simp: proto_key_def status_json_def)
  have "no_proto (body_fields b) \<and> distinct (map fst (body_fields b)) \<and> set (map fst (body_fields b)) \<inter> set header_keys = {}"
  proof (cases b)
    case (Terminal kind streamId flds)
    then show ?thesis
      using ok Sequenced terminal_nice [of host kind streamId flds] by simp
  qed (simp_all add: no_proto_def proto_key_def header_keys_def)
  then show ?thesis
    unfolding Sequenced using sequenced_text vals by blast
qed


section \<open>The stream\<close>

text \<open>JSON text has no raw line break.\<close>

lemma no_break_simps [simp]:
  "CHR 0x0A \<notin> set (concat (map json_escape t))" "CHR 0x0A \<notin> set (json_quote t)" "CHR 0x0A \<notin> set (int_text n)"
proof -
  have hex: "hex_char m \<noteq> CHR 0x0A" if "m < 16" for m
  proof
    assume "hex_char m = CHR 0x0A"
    then have "(of_char (hex_char m) :: nat) = 10" by simp
    with that show False by (simp add: hex_char_def split: if_splits)
  qed
  have escape: "CHR 0x0A \<notin> set (json_escape c)" for c
  proof (cases "c = CHR 0x0A")
    case True
    then show ?thesis by (simp add: json_escape_def)
  next
    case False
    have "hex_char (of_char c mod 16) \<noteq> CHR 0x0A" "(of_char c :: nat) < 32 \<Longrightarrow> hex_char (of_char c div 16) \<noteq> CHR 0x0A"
      by (rule hex, simp)+
    with False show ?thesis
      by (auto simp: json_escape_def Let_def)
  qed
  then show "CHR 0x0A \<notin> set (concat (map json_escape t))"
    by (induction t) auto
  then show "CHR 0x0A \<notin> set (json_quote t)"
    by (simp add: json_quote_def)
  have "CHR 0x0A \<notin> set (digits m)" for m
    using is_digit_digits not_digit by blast
  then show "CHR 0x0A \<notin> set (int_text n)"
    by (simp add: int_text_def)
qed

lemma join_no_break: "(\<And>s. s \<in> set ss \<Longrightarrow> CHR 0x0A \<notin> set s) \<Longrightarrow> CHR 0x0A \<notin> set (join_with '','' ss)"
  by (induction "'',''" ss rule: join_with.induct) auto

lemma stringify_no_break: "plain v \<Longrightarrow> CHR 0x0A \<notin> set (stringify v)"
proof (induction v)
  case (JArr vs)
  have "CHR 0x0A \<notin> set (join_with '','' (map stringify vs))"
    by (rule join_no_break) (use JArr in \<open>auto simp: list_all_iff\<close>)
  then show ?case by simp
next
  case (JObj kvs)
  have np: "no_proto kvs"
    using JObj.prems by (force simp: no_proto_def list_all_iff)
  have "CHR 0x0A \<notin> set (join_with '','' (map member_text kvs))"
    by (rule join_no_break) (use JObj in \<open>auto simp: list_all_iff member_text_def\<close>)
  then show ?case
    unfolding stringify_JObj [OF np] by simp
qed auto

lemma utf8_bytes_append: "utf8_bytes (s @ t) = utf8_bytes s + utf8_bytes t"
  by (simp add: utf8_bytes_def)

text \<open>After any part of a stream of lines, what is buffered is the beginning of one of them.\<close>

lemma buffered_prefix:
  assumes "\<forall>l \<in> set Ls. CHR 0x0A \<notin> set l" and "p @ q = concat (map (\<lambda>l. l @ [CHR 0x0A]) Ls)"
  shows "snd (split_lines p) = [] \<or> (\<exists>l \<in> set Ls. \<exists>r. l = snd (split_lines p) @ r)"
  using assms
proof (induction Ls arbitrary: p)
  case (Cons l Ls)
  let ?T = "concat (map (\<lambda>l. l @ [CHR 0x0A]) Ls)"
  have l: "CHR 0x0A \<notin> set l"
    using Cons.prems(1) by simp
  have "p @ q = l @ CHR 0x0A # ?T"
    using Cons.prems(2) by simp
  then obtain us where "p = l @ us \<and> us @ q = CHR 0x0A # ?T \<or> p @ us = l"
    by (auto simp: append_eq_append_conv2)
  then consider r where "l = p @ r" | p' where "p = l @ CHR 0x0A # p'" "p' @ q = ?T"
    by (cases us) auto
  then show ?case
  proof cases
    case 1
    with l have "CHR 0x0A \<notin> set p"
      by simp
    with 1 show ?thesis
      by (simp add: split_lines_no_break)
  next
    case 2
    have "snd (split_lines p') = [] \<or> (\<exists>l \<in> set Ls. \<exists>r. l = snd (split_lines p') @ r)"
      by (rule Cons.IH) (use Cons.prems(1) 2 in auto)
    with 2 split_lines_break [OF l, of p'] show ?thesis
      by auto
  qed
qed simp

lemma split_lines_concat:
  "\<forall>l \<in> set Ls. CHR 0x0A \<notin> set l \<Longrightarrow> split_lines (concat (map (\<lambda>l. l @ [CHR 0x0A]) Ls)) = (Ls, [])"
  by (induction Ls) (auto simp: split_lines_break)

lemma push_all_lines:
  assumes "\<forall>l \<in> set Ls. CHR 0x0A \<notin> set l \<and> utf8_bytes l \<le> RELAY_MAX_FRAME_BYTES"
    and "p @ concat chunks @ q = concat (map (\<lambda>l. l @ [CHR 0x0A]) Ls)"
  shows "\<exists>ls rest. push_all (snd (split_lines p)) chunks = Inr (ls, rest)"
  using assms(2)
proof (induction chunks arbitrary: p)
  case (Cons chunk chunks)
  let ?rest = "snd (split_lines (snd (split_lines p) @ chunk))"
  have rest: "?rest = snd (split_lines (p @ chunk))"
    by (simp add: split_lines_append [of p chunk])
  have "(p @ chunk) @ (concat chunks @ q) = concat (map (\<lambda>l. l @ [CHR 0x0A]) Ls)"
    using Cons.prems by simp
  then have "?rest = [] \<or> (\<exists>l \<in> set Ls. \<exists>r. l = ?rest @ r)"
    using buffered_prefix [of Ls "p @ chunk"] assms(1) rest by auto
  then have "utf8_bytes ?rest \<le> RELAY_MAX_FRAME_BYTES"
  proof
    assume "\<exists>l \<in> set Ls. \<exists>r. l = ?rest @ r"
    then obtain l r where "l \<in> set Ls" "l = ?rest @ r" by blast
    with assms(1) have "utf8_bytes (?rest @ r) \<le> RELAY_MAX_FRAME_BYTES"
      by auto
    then show ?thesis
      by (simp add: utf8_bytes_append)
  qed (simp add: utf8_bytes_def)
  moreover obtain ls r where "push_all ?rest chunks = Inr (ls, r)"
    using Cons.IH [of "p @ chunk"] Cons.prems rest by auto
  ultimately show ?case
    by (simp add: reader_push_def case_prod_beta)
qed simp

lemma parse_encoded:
  assumes "ok_frame host now f" and "encodeRelayFrame f = Inr s"
  obtains l where "s = l @ [CHR 0x0A]" "CHR 0x0A \<notin> set l" "utf8_bytes l \<le> RELAY_MAX_FRAME_BYTES"
    "parseRelayFrame host now l = Inr f"
proof
  let ?l = "stringify (frame_json f)"
  show "s = ?l @ [CHR 0x0A]" and size: "utf8_bytes ?l \<le> RELAY_MAX_FRAME_BYTES"
    using assms(2) by (auto simp: encodeRelayFrame_def Let_def split: if_splits)
  have ok: "plain (frame_json f)" "unique_keys (frame_json f)" "validateRelayRecord host now (frame_json f) = Inr f"
    using assms(1) frame_text_ok record_ok by auto
  show "CHR 0x0A \<notin> set ?l"
    by (rule stringify_no_break [OF ok(1)])
  obtain kvs where "frame_json f = JObj kvs"
    by (cases f) (auto simp: init_json_def accept_json_def)
  then show "parseRelayFrame host now ?l = Inr f"
    using size ok parse_stringify [OF ok(1,2)] by (auto simp: parseRelayFrame_def simp del: frame_json.simps)
qed


section \<open>Witnesses\<close>

definition demo_host :: relay_host where
  "demo_host = \<lparr>date_parse = (\<lambda>s. if s = ''t0'' then Some 0 else if s = ''t1'' then Some 60000 else None),
     is_ip = (\<lambda>_. 0), json_parse = (\<lambda>_. None)\<rparr>"

definition demo_connection :: string where
  "demo_connection = ''01234567-89ab-cdef-0123-456789abcdef''"

definition demo_header :: "int \<Rightarrow> relay_header" where
  "demo_header n = \<lparr>h_connectionId = demo_connection, h_direction = InitiatorToResponder, h_seq = n\<rparr>"

definition demo_frames :: "relay_frame list" where
  "demo_frames = [Sequenced (demo_header 1) (EchoRequest [CHR 0x0A, CHR 0x22]),
     Sequenced (demo_header 2) (Terminal ''terminalClose'' ''s1'' [(''reason'', JStr ''bye'')]),
     Sequenced (demo_header 3) Heartbeat]"

definition demo_stream :: "string list" where
  "demo_stream = map (\<lambda>f. stringify (frame_json f) @ [CHR 0x0A]) demo_frames"

lemma reader_chunking_witness:
  "push_all [] [''ab'', [CHR ''c'', CHR 0x0A, CHR ''d''], ''e''] = Inr ([''abc''], ''de'') \<and>
   split_lines (''ab'' @ [CHR ''c'', CHR 0x0A, CHR ''d''] @ ''e'') = ([''abc''], ''de'')"
proof -
  have push: "push_all (snd (split_lines [])) [''ab'', [CHR ''c'', CHR 0x0A, CHR ''d''], ''e''] = Inr ([''abc''], ''de'')"
    by (simp add: reader_push_def utf8_bytes_def RELAY_MAX_FRAME_BYTES_def)
  then show ?thesis
    using reader_chunking [OF push] by simp
qed


end
