(* ===== verification/RelayConnectionProperties.thy ===== *)
theory RelayConnectionProperties
  imports DemoConnections RelayProtocolProperties
begin

text \<open>
  What holds of a relay connection in every state it reaches. The locales \<open>conn_parts\<close> and \<open>conn_invariant\<close>
  are the contract between a predicate of connections and the operations: whoever shows that the primitive steps
  keep the predicate gets it for every event, hence for every reachable connection.
\<close>

section \<open>The contract of an invariant\<close>

definition set_connected :: "relay_config \<Rightarrow> world \<Rightarrow> conn \<Rightarrow> conn" where
  "set_connected cfg w c =
     (let heartbeat = (case cfg_heartbeatIntervalMs cfg of Some n \<Rightarrow> n | None \<Rightarrow>
             (case c_negotiatedHeartbeat c of Some n \<Rightarrow> n | None \<Rightarrow> DEFAULT_HEARTBEAT_INTERVAL_MS));
          idle = (case cfg_idleTimeoutMs cfg of Some n \<Rightarrow> n | None \<Rightarrow> heartbeat * DEFAULT_IDLE_TIMEOUT_MULTIPLE) in
      c\<lparr>c_handshakeTimer := False, c_state := Connected, c_connectedAt := Some (now_iso (w_machine w)),
        c_lastReceivedMs := m_now (w_machine w), c_heartbeatTimer := Some heartbeat, c_idleTimer := Some idle\<rparr>)"

lemma becomeConnected_eq: "becomeConnected cfg w = seq (change_state (set_connected cfg w)) (\<lambda>_. emitStatus cfg)"
  by (simp only: becomeConnected_def set_connected_def [abs_def])

fun sequenced :: "relay_frame \<Rightarrow> bool" where
  "sequenced (Sequenced h b) = True"
| "sequenced _ = False"

locale conn_parts =
  fixes cfg :: relay_config and I :: "conn \<Rightarrow> bool" and W :: "world \<Rightarrow> bool"
  assumes closes: "I c \<Longrightarrow> I (snd (fail_conn cfg reason message c))"
    and writes: "W w \<Longrightarrow> encodeRelayFrame f = Inr line \<Longrightarrow> \<not> sequenced f \<Longrightarrow> I c \<Longrightarrow> I (snd (writeFrame cfg w line c))"
    and sends: "W w \<Longrightarrow> I c \<Longrightarrow> I (snd (sendSequencedFrame cfg w body c))"
    and notices: "I c \<Longrightarrow> I (c\<lparr>c_notices := ns\<rparr>)"
    and times: "I c \<Longrightarrow> I (c\<lparr>c_lastHeartbeatSentAt := t1\<rparr>)" "I c \<Longrightarrow> I (c\<lparr>c_lastHeartbeatReceivedAt := t1\<rparr>)"
      "I c \<Longrightarrow> I (c\<lparr>c_lastReceivedMs := t\<rparr>)" "I c \<Longrightarrow> I (c\<lparr>c_handshakeTimer := b\<rparr>)"
    and drains: "I c \<Longrightarrow> c_state c = Connected \<Longrightarrow> I (c\<lparr>c_state := Draining\<rparr>)"
begin

lemma stable_primitives:
  "stable I (fail_conn cfg reason message)" "stable I (notify n)" "stable I (emitStatus cfg)"
  "W w \<Longrightarrow> stable I (sendSequencedFrame cfg w body)"
  "stable I (change_state (\<lambda>c. c\<lparr>c_lastHeartbeatSentAt := t1\<rparr>))"
  "stable I (change_state (\<lambda>c. c\<lparr>c_lastHeartbeatReceivedAt := t1\<rparr>))"
  "stable I (change_state (\<lambda>c. c\<lparr>c_lastReceivedMs := t\<rparr>))"
  "stable I (change_state (\<lambda>c. c\<lparr>c_handshakeTimer := b\<rparr>))"
  using closes sends notices times
  by (auto simp: stable_def notify_def emitStatus_def change_state_def)

lemmas parts = stable_primitives stable_intros

lemma stable_close: "W w \<Longrightarrow> stable I (close_conn cfg w reason message)"
proof (rule stableI)
  fix c assume "W w" "I c"
  then have "stable I (seq (if c_connectionId c = None then give ()
      else catching (sendSequencedFrame cfg w (CloseBody message)) (\<lambda>_. give ())) (\<lambda>_. fail_conn cfg reason message))"
    by (intro parts)
  then show "I (snd (close_conn cfg w reason message c))"
    using \<open>I c\<close> by (simp add: close_conn_def stable_def)
qed

lemma stable_revalidate: "W w \<Longrightarrow> stable I (revalidatePeerTrustOrClose cfg w)"
proof (rule stableI)
  fix c assume "W w" "I c"
  have "stable I (seq (lifted trust) (\<lambda>t. if t = None then close_conn cfg w PeerTrustRevoked m else give ()))" for trust m
    by (intro parts stable_close \<open>W w\<close>)
  then show "I (snd (revalidatePeerTrustOrClose cfg w c))"
    using \<open>I c\<close> by (auto simp: revalidatePeerTrustOrClose_def stable_def Let_def split: option.split)
qed

lemma stable_heartbeat: "W w \<Longrightarrow> stable I (sendHeartbeat cfg w)"
  unfolding sendHeartbeat_def by (intro parts stable_revalidate)

lemma stable_drain: "W w \<Longrightarrow> stable I (drain cfg w)"
proof (rule stableI)
  fix c assume "W w" "I c"
  have after: "stable I (seq (sendSequencedFrame cfg w Drain) (\<lambda>_. emitStatus cfg))"
    by (intro parts \<open>W w\<close>)
  then show "I (snd (drain cfg w c))"
    using drains [OF \<open>I c\<close>] \<open>I c\<close> by (auto simp: drain_def seq_change_state stable_def)
qed

lemma stable_app_calls: "W w \<Longrightarrow> stable I (app_calls cfg w calls)"
proof (induction calls)
  case (Cons call calls)
  then show ?case
    by (cases call) (auto simp: send_body_def intro!: parts stable_close stable_drain)
qed (simp add: stable_intros)

lemma stable_run_handler: "W w \<Longrightarrow> stable I (run_handler cfg w handled)"
  unfolding run_handler_def by (intro parts stable_app_calls)

lemma stable_onBody: "W w \<Longrightarrow> stable I (onBody cfg w h body)"
  by (cases body) (auto intro!: parts stable_revalidate stable_close stable_run_handler split: option.split)

lemma stable_reject: "W w \<Longrightarrow> stable I (rejectHandshake cfg w i code message)"
proof (cases "encodeRelayFrame (HandshakeReject i code message)")
  case (Inr line)
  assume "W w"
  then have "stable I (writeFrame cfg w line)"
    using writes [OF _ Inr] by (simp add: stable_def)
  with Inr show ?thesis
    by (auto simp: rejectHandshake_def intro!: parts)
qed (simp add: rejectHandshake_def stable_intros)

end

locale conn_traffic = conn_parts +
  assumes receives: "I c \<Longrightarrow> I (c\<lparr>c_incomingSeq := n\<rparr>)"
    and inits: "W w \<Longrightarrow> I c \<Longrightarrow> c_state c = Handshaking \<Longrightarrow> cfg_role cfg = Responder \<Longrightarrow> I (snd (onHandshakeInit cfg w init c))"
    and accepts: "W w \<Longrightarrow> I c \<Longrightarrow> c_state c = Handshaking \<Longrightarrow> cfg_role cfg = Initiator \<Longrightarrow> I (snd (onHandshakeAccept cfg w a c))"
    and flushes: "W w \<Longrightarrow> I c \<Longrightarrow> I (snd (flushQueue w c))"
    and buffers: "I c \<Longrightarrow> I (c\<lparr>c_buffer := b\<rparr>)"
begin

lemma stable_onApplicationFrame: "W w \<Longrightarrow> stable I (onApplicationFrame cfg w h body)"
proof (rule stableI)
  fix c assume "W w" "I c"
  then show "I (snd (onApplicationFrame cfg w h body c))"
    using stable_onBody [of w h body] receives closes by (auto simp: onApplicationFrame_def stable_def)
qed

lemma stable_onFrame:
  assumes "W w"
  shows "stable I (onFrame cfg w f)"
proof (rule stableI)
  fix c assume c: "I c"
  show "I (snd (onFrame cfg w f c))"
  proof (cases "c_state c = Handshaking")
    case True
    then show ?thesis
      using c inits [OF assms] accepts [OF assms] closes stableD [OF stable_reject [OF assms] c]
      by (auto simp: onFrame_def onHandshakeFrame_def split: relay_role.split relay_frame.split)
  next
    case False
    then show ?thesis
      using c closes stableD [OF stable_onApplicationFrame [OF assms] c]
      by (auto simp: onFrame_def split: relay_frame.split)
  qed
qed

lemma stable_onLine: "W w \<Longrightarrow> stable I (onLine cfg w line)"
  unfolding onLine_def handleMalformed_def
  by (auto intro!: parts stable_onFrame stable_reject simp: stable_def [of _ "\<lambda>c. if _ c then _ c else _ c"] split: sum.split
    dest: stableD [OF stable_reject] closes)

lemma stable_onLines: "W w \<Longrightarrow> stable I (onLines cfg w ls)"
proof (induction ls)
  case (Cons line ls)
  then have "stable I (seq (onLine cfg w line) (\<lambda>_. onLines cfg w ls))"
    by (intro stable_intros stable_onLine) auto
  then show ?case
    by (auto simp: stable_def)
qed (simp add: stable_def)

lemma stable_onData:
  assumes "W w"
  shows "stable I (onData cfg w chunk)"
proof (rule stableI)
  fix c assume "I c"
  then show "I (snd (onData cfg w chunk c))"
    using closes [OF buffers] stableD [OF stable_onLines [OF assms] buffers]
    by (auto simp: onData_def Let_def split: prod.split sum.split)
qed

lemma stable_traffic:
  assumes "W w" and "I c" and "ev \<noteq> Start"
  shows "I (snd (on_event cfg w ev c))"
proof -
  have "stable I (sendEcho cfg w p)" "stable I (requestStatus cfg w)" for p
    unfolding sendEcho_def requestStatus_def assertCanSendApplicationRequest_def
    by (intro parts \<open>W w\<close>)+
  then show ?thesis
    using assms flushes closes stableD [OF stable_onData] stableD [OF stable_heartbeat] stableD [OF stable_close]
      stableD [OF stable_app_calls] stableD [OF \<open>stable I (requestStatus cfg w)\<close>]
    by (cases ev) (auto simp: stable_def split: option.split)
qed

end

locale conn_invariant = conn_traffic +
  assumes starts: "W w \<Longrightarrow> I c \<Longrightarrow> I (snd (start cfg w c))"
    and creates: "W w \<Longrightarrow> new_connection cfg w = Inr c \<Longrightarrow> I c"
begin

lemma stable_on_event: "W w \<Longrightarrow> I c \<Longrightarrow> I (snd (on_event cfg w ev c))"
  using stable_traffic starts by (cases "ev = Start") auto

lemma always: "reach_in W cfg c \<Longrightarrow> I c"
proof (induction rule: reach_in.induct)
  case (stepped c w ev r c1)
  then show ?case
    using stable_on_event [of w c ev] by simp
qed (rule creates)

end

text \<open>Predicates that do not depend on who the two sides are, nor, with \<open>conn_fields\<close>, on the Init that is out.\<close>

locale conn_answers = conn_parts +
  assumes connects: "W w \<Longrightarrow> I c \<Longrightarrow> I (set_connected cfg w c)"
    and identities: "I c \<Longrightarrow> I (c\<lparr>c_connectionId := i\<rparr>)" "I c \<Longrightarrow> I (c\<lparr>c_peerAuthorityId := i\<rparr>)"
      "I c \<Longrightarrow> I (c\<lparr>c_ownAuthorityId := i\<rparr>)" "I c \<Longrightarrow> I (c\<lparr>c_remoteStateDir := d\<rparr>)"
      "I c \<Longrightarrow> I (c\<lparr>c_negotiatedHeartbeat := h\<rparr>)"
begin

lemma stable_becomeConnected: "W w \<Longrightarrow> stable I (becomeConnected cfg w)"
  unfolding becomeConnected_eq by (intro parts) (simp add: stable_change_state connects)

lemma stable_handshake_write:
  assumes "W w" and "\<not> sequenced f" and "stable I m"
  shows "stable I (seq (lifted (encodeRelayFrame f)) (\<lambda>line. seq (writeFrame cfg w line) (\<lambda>_. m)))"
proof (cases "encodeRelayFrame f")
  case (Inr line)
  have "stable I (writeFrame cfg w line)"
    using writes [OF assms(1) Inr assms(2)] by (simp add: stable_def)
  with Inr assms(3) show ?thesis
    by (auto intro!: stable_intros)
qed (simp add: stable_intros)

lemma stable_onHandshakeInit:
  assumes "W w"
  shows "stable I (onHandshakeInit cfg w init)"
  unfolding onHandshakeInit_def Let_def rejectHandshakeWithoutDetail_def
  by (intro stable_intros stable_reject stable_becomeConnected stable_handshake_write stable_change_state assms)
    (simp_all add: identities)

lemma stable_onHandshakeAccept:
  assumes "W w"
  shows "stable I (onHandshakeAccept cfg w a)"
proof (rule stableI)
  fix c assume "I c"
  have "stable I (verifyAccept cfg w a p d)" for p d
    unfolding verifyAccept_def Let_def by (intro parts stable_becomeConnected assms)
  with \<open>I c\<close> show "I (snd (onHandshakeAccept cfg w a c))"
    using closes by (auto simp: onHandshakeAccept_def stable_def split: option.split)
qed

end

locale conn_fields = conn_answers +
  assumes pendings: "I c \<Longrightarrow> I (c\<lparr>c_pendingInit := p\<rparr>)"
    and receive_keeps: "I c \<Longrightarrow> I (c\<lparr>c_incomingSeq := n\<rparr>)"
    and flush_keeps: "W w \<Longrightarrow> I c \<Longrightarrow> I (snd (flushQueue w c))"
    and buffer_keeps: "I c \<Longrightarrow> I (c\<lparr>c_buffer := b\<rparr>)"
    and create_keeps: "W w \<Longrightarrow> new_connection cfg w = Inr c \<Longrightarrow> I c"
begin

lemma stable_start:
  assumes "W w"
  shows "stable I (start cfg w)"
proof (rule stableI)
  fix c assume "I c"
  have "stable I (sendInit cfg w own peer d)" for own peer d
    unfolding sendInit_def Let_def by (intro parts stable_handshake_write stable_change_state assms) (simp_all add: identities pendings)
  with times(4) [OF \<open>I c\<close>] show "I (snd (start cfg w c))"
    by (simp add: start_def seq_change_state stable_def)
qed

end

sublocale conn_fields \<subseteq> conn_invariant
  using stableD [OF stable_onHandshakeInit] stableD [OF stable_onHandshakeAccept] stableD [OF stable_start]
  by unfold_locales (auto intro: receive_keeps flush_keeps buffer_keeps create_keeps)

lemma new_connection_fields:
  assumes "new_connection cfg w = Inr c"
  shows "c_state c = Handshaking" "c_pendingInit c = None" "c_queue c = []" "c_queuedBytes c = 0" "\<not> c_destroyed c"
    "c_wire c = []" "c_outgoingSeq c = 0" "c_incomingSeq c = 0" "c_connectedAt c = None" "c_notices c = []"
  using assms by (auto simp: new_connection_def check_Inr_iff split: if_splits)

section \<open>The queue of outgoing lines\<close>

definition queue_ok :: "relay_config \<Rightarrow> conn \<Rightarrow> bool" where
  "queue_ok cfg c \<longleftrightarrow> length (c_queue c) \<le> maxQueuedFrames cfg \<and> c_queuedBytes c \<le> maxQueuedBytes cfg \<and>
     c_queuedBytes c = sum_list (map length (c_queue c))"

lemma queue_ok_fail: "queue_ok cfg (snd (fail_conn cfg reason message c)) = queue_ok cfg c"
  by (simp add: queue_ok_def fail_conn_def Let_def)

lemma queue_ok_write: "queue_ok cfg c \<Longrightarrow> queue_ok cfg (snd (writeFrame cfg w line c))"
  by (auto simp: writeFrame_def write_line_def enqueue_def queue_ok_fail Let_def) (auto simp: queue_ok_def)

lemma queue_ok_cong: "c_queue c = c_queue d \<Longrightarrow> c_queuedBytes c = c_queuedBytes d \<Longrightarrow> queue_ok cfg c = queue_ok cfg d"
  by (simp add: queue_ok_def)

lemma queue_ok_flush:
  "queue_ok cfg c \<Longrightarrow> c_queue c = ls \<Longrightarrow> queue_ok cfg (flush_lines w ls c)"
proof (induction ls arbitrary: c)
  case (Cons line ls)
  let ?c = "snd (write_line w line c)\<lparr>c_queue := ls, c_queuedBytes := c_queuedBytes c - length line\<rparr>"
  have "queue_ok cfg ?c"
    using Cons.prems by (auto simp: queue_ok_def write_line_def)
  then show ?case
    using Cons.IH [of ?c] by (auto simp: write_line_def Let_def)
qed simp

lemma queue_ok_send:
  assumes "queue_ok cfg c"
  shows "queue_ok cfg (snd (sendSequencedFrame cfg w body c))"
proof (cases "encodeNextSequencedRelayFrame (c_outgoingSeq c) (\<lambda>n. Sequenced
    \<lparr>h_connectionId = connection_id c, h_direction = ownDirection cfg, h_seq = n\<rparr> body)")
  case (Inl e)
  with assms show ?thesis by (simp add: sendSequencedFrame_def seq_asking)
next
  case (Inr p)
  have "queue_ok cfg (c\<lparr>c_outgoingSeq := fst p\<rparr>)"
    using assms by (simp add: queue_ok_def)
  with Inr show ?thesis
    using queue_ok_write by (cases p) (simp add: sendSequencedFrame_def seq_asking seq_change_state)
qed

interpretation queue: conn_fields cfg "queue_ok cfg" "\<lambda>_. True" for cfg
proof (unfold_locales, goal_cases)
  case (1 c reason message) then show ?case by (simp add: queue_ok_fail)
next
  case (2 w f line c) then show ?case by (intro queue_ok_write)
next
  case (3 w c body) then show ?case by (intro queue_ok_send)
next
  case (18 w c) then show ?case by (simp add: flushQueue_def queue_ok_flush)
next
  case (20 w c) then show ?case by (simp add: queue_ok_def new_connection_fields)
qed (simp_all add: queue_ok_def set_connected_def Let_def)


section \<open>Who the peer is\<close>

text \<open>What writing and closing leave alone.\<close>

lemma fail_facts:
  "c_state (snd (fail_conn cfg reason message c)) = Closed"
  "c_peerAuthorityId (snd (fail_conn cfg reason message c)) = c_peerAuthorityId c"
  "c_connectionId (snd (fail_conn cfg reason message c)) = c_connectionId c"
  "c_pendingInit (snd (fail_conn cfg reason message c)) = c_pendingInit c"
  by (simp_all add: fail_conn_def Let_def)

lemma write_facts:
  "c_state (snd (writeFrame cfg w line c)) = c_state c \<or> c_state (snd (writeFrame cfg w line c)) = Closed"
  "c_peerAuthorityId (snd (writeFrame cfg w line c)) = c_peerAuthorityId c"
  "c_connectionId (snd (writeFrame cfg w line c)) = c_connectionId c"
  "c_pendingInit (snd (writeFrame cfg w line c)) = c_pendingInit c"
  by (simp_all add: writeFrame_def write_line_def enqueue_def fail_facts)

lemma send_facts:
  "c_state (snd (sendSequencedFrame cfg w body c)) = c_state c \<or> c_state (snd (sendSequencedFrame cfg w body c)) = Closed"
  "c_peerAuthorityId (snd (sendSequencedFrame cfg w body c)) = c_peerAuthorityId c"
  "c_connectionId (snd (sendSequencedFrame cfg w body c)) = c_connectionId c"
  "c_pendingInit (snd (sendSequencedFrame cfg w body c)) = c_pendingInit c"
  using write_facts [of cfg w _ "c\<lparr>c_outgoingSeq := _\<rparr>"]
  by (auto simp: sendSequencedFrame_def seq_asking seq_change_state split: sum.split prod.split)

lemma flush_facts:
  "c_state (flush_lines w ls c) = c_state c" "c_peerAuthorityId (flush_lines w ls c) = c_peerAuthorityId c"
  "c_connectionId (flush_lines w ls c) = c_connectionId c" "c_pendingInit (flush_lines w ls c) = c_pendingInit c"
  by (induction ls arbitrary: c) (simp_all add: write_line_def Let_def)

lemmas conn_facts = fail_facts write_facts(2-) send_facts(2-) flush_facts flushQueue_def

definition leaving :: "conn \<Rightarrow> bool" where
  "leaving c \<longleftrightarrow> c_state c = Draining \<or> c_state c = Closed"

interpretation leaving: conn_traffic cfg leaving "\<lambda>_. True" for cfg
proof (unfold_locales, goal_cases)
  case (2 w f line c) then show ?case using write_facts(1) [of cfg w line c] by (auto simp: leaving_def)
next
  case (3 w c body) then show ?case using send_facts(1) [of cfg w body c] by (auto simp: leaving_def)
qed (simp_all add: leaving_def conn_facts)

text \<open>The identities of a connection whose Init is out.\<close>

definition pending_ok :: "relay_config \<Rightarrow> conn \<Rightarrow> bool" where
  "pending_ok cfg c \<longleftrightarrow> (\<forall>p. c_pendingInit c = Some p \<longrightarrow>
     cfg_role cfg = Initiator \<and> c_peerAuthorityId c = Some (pi_responderAuthorityId p) \<and> c_connectionId c = Some (pi_connectionId p))"

lemma pending_ok_cong:
  "c_pendingInit d = c_pendingInit c \<Longrightarrow> c_peerAuthorityId d = c_peerAuthorityId c \<Longrightarrow> c_connectionId d = c_connectionId c \<Longrightarrow>
    pending_ok cfg d = pending_ok cfg c"
  by (simp add: pending_ok_def)


lemma pending_ok_facts:
  "pending_ok cfg (snd (fail_conn cfg reason message c)) = pending_ok cfg c"
  "pending_ok cfg (snd (writeFrame cfg w line c)) = pending_ok cfg c"
  "pending_ok cfg (snd (sendSequencedFrame cfg w body c)) = pending_ok cfg c"
  "pending_ok cfg (flush_lines w ls c) = pending_ok cfg c"
  "pending_ok cfg (c\<lparr>c_notices := ns\<rparr>) = pending_ok cfg c"
  by (rule pending_ok_cong; simp add: conn_facts)+

text \<open>A responder never has an Init out.\<close>

definition unpended :: "conn \<Rightarrow> bool" where
  "unpended c \<longleftrightarrow> c_pendingInit c = None"

interpretation unpended: conn_answers cfg unpended "\<lambda>_. True" for cfg
  by unfold_locales (simp_all add: unpended_def conn_facts set_connected_def Let_def)

lemma seq_write: "seq (writeFrame cfg w line) k c = k () (snd (writeFrame cfg w line c))"
proof -
  have "fst (writeFrame cfg w line c) = Inr ()"
    by (simp add: writeFrame_def write_line_def enqueue_def fail_conn_def Let_def)
  then show ?thesis
    by (cases "writeFrame cfg w line c") (simp add: seq_def)
qed

lemma becomeConnected_facts:
  "c_state (snd (becomeConnected cfg w c)) = Connected"
  "c_peerAuthorityId (snd (becomeConnected cfg w c)) = c_peerAuthorityId c"
  "c_connectionId (snd (becomeConnected cfg w c)) = c_connectionId c"
  "c_pendingInit (snd (becomeConnected cfg w c)) = c_pendingInit c"
  by (simp_all add: becomeConnected_eq seq_change_state set_connected_def Let_def emitStatus_def notify_def change_state_def)

lemma pending_ok_connected: "pending_ok cfg (snd (becomeConnected cfg w c)) = pending_ok cfg c"
  by (rule pending_ok_cong) (simp_all add: becomeConnected_facts)

lemma pending_ok_accept: "pending_ok cfg c \<Longrightarrow> pending_ok cfg (snd (onHandshakeAccept cfg w a c))"
  by (auto simp: onHandshakeAccept_def verifyAccept_def Let_def seq_lifted pending_ok_facts pending_ok_connected
    split: option.split sum.split)

lemma pending_ok_start:
  assumes "pending_ok cfg c"
  shows "pending_ok cfg (snd (start cfg w c))"
proof -
  let ?c = "c\<lparr>c_handshakeTimer := True\<rparr>"
  have c: "pending_ok cfg ?c"
    using assms by (simp add: pending_ok_def)
  have after: "cfg_role cfg = Initiator \<Longrightarrow>
      pending_ok cfg (d\<lparr>c_connectionId := Some (ri_connectionId i), c_peerAuthorityId := Some (ri_responderAuthorityId i),
        c_pendingInit := Some (pending_of i)\<rparr>)" for d i
    by (simp add: pending_ok_def pending_of_def)
  have peer: "ri_responderAuthorityId (signed_init cfg m keys own peer fp policy ttl) = peer" for m keys own peer fp policy ttl
    by (simp add: signed_init_def Let_def)
  show ?thesis
    using c after [where i = "signed_init cfg _ _ _ _ _ _ _"]
    by (cases "cfg_role cfg") (auto simp: start_def sendInit_def Let_def seq_change_state seq_lifted seq_write
      pending_ok_facts emitStatus_def notify_def change_state_def peer split: option.split sum.split)
qed

interpretation pending: conn_invariant cfg "pending_ok cfg" "\<lambda>_. True" for cfg
proof (unfold_locales, goal_cases)
  case (11 w c init)
  then have "unpended c"
    by (auto simp: pending_ok_def unpended_def)
  then have "unpended (snd (onHandshakeInit cfg w init c))"
    using unpended.stable_onHandshakeInit by (simp add: stable_def)
  then show ?case
    by (simp add: pending_ok_def unpended_def)
next
  case (12 w c a) then show ?case by (intro pending_ok_accept)
next
  case (15 w c) then show ?case by (intro pending_ok_start)
next
  case (16 w c) then show ?case by (simp add: pending_ok_def new_connection_fields)
qed (simp_all add: pending_ok_facts flushQueue_def, (simp_all add: pending_ok_def)?)

lemmas reachable_pending = pending.always

section \<open>Authentication\<close>

text \<open>
  \<open>vouched_for\<close>: in the world of the event, the authority of the peer is the fingerprint of a key that its active trust
  record pins for SSH, and that key signed the transcript of this handshake: the Init addressed to this machine
  by the peer, or the Accept that echoes the Init this side sent.
\<close>

definition vouched_for :: "relay_config \<Rightarrow> world \<Rightarrow> string \<Rightarrow> string option \<Rightarrow> pending_init option \<Rightarrow> bool" where
  "vouched_for cfg w peer connectionId pend \<longleftrightarrow> (\<exists>dir trust der.
     active_trust w peer dir = Inr (Some trust) \<and>
     trustMatchesPresented trust (fingerprintForDer (m_crypto (w_machine w)) der) \<and>
     peer = authority_of (fingerprintForDer (m_crypto (w_machine w)) der) \<and>
     (if cfg_role cfg = Responder then (\<exists>init keys. connectionId = Some (ri_connectionId init) \<and> ri_initiatorAuthorityId init = peer \<and>
          loadMachineSigningKeys (w_machine w) (Some (path_text dir)) (w_files w) = Inr keys \<and>
          ri_responderAuthorityId init = sk_authorityId keys \<and> peer \<noteq> sk_authorityId keys \<and>
          \<not> expired (w_machine w) (ri_expiresAt init) \<and> \<not> from_future (w_machine w) (ri_issuedAt init) \<and>
          verifyEnrollmentTranscript (m_crypto (w_machine w)) der (canonicalRelayInitTranscript init) (ri_signature init))
      else (\<exists>a p. connectionId = Some (ra_connectionId a) \<and> ra_responderAuthorityId a = peer \<and>
          pend = Some p \<and> echoes_init p a \<and> \<not> expired (w_machine w) (ra_expiresAt a) \<and>
          verifyEnrollmentTranscript (m_crypto (w_machine w)) der (canonicalRelayAcceptTranscript a) (ra_signature a))))"

definition vouched :: "relay_config \<Rightarrow> world \<Rightarrow> conn \<Rightarrow> bool" where
  "vouched cfg w c \<longleftrightarrow>
     (\<exists>peer. c_peerAuthorityId c = Some peer \<and> vouched_for cfg w peer (c_connectionId c) (c_pendingInit c))"

lemma vouched_cong:
  "c_pendingInit d = c_pendingInit c \<Longrightarrow> c_peerAuthorityId d = c_peerAuthorityId c \<Longrightarrow> c_connectionId d = c_connectionId c \<Longrightarrow>
    vouched cfg w d = vouched cfg w c"
  by (simp add: vouched_def)

definition vetted :: "relay_config \<Rightarrow> world \<Rightarrow> conn \<Rightarrow> bool" where
  "vetted cfg w c \<longleftrightarrow> pending_ok cfg c \<and> (c_state c = Connected \<longrightarrow> vouched cfg w c)"

lemma vetted_facts:
  "vetted cfg w c \<Longrightarrow> vetted cfg w (snd (fail_conn cfg reason message c))"
  "vetted cfg w c \<Longrightarrow> vetted cfg w (snd (writeFrame cfg v line c))"
  "vetted cfg w c \<Longrightarrow> vetted cfg w (snd (sendSequencedFrame cfg v body c))"
  using write_facts(1) [of cfg v line c] send_facts(1) [of cfg v body c]
  by (auto simp: vetted_def pending_ok_facts conn_facts
    vouched_cong [of "snd (writeFrame cfg v line c)" c] vouched_cong [of "snd (sendSequencedFrame cfg v body c)" c])

lemma unconnected_write: "c_state c \<noteq> Connected \<Longrightarrow> c_state (snd (writeFrame cfg w line c)) \<noteq> Connected"
  using write_facts(1) [of cfg w line c] by auto

lemma unconnected_reject:
  "c_state c \<noteq> Connected \<Longrightarrow> c_state (snd (rejectHandshake cfg w i code message c)) \<noteq> Connected"
  using write_facts(1) [of cfg w _ c]
  by (auto simp: rejectHandshake_def seq_lifted seq_write fail_facts split: sum.split)

lemmas init_steps = onHandshakeInit_def rejectHandshakeWithoutDetail_def Let_def seq_change_state seq_lifted seq_write
  unconnected_reject fail_with_def

lemma vouched_init:
  assumes "c_state c \<noteq> Connected" and "cfg_role cfg = Responder"
    and "c_state (snd (onHandshakeInit cfg w init c)) = Connected"
  shows "vouched cfg w (snd (onHandshakeInit cfg w init c))"
proof -
  let ?m = "w_machine w" and ?f = "fingerprintForDer (m_crypto (w_machine w))"
  obtain dir where dir: "m_resolve ?m (case ri_stateDir init of Some d \<Rightarrow> Some d | None \<Rightarrow> cfg_localStateDir cfg) = Inr dir"
    using assms by (cases "m_resolve ?m (case ri_stateDir init of Some d \<Rightarrow> Some d | None \<Rightarrow> cfg_localStateDir cfg)")
      (simp_all add: init_steps)
  obtain keys where keys: "loadMachineSigningKeys ?m (Some (path_text dir)) (w_files w) = Inr keys"
    using assms by (cases "loadMachineSigningKeys ?m (Some (path_text dir)) (w_files w)") (simp_all add: init_steps dir)
  have own: "ri_responderAuthorityId init = sk_authorityId keys" "ri_initiatorAuthorityId init \<noteq> sk_authorityId keys"
    using assms by (auto simp: init_steps dir keys split: if_splits)
  obtain der where der: "canonicalPublicKeyDerFromSpkiBase64 (m_crypto ?m) (ri_initiatorPublicKeySpkiB64 init) = Inr der"
    using assms by (cases "canonicalPublicKeyDerFromSpkiBase64 (m_crypto ?m) (ri_initiatorPublicKeySpkiB64 init)")
      (simp_all add: init_steps dir keys own)
  have key: "?f der = ri_initiatorFingerprint init" "authority_of (ri_initiatorFingerprint init) = ri_initiatorAuthorityId init"
    using assms by (auto simp: init_steps dir keys own der split: if_splits)
  obtain trust where trust: "active_trust w (ri_initiatorAuthorityId init) dir = Inr (Some trust)"
    using assms by (cases "active_trust w (ri_initiatorAuthorityId init) dir"; cases "projr (active_trust w (ri_initiatorAuthorityId init) dir)")
      (simp_all add: init_steps dir keys own der key)
  have match: "trustMatchesPresented trust (?f der)"
    using assms by (auto simp: init_steps dir keys own der key trust split: if_splits)
  have fresh: "\<not> expired ?m (ri_expiresAt init)" "\<not> from_future ?m (ri_issuedAt init)"
    using assms match by (auto simp: init_steps dir keys own der key trust split: if_splits)
  have signed: "verifyEnrollmentTranscript (m_crypto ?m) der (canonicalRelayInitTranscript init) (ri_signature init)"
    using assms match fresh by (auto simp: init_steps dir keys own der key trust split: if_splits)
  have "c_peerAuthorityId (snd (onHandshakeInit cfg w init c)) = Some (ri_initiatorAuthorityId init)"
    "c_connectionId (snd (onHandshakeInit cfg w init c)) = Some (ri_connectionId init)"
    using assms match fresh signed
    by (auto simp: init_steps dir keys own der key trust becomeConnected_facts conn_facts split: if_splits sum.splits)
  moreover have "vouched_for cfg w (ri_initiatorAuthorityId init) (Some (ri_connectionId init)) p" for p
    unfolding vouched_for_def using assms(2) keys own key trust match fresh signed
    by (intro exI [of _ dir] exI [of _ trust] exI [of _ der]) (auto intro!: exI [of _ init])
  ultimately show ?thesis
    by (simp add: vouched_def)
qed

lemma vouched_accept:
  assumes "c_state c \<noteq> Connected" and "pending_ok cfg c"
    and "c_state (snd (onHandshakeAccept cfg w a c)) = Connected"
  shows "vouched cfg w (snd (onHandshakeAccept cfg w a c))"
proof -
  let ?m = "w_machine w" and ?f = "fingerprintForDer (m_crypto (w_machine w))" and ?peer = "ra_responderAuthorityId a"
  note steps = onHandshakeAccept_def verifyAccept_def Let_def seq_lifted fail_facts fail_with_def
  obtain p where p: "c_pendingInit c = Some p"
    using assms by (cases "c_pendingInit c") (simp_all add: steps)
  have role: "cfg_role cfg \<noteq> Responder" and ids: "c_peerAuthorityId c = Some (pi_responderAuthorityId p)" "c_connectionId c = Some (pi_connectionId p)"
    using assms(2) p by (auto simp: pending_ok_def)
  have same: "ra_connectionId a = pi_connectionId p" "echoes_init p a" "?peer = pi_responderAuthorityId p" "\<not> expired ?m (ra_expiresAt a)"
    using assms by (auto simp: steps p split: if_splits)
  obtain trust where trust: "active_trust w ?peer (c_localStateDir c) = Inr (Some trust)"
    using assms same by (cases "active_trust w ?peer (c_localStateDir c)"; cases "projr (active_trust w ?peer (c_localStateDir c))")
      (simp_all add: steps p)
  obtain der where der: "canonicalPublicKeyDerFromSpkiBase64 (m_crypto ?m) (ra_responderPublicKeySpkiB64 a) = Inr der"
    using assms same trust by (cases "canonicalPublicKeyDerFromSpkiBase64 (m_crypto ?m) (ra_responderPublicKeySpkiB64 a)")
      (simp_all add: steps p)
  have rest: "authority_of (?f der) = ?peer" "trustMatchesPresented trust (?f der)"
      "verifyEnrollmentTranscript (m_crypto ?m) der (canonicalRelayAcceptTranscript a) (ra_signature a)"
    using assms same trust der by (auto simp: steps p split: if_splits)
  have "snd (onHandshakeAccept cfg w a c) = snd (becomeConnected cfg w c)"
    using assms same trust der rest by (auto simp: steps p split: if_splits)
  moreover have "vouched_for cfg w ?peer (c_connectionId c) (c_pendingInit c)"
    unfolding vouched_for_def using role ids p same trust rest
    by (intro exI [of _ "c_localStateDir c"] exI [of _ trust] exI [of _ der]) (auto intro!: exI [of _ a])
  ultimately show ?thesis
    using ids same by (simp add: vouched_def becomeConnected_facts)
qed

interpretation vetted: conn_traffic cfg "vetted cfg w" "\<lambda>v. v = w" for cfg w
proof (unfold_locales, goal_cases)
  case (1 c reason message) then show ?case by (rule vetted_facts)
next
  case (2 v f line c) then show ?case by (intro vetted_facts)
next
  case (3 v c body) then show ?case by (intro vetted_facts)
next
  case (11 v c init)
  then show ?case
    using vouched_init [of c cfg w init] pending.inits [OF TrueI, of cfg c w init] by (simp add: vetted_def)
next
  case (12 v c a)
  then show ?case
    using vouched_accept [of c cfg w a] pending.accepts [OF TrueI, of cfg c w a] by (simp add: vetted_def)
next
  case (13 v c)
  then show ?case
    using vouched_cong [of "flush_lines v (c_queue c) c" c] by (simp add: vetted_def flushQueue_def pending_ok_facts flush_facts)
qed (simp_all add: vetted_def pending_ok_def vouched_def)

section \<open>The numbers of the outgoing frames\<close>

fun frame_seqs :: "relay_frame list \<Rightarrow> int list" where
  "frame_seqs [] = []"
| "frame_seqs (Sequenced h b # fs) = h_seq h # frame_seqs fs"
| "frame_seqs (_ # fs) = frame_seqs fs"

lemma frame_seqs_append: "frame_seqs (fs @ gs) = frame_seqs fs @ frame_seqs gs"
  by (induction fs rule: frame_seqs.induct) simp_all

definition accepting :: "world \<Rightarrow> bool" where
  "accepting w \<longleftrightarrow> (\<forall>n. w_accepts w n)"

definition encoded :: "relay_frame list \<Rightarrow> string list \<Rightarrow> bool" where
  "encoded fs lines_out \<longleftrightarrow> list_all2 (\<lambda>f line. encodeRelayFrame f = Inr line) fs lines_out"

definition run_of :: "nat \<Rightarrow> int list" where
  "run_of n = map int [1..<Suc n]"

lemma run_of_simps: "run_of 0 = []" "run_of (Suc n) = run_of n @ [int n + 1]"
  by (simp_all add: run_of_def)

definition numbered :: "conn \<Rightarrow> bool" where
  "numbered c \<longleftrightarrow> c_queue c = [] \<and>
     (\<exists>fs n. encoded fs (c_wire c) \<and> frame_seqs fs = run_of n \<and>
       int n \<le> c_outgoingSeq c \<and> (\<not> c_destroyed c \<longrightarrow> int n = c_outgoingSeq c))"

lemma numbered_keep:
  "numbered c \<Longrightarrow> c_queue d = c_queue c \<Longrightarrow> c_wire d = c_wire c \<Longrightarrow> c_outgoingSeq d = c_outgoingSeq c \<Longrightarrow> c_destroyed d = c_destroyed c \<Longrightarrow>
    numbered d"
  by (simp add: numbered_def)

lemma numbered_fail: "numbered c \<Longrightarrow> numbered (snd (fail_conn cfg reason message c))"
  by (simp add: numbered_def fail_conn_def Let_def) blast

lemma numbered_write:
  assumes "accepting w" and "encodeRelayFrame f = Inr line" and "\<not> sequenced f" and "numbered c"
  shows "numbered (snd (writeFrame cfg w line c))"
proof (cases "c_destroyed c")
  case False
  with assms(4) obtain fs n where fs: "encoded fs (c_wire c)" "frame_seqs fs = run_of n" "int n = c_outgoingSeq c"
    and q: "c_queue c = []"
    by (auto simp: numbered_def)
  have "encoded (fs @ [f]) (c_wire c @ [line])"
    using fs(1) assms(2) by (simp add: encoded_def list_all2_appendI)
  moreover have "frame_seqs (fs @ [f]) = frame_seqs fs"
    using assms(3) by (cases f) (simp_all add: frame_seqs_append)
  ultimately have "numbered (c\<lparr>c_wire := c_wire c @ [line]\<rparr>)"
    unfolding numbered_def using fs q False by (intro conjI exI [of _ "fs @ [f]"] exI [of _ n]) simp_all
  then show ?thesis
    using q False assms(1) by (simp add: writeFrame_def write_line_def accepting_def)
qed (use assms in \<open>simp add: writeFrame_def\<close>)

lemma numbered_send:
  assumes "accepting w" and "numbered c"
  shows "numbered (snd (sendSequencedFrame cfg w body c))"
proof -
  let ?f = "Sequenced \<lparr>h_connectionId = connection_id c, h_direction = ownDirection cfg, h_seq = c_outgoingSeq c + 1\<rparr> body"
  let ?c = "c\<lparr>c_outgoingSeq := c_outgoingSeq c + 1\<rparr>"
  obtain fs n where fs: "encoded fs (c_wire c)" "frame_seqs fs = run_of n" "int n \<le> c_outgoingSeq c"
      "\<not> c_destroyed c \<longrightarrow> int n = c_outgoingSeq c" and q: "c_queue c = []"
    using assms(2) by (auto simp: numbered_def)
  show ?thesis
  proof (cases "encodeRelayFrame ?f")
    case (Inl e)
    with assms(2) show ?thesis
      by (simp add: sendSequencedFrame_def seq_asking encodeNextSequencedRelayFrame_def)
  next
    case (Inr line)
    then have run: "snd (sendSequencedFrame cfg w body c) = snd (writeFrame cfg w line ?c)"
      by (simp add: sendSequencedFrame_def seq_asking seq_change_state encodeNextSequencedRelayFrame_def)
    show ?thesis
    proof (cases "c_destroyed c")
      case True
      then have "snd (writeFrame cfg w line ?c) = ?c"
        by (simp add: writeFrame_def)
      moreover have "numbered ?c"
        unfolding numbered_def using fs q True by (intro conjI exI [of _ fs] exI [of _ n]) simp_all
      ultimately show ?thesis by (simp add: run)
    next
      case False
      have "encoded (fs @ [?f]) (c_wire c @ [line])"
        using fs(1) Inr by (simp add: encoded_def list_all2_appendI)
      moreover have "frame_seqs (fs @ [?f]) = run_of (Suc n)"
        using fs False by (simp add: frame_seqs_append run_of_simps)
      ultimately have "numbered (?c\<lparr>c_wire := c_wire c @ [line]\<rparr>)"
        unfolding numbered_def using fs q False by (intro conjI exI [of _ "fs @ [?f]"] exI [of _ "Suc n"]) simp_all
      then show ?thesis
        using q False assms(1) by (simp add: run writeFrame_def write_line_def accepting_def)
    qed
  qed
qed

interpretation numbers: conn_fields cfg numbered accepting for cfg
proof (unfold_locales, goal_cases)
  case (1 c reason message) then show ?case by (rule numbered_fail)
next
  case (2 w f line c) then show ?case by (rule numbered_write)
next
  case (3 w c body) then show ?case by (rule numbered_send)
next
  case (18 w c) then show ?case by (cases "c_queue c") (auto simp: flushQueue_def numbered_def)
next
  case (20 w c)
  show ?case
    unfolding numbered_def using new_connection_fields [OF 20(2)]
    by (intro conjI exI [of _ "[]"] exI [of _ "0::nat"]) (simp_all add: encoded_def run_of_simps)
qed (erule numbered_keep; simp add: set_connected_def Let_def)+

text \<open>
  C21. While the stream accepts every write, the lines a connection has put on the wire are the encodings of
  frames whose sequence numbers run from 1 without a gap or a repetition, up to the number of the connection
  while it is open.\<close>

theorem outgoing_frames_contiguous:
  assumes "reach_in accepting cfg c"
  shows "\<exists>fs n. list_all2 (\<lambda>f line. encodeRelayFrame f = Inr line) fs (c_wire c) \<and>
    frame_seqs fs = map int [1..<Suc n] \<and> int n \<le> c_outgoingSeq c \<and> (\<not> c_destroyed c \<longrightarrow> int n = c_outgoingSeq c)"
proof -
  have "numbered c"
    using assms by (rule numbers.always)
  then show ?thesis
    by (simp only: numbered_def encoded_def run_of_def)
qed

section \<open>The numbers of the incoming frames\<close>

definition takes :: "relay_config \<Rightarrow> world \<Rightarrow> string option \<Rightarrow> int \<Rightarrow> string \<Rightarrow> bool" where
  "takes cfg w connectionId n line \<longleftrightarrow>
     (case parseRelayFrame (m_host (w_machine w)) (m_now (w_machine w)) line of
        Inr (Sequenced h b) \<Rightarrow> connectionId = Some (h_connectionId h) \<and> h_direction h = peerDirection cfg \<and> h_seq h = n
      | _ \<Rightarrow> False)"

text \<open>Past the handshake, with \<open>n\<close> frames received; only a destroyed connection is closed.\<close>

definition talking :: "string option \<Rightarrow> int \<Rightarrow> conn \<Rightarrow> bool" where
  "talking connectionId n c \<longleftrightarrow> c_connectionId c = connectionId \<and> c_incomingSeq c = n \<and> c_state c \<noteq> Handshaking \<and>
     (c_state c = Closed \<longrightarrow> c_destroyed c)"

lemma talking_fail:
  "talking i n c \<Longrightarrow> talking i n (snd (fail_conn cfg reason message c)) \<and> c_destroyed (snd (fail_conn cfg reason message c))"
  by (simp add: talking_def fail_conn_def Let_def)

lemma talking_write: "talking i n c \<Longrightarrow> talking i n (snd (writeFrame cfg w line c))"
  using talking_fail [of i n] by (auto simp: writeFrame_def write_line_def enqueue_def) (simp_all add: talking_def)

lemma talking_send: "talking i n c \<Longrightarrow> talking i n (snd (sendSequencedFrame cfg w body c))"
  using talking_write [of i n "c\<lparr>c_outgoingSeq := _\<rparr>" cfg w]
  by (auto simp: sendSequencedFrame_def seq_asking seq_change_state talking_def split: sum.split prod.split)

interpretation talking: conn_parts cfg "talking i n" "\<lambda>_. True" for cfg i n
  by unfold_locales (simp_all add: talking_fail talking_write talking_send, simp_all add: talking_def)

text \<open>One line: either it is the frame that is due, or the connection is destroyed with its number unchanged.\<close>

lemma onLine_talking:
  assumes "talking i n c"
  shows "if takes cfg w i (n + 1) line then talking i (n + 1) (snd (onLine cfg w line c))
    else talking i n (snd (onLine cfg w line c)) \<and> c_destroyed (snd (onLine cfg w line c))"
proof (cases "parseRelayFrame (m_host (w_machine w)) (m_now (w_machine w)) line")
  case (Inl e)
  with assms talking_fail [OF assms] show ?thesis
    by (simp add: onLine_def handleMalformed_def takes_def talking_def)
next
  case (Inr f)
  let ?c = "c\<lparr>c_lastReceivedMs := m_now (w_machine w)\<rparr>"
  have c: "talking i n ?c" "c_state ?c \<noteq> Handshaking"
    using assms by (simp_all add: talking_def)
  have run: "snd (onLine cfg w line c) = snd (onFrame cfg w f ?c)"
    using Inr by (simp add: onLine_def seq_change_state)
  show ?thesis
  proof (cases "takes cfg w i (n + 1) line")
    case True
    then obtain h b where f: "f = Sequenced h b" "i = Some (h_connectionId h)" "h_direction h = peerDirection cfg" "h_seq h = n + 1"
      using Inr by (auto simp: takes_def split: relay_frame.splits)
    have "snd (onFrame cfg w f ?c) = snd (onBody cfg w h b (?c\<lparr>c_incomingSeq := n + 1\<rparr>))"
      using f c by (simp add: onFrame_def onApplicationFrame_def talking_def)
    moreover have "talking i (n + 1) (?c\<lparr>c_incomingSeq := n + 1\<rparr>)"
      using c by (simp add: talking_def)
    ultimately show ?thesis
      using True stableD [OF talking.stable_onBody [OF TrueI]] by (simp add: run)
  next
    case False
    have "\<exists>reason message. snd (onFrame cfg w f ?c) = snd (fail_conn cfg reason message ?c)"
      using False Inr c by (cases f) (auto simp: onFrame_def onApplicationFrame_def takes_def talking_def)
    with False talking_fail [OF c(1)] show ?thesis
      by (auto simp: run)
  qed
qed

lemma onLines_talking:
  "talking i n c \<Longrightarrow> onLines cfg w ls c = (Inr (), c1) \<Longrightarrow> \<not> c_destroyed c \<Longrightarrow>
    \<exists>k \<le> length ls. c_incomingSeq c1 = n + int k \<and> (k < length ls \<longrightarrow> c_destroyed c1) \<and>
      (\<forall>j < k. takes cfg w i (n + 1 + int j) (ls ! j))"
proof (induction ls arbitrary: n c)
  case (Cons line ls)
  obtain r d where step: "onLine cfg w line c = (r, d)"
    by (metis surj_pair)
  with Cons.prems(2,3) have rest: "r = Inr ()" "onLines cfg w ls d = (Inr (), c1)"
    by (cases r; simp add: seq_def)+
  show ?case
  proof (cases "takes cfg w i (n + 1) line")
    case True
    with onLine_talking [OF Cons.prems(1), of cfg w line] step have d: "talking i (n + 1) d"
      by simp
    show ?thesis
    proof (cases "c_destroyed d")
      case True
      then have "c1 = d"
        using rest(2) by (cases ls) simp_all
      then show ?thesis
        using True d \<open>takes cfg w i (n + 1) line\<close> by (intro exI [of _ 1]) (auto simp: talking_def)
    next
      case False
      obtain k where k: "k \<le> length ls" "c_incomingSeq c1 = n + 1 + int k" "k < length ls \<longrightarrow> c_destroyed c1"
          "\<forall>j < k. takes cfg w i (n + 1 + 1 + int j) (ls ! j)"
        using Cons.IH [OF d rest(2) False] by blast
      have "takes cfg w i (n + 1 + int j) ((line # ls) ! j)" if "j < Suc k" for j
        using k(4) True that by (cases j) (simp_all add: add.commute add.left_commute)
      with k show ?thesis
        by (intro exI [of _ "Suc k"]) auto
    qed
  next
    case False
    with onLine_talking [OF Cons.prems(1), of cfg w line] step have d: "talking i n d" "c_destroyed d"
      by simp_all
    then have "c1 = d"
      using rest(2) by (cases ls) simp_all
    with d show ?thesis
      by (intro exI [of _ 0]) (simp add: talking_def)
  qed
qed (auto simp: talking_def)

text \<open>
  C22. Frames are received in order, without gaps, repetitions or reordering: when a connection past its
  handshake has read lines, the lines it took are a prefix of them, each a frame of this connection from the
  peer with the next sequence number, and a line that is anything else closes the connection there.\<close>

theorem frames_received_in_order:
  assumes "c_state c \<in> {Connected, Draining}" and "\<not> c_destroyed c" and "onLines cfg w ls c = (Inr (), c1)"
  shows "\<exists>k \<le> length ls. c_incomingSeq c1 = c_incomingSeq c + int k \<and> (k < length ls \<longrightarrow> c_destroyed c1) \<and>
    (\<forall>j < k. takes cfg w (c_connectionId c) (c_incomingSeq c + 1 + int j) (ls ! j))"
proof -
  have "talking (c_connectionId c) (c_incomingSeq c) c"
    using assms(1) by (auto simp: talking_def)
  then show ?thesis
    by (rule onLines_talking [OF _ assms(3,2)])
qed

section \<open>Witnesses\<close>

lemma demo_started:
  assumes "W w" and "w_machine w = demo_machine" and "w_files w = demo_files ''A'' ''TB''"
  shows "reach_in W (demo_end Initiator) (snd (on_event (demo_end Initiator) w Start (demo_fresh ''A'' Initiator)))"
proof -
  have machine: "w_machine (demo_world ''A'') = demo_machine" "w_files (demo_world ''A'') = demo_files ''A'' ''TB''"
    by (simp_all add: demo_world_def demo_other_def)
  have "new_connection (demo_end Initiator) w = new_connection (demo_end Initiator) (demo_world ''A'')"
    using assms(2,3) by (simp only: new_connection_def machine)
  then have "reach_in W (demo_end Initiator) (demo_fresh ''A'' Initiator)"
    using assms(1) demo_new by (intro reach_in.created) simp_all
  then show ?thesis
    using assms(1) by (rule reach_in.stepped) (rule surjective_pairing)
qed


lemma outgoing_frames_contiguous_witness:
  "let c = snd (on_event (demo_end Initiator) (demo_world ''A'') Start (demo_fresh ''A'' Initiator)) in
   \<exists>fs n. list_all2 (\<lambda>f line. encodeRelayFrame f = Inr line) fs (c_wire c) \<and> frame_seqs fs = map int [1..<Suc n] \<and>
     int n \<le> c_outgoingSeq c \<and> (\<not> c_destroyed c \<longrightarrow> int n = c_outgoingSeq c)"
  unfolding Let_def
  by (rule outgoing_frames_contiguous, rule demo_started) (simp_all add: demo_world_def demo_other_def accepting_def)

text \<open>The same frame twice: the copy closes the connection.\<close>

definition demo_talking :: conn where
  "demo_talking = (demo_fresh ''A'' Initiator)\<lparr>c_state := Connected, c_connectionId := Some (m_uuid demo_machine)\<rparr>"

definition demo_reply :: string where
  "demo_reply = stringify (frame_json (Sequenced
     \<lparr>h_connectionId = m_uuid demo_machine, h_direction = ResponderToInitiator, h_seq = 1\<rparr> (EchoResponse ''hi'')))"

lemma demo_read_twice:
  obtains c1 where "onLines (demo_end Initiator) (demo_world ''A'') [demo_reply, demo_reply] demo_talking = (Inr (), c1)"
proof -
  let ?run = "onLines (demo_end Initiator) (demo_world ''A'') [demo_reply, demo_reply] demo_talking"
  have "case fst ?run of Inr _ \<Rightarrow> True | Inl _ \<Rightarrow> False"
    by code_simp
  then show ?thesis
    using that by (cases ?run) (auto split: sum.splits)
qed

lemma frames_received_in_order_witness:
  "\<exists>c1 k. onLines (demo_end Initiator) (demo_world ''A'') [demo_reply, demo_reply] demo_talking = (Inr (), c1) \<and>
     k \<le> 2 \<and> c_incomingSeq c1 = int k \<and> (k < 2 \<longrightarrow> c_destroyed c1) \<and>
     (\<forall>j < k. takes (demo_end Initiator) (demo_world ''A'') (Some (m_uuid demo_machine)) (1 + int j) ([demo_reply, demo_reply] ! j))"
proof -
  let ?run = "onLines (demo_end Initiator) (demo_world ''A'') [demo_reply, demo_reply] demo_talking"
  obtain c1 where run: "?run = (Inr (), c1)"
    by (rule demo_read_twice)
  have c: "c_state demo_talking \<in> {Connected, Draining}" "\<not> c_destroyed demo_talking"
      "c_connectionId demo_talking = Some (m_uuid demo_machine)" "c_incomingSeq demo_talking = 0"
    using new_connection_fields [OF demo_new, of "''A''" Initiator] by (simp_all add: demo_talking_def)
  show ?thesis
    using frames_received_in_order [OF c(1,2) run] by (simp add: run c(3,4) eval_nat_numeral del: onLines.simps)
qed

end
