(* ===== verification/JsonSize.thy ===== *)
theory JsonSize
  imports RelayProtocolProperties
begin

text \<open>A bound of the size of a JSON text, by which a frame is seen to be within the limit of the protocol.\<close>

section \<open>A bound of the size of a JSON text\<close>

fun json_size :: "json \<Rightarrow> int" where
  "json_size JNull = 4"
| "json_size (JBool b) = 5"
| "json_size (JNum n) = int (utf8_bytes (int_text n))"
| "json_size (JFrac l) = int (utf8_bytes l)"
| "json_size (JStr s) = 6 * int (length s) + 2"
| "json_size (JArr vs) = 2 + sum_list (map (\<lambda>v. json_size v + 1) vs)"
| "json_size (JObj kvs) = 2 + sum_list (map (\<lambda>(k, v). 6 * int (length k) + 4 + json_size v) kvs)"

lemma utf8_bytes_Cons: "utf8_bytes (c # s) = (if (of_char c :: nat) < 128 then 1 else 2) + utf8_bytes s" "utf8_bytes [] = 0"
  by (simp_all add: utf8_bytes_def)

lemma json_escape_bytes: "utf8_bytes (json_escape c) \<le> 6"
proof -
  have "utf8_bytes [x] \<le> 2" "utf8_bytes [CHR 0x5C, CHR ''u'', CHR ''0'', CHR ''0'', x, y] \<le> 8" for x y
    by (simp_all add: utf8_bytes_Cons)
  moreover have "(of_char (hex_char n) :: nat) < 128" if "n < 16" for n
    using that by (simp add: hex_char_def)
  ultimately show ?thesis
    by (auto simp: json_escape_def Let_def utf8_bytes_Cons)
qed

lemma json_quote_bytes: "int (utf8_bytes (json_quote s)) \<le> 6 * int (length s) + 2"
proof -
  have "utf8_bytes (concat (map json_escape s)) \<le> 6 * length s"
  proof (induction s)
    case (Cons c s)
    then show ?case
      using json_escape_bytes [of c] by (simp add: utf8_bytes_append)
  qed (simp add: utf8_bytes_Cons)
  then show ?thesis
    by (simp add: json_quote_def utf8_bytes_append utf8_bytes_Cons)
qed

lemma join_bytes: "int (utf8_bytes (join_with '','' ss)) \<le> sum_list (map (\<lambda>s. int (utf8_bytes s) + 1) ss)"
  by (induction "'',''" ss rule: join_with.induct) (simp_all add: utf8_bytes_append utf8_bytes_Cons)

lemma filtered_sum: "(\<And>x. (0 :: int) \<le> f x) \<Longrightarrow> sum_list (map f (filter P xs)) \<le> sum_list (map f xs)"
  by (induction xs) (auto intro: add_increasing)

lemma stringify_bytes: "int (utf8_bytes (stringify v)) \<le> json_size v"
proof (induction v rule: json_size.induct)
  case (5 s)
  then show ?case using json_quote_bytes by simp
next
  case (6 vs)
  have "sum_list (map (\<lambda>v. int (utf8_bytes (stringify v)) + 1) vs) \<le> sum_list (map (\<lambda>v. json_size v + 1) vs)"
    by (rule sum_list_mono) (simp add: 6)
  then show ?case
    using join_bytes [of "map stringify vs"] by (simp add: utf8_bytes_append utf8_bytes_Cons comp_def)
next
  case (7 kvs)
  let ?text = "\<lambda>(k, t). json_quote k @ CHR '':'' # t" and ?fields = "map (\<lambda>p. (fst p, stringify (snd p))) kvs"
  have field: "int (utf8_bytes (?text (k, stringify v))) + 1 \<le> 6 * int (length k) + 4 + json_size v" if "(k, v) \<in> set kvs" for k v
    using json_quote_bytes [of k] 7 [OF that refl] by (simp add: utf8_bytes_append utf8_bytes_Cons)
  have "sum_list (map (\<lambda>p. int (utf8_bytes (?text p)) + 1) (own_fields ?fields))
      \<le> sum_list (map (\<lambda>p. int (utf8_bytes (?text p)) + 1) ?fields)"
    unfolding own_fields_def by (rule filtered_sum) simp
  also have "\<dots> \<le> sum_list (map (\<lambda>(k, v). 6 * int (length k) + 4 + json_size v) kvs)"
    unfolding map_map by (rule sum_list_mono) (use field in auto)
  finally show ?case
    using join_bytes [of "map ?text (own_fields ?fields)"]
    by (simp add: utf8_bytes_append utf8_bytes_Cons comp_def case_prod_unfold)
qed (simp_all add: utf8_bytes_Cons)

lemma encodes: "json_size (frame_json f) \<le> 16384 \<Longrightarrow> \<exists>line. encodeRelayFrame f = Inr line"
  using stringify_bytes [of "frame_json f"] by (simp add: encodeRelayFrame_def RELAY_MAX_FRAME_BYTES_def Let_def)

section \<open>Lower bounds\<close>

lemma length_le_bytes: "length s \<le> utf8_bytes s"
  by (induction s) (simp_all add: utf8_bytes_Cons)

lemma length_quote: "length s + 2 \<le> length (json_quote s)"
proof -
  have "1 \<le> length (json_escape c)" for c
    by (simp add: json_escape_def Let_def)
  then have "length s \<le> length (concat (map json_escape s))"
  proof (induction s)
    case (Cons c s)
    then show ?case
      using add_mono [OF Cons.prems [of c] Cons.IH [OF Cons.prems]] by simp
  qed simp
  then show ?thesis
    by (simp add: json_quote_def)
qed

lemma reject_too_long:
  assumes "16340 \<le> length message"
  shows "\<exists>e. encodeRelayFrame (HandshakeReject connectionId ''malformedHandshake'' message) = Inl e"
proof -
  let ?f = "HandshakeReject connectionId ''malformedHandshake'' message"
  have "16384 < length (stringify (frame_json ?f))"
    using assms length_quote [of message] length_quote [of connectionId]
    by (simp add: own_fields_def proto_key_def) (simp add: json_quote_def json_escape_def)
  then show ?thesis
    using length_le_bytes [of "stringify (frame_json ?f)"]
    by (simp add: encodeRelayFrame_def RELAY_MAX_FRAME_BYTES_def Let_def del: frame_json.simps stringify.simps)
qed

lemma length_join: "sum_list (map length ss) \<le> length (join_with sep ss)"
  by (induction sep ss rule: join_with.induct) simp_all

end
