(* ===== verification/RelayLink.thy ===== *)
theory RelayLink
  imports RelayConnectionProperties JsonSize
begin

text \<open>
  Two connections and the stream between them: machines that trust each other complete the handshake, and a
  connection becomes connected in no other way than by a handshake that authenticates the peer.
\<close>

section \<open>Two machines meet\<close>

lemma reader_one_line:
  assumes "CHR 0x0A \<notin> set l"
  shows "reader_push [] (l @ [CHR 0x0A]) = (Inr [l], [])"
  using split_lines_break [OF assms, of "[]"] by (simp add: reader_push_def utf8_bytes_def RELAY_MAX_FRAME_BYTES_def)

text \<open>The arrival of one frame on a connection that has read whole lines so far.\<close>

lemma last_line: "snd (seq m (\<lambda>_. onLines cfg w []) c) = snd (m c)"
  by (simp add: seq_def split: prod.split sum.split)

lemma onData_frame:
  assumes "ok_frame (m_host (w_machine w)) (m_now (w_machine w)) f" and "encodeRelayFrame f = Inr line"
    and "c_buffer c = []" and "\<not> c_destroyed c"
  shows "snd (on_event cfg w (Data line) c) = snd (onFrame cfg w f (c\<lparr>c_lastReceivedMs := m_now (w_machine w)\<rparr>))"
proof -
  obtain l where l: "line = l @ [CHR 0x0A]" "CHR 0x0A \<notin> set l" "parseRelayFrame (m_host (w_machine w)) (m_now (w_machine w)) l = Inr f"
    using parse_encoded [OF assms(1,2)] by metis
  have buf: "c\<lparr>c_buffer := []\<rparr> = c"
    using assms(3) by simp
  show ?thesis
    using assms(4) l(3)
    by (simp add: onData_def assms(3) l(1) reader_one_line [OF l(2)] buf last_line onLine_def seq_change_state Let_def)
qed

text \<open>What a machine knows of itself and of the other, and what the signature scheme promises.\<close>

definition knows :: "world \<Rightarrow> path \<Rightarrow> signing_keys \<Rightarrow> string \<Rightarrow> peer_trust \<Rightarrow> string \<Rightarrow> bool" where
  "knows w dir keys der trust peerDer \<longleftrightarrow>
     loadMachineSigningKeys (w_machine w) (Some (path_text dir)) (w_files w) = Inr keys \<and>
     canonicalPublicKeyDerFromSpkiBase64 (m_crypto (w_machine w)) (spkiBase64FromPublicKey (m_crypto (w_machine w)) (sk_publicKey keys)) = Inr der \<and>
     sk_authorityId keys = authority_of (fingerprintForDer (m_crypto (w_machine w)) der) \<and>
     active_trust w (authority_of (fingerprintForDer (m_crypto (w_machine w)) peerDer)) dir = Inr (Some trust) \<and>
     trustMatchesPresented trust (fingerprintForDer (m_crypto (w_machine w)) peerDer) \<and>
     (\<forall>t. verifyEnrollmentTranscript (m_crypto (w_machine w)) der t (signEnrollmentTranscript (m_crypto (w_machine w)) (sk_privateKey keys) t))"

definition init_of :: "relay_config \<Rightarrow> world \<Rightarrow> signing_keys \<Rightarrow> string \<Rightarrow> string \<Rightarrow> peer_trust \<Rightarrow> int \<Rightarrow> relay_init" where
  "init_of cfg w keys der peer trust ttl =
     signed_init cfg (w_machine w) keys (sk_authorityId keys) peer (fingerprintForDer (m_crypto (w_machine w)) der) (pt_transportPolicy trust) ttl"

definition accept_of :: "world \<Rightarrow> signing_keys \<Rightarrow> string \<Rightarrow> peer_trust \<Rightarrow> relay_init \<Rightarrow> relay_accept" where
  "accept_of w keys der trust init =
     signed_accept (w_machine w) keys init (fingerprintForDer (m_crypto (w_machine w)) der) (pt_transportPolicy trust)"

lemma init_fields:
  fixes cfg w keys der peer trust ttl
  defines "i \<equiv> init_of cfg w keys der peer trust ttl"
  shows "ri_initiatorAuthorityId i = sk_authorityId keys" "ri_initiatorFingerprint i = fingerprintForDer (m_crypto (w_machine w)) der"
    "ri_initiatorPublicKeySpkiB64 i = spkiBase64FromPublicKey (m_crypto (w_machine w)) (sk_publicKey keys)"
    "ri_initiatorTransportPolicy i = pt_transportPolicy trust" "ri_responderAuthorityId i = peer" "ri_stateDir i = cfg_remoteStateDir cfg"
    "ri_signature i = signEnrollmentTranscript (m_crypto (w_machine w)) (sk_privateKey keys) (canonicalRelayInitTranscript i)"
  by (simp_all add: i_def init_of_def signed_init_def Let_def canonicalRelayInitTranscript_def)

lemma accept_fields:
  fixes w keys der trust init
  defines "a \<equiv> accept_of w keys der trust init"
  shows "ra_connectionId a = ri_connectionId init" "ra_responderAuthorityId a = sk_authorityId keys" "ra_expiresAt a = ri_expiresAt init"
    "ra_responderFingerprint a = fingerprintForDer (m_crypto (w_machine w)) der"
    "ra_responderPublicKeySpkiB64 a = spkiBase64FromPublicKey (m_crypto (w_machine w)) (sk_publicKey keys)"
    "ra_signature a = signEnrollmentTranscript (m_crypto (w_machine w)) (sk_privateKey keys) (canonicalRelayAcceptTranscript a)"
    "echoes_init (pending_of init) a"
  by (simp_all add: a_def accept_of_def signed_accept_def Let_def canonicalRelayAcceptTranscript_def echoes_init_def
    pending_of_def sameTransportPolicy_def)

text \<open>The first step: the Init goes out.\<close>

lemma start_sends_init:
  assumes "cfg_role cfg = Initiator" and "cfg_peer cfg = Some (authority_of (fingerprintForDer (m_crypto (w_machine w)) peerDer))"
    and "c_ownAuthorityId c = Some (sk_authorityId keys)" and "knows w (c_localStateDir c) keys der trust peerDer"
    and "boundedTtl (cfg_ttlSeconds cfg) = Inr ttl"
    and "encodeRelayFrame (HandshakeInit (init_of cfg w keys der (the (cfg_peer cfg)) trust ttl)) = Inr line"
    and "w_accepts w 0" and "\<not> c_destroyed c" and "c_queue c = []" and "c_wire c = []" and "c_state c = Handshaking" and "c_buffer c = []"
  shows "let d = snd (on_event cfg w Start c); i = init_of cfg w keys der (the (cfg_peer cfg)) trust ttl in
    c_wire d = [line] \<and> c_state d = Handshaking \<and> \<not> c_destroyed d \<and> c_buffer d = [] \<and> c_localStateDir d = c_localStateDir c \<and>
    c_pendingInit d = Some (pending_of i) \<and> c_connectionId d = Some (ri_connectionId i) \<and> c_peerAuthorityId d = cfg_peer cfg"
  using assms
  by (simp add: start_def sendInit_def knows_def init_of_def seq_change_state seq_lifted seq_write writeFrame_def write_line_def
    emitStatus_def notify_def change_state_def Let_def)

text \<open>The second step: the responder accepts.\<close>

lemma init_is_accepted:
  assumes "cfg_role cfg = Responder" and "knows w dir keys der trust peerDer"
    and "m_resolve (w_machine w) (case ri_stateDir init of Some d \<Rightarrow> Some d | None \<Rightarrow> cfg_localStateDir cfg) = Inr dir"
    and "ri_responderAuthorityId init = sk_authorityId keys" and "ri_initiatorAuthorityId init \<noteq> sk_authorityId keys"
    and "canonicalPublicKeyDerFromSpkiBase64 (m_crypto (w_machine w)) (ri_initiatorPublicKeySpkiB64 init) = Inr peerDer"
    and "ri_initiatorFingerprint init = fingerprintForDer (m_crypto (w_machine w)) peerDer"
    and "ri_initiatorAuthorityId init = authority_of (fingerprintForDer (m_crypto (w_machine w)) peerDer)"
    and "\<not> expired (w_machine w) (ri_expiresAt init)" and "\<not> from_future (w_machine w) (ri_issuedAt init)"
    and "verifyEnrollmentTranscript (m_crypto (w_machine w)) peerDer (canonicalRelayInitTranscript init) (ri_signature init)"
    and "encodeRelayFrame (HandshakeAccept (accept_of w keys der trust init)) = Inr line"
    and "w_accepts w 0" and "\<not> c_destroyed c" and "c_queue c = []" and "c_wire c = []" and "c_state c = Handshaking"
  shows "let d = snd (onFrame cfg w (HandshakeInit init) c) in
    c_wire d = [line] \<and> c_state d = Connected \<and> \<not> c_destroyed d \<and>
    c_peerAuthorityId d = Some (ri_initiatorAuthorityId init) \<and> c_connectionId d = Some (ri_connectionId init)"
  using assms
  by (simp add: onFrame_def onHandshakeFrame_def onHandshakeInit_def knows_def accept_of_def seq_change_state seq_lifted seq_write
    writeFrame_def write_line_def becomeConnected_eq set_connected_def emitStatus_def notify_def change_state_def Let_def)

text \<open>The third step: the initiator verifies the Accept.\<close>

lemma accept_is_verified:
  assumes "cfg_role cfg = Initiator" and "knows w (c_localStateDir c) keys der trust peerDer"
    and "c_pendingInit c = Some (pending_of init)" and "ri_responderAuthorityId init = ra_responderAuthorityId a"
    and "ra_connectionId a = ri_connectionId init" and "echoes_init (pending_of init) a" and "\<not> expired (w_machine w) (ra_expiresAt a)"
    and "canonicalPublicKeyDerFromSpkiBase64 (m_crypto (w_machine w)) (ra_responderPublicKeySpkiB64 a) = Inr peerDer"
    and "ra_responderFingerprint a = fingerprintForDer (m_crypto (w_machine w)) peerDer"
    and "ra_responderAuthorityId a = authority_of (fingerprintForDer (m_crypto (w_machine w)) peerDer)"
    and "verifyEnrollmentTranscript (m_crypto (w_machine w)) peerDer (canonicalRelayAcceptTranscript a) (ra_signature a)"
    and "\<not> c_destroyed c" and "c_state c = Handshaking"
  shows "let d = snd (onFrame cfg w (HandshakeAccept a) c) in
    c_state d = Connected \<and> \<not> c_destroyed d \<and> c_peerAuthorityId d = c_peerAuthorityId c \<and> c_connectionId d = c_connectionId c"
proof -
  have ids: "ra_connectionId a = pi_connectionId (pending_of init)" "ra_responderAuthorityId a = pi_responderAuthorityId (pending_of init)"
    using assms(4,5) by (simp_all add: pending_of_def)
  then have "onFrame cfg w (HandshakeAccept a) c = becomeConnected cfg w c"
    using assms by (simp add: onFrame_def onHandshakeFrame_def onHandshakeAccept_def verifyAccept_def knows_def seq_lifted Let_def)
  with assms(12) show ?thesis
    by (simp add: becomeConnected_facts Let_def)
      (simp add: becomeConnected_eq set_connected_def seq_change_state emitStatus_def notify_def change_state_def Let_def)
qed

text \<open>
  C23. Two machines that hold active trust records of each other's keys complete the handshake: after the
  initiator starts, its line reaches the responder and the answer comes back, both connections are connected,
  open, on the same connection id, and each names the other machine. What the two sides need is that their
  clocks are within the window, the frames are within the limits of the protocol, and what a machine signs
  verifies under its key.\<close>

theorem handshake_completes:
  fixes cfgA cfgB wA wB cA cB keysA keysB derA derB trustA trustB ttl
  defines "i \<equiv> init_of cfgA wA keysA derA (sk_authorityId keysB) trustA ttl"
  defines "a \<equiv> accept_of wB keysB derB trustB i"
  assumes roles: "cfg_role cfgA = Initiator" "cfg_role cfgB = Responder" "cfg_peer cfgA = Some (sk_authorityId keysB)"
    and new: "new_connection cfgA wA = Inr cA" "new_connection cfgB wB = Inr cB"
    and crypto: "m_crypto (w_machine wA) = m_crypto (w_machine wB)" and other: "sk_authorityId keysA \<noteq> sk_authorityId keysB"
    and A: "knows wA (c_localStateDir cA) keysA derA trustA derB" and B: "knows wB dirB keysB derB trustB derA"
    and dirB: "m_resolve (w_machine wB) (case cfg_remoteStateDir cfgA of Some d \<Rightarrow> Some d | None \<Rightarrow> cfg_localStateDir cfgB) = Inr dirB"
    and ttl: "boundedTtl (cfg_ttlSeconds cfgA) = Inr ttl"
    and clocks: "\<not> expired (w_machine wB) (ri_expiresAt i)" "\<not> from_future (w_machine wB) (ri_issuedAt i)" "\<not> expired (w_machine wA) (ri_expiresAt i)"
    and frames: "ok_frame (m_host (w_machine wB)) (m_now (w_machine wB)) (HandshakeInit i)" "encodeRelayFrame (HandshakeInit i) = Inr lineA"
      "ok_frame (m_host (w_machine wA)) (m_now (w_machine wA)) (HandshakeAccept a)" "encodeRelayFrame (HandshakeAccept a) = Inr lineB"
    and streams: "w_accepts wA 0" "w_accepts wB 0"
  shows "let cA1 = snd (on_event cfgA wA Start cA); cB1 = snd (on_event cfgB wB (Data (concat (c_wire cA1))) cB);
             cA2 = snd (on_event cfgA wA (Data (concat (c_wire cB1))) cA1) in
    c_state cA2 = Connected \<and> c_state cB1 = Connected \<and> \<not> c_destroyed cA2 \<and> \<not> c_destroyed cB1 \<and>
    c_connectionId cA2 = c_connectionId cB1 \<and> c_connectionId cA2 \<noteq> None \<and>
    c_peerAuthorityId cA2 = Some (sk_authorityId keysB) \<and> c_peerAuthorityId cB1 = Some (sk_authorityId keysA)"
proof -
  have authority: "sk_authorityId keysA = authority_of (fingerprintForDer (m_crypto (w_machine wB)) derA)"
      "sk_authorityId keysB = authority_of (fingerprintForDer (m_crypto (w_machine wB)) derB)"
    using A B crypto by (simp_all add: knows_def)
  have own: "c_ownAuthorityId cA = Some (sk_authorityId keysA)" and buffer: "c_buffer cA = []" "c_buffer cB = []"
    using new roles(1) A by (auto simp: new_connection_def check_Inr_iff knows_def split: if_splits)
  note fresh = new_connection_fields [OF new(1)] new_connection_fields [OF new(2)]
  define cA1 where "cA1 = snd (on_event cfgA wA Start cA)"
  have one: "c_wire cA1 = [lineA]" "c_state cA1 = Handshaking" "\<not> c_destroyed cA1" "c_buffer cA1 = []" "c_localStateDir cA1 = c_localStateDir cA"
      "c_pendingInit cA1 = Some (pending_of i)" "c_connectionId cA1 = Some (ri_connectionId i)" "c_peerAuthorityId cA1 = Some (sk_authorityId keysB)"
    using start_sends_init [of cfgA wA derB cA keysA derA trustA ttl lineA] roles own A ttl frames(2) streams(1) fresh buffer authority crypto
    by (simp_all add: cA1_def i_def Let_def)
  have iA: "ri_initiatorAuthorityId i = sk_authorityId keysA" "ri_responderAuthorityId i = sk_authorityId keysB" "ri_stateDir i = cfg_remoteStateDir cfgA"
      "ri_initiatorFingerprint i = fingerprintForDer (m_crypto (w_machine wB)) derA"
      "ri_initiatorPublicKeySpkiB64 i = spkiBase64FromPublicKey (m_crypto (w_machine wB)) (sk_publicKey keysA)"
      "ri_signature i = signEnrollmentTranscript (m_crypto (w_machine wB)) (sk_privateKey keysA) (canonicalRelayInitTranscript i)"
    using init_fields [where cfg = cfgA and w = wA and keys = keysA and der = derA and peer = "sk_authorityId keysB" and trust = trustA and ttl = ttl] crypto by (simp_all add: i_def)
  define cB1 where "cB1 = snd (on_event cfgB wB (Data (concat (c_wire cA1))) cB)"
  have cB1: "cB1 = snd (onFrame cfgB wB (HandshakeInit i) (cB\<lparr>c_lastReceivedMs := m_now (w_machine wB)\<rparr>))"
    using onData_frame [OF frames(1,2) buffer(2) fresh(15), of cfgB] one(1) by (simp add: cB1_def)
  have two: "c_wire cB1 = [lineB]" "c_state cB1 = Connected" "\<not> c_destroyed cB1"
      "c_peerAuthorityId cB1 = Some (sk_authorityId keysA)" "c_connectionId cB1 = Some (ri_connectionId i)"
    using init_is_accepted [of cfgB wB dirB keysB derB trustB derA i lineB "cB\<lparr>c_lastReceivedMs := m_now (w_machine wB)\<rparr>"]
      roles B dirB iA other clocks frames(4) streams(2) fresh A crypto authority
    by (simp_all add: cB1 a_def knows_def Let_def)
  have aB: "ra_connectionId a = ri_connectionId i" "ra_responderAuthorityId a = sk_authorityId keysB" "ra_expiresAt a = ri_expiresAt i"
      "ra_responderFingerprint a = fingerprintForDer (m_crypto (w_machine wA)) derB" "echoes_init (pending_of i) a"
      "ra_responderPublicKeySpkiB64 a = spkiBase64FromPublicKey (m_crypto (w_machine wA)) (sk_publicKey keysB)"
      "ra_signature a = signEnrollmentTranscript (m_crypto (w_machine wA)) (sk_privateKey keysB) (canonicalRelayAcceptTranscript a)"
    using accept_fields [where w = wB and keys = keysB and der = derB and trust = trustB and init = i] crypto by (simp_all add: a_def)
  define cA2 where "cA2 = snd (on_event cfgA wA (Data (concat (c_wire cB1))) cA1)"
  have cA2: "cA2 = snd (onFrame cfgA wA (HandshakeAccept a) (cA1\<lparr>c_lastReceivedMs := m_now (w_machine wA)\<rparr>))"
    using onData_frame [OF frames(3,4) one(4,3), of cfgA] two(1) by (simp add: cA2_def)
  have three: "c_state cA2 = Connected" "\<not> c_destroyed cA2" "c_peerAuthorityId cA2 = Some (sk_authorityId keysB)"
      "c_connectionId cA2 = Some (ri_connectionId i)"
    using accept_is_verified [of cfgA wA "cA1\<lparr>c_lastReceivedMs := m_now (w_machine wA)\<rparr>" keysA derA trustA derB i a]
      roles A one iA aB clocks B crypto authority
    by (simp_all add: cA2 knows_def Let_def)
  show ?thesis
    unfolding Let_def cA1_def [symmetric] cB1_def [symmetric] cA2_def [symmetric] using two three by simp
qed


text \<open>The machines \<open>A\<close> and \<open>B\<close> at the two ends.\<close>

abbreviation demo_init :: relay_init where
  "demo_init \<equiv> init_of (demo_end Initiator) (demo_world ''A'') (demo_keys ''A'') ''A'' (sk_authorityId (demo_keys ''B''))
     (demo_record ''B'' TrustActive) RELAY_DEFAULT_TTL_SECONDS"

abbreviation demo_accept :: relay_accept where
  "demo_accept \<equiv> accept_of (demo_world ''B'') (demo_keys ''B'') ''B'' (demo_record ''A'' TrustActive) demo_init"

lemma demo_knows:
  assumes "k \<in> {''A'', ''B''}"
  shows "knows (demo_world k) [''s''] (demo_keys k) k (demo_record (demo_other k) TrustActive) (demo_other k)"
proof -
  have signed: "verifyEnrollmentTranscript demo_crypto k t (signEnrollmentTranscript demo_crypto (sk_privateKey (demo_keys k)) t)" for t
    using assms by (auto simp: verifyEnrollmentTranscript_def signEnrollmentTranscript_def demo_crypto_def demo_keys_def demo_signature_def)
  have keys: "loadMachineSigningKeys (w_machine (demo_world k)) (Some (path_text [''s''])) (w_files (demo_world k)) = Inr (demo_keys k)"
    using assms by (elim insertE emptyE; hypsubst; code_simp)
  have der: "canonicalPublicKeyDerFromSpkiBase64 demo_crypto (spkiBase64FromPublicKey demo_crypto (sk_publicKey (demo_keys k))) = Inr k"
    using assms by (elim insertE emptyE; hypsubst; code_simp)
  have trust: "active_trust (demo_world k) (demo_authority (demo_other k)) [''s''] = Inr (Some (demo_record (demo_other k) TrustActive))"
    using assms by (elim insertE emptyE; hypsubst; code_simp)
  have policy: "trustMatchesPresented (demo_record (demo_other k) TrustActive) (demo_digest (demo_other k))"
    using assms by (elim insertE emptyE; hypsubst; code_simp)
  show ?thesis
    using signed keys der trust policy
    by (simp add: knows_def demo_world_def demo_machine_def demo_authority_def demo_keys_def)
      (simp add: demo_crypto_def fingerprintForDer_def)
qed

text \<open>
  C20. A connection becomes connected in no way but by a handshake that authenticates the peer: if an event
  takes a connection that is not connected to the state connected, it was handshaking, and the peer it now names
  is the fingerprint of a key which the active trust record of that moment pins for SSH and which signed this
  handshake, unexpired and for this connection id.\<close>

theorem connected_only_when_authenticated:
  assumes "reachable cfg c" and "on_event cfg w ev c = (r, c1)" and "c_state c \<noteq> Connected" and "c_state c1 = Connected"
  shows "c_state c = Handshaking \<and>
    (\<exists>peer. c_peerAuthorityId c1 = Some peer \<and> vouched_for cfg w peer (c_connectionId c1) (c_pendingInit c1))"
proof -
  have c1: "c1 = snd (on_event cfg w ev c)"
    using assms(2) by simp
  have "ev \<noteq> Start"
  proof
    assume "ev = Start"
    moreover have "c_state (snd (sendInit cfg w own peer d e)) \<noteq> Connected" if "c_state e \<noteq> Connected" for own peer d e
      using that
      by (auto simp: unconnected_write sendInit_def Let_def seq_lifted seq_change_state seq_write fail_facts fail_with_def emitStatus_def notify_def
        change_state_def split: sum.split option.split)
    ultimately show False
      using assms(3,4) by (auto simp: c1 start_def seq_change_state split: if_splits)
  qed
  have "vetted cfg w c"
    using reachable_pending [OF assms(1)] assms(3) by (simp add: vetted_def)
  then have "vetted cfg w c1"
    using vetted.stable_traffic [OF refl _ \<open>ev \<noteq> Start\<close>] by (simp add: c1)
  moreover have "\<not> leaving c"
    using leaving.stable_traffic [OF TrueI _ \<open>ev \<noteq> Start\<close>, of c cfg w] assms(4) by (auto simp: c1 leaving_def)
  ultimately show ?thesis
    using assms(3,4) by (cases "c_state c") (auto simp: vetted_def vouched_def leaving_def)
qed

section \<open>Witnesses\<close>

lemma demo_authority_text: "demo_authority k = ''authority-'' @ replicate 63 (CHR ''0'') @ (if k = ''A'' then ''a'' else ''b'')"
  by (simp add: demo_authority_def authority_of_def demo_digest_def)

lemma demo_chars: "hex_digit (CHR ''0'')" "hex_digit (CHR ''a'')" "hex_digit (CHR ''b'')" "base64_char (CHR ''A'')" "base64_char (CHR ''B'')" "base64_char (CHR ''s'')"
    "\<not> base64_char (CHR ''='')" "utf8_bytes (int_text 1) = 1" "utf8_bytes (int_text 22) = 2" "utf8_bytes (int_text 3) = 1"
  by code_simp+

lemmas demo_parts = init_of_def accept_of_def signed_init_def signed_accept_def demo_policy_def demo_world_def demo_machine_def
  demo_keys_def demo_crypto_def demo_record_def demo_end_def spkiBase64FromPublicKey_def fingerprintForDer_def signEnrollmentTranscript_def Let_def

lemma demo_patterns: "sha256_hex (demo_digest k)" "authority_pattern (demo_authority k)" "nonce_pattern (m_nonce demo_machine)"
    "uuid_pattern (m_uuid demo_machine)" 
proof -
  show "sha256_hex (demo_digest k)"
    by (simp add: sha256_hex_def demo_digest_def demo_chars list_all_iff)
  then show "authority_pattern (demo_authority k)"
    by (simp add: authority_pattern_def demo_authority_def authority_of_def starts_with_def)
  show "nonce_pattern (m_nonce demo_machine)"
    by (simp add: nonce_pattern_def demo_machine_def demo_chars list_all_iff)
  show "uuid_pattern (m_uuid demo_machine)"
    by code_simp
qed

lemma demo_base64: "k \<in> {''A'', ''B''} \<Longrightarrow> ok_base64 (demo_signature k) \<and> ok_base64 (k @ ''AA='')" 
  by (auto simp: ok_base64_def base64_pattern_def demo_signature_def demo_chars takeWhile_append dropWhile_append)

lemma demo_policy_ok: "ok_policy demo_machine_host 0 (demo_policy (demo_authority k))"
proof -
  have "validateTransportPolicy demo_machine_host 0 (Some (demo_policy (demo_authority k))) = Inr ()" 
    by (cases "k = ''A''"; simp only: demo_authority_text simp_thms if_True if_False; code_simp)
  then show ?thesis
    by (simp add: ok_policy_def demo_policy_def proto_key_def)
qed

lemma demo_fields:
  "m_host demo_machine = demo_machine_host" "m_crypto demo_machine = demo_crypto" "m_now demo_machine = 0" "m_iso demo_machine 0 = ''t0''"
  "n \<noteq> 0 \<Longrightarrow> m_iso demo_machine n = ''t1''" "w_machine (demo_world k) = demo_machine"
  "spkiBase64FromPublicKey demo_crypto (sk_publicKey (demo_keys k)) = k @ ''AA=''" "fingerprintForDer demo_crypto k = demo_digest k"
  "sk_authorityId (demo_keys k) = demo_authority k" "signEnrollmentTranscript demo_crypto (sk_privateKey (demo_keys k)) t = demo_signature k"
  "pt_transportPolicy (demo_record k st) = demo_policy (demo_authority k)" "cfg_remoteStateDir (demo_end role) = None" "cfg_heartbeatIntervalMs (demo_end role) = None"
  by (simp_all add: demo_machine_def demo_world_def spkiBase64FromPublicKey_def demo_crypto_def demo_keys_def fingerprintForDer_def
    signEnrollmentTranscript_def demo_record_def demo_end_def)

lemma demo_others: "demo_authority ''A'' \<noteq> demo_authority ''B''" "demo_authority ''B'' \<noteq> demo_authority ''A''"
    "boundedTtl None = Inr RELAY_DEFAULT_TTL_SECONDS" "ok_window demo_machine_host ''t0'' ''t1''" "RELAY_DEFAULT_TTL_SECONDS \<noteq> 0"
  by code_simp+

lemma demo_ok:
  "ok_init (m_host demo_machine) (m_now demo_machine) demo_init"
  "ok_accept (m_host demo_machine) (m_now demo_machine) demo_accept"
  using demo_base64 [of "''A''"] demo_base64 [of "''B''"]
  by (simp_all add: ok_init_def ok_accept_def init_of_def accept_of_def signed_init_def signed_accept_def Let_def demo_fields demo_patterns
    demo_others demo_policy_ok)

lemma demo_fits:
  "json_size (frame_json (HandshakeInit demo_init)) \<le> 16384"
  "json_size (frame_json (HandshakeAccept demo_accept)) \<le> 16384"
  by (simp_all add: demo_parts init_json_def accept_json_def nullable_def demo_authority_text demo_digest_def demo_signature_def demo_chars
    RELAY_CHANNEL_KIND_def RELAY_PROTOCOL_VERSION_def)

lemma demo_simps:
  "w_machine (demo_world k) = demo_machine" "cfg_role (demo_end role) = role" "cfg_remoteStateDir (demo_end role) = None"
  "cfg_localStateDir (demo_end role) = None" "cfg_ttlSeconds (demo_end role) = None" "sk_authorityId (demo_keys k) = demo_authority k"
  "m_resolve demo_machine d = Inr [''s'']" "w_accepts (demo_world k) n" "cfg_peer (demo_end Initiator) = Some (demo_authority ''B'')"
  by (simp_all add: demo_world_def demo_end_def demo_keys_def demo_machine_def)

lemma fresh_dir: "new_connection cfg w = Inr c \<Longrightarrow> m_resolve (w_machine w) (cfg_localStateDir cfg) = Inr (c_localStateDir c)"
  by (auto simp: new_connection_def check_Inr_iff split: if_splits)

lemma fresh_buffer: "new_connection cfg w = Inr c \<Longrightarrow> c_buffer c = []"
  by (auto simp: new_connection_def check_Inr_iff split: if_splits)

lemma demo_fresh_dir: "k \<in> {''A'', ''B''} \<Longrightarrow> c_localStateDir (demo_fresh k role) = [''s'']"
  using fresh_dir [OF demo_new] by (simp add: demo_simps)

lemma demo_clocks:
  "\<not> expired demo_machine (ri_expiresAt demo_init)" "\<not> from_future demo_machine (ri_issuedAt demo_init)"
  using demo_others(5)
  by (simp_all add: expired_def from_future_def init_of_def signed_init_def Let_def demo_fields demo_machine_host_def RELAY_CLOCK_SKEW_TOLERANCE_MS_def)

lemmas demo_known = demo_knows [of "''A''"] demo_knows [of "''B''"]

lemma handshake_completes_witness:
  "let cA1 = snd (on_event (demo_end Initiator) (demo_world ''A'') Start (demo_fresh ''A'' Initiator));
       cB1 = snd (on_event (demo_end Responder) (demo_world ''B'') (Data (concat (c_wire cA1))) (demo_fresh ''B'' Responder));
       cA2 = snd (on_event (demo_end Initiator) (demo_world ''A'') (Data (concat (c_wire cB1))) cA1) in
   c_state cA2 = Connected \<and> c_state cB1 = Connected \<and> \<not> c_destroyed cA2 \<and> \<not> c_destroyed cB1 \<and>
   c_connectionId cA2 = c_connectionId cB1 \<and> c_connectionId cA2 \<noteq> None \<and>
   c_peerAuthorityId cA2 = Some (sk_authorityId (demo_keys ''B'')) \<and> c_peerAuthorityId cB1 = Some (sk_authorityId (demo_keys ''A''))"
proof -
  obtain lineA lineB where lines: "encodeRelayFrame (HandshakeInit demo_init) = Inr lineA" "encodeRelayFrame (HandshakeAccept demo_accept) = Inr lineB"
    using demo_fits [THEN encodes] by blast
  have other: "demo_other ''A'' = ''B''" "demo_other ''B'' = ''A''"
    by (simp_all add: demo_other_def)
  show ?thesis
    by (rule handshake_completes [where keysA = "demo_keys ''A''" and derA = "''A''" and derB = "''B''" and dirB = "[''s'']"
        and trustA = "demo_record ''B'' TrustActive" and trustB = "demo_record ''A'' TrustActive" and ttl = RELAY_DEFAULT_TTL_SECONDS
        and lineA = lineA and lineB = lineB])
      (insert lines demo_known demo_clocks demo_ok demo_others,
       simp_all only: demo_simps demo_fresh_dir demo_new other ok_frame.simps option.simps insert_iff simp_thms)
qed

lemma demo_accepts:
  assumes "encodeRelayFrame (HandshakeInit demo_init) = Inr line"
  shows "c_state (snd (on_event (demo_end Responder) (demo_world ''B'') (Data line) (demo_fresh ''B'' Responder))) = Connected"
proof -
  obtain lineB where lineB: "encodeRelayFrame (HandshakeAccept demo_accept) = Inr lineB"
    using demo_fits [THEN encodes] by blast
  have other: "demo_other ''A'' = ''B''" "demo_other ''B'' = ''A''"
    by (simp_all add: demo_other_def)
  have new: "new_connection (demo_end Responder) (demo_world ''B'') = Inr (demo_fresh ''B'' Responder)"
    by (rule demo_new) simp
  note fresh = new_connection_fields [OF new]
  have buffer: "c_buffer (demo_fresh ''B'' Responder) = []"
    using new by (rule fresh_buffer)
  have init: "ri_initiatorAuthorityId demo_init = demo_authority ''A''" "ri_responderAuthorityId demo_init = demo_authority ''B''"
      "ri_stateDir demo_init = None" "ri_initiatorFingerprint demo_init = fingerprintForDer (m_crypto demo_machine) ''A''"
      "ri_initiatorPublicKeySpkiB64 demo_init = spkiBase64FromPublicKey (m_crypto demo_machine) (sk_publicKey (demo_keys ''A''))"
      "ri_signature demo_init = signEnrollmentTranscript (m_crypto demo_machine) (sk_privateKey (demo_keys ''A'')) (canonicalRelayInitTranscript demo_init)"
    by (simp_all add: init_fields demo_simps)
  show ?thesis
    using init_is_accepted [of "demo_end Responder" "demo_world ''B''" "[''s'']" "demo_keys ''B''" "''B''" "demo_record ''A'' TrustActive" "''A''"
        demo_init lineB "(demo_fresh ''B'' Responder)\<lparr>c_lastReceivedMs := m_now demo_machine\<rparr>"]
      onData_frame [of "demo_world ''B''" "HandshakeInit demo_init" line "demo_fresh ''B'' Responder" "demo_end Responder"]
      assms lineB demo_known demo_clocks demo_ok demo_others fresh buffer init
    by (simp add: knows_def demo_simps other Let_def del: on_event.simps)
qed

lemma connected_only_when_authenticated_witness:
  "\<exists>line peer. encodeRelayFrame (HandshakeInit demo_init) = Inr line \<and>
     (let c1 = snd (on_event (demo_end Responder) (demo_world ''B'') (Data line) (demo_fresh ''B'' Responder)) in
      c_peerAuthorityId c1 = Some peer \<and>
      vouched_for (demo_end Responder) (demo_world ''B'') peer (c_connectionId c1) (c_pendingInit c1))"
proof -
  obtain line where line: "encodeRelayFrame (HandshakeInit demo_init) = Inr line"
    using demo_fits(1) [THEN encodes] by blast
  have new: "new_connection (demo_end Responder) (demo_world ''B'') = Inr (demo_fresh ''B'' Responder)"
    by (rule demo_new) simp
  have "reachable (demo_end Responder) (demo_fresh ''B'' Responder)"
    using new by (rule reach_in.created [OF TrueI])
  moreover have "c_state (demo_fresh ''B'' Responder) \<noteq> Connected"
    using new_connection_fields(1) [OF new] by simp
  ultimately show ?thesis
    using connected_only_when_authenticated [OF _ surjective_pairing _ demo_accepts [OF line]] line unfolding Let_def by blast
qed

end
