(* ===== verification/RelayFaults.thy ===== *)
theory RelayFaults
  imports RelayLink
begin

text \<open>
  Two faults of the relay connection: a stream under backpressure gets a frame twice, and an unauthenticated peer
  can make the responder throw out of its data callback.
\<close>

section \<open>Backpressure\<close>

text \<open>
  C40. A write that the stream answers with \<open>false\<close> is queued although the stream has taken the line, so the line
  goes out twice when the stream drains; and a peer that reads both copies of a frame closes the connection.\<close>

theorem backpressure_repeats_frame:
  assumes "\<not> c_destroyed c" and "c_queue c = []" and "\<not> w_accepts w (length (c_wire c))"
    and "1 \<le> maxQueuedFrames cfg" and "c_queuedBytes c + length line \<le> maxQueuedBytes cfg"
    and "encodeNextSequencedRelayFrame (c_outgoingSeq c) (\<lambda>n. Sequenced
      \<lparr>h_connectionId = connection_id c, h_direction = ownDirection cfg, h_seq = n\<rparr> body) = Inr (n, line)"
    and "w_accepts w1 (length (c_wire c) + 1)"
    and "c_state d \<in> {Connected, Draining}" and "\<not> c_destroyed d" and "onLines cfg1 w2 [l, l] d = (Inr (), d1)"
  shows "c_wire (snd (on_event cfg w1 Writable (snd (sendSequencedFrame cfg w body c)))) = c_wire c @ [line, line] \<and> c_destroyed d1"
proof
  show "c_wire (snd (on_event cfg w1 Writable (snd (sendSequencedFrame cfg w body c)))) = c_wire c @ [line, line]"
    using assms(1-7)
    by (simp add: sendSequencedFrame_def seq_asking seq_change_state writeFrame_def write_line_def enqueue_def flushQueue_def)
  have "talking (c_connectionId d) (c_incomingSeq d) d"
    using assms(8) by (auto simp: talking_def)
  from onLines_talking [OF this assms(10,9)] obtain k where
    k: "k \<le> length [l, l]" "k < length [l, l] \<longrightarrow> c_destroyed d1"
      "\<forall>j < k. takes cfg1 w2 (c_connectionId d) (c_incomingSeq d + 1 + int j) ([l, l] ! j)"
    by blast
  show "c_destroyed d1"
  proof (rule ccontr)
    assume "\<not> c_destroyed d1"
    with k(1,2) have "k = 2" by auto
    with k(3) have "takes cfg1 w2 (c_connectionId d) (c_incomingSeq d + 1) l" "takes cfg1 w2 (c_connectionId d) (c_incomingSeq d + 2) l"
      by (force simp: algebra_simps dest: spec [of _ "0 :: nat"] spec [of _ "1 :: nat"])+
    then show False
      by (auto simp: takes_def split: sum.splits relay_frame.splits)
  qed
qed

section \<open>An oversized rejection\<close>

text \<open>A record whose kind is \<open>n\<close> letters.\<close>

definition flood :: "nat \<Rightarrow> string" where
  "flood n = stringify (JObj [(''kind'', JStr (replicate n (CHR ''a'')))])"

lemma escape_letters: "concat (map json_escape (replicate n (CHR ''a''))) = replicate n (CHR ''a'')"
  by (induction n) (simp_all add: json_escape_def)

lemma flood_text: "flood n = ''{'' @ json_quote ''kind'' @ '':'' @ json_quote (replicate n (CHR ''a'')) @ ''}''"
  by (simp add: flood_def own_fields_def proto_key_def)

lemma letters_bytes: "utf8_bytes (replicate n (CHR ''a'')) = n"
  by (induction n) (simp_all add: utf8_bytes_Cons)

lemma flood_bytes: "utf8_bytes (flood n) = n + 11"
  by (simp add: flood_text json_quote_def escape_letters letters_bytes json_escape_def utf8_bytes_append utf8_bytes_Cons)

lemma flood_no_break: "CHR 0x0A \<notin> set (flood n)"
  by (simp add: flood_text json_quote_def escape_letters json_escape_def)

lemma flood_refused:
  assumes "n + 11 \<le> RELAY_MAX_FRAME_BYTES" and "25 < n"
  shows "parseRelayFrame host now (flood n) = relayError (''unknown frame kind '' @ json_quote (replicate n (CHR ''a'')))"
proof -
  let ?v = "JObj [(''kind'', JStr (replicate n (CHR ''a'')))]"
  have "parseEnrollmentArtifactJson (flood n) = Inr ?v"
    unfolding flood_def by (rule parse_stringify) (simp_all add: proto_key_def)
  moreover have other: "replicate n (CHR ''a'') \<noteq> k" if "length k \<le> 25" for k
    using that assms(2) by (metis length_replicate not_less)
  have "replicate n (CHR ''a'') \<notin> set terminal_kinds"
    unfolding terminal_kinds_def by (simp add: other)
  then have "validateRelayRecord host now ?v = relayError (''unknown frame kind '' @ json_quote (replicate n (CHR ''a'')))"
    by (simp add: validateRelayRecord_def get_prop.simps own_fields_def proto_key_def other)
  ultimately show ?thesis
    using assms(1) by (simp add: parseRelayFrame_def flood_bytes)
qed

text \<open>
  Before any authentication, a peer can make the responder throw out of its data callback instead of
  rejecting the handshake: the message that names an unknown kind of some 16300 bytes does not fit into the
  rejection, encoding it fails, and the connection stays open in the handshake with nothing sent.\<close>

theorem oversized_reject_throws:
  assumes "16300 \<le> n" and "n \<le> 16373" and "cfg_role cfg = Responder"
    and "c_state c = Handshaking" and "\<not> c_destroyed c" and "c_buffer c = []"
  shows "\<exists>e c1. on_event cfg w (Data (flood n @ [CHR 0x0A])) c = (Inl e, c1) \<and> c_state c1 = Handshaking \<and>
    \<not> c_destroyed c1 \<and> c_wire c1 = c_wire c"
proof -
  let ?message = "''Rooms relay protocol: '' @ ''unknown frame kind '' @ json_quote (replicate n (CHR ''a''))"
  have "n + 11 \<le> RELAY_MAX_FRAME_BYTES" "25 < n"
    using assms(1,2) by (simp_all add: RELAY_MAX_FRAME_BYTES_def)
  from flood_refused [OF this] have parse: "parseRelayFrame (m_host (w_machine w)) (m_now (w_machine w)) (flood n) = Inl ?message"
    by simp
  have "16340 \<le> length ?message"
    using length_quote [of "replicate n (CHR ''a'')"] assms(1) by simp
  then obtain e where e: "encodeRelayFrame (HandshakeReject (reject_id c) ''malformedHandshake'' ?message) = Inl e"
    using reject_too_long by blast
  have reject_id: "reject_id (c\<lparr>c_buffer := []\<rparr>) = reject_id c"
    by (simp add: reject_id_def)
  have line: "onLine cfg w (flood n) (c\<lparr>c_buffer := []\<rparr>) = (Inl e, c\<lparr>c_buffer := []\<rparr>)"
    using assms(3,4) by (simp add: onLine_def parse handleMalformed_def rejectHandshake_def reject_id seq_lifted fail_with_def e del: append.simps append_assoc)
  have "on_event cfg w (Data (flood n @ [CHR 0x0A])) c = (Inl e, c\<lparr>c_buffer := []\<rparr>)"
    using assms(5,6) line by (simp add: onData_def reader_one_line [OF flood_no_break] seq_def)
  with assms(4,5) show ?thesis by simp
qed

section \<open>Witnesses\<close>

lemma oversized_reject_throws_witness:
  "\<exists>e c1. on_event (demo_end Responder) (demo_world ''B'') (Data (flood 16300 @ [CHR 0x0A])) (demo_fresh ''B'' Responder) = (Inl e, c1) \<and>
     c_state c1 = Handshaking \<and> \<not> c_destroyed c1 \<and> c_wire c1 = []"
proof -
  have new: "new_connection (demo_end Responder) (demo_world ''B'') = Inr (demo_fresh ''B'' Responder)"
    by (rule demo_new) simp
  note fresh = new_connection_fields [OF new] fresh_buffer [OF new]
  show ?thesis
    using oversized_reject_throws [of 16300 "demo_end Responder" "demo_fresh ''B'' Responder" "demo_world ''B''"] fresh
    by (simp add: demo_simps del: on_event.simps)
qed

lemma backpressure_repeats_frame_witness:
  "\<exists>line d1. let w = (demo_world ''A'')\<lparr>w_accepts := \<lambda>_. False\<rparr>; c1 = snd (sendSequencedFrame (demo_end Initiator) w (EchoRequest ''hi'') demo_talking) in
     c_wire (snd (on_event (demo_end Initiator) (demo_world ''A'') Writable c1)) = [line, line] \<and>
     onLines (demo_end Initiator) (demo_world ''A'') [demo_reply, demo_reply] demo_talking = (Inr (), d1) \<and> c_destroyed d1"
proof -
  let ?w = "(demo_world ''A'')\<lparr>w_accepts := \<lambda>_. False\<rparr>"
  let ?h = "\<lambda>n. \<lparr>h_connectionId = m_uuid demo_machine, h_direction = InitiatorToResponder, h_seq = n\<rparr>"
  have new: "new_connection (demo_end Initiator) (demo_world ''A'') = Inr (demo_fresh ''A'' Initiator)"
    by (rule demo_new) simp
  have c: "c_state demo_talking = Connected" "\<not> c_destroyed demo_talking" "c_queue demo_talking = []" "c_wire demo_talking = []"
      "c_queuedBytes demo_talking = 0" "c_outgoingSeq demo_talking = 0" "connection_id demo_talking = m_uuid demo_machine"
    using new_connection_fields [OF new] by (simp_all add: demo_talking_def connection_id_def)
  have "json_size (frame_json (Sequenced (?h 1) (EchoRequest ''hi''))) \<le> 16384"
    by code_simp
  then obtain line where line: "encodeRelayFrame (Sequenced (?h 1) (EchoRequest ''hi'')) = Inr line"
    using encodes by blast
  then have "length line \<le> 16385"
    using length_le_bytes [of "stringify (frame_json (Sequenced (?h 1) (EchoRequest ''hi'')))"]
    by (auto simp: encodeRelayFrame_def RELAY_MAX_FRAME_BYTES_def Let_def split: if_splits)
  then have cfg: "maxQueuedFrames (demo_end Initiator) = 256" "length line \<le> maxQueuedBytes (demo_end Initiator)"
      "ownDirection (demo_end Initiator) = InitiatorToResponder"
    by (simp_all add: demo_end_def maxQueuedFrames_def maxQueuedBytes_def ownDirection_def DEFAULT_MAX_QUEUED_FRAMES_def DEFAULT_MAX_QUEUED_BYTES_def)
  have next_frame: "encodeNextSequencedRelayFrame (c_outgoingSeq demo_talking) (\<lambda>n. Sequenced
      \<lparr>h_connectionId = connection_id demo_talking, h_direction = ownDirection (demo_end Initiator), h_seq = n\<rparr> (EchoRequest ''hi'')) = Inr (1, line)"
    using line c cfg by (simp add: encodeNextSequencedRelayFrame_def)
  let ?run = "onLines (demo_end Initiator) (demo_world ''A'') [demo_reply, demo_reply] demo_talking"
  obtain d1 where run: "?run = (Inr (), d1)"
    by (rule demo_read_twice)
  have refuses: "\<not> w_accepts ?w (length (c_wire demo_talking))" "w_accepts (demo_world ''A'') (length (c_wire demo_talking) + 1)"
    by (simp_all add: demo_simps)
  have connected: "c_state demo_talking \<in> {Connected, Draining}"
    using c by simp
  have sizes: "1 \<le> maxQueuedFrames (demo_end Initiator)" "c_queuedBytes demo_talking + length line \<le> maxQueuedBytes (demo_end Initiator)"
    using cfg c by simp_all
  show ?thesis
    using backpressure_repeats_frame [OF c(2,3) refuses(1) sizes next_frame refuses(2) connected c(2) run] c(4) run
    unfolding Let_def by (metis append_Nil)
qed

end
