(* ===== verification/RelayReconnect.thy ===== *)
theory RelayReconnect
  imports RelayConnection Complex_Main
begin

text \<open>
  The reconnect loop of the dialing side (\<open>src/roomsd/src/federation/relay-reconnect.ts\<close>), composed with the
  connections it dials: it starts them, hears their status changes and schedules the next dial. Every dialed
  connection stays, because the code only forgets it; a timer stays set until it fires or is cleared.
\<close>

section \<open>Backoff\<close>

record backoff_config =
  baseMs :: int
  maxMs :: int

definition DEFAULT_RELAY_BACKOFF_CONFIG :: backoff_config where
  "DEFAULT_RELAY_BACKOFF_CONFIG = \<lparr>baseMs = 250, maxMs = 30000\<rparr>"

text \<open>\<open>round\<close> rounds a half up, as \<open>Math.round\<close> does; \<open>random\<close> is what \<open>Math.random\<close> returns.\<close>

definition raw_delay :: "nat \<Rightarrow> backoff_config \<Rightarrow> int" where
  "raw_delay attempt config = min (maxMs config) (baseMs config * 2 ^ attempt)"

definition nextBackoffDelayMs :: "nat \<Rightarrow> backoff_config \<Rightarrow> rat \<Rightarrow> int" where
  "nextBackoffDelayMs attempt config random =
     (let raw = rat_of_int (raw_delay attempt config) in round (raw / 2 + random * (raw / 2)))"

definition NON_RETRYABLE_REASONS :: "disconnect_reason list" where
  "NON_RETRYABLE_REASONS =
     [GracefulClose, PeerDrained, PeerClosed, HandshakeRejected, WrongDestination, WrongPeer, WrongConnection,
      WrongDirection, KeyMismatch, PeerNotActive, PeerTrustMismatch, PeerTrustRevoked, InvalidSignature,
      ProtocolDowngrade, MalformedHandshake, SequenceViolation, UnknownField, OversizeFrame]"

definition isRetryableDisconnectReason :: "disconnect_reason option \<Rightarrow> bool" where
  "isRetryableDisconnectReason r = (case r of None \<Rightarrow> True | Some x \<Rightarrow> x \<notin> set NON_RETRYABLE_REASONS)"

section \<open>The loop\<close>

datatype loop_notice = Dialed nat | LoopStatus conn_status nat | Attempt nat int | GiveUp conn_status

record reconnect_loop =
  rl_stopped :: bool
  rl_stopRequested :: bool
  rl_attempt :: nat
  rl_connections :: "conn list"   \<comment> \<open>all that were dialed\<close>
  rl_current :: "nat option"
  rl_timers :: "nat list"   \<comment> \<open>those that are set, by number\<close>
  rl_timer :: "nat option"
  rl_timerCount :: nat
  rl_log :: "loop_notice list"

record loop_config =
  lc_connection :: relay_config
  lc_backoff :: backoff_config
  lc_random :: "nat \<Rightarrow> rat"   \<comment> \<open>what \<open>random\<close> returns when the timer of that number is set\<close>

definition new_loop :: reconnect_loop where
  "new_loop = \<lparr>rl_stopped = False, rl_stopRequested = False, rl_attempt = 0, rl_connections = [], rl_current = None,
     rl_timers = [], rl_timer = None, rl_timerCount = 0, rl_log = []\<rparr>"

definition log_loop :: "loop_notice \<Rightarrow> reconnect_loop \<Rightarrow> reconnect_loop" where
  "log_loop n l = l\<lparr>rl_log := rl_log l @ [n]\<rparr>"

definition finalize :: "conn_status option \<Rightarrow> reconnect_loop \<Rightarrow> reconnect_loop" where
  "finalize st l =
     (if rl_stopped l then l
      else (case st of None \<Rightarrow> l\<lparr>rl_stopped := True\<rparr> | Some x \<Rightarrow> log_loop (GiveUp x) (l\<lparr>rl_stopped := True\<rparr>)))"

definition onClosed :: "loop_config \<Rightarrow> conn_status \<Rightarrow> reconnect_loop \<Rightarrow> reconnect_loop" where
  "onClosed lc st l =
     (if rl_stopped l then l
      else if rl_stopRequested l \<or> \<not> isRetryableDisconnectReason (cs_disconnectReason st) then finalize (Some st) l
      else let delayMs = nextBackoffDelayMs (rl_attempt l) (lc_backoff lc) (lc_random lc (rl_timerCount l));
               l1 = log_loop (Attempt (rl_attempt l + 1) delayMs) (l\<lparr>rl_attempt := rl_attempt l + 1\<rparr>) in
        l1\<lparr>rl_timers := rl_timers l1 @ [rl_timerCount l1], rl_timer := Some (rl_timerCount l1),
          rl_timerCount := rl_timerCount l1 + 1\<rparr>)"

definition onStatus :: "loop_config \<Rightarrow> conn_status \<Rightarrow> reconnect_loop \<Rightarrow> reconnect_loop" where
  "onStatus lc st l =
     (let l1 = log_loop (LoopStatus st (rl_attempt l)) l;
          l2 = (if cs_state st = Connected then l1\<lparr>rl_attempt := 0\<rparr> else l1) in
      if cs_state st = Closed then onClosed lc st l2 else l2)"

text \<open>The callbacks of a connection touch the loop only, so they can follow the operation that caused them.\<close>

fun status_changes :: "notice list \<Rightarrow> conn_status list" where
  "status_changes [] = []"
| "status_changes (StatusChanged st # ns) = st # status_changes ns"
| "status_changes (_ # ns) = status_changes ns"

definition on_connection :: "loop_config \<Rightarrow> nat \<Rightarrow> unit conn_op \<Rightarrow> (reconnect_loop, unit) effect" where
  "on_connection lc i f l =
     (if i < length (rl_connections l) then
        let c = rl_connections l ! i in
        (case f c of (r, c1) \<Rightarrow>
           (r, foldl (\<lambda>acc st. onStatus lc st acc) (l\<lparr>rl_connections := (rl_connections l)[i := c1]\<rparr>)
             (status_changes (drop (length (c_notices c)) (c_notices c1)))))
      else (Inr (), l))"

definition dial :: "loop_config \<Rightarrow> world \<Rightarrow> (reconnect_loop, unit) effect" where
  "dial lc w l =
     (if rl_stopped l \<or> rl_stopRequested l then (Inr (), l)
      else (case new_connection (lc_connection lc) w of
        Inl e \<Rightarrow> (Inl e, l)
      | Inr c \<Rightarrow>
          let i = length (rl_connections l) in
          on_connection lc i (start (lc_connection lc) w)
            (log_loop (Dialed i) (l\<lparr>rl_connections := rl_connections l @ [c], rl_current := Some i\<rparr>))))"

definition stop :: "loop_config \<Rightarrow> world \<Rightarrow> (reconnect_loop, unit) effect" where
  "stop lc w l =
     (if rl_stopRequested l then (Inr (), l)
      else
        let l1 = l\<lparr>rl_stopRequested := True, rl_timers := (case rl_timer l of None \<Rightarrow> rl_timers l | Some t \<Rightarrow> remove1 t (rl_timers l)),
              rl_timer := None\<rparr> in
        (case rl_current l1 of
           None \<Rightarrow> (Inr (), finalize None l1)
         | Some i \<Rightarrow>
             let c = rl_connections l1 ! i in
             if c_state c \<noteq> Closed
             then on_connection lc i (close_conn (lc_connection lc) w GracefulClose ''reconnect loop stopped'') l1
             else (Inr (), finalize (Some (status (lc_connection lc) c)) l1)))"

datatype loop_event = LoopStart | LoopStop | TimerFires nat | OnConnection nat conn_event

fun on_loop_event :: "loop_config \<Rightarrow> world \<Rightarrow> loop_event \<Rightarrow> (reconnect_loop, unit) effect" where
  "on_loop_event lc w LoopStart l = dial lc w l"
| "on_loop_event lc w LoopStop l = stop lc w l"
| "on_loop_event lc w (TimerFires t) l =
     (if t \<in> set (rl_timers l) then dial lc w (l\<lparr>rl_timers := remove1 t (rl_timers l)\<rparr>) else (Inr (), l))"
| "on_loop_event lc w (OnConnection i ev) l = on_connection lc i (on_event (lc_connection lc) w ev) l"

inductive loop_reachable :: "loop_config \<Rightarrow> reconnect_loop \<Rightarrow> bool" for lc where
  fresh: "loop_reachable lc new_loop"
| moved: "loop_reachable lc l \<Longrightarrow> on_loop_event lc w ev l = (r, l1) \<Longrightarrow> loop_reachable lc l1"

end
