(* ===== verification/RelayReconnectProperties.thy ===== *)
theory RelayReconnectProperties
  imports RelayReconnect RelayLink
begin

text \<open>
  The reconnect loop: its delays are bounded, it gives up at most once and dials no more after that, a stop
  always finishes it, and an overflow that a heartbeat causes schedules two redials.
\<close>

section \<open>Delays\<close>

lemma rounds_up_half: "n \<le> 2 * round (rat_of_int n / 2)"
proof -
  have "rat_of_int n / 2 - 1 / 2 < of_int (round (rat_of_int n / 2))"
    using of_int_round_ge [of "rat_of_int n / 2"] of_int_round_gt [of "rat_of_int n / 2"] by linarith
  then have "rat_of_int (n - 1) < rat_of_int (2 * round (rat_of_int n / 2))"
    by simp
  then show ?thesis
    unfolding of_int_less_iff by linarith
qed

text \<open>
  For a base and a cap that are not negative and a random number between 0 and 1, the delay before the next
  dial is at least half the exponential value, never more than it, and so never more than the cap.\<close>

theorem backoff_in_range:
  assumes "0 \<le> baseMs config" and "0 \<le> maxMs config" and "0 \<le> random" and "random \<le> 1"
  shows "raw_delay attempt config \<le> 2 * nextBackoffDelayMs attempt config random \<and>
    nextBackoffDelayMs attempt config random \<le> raw_delay attempt config \<and> raw_delay attempt config \<le> maxMs config"
proof -
  let ?raw = "rat_of_int (raw_delay attempt config)"
  let ?x = "?raw / 2 + random * (?raw / 2)"
  have raw: "0 \<le> ?raw"
    using assms(1,2) by (simp add: raw_delay_def)
  then have low: "?raw / 2 \<le> ?x"
    using assms(3) by simp
  have high: "?x \<le> ?raw"
    using mult_right_mono [OF assms(4), of "?raw / 2"] raw by simp
  have delay: "nextBackoffDelayMs attempt config random = round ?x"
    by (simp add: nextBackoffDelayMs_def Let_def)
  have "round ?x \<le> raw_delay attempt config"
    using round_mono [OF high] by simp
  moreover have "raw_delay attempt config \<le> 2 * round ?x"
    using round_mono [OF low] rounds_up_half [of "raw_delay attempt config"] by linarith
  ultimately show ?thesis
    by (simp add: delay raw_delay_def)
qed

section \<open>Giving up\<close>

fun is_status :: "loop_notice \<Rightarrow> bool" where
  "is_status (LoopStatus st a) = True"
| "is_status _ = False"

fun is_give_up :: "loop_notice \<Rightarrow> bool" where
  "is_give_up (GiveUp st) = True"
| "is_give_up _ = False"

text \<open>What a loop has told its owner: it has given up only when it is stopped, and after that only statuses follow.\<close>

definition log_ok :: "loop_notice list \<Rightarrow> bool \<Rightarrow> bool" where
  "log_ok ns stopped \<longleftrightarrow> (\<forall>before st after. ns = before @ GiveUp st # after \<longrightarrow> stopped \<and> list_all is_status after)"

lemma log_ok_snoc:
  assumes "log_ok ns b" and "is_status n \<and> b' = b \<or> \<not> b \<and> (\<not> is_give_up n \<or> b')"
  shows "log_ok (ns @ [n]) b'"
  unfolding log_ok_def
proof (intro allI impI)
  fix before st after
  assume split: "ns @ [n] = before @ GiveUp st # after"
  show "b' \<and> list_all is_status after"
  proof (cases after rule: rev_cases)
    case Nil
    with split assms(2) show ?thesis by (cases n) auto
  next
    case (snoc more x)
    with split have "ns = before @ GiveUp st # more" "x = n" by auto
    with assms(1) have "b \<and> list_all is_status more" by (auto simp: log_ok_def)
    with assms(2) snoc \<open>x = n\<close> show ?thesis by auto
  qed
qed

lemma log_ok_stopped: "log_ok ns False \<Longrightarrow> log_ok ns b"
  by (auto simp: log_ok_def)

text \<open>The part of the loop's state that the connections do not touch.\<close>

definition loop_ok :: "reconnect_loop \<Rightarrow> bool" where
  "loop_ok l \<longleftrightarrow> log_ok (rl_log l) (rl_stopped l) \<and>
     (\<forall>i. rl_current l = Some i \<longrightarrow> i < length (rl_connections l)) \<and> (rl_stopRequested l \<longrightarrow> rl_stopped l)"

text \<open>What a callback changes: it may log and stop, and it never undoes a stop.\<close>

definition steps_to :: "reconnect_loop \<Rightarrow> reconnect_loop \<Rightarrow> bool" where
  "steps_to l l1 \<longleftrightarrow> (log_ok (rl_log l) (rl_stopped l) \<longrightarrow> log_ok (rl_log l1) (rl_stopped l1)) \<and>
     (rl_stopped l \<longrightarrow> rl_stopped l1) \<and> rl_stopRequested l1 = rl_stopRequested l \<and> rl_current l1 = rl_current l \<and>
     rl_connections l1 = rl_connections l"

lemma steps_to_trans: "steps_to l l1 \<Longrightarrow> steps_to l1 l2 \<Longrightarrow> steps_to l l2"
  by (auto simp: steps_to_def)

lemma steps_finalize: "steps_to l (finalize st l)"
  by (auto simp: steps_to_def finalize_def log_loop_def log_ok_stopped split: option.split intro!: log_ok_snoc)

lemma steps_onClosed: "steps_to l (onClosed lc st l)"
  using steps_finalize [of l "Some st"]
  by (auto simp: onClosed_def Let_def) (auto simp: steps_to_def log_loop_def intro!: log_ok_snoc)

lemma steps_onStatus: "steps_to l (onStatus lc st l)"
proof -
  let ?l1 = "log_loop (LoopStatus st (rl_attempt l)) l"
  have "steps_to l ?l1" "steps_to l (?l1\<lparr>rl_attempt := 0\<rparr>)"
    by (auto simp: steps_to_def log_loop_def intro!: log_ok_snoc)
  then have "steps_to l (if cs_state st = Connected then ?l1\<lparr>rl_attempt := 0\<rparr> else ?l1)"
    by simp
  then show ?thesis
    unfolding onStatus_def Let_def using steps_to_trans steps_onClosed by simp
qed

lemma steps_statuses: "steps_to l (foldl (\<lambda>acc st. onStatus lc st acc) l sts)"
  by (induction sts arbitrary: l) (auto simp: steps_to_def [of l l for l] intro: steps_to_trans [OF steps_onStatus])

lemma loop_ok_steps: "loop_ok l \<Longrightarrow> steps_to l l1 \<Longrightarrow> loop_ok l1"
  by (auto simp: loop_ok_def steps_to_def)

lemma on_connection_ok:
  assumes "loop_ok l"
  shows "loop_ok (snd (on_connection lc i f l))"
proof (cases "i < length (rl_connections l)")
  case True
  obtain r c1 where run: "f (rl_connections l ! i) = (r, c1)"
    by fastforce
  have "loop_ok (l\<lparr>rl_connections := (rl_connections l)[i := c1]\<rparr>)"
    using assms by (simp add: loop_ok_def)
  then show ?thesis
    using loop_ok_steps steps_statuses True run by (auto simp: on_connection_def Let_def)
next
  case False
  with assms show ?thesis by (simp add: on_connection_def)
qed

lemma dial_ok: "loop_ok l \<Longrightarrow> loop_ok (snd (dial lc w l))"
  by (auto simp: dial_def Let_def loop_ok_def log_loop_def nth_append intro!: on_connection_ok [unfolded loop_ok_def] log_ok_snoc split: sum.split)

text \<open>A stop closes the connection that is not closed yet, and the connection says so.\<close>

definition emits :: "conn \<Rightarrow> conn \<Rightarrow> bool" where
  "emits c d \<longleftrightarrow> (\<exists>ns. c_notices d = c_notices c @ ns \<and>
     (c_state c \<noteq> Closed \<and> c_state d = Closed \<longrightarrow> (\<exists>st \<in> set (status_changes ns). cs_state st = Closed)))"

lemma emits_fail: "emits c (snd (fail_conn cfg reason message c))" "c_state (snd (fail_conn cfg reason message c)) = Closed"
  by (simp_all add: emits_def fail_conn_def Let_def status_def)

lemma emits_keep: "c_notices d = c_notices c \<Longrightarrow> c_state d = c_state c \<Longrightarrow> emits c d"
  by (simp add: emits_def)

lemma emits_cong: "c_notices c = c_notices c' \<Longrightarrow> c_state c = c_state c' \<Longrightarrow> emits c d = emits c' d"
  by (simp add: emits_def)

lemma emits_write: "emits c (snd (writeFrame cfg w line c))"
proof -
  have "emits c (snd (enqueue cfg line d))" if "c_notices d = c_notices c" "c_state d = c_state c" for d
    using that emits_fail(1) [of d cfg] emits_cong [of d c] by (auto simp: enqueue_def intro: emits_keep)
  then show ?thesis
    by (auto simp: writeFrame_def write_line_def intro: emits_keep)
qed

lemma emits_send: "emits c (snd (sendSequencedFrame cfg w body c))"
  using emits_write [of "c\<lparr>c_outgoingSeq := _\<rparr>" cfg w] emits_cong [of "c\<lparr>c_outgoingSeq := _\<rparr>" c]
  by (auto simp: sendSequencedFrame_def seq_asking seq_change_state split: sum.split prod.split intro: emits_keep)

lemma emits_trans: "emits c d \<Longrightarrow> emits d e \<Longrightarrow> emits c e"
proof -
  have app: "set (status_changes (ns @ ms)) = set (status_changes ns) \<union> set (status_changes ms)" for ns ms
    by (induction ns rule: status_changes.induct) auto
  assume "emits c d" "emits d e"
  then show ?thesis
    unfolding emits_def using app by (metis Un_iff append.assoc)
qed

lemma close_emits:
  assumes "c_state c \<noteq> Closed"
  shows "\<exists>ns. c_notices (snd (close_conn cfg w reason message c)) = c_notices c @ ns \<and>
    (\<exists>st \<in> set (status_changes ns). cs_state st = Closed)"
proof -
  define d where "d = (if c_connectionId c = None then c else snd (sendSequencedFrame cfg w (CloseBody message) c))"
  have "emits c d"
    by (simp add: d_def emits_send emits_keep)
  moreover have "snd (close_conn cfg w reason message c) = snd (fail_conn cfg reason message d)"
    using assms by (cases "sendSequencedFrame cfg w (CloseBody message) c"; cases "fst (sendSequencedFrame cfg w (CloseBody message) c)")
      (simp_all add: d_def close_conn_def seq_def catching_def give_def)
  ultimately have "emits c (snd (close_conn cfg w reason message c))" "c_state (snd (close_conn cfg w reason message c)) = Closed"
    using emits_trans emits_fail by metis+
  with assms show ?thesis by (simp add: emits_def)
qed

lemma stop_finishes:
  assumes "rl_stopRequested l" and "\<exists>st \<in> set sts. cs_state st = Closed"
  shows "rl_stopped (foldl (\<lambda>acc st. onStatus lc st acc) l sts)"
  using assms
proof (induction sts arbitrary: l)
  case (Cons st sts)
  have req: "rl_stopRequested (onStatus lc st l)"
    using steps_onStatus [of l lc st] Cons.prems(1) by (simp add: steps_to_def)
  show ?case
  proof (cases "cs_state st = Closed")
    case True
    then have "rl_stopped (onStatus lc st l)"
      using Cons.prems(1) by (simp add: onStatus_def Let_def onClosed_def finalize_def log_loop_def)
    then show ?thesis
      using steps_statuses [of "onStatus lc st l" lc sts] by (simp add: steps_to_def)
  next
    case False
    with Cons.prems(2) req Cons.IH show ?thesis by auto
  qed
qed simp

lemma stop_ok:
  assumes "loop_ok l"
  shows "loop_ok (snd (stop lc w l)) \<and> rl_stopped (snd (stop lc w l))"
proof (cases "rl_stopRequested l")
  case True
  with assms show ?thesis by (auto simp: stop_def loop_ok_def)
next
  case False
  define l1 where "l1 = l\<lparr>rl_stopRequested := True,
    rl_timers := (case rl_timer l of None \<Rightarrow> rl_timers l | Some t \<Rightarrow> remove1 t (rl_timers l)), rl_timer := None\<rparr>"
  have l1: "log_ok (rl_log l1) (rl_stopped l1)" "rl_current l1 = rl_current l" "rl_stopRequested l1"
      "\<And>i. rl_current l1 = Some i \<Longrightarrow> i < length (rl_connections l1)"
    using assms by (auto simp: l1_def loop_ok_def)
  have finish: "loop_ok l2 \<and> rl_stopped l2" if "steps_to l1 l2" "rl_stopped l2" for l2
    using that l1 by (auto simp: steps_to_def loop_ok_def)
  have run: "stop lc w l = (case rl_current l1 of
      None \<Rightarrow> (Inr (), finalize None l1)
    | Some i \<Rightarrow> if c_state (rl_connections l1 ! i) \<noteq> Closed
        then on_connection lc i (close_conn (lc_connection lc) w GracefulClose ''reconnect loop stopped'') l1
        else (Inr (), finalize (Some (status (lc_connection lc) (rl_connections l1 ! i))) l1))"
    using False unfolding stop_def Let_def l1_def [symmetric] by (simp only: if_False)
  have fin: "rl_stopped (finalize st l1)" for st
    by (simp add: finalize_def log_loop_def split: option.split)
  show ?thesis
  proof (cases "rl_current l1")
    case None
    then show ?thesis using run finish [OF steps_finalize fin] by simp
  next
    case (Some i)
    let ?c = "rl_connections l1 ! i" and ?close = "close_conn (lc_connection lc) w GracefulClose ''reconnect loop stopped''"
    show ?thesis
    proof (cases "c_state ?c = Closed")
      case True
      then show ?thesis using run Some finish [OF steps_finalize fin] by simp
    next
      case opened: False
      obtain ns where ns: "c_notices (snd (?close ?c)) = c_notices ?c @ ns" "\<exists>st \<in> set (status_changes ns). cs_state st = Closed"
        using close_emits [OF opened] by blast
      let ?l2 = "l1\<lparr>rl_connections := (rl_connections l1)[i := snd (?close ?c)]\<rparr>"
      let ?l3 = "foldl (\<lambda>acc st. onStatus lc st acc) ?l2 (status_changes ns)"
      have last_state: "snd (stop lc w l) = ?l3"
        using run Some opened l1(4) [OF Some] ns(1) by (simp add: on_connection_def Let_def case_prod_unfold)
      have "loop_ok ?l3"
        using steps_statuses [of ?l2 lc "status_changes ns"] stop_finishes [OF _ ns(2), of ?l2 lc] l1
        by (auto simp: steps_to_def loop_ok_def)
      then show ?thesis
        using stop_finishes [OF _ ns(2), of ?l2 lc] l1(3) by (simp add: last_state)
    qed
  qed
qed

lemma reachable_loop_ok: "loop_reachable lc l \<Longrightarrow> loop_ok l"
proof (induction rule: loop_reachable.induct)
  case fresh
  show ?case by (simp add: new_loop_def loop_ok_def log_ok_def)
next
  case (moved l w ev r l1)
  have "loop_ok (snd (on_loop_event lc w ev l))"
  proof (cases ev)
    case (TimerFires t)
    then show ?thesis
      using moved.IH dial_ok [of "l\<lparr>rl_timers := remove1 t (rl_timers l)\<rparr>" lc w] by (simp add: loop_ok_def)
  qed (simp_all add: moved.IH dial_ok stop_ok on_connection_ok)
  with moved.hyps(2) show ?case by simp
qed

text \<open>
  A reconnect loop gives up at most once and for good: when a reachable loop has told its owner that it gives
  up, it is stopped, and what it tells afterwards are statuses of connections, never another dial, another
  attempt or another giving up.\<close>

theorem gives_up_for_good:
  assumes "loop_reachable lc l" and "rl_log l = before @ GiveUp st # after"
  shows "rl_stopped l \<and> (\<forall>n \<in> set after. \<exists>st a. n = LoopStatus st a)"
proof -
  have "log_ok (rl_log l) (rl_stopped l)"
    using reachable_loop_ok [OF assms(1)] by (simp add: loop_ok_def)
  moreover have "is_status n \<longleftrightarrow> (\<exists>st a. n = LoopStatus st a)" for n
    by (cases n) auto
  ultimately show ?thesis
    using assms(2) by (simp add: log_ok_def list_all_iff)
qed

section \<open>Stopping\<close>

text \<open>A stopped loop stays stopped and passes statuses on, nothing else.\<close>

definition rests :: "reconnect_loop \<Rightarrow> reconnect_loop \<Rightarrow> bool" where
  "rests l l1 \<longleftrightarrow> rl_stopped l1 \<and> (\<exists>more. rl_log l1 = rl_log l @ more \<and> list_all is_status more)"

lemma rests_trans: "rests l l1 \<Longrightarrow> rests l1 l2 \<Longrightarrow> rests l l2"
  unfolding rests_def by (metis append.assoc list_all_append)

lemma rests_refl: "rl_stopped l1 \<Longrightarrow> rl_log l1 = rl_log l \<Longrightarrow> rests l l1"
  by (simp add: rests_def)

lemma rests_onStatus: "rl_stopped l \<Longrightarrow> rests l (onStatus lc st l)"
  by (simp add: rests_def onStatus_def onClosed_def log_loop_def Let_def)

lemma rests_statuses: "rl_stopped l \<Longrightarrow> rests l (foldl (\<lambda>acc st. onStatus lc st acc) l sts)"
proof (induction sts arbitrary: l)
  case (Cons st sts)
  then show ?case
    using rests_onStatus [of l lc st] rests_trans by (auto simp: rests_def)
qed (simp add: rests_refl)

lemma rests_connection: "rl_stopped l \<Longrightarrow> rests l (snd (on_connection lc i f l))"
  using rests_statuses [of "l\<lparr>rl_connections := _\<rparr>"]
  by (auto simp: on_connection_def Let_def rests_refl rests_def [of l] rests_def [of "l\<lparr>rl_connections := _\<rparr>"] case_prod_unfold)

lemma rests_event:
  assumes "rl_stopped l"
  shows "rests l (snd (on_loop_event lc w ev l))"
proof (cases ev)
  case LoopStop
  let ?l1 = "l\<lparr>rl_stopRequested := True,
    rl_timers := (case rl_timer l of None \<Rightarrow> rl_timers l | Some t \<Rightarrow> remove1 t (rl_timers l)), rl_timer := None\<rparr>"
  have "rests l l2" if "rests ?l1 l2" for l2
    using that by (simp add: rests_def)
  then show ?thesis
    using assms LoopStop rests_connection [of ?l1] rests_refl
    by (auto simp: stop_def Let_def finalize_def split: option.split)
qed (use assms rests_connection rests_refl in \<open>simp_all add: dial_def\<close>)

definition run_loop :: "loop_config \<Rightarrow> (world \<times> loop_event) list \<Rightarrow> reconnect_loop \<Rightarrow> reconnect_loop" where
  "run_loop lc evs l = foldl (\<lambda>acc (w, ev). snd (on_loop_event lc w ev acc)) l evs"

lemma rests_run: "rl_stopped l \<Longrightarrow> rests l (run_loop lc evs l)"
proof (induction evs arbitrary: l)
  case (Cons e evs)
  obtain w ev where e: "e = (w, ev)" by fastforce
  have first: "rests l (snd (on_loop_event lc w ev l))"
    using rests_event [OF Cons.prems] .
  then have "rests (snd (on_loop_event lc w ev l)) (run_loop lc evs (snd (on_loop_event lc w ev l)))"
    by (intro Cons.IH) (simp add: rests_def)
  with first show ?case
    using rests_trans by (simp add: e run_loop_def)
qed (simp add: run_loop_def rests_refl)

text \<open>
  Stopping a reconnect loop takes effect at once and for good: after \<open>stop\<close> a reachable loop is stopped,
  whatever its connection does while it is closed, and in every run that follows it stays stopped and tells its
  owner nothing but statuses, so it neither dials nor schedules a dial.\<close>

theorem stop_is_final:
  assumes "loop_reachable lc l"
  shows "rl_stopped (snd (stop lc w l)) \<and> rl_stopped (run_loop lc evs (snd (stop lc w l))) \<and>
    (\<exists>more. rl_log (run_loop lc evs (snd (stop lc w l))) = rl_log (snd (stop lc w l)) @ more \<and>
      (\<forall>n \<in> set more. \<exists>st a. n = LoopStatus st a))"
proof -
  have stopped: "rl_stopped (snd (stop lc w l))"
    using stop_ok reachable_loop_ok [OF assms] by simp
  moreover have "is_status n \<longleftrightarrow> (\<exists>st a. n = LoopStatus st a)" for n
    by (cases n) auto
  ultimately show ?thesis
    using rests_run [OF stopped, of lc evs] by (simp add: rests_def list_all_iff)
qed

section \<open>Two redials for one overflow\<close>

lemma overflow_closes:
  assumes "c_queue c \<noteq> []" and "maxQueuedFrames cfg \<le> length (c_queue c)" and "\<not> c_destroyed c"
    and "encodeRelayFrame (Sequenced \<lparr>h_connectionId = connection_id c, h_direction = ownDirection cfg, h_seq = c_outgoingSeq c + 1\<rparr> body) = Inr line"
  shows "\<exists>message. sendSequencedFrame cfg w body c = fail_conn cfg QueueOverflow message (c\<lparr>c_outgoingSeq := c_outgoingSeq c + 1\<rparr>)"
  using assms
  by (simp add: sendSequencedFrame_def encodeNextSequencedRelayFrame_def seq_asking seq_change_state writeFrame_def enqueue_def)
    blast

lemma heartbeat_overflow:
  assumes "c_state c = Connected" and "c_queue c \<noteq> []" and "maxQueuedFrames cfg \<le> length (c_queue c)" and "\<not> c_destroyed c"
    and "encodeRelayFrame (Sequenced \<lparr>h_connectionId = connection_id c, h_direction = ownDirection cfg, h_seq = c_outgoingSeq c + 1\<rparr> Heartbeat) = Inr line"
    and "cfg_role cfg = Initiator" and "c_peerAuthorityId c = Some peer" and "active_trust w peer (c_localStateDir c) = Inr trust"
  shows "\<exists>st1 st2. cs_state st1 = Closed \<and> cs_state st2 = Closed \<and> cs_disconnectReason st1 = Some QueueOverflow \<and>
    cs_disconnectReason st2 = Some QueueOverflow \<and>
    status_changes (drop (length (c_notices c)) (c_notices (snd (sendHeartbeat cfg w c)))) = [st1, st2]"
proof -
  obtain message where send: "sendSequencedFrame cfg w Heartbeat c = fail_conn cfg QueueOverflow message (c\<lparr>c_outgoingSeq := c_outgoingSeq c + 1\<rparr>)"
    using overflow_closes [OF assms(2-5)] by blast
  have run: "sendHeartbeat cfg w c = seq (sendSequencedFrame cfg w Heartbeat) (\<lambda>_.
      seq (change_state (\<lambda>c. c\<lparr>c_lastHeartbeatSentAt := Some (now_iso (w_machine w))\<rparr>)) (\<lambda>_.
      seq (revalidatePeerTrustOrClose cfg w) (\<lambda>_. emitStatus cfg))) c"
    using assms(1) by (simp add: sendHeartbeat_def)
  show ?thesis
    unfolding run
    using assms
    by (simp add: seq_def [of "sendSequencedFrame cfg w Heartbeat"] send fail_conn_def Let_def seq_change_state
        seq_def [of "revalidatePeerTrustOrClose cfg w"] revalidatePeerTrustOrClose_def seq_lifted close_conn_def give_def
        emitStatus_def notify_def change_state_def status_def)
qed

text \<open>
  A heartbeat that overflows the queue of outgoing frames makes the loop schedule two redials for one
  disconnection: the connection reports that it is closed twice, so two attempts are counted and two timers are
  set, of which the loop remembers, and can clear, only the second.\<close>

theorem overflow_dials_twice:
  assumes "i < length (rl_connections l)" and "c = rl_connections l ! i" and "\<not> rl_stopped l" and "\<not> rl_stopRequested l"
    and "cfg = lc_connection lc" and "cfg_role cfg = Initiator" and "c_state c = Connected" and "c_heartbeatTimer c \<noteq> None"
    and "c_queue c \<noteq> []" and "maxQueuedFrames cfg \<le> length (c_queue c)" and "\<not> c_destroyed c"
    and "encodeRelayFrame (Sequenced \<lparr>h_connectionId = connection_id c, h_direction = ownDirection cfg, h_seq = c_outgoingSeq c + 1\<rparr> Heartbeat) = Inr line"
    and "c_peerAuthorityId c = Some peer" and "active_trust w peer (c_localStateDir c) = Inr trust"
  shows "let l1 = snd (on_loop_event lc w (OnConnection i HeartbeatTimer) l); a = rl_attempt l; n = rl_timerCount l in
    (\<exists>st1 st2 d1 d2. rl_log l1 = rl_log l @ [LoopStatus st1 a, Attempt (a + 1) d1, LoopStatus st2 (a + 1), Attempt (a + 2) d2]) \<and>
    rl_timers l1 = rl_timers l @ [n, n + 1] \<and> rl_timer l1 = Some (n + 1)"
proof -
  obtain st1 st2 where st: "cs_state st1 = Closed" "cs_state st2 = Closed" "cs_disconnectReason st1 = Some QueueOverflow"
      "cs_disconnectReason st2 = Some QueueOverflow"
      and told: "status_changes (drop (length (c_notices c)) (c_notices (snd (sendHeartbeat cfg w c)))) = [st1, st2]"
    using heartbeat_overflow [OF assms(7,9,10,11,12,6,13,14)] by blast
  have retry: "isRetryableDisconnectReason (Some QueueOverflow)"
    by code_simp
  define l0 where "l0 = l\<lparr>rl_connections := (rl_connections l)[i := snd (sendHeartbeat cfg w c)]\<rparr>"
  have "snd (on_loop_event lc w (OnConnection i HeartbeatTimer) l) = onStatus lc st2 (onStatus lc st1 l0)"
    using assms(1,2,5,8) told by (auto simp: on_connection_def Let_def case_prod_unfold l0_def)
  then show ?thesis
    using assms(3,4) st retry
    by (auto simp: Let_def onStatus_def onClosed_def log_loop_def l0_def)
qed

text \<open>The witnesses: the connection of machine \<open>A\<close> with one frame waiting.\<close>

definition demo_loop_config :: loop_config where
  "demo_loop_config = \<lparr>lc_connection = (demo_end Initiator)\<lparr>cfg_maxQueuedFrames := Some 1\<rparr>,
     lc_backoff = DEFAULT_RELAY_BACKOFF_CONFIG, lc_random = (\<lambda>_. 0)\<rparr>"

definition demo_waiting :: conn where
  "demo_waiting = demo_talking\<lparr>c_peerAuthorityId := Some (demo_authority ''B''), c_queue := [''x''], c_queuedBytes := 1,
     c_heartbeatTimer := Some 5000\<rparr>"

definition demo_loop :: reconnect_loop where
  "demo_loop = new_loop\<lparr>rl_connections := [demo_waiting], rl_current := Some 0\<rparr>"

lemma overflow_dials_twice_witness:
  "let l1 = snd (on_loop_event demo_loop_config (demo_world ''A'') (OnConnection 0 HeartbeatTimer) demo_loop) in
    (\<exists>st1 st2 d1 d2. rl_log l1 = [LoopStatus st1 0, Attempt 1 d1, LoopStatus st2 1, Attempt 2 d2]) \<and>
    rl_timers l1 = [0, 1] \<and> rl_timer l1 = Some 1"
proof -
  let ?c = "demo_waiting" and ?cfg = "lc_connection demo_loop_config"
  have fresh: "new_connection (demo_end Initiator) (demo_world ''A'') = Inr (demo_fresh ''A'' Initiator)"
    by (rule demo_new) simp
  have c: "c_state ?c = Connected" "c_heartbeatTimer ?c \<noteq> None" "c_queue ?c = [''x'']" "\<not> c_destroyed ?c"
      "c_peerAuthorityId ?c = Some (demo_authority ''B'')" "c_localStateDir ?c = [''s'']" "c_outgoingSeq ?c = 0"
      "c_connectionId ?c = Some (m_uuid demo_machine)"
    using new_connection_fields [OF fresh] by (simp_all add: demo_waiting_def demo_talking_def demo_fresh_dir)
  let ?f = "Sequenced \<lparr>h_connectionId = m_uuid demo_machine, h_direction = InitiatorToResponder, h_seq = 1\<rparr> Heartbeat"
  have "json_size (frame_json ?f) \<le> 16384"
    by code_simp
  then obtain line where "encodeRelayFrame ?f = Inr line"
    using encodes by blast
  moreover have cfg: "cfg_role ?cfg = Initiator" "maxQueuedFrames ?cfg = 1" "ownDirection ?cfg = InitiatorToResponder"
    by (simp_all add: demo_loop_config_def demo_end_def maxQueuedFrames_def ownDirection_def)
  ultimately have line: "encodeRelayFrame (Sequenced \<lparr>h_connectionId = connection_id ?c, h_direction = ownDirection ?cfg,
      h_seq = c_outgoingSeq ?c + 1\<rparr> Heartbeat) = Inr line"
    using c by (simp add: connection_id_def)
  have "active_trust (demo_world ''A'') (demo_authority ''B'') [''s''] = Inr (Some (demo_record ''B'' TrustActive))"
    using demo_knows [of "''A''"] by (simp add: knows_def demo_other_def demo_simps demo_authority_def demo_machine_def demo_crypto_def fingerprintForDer_def)
  then show ?thesis
    using overflow_dials_twice [of 0 demo_loop ?c ?cfg demo_loop_config line "demo_authority ''B''" "demo_world ''A''"] line c cfg
    by (simp add: demo_loop_def new_loop_def Let_def numeral_2_eq_2 del: on_loop_event.simps)
qed

lemma backoff_in_range_witness:
  "raw_delay 3 DEFAULT_RELAY_BACKOFF_CONFIG \<le> 2 * nextBackoffDelayMs 3 DEFAULT_RELAY_BACKOFF_CONFIG (1 / 2) \<and>
   nextBackoffDelayMs 3 DEFAULT_RELAY_BACKOFF_CONFIG (1 / 2) \<le> raw_delay 3 DEFAULT_RELAY_BACKOFF_CONFIG \<and>
   raw_delay 3 DEFAULT_RELAY_BACKOFF_CONFIG \<le> 30000"
  using backoff_in_range [of DEFAULT_RELAY_BACKOFF_CONFIG "1 / 2" 3] by (simp add: DEFAULT_RELAY_BACKOFF_CONFIG_def)

text \<open>A dial that finds no active trust ends the loop.\<close>

definition demo_lonely :: world where
  "demo_lonely = (demo_world ''A'')\<lparr>w_files := demo_files ''A'' ''RB''\<rparr>"

lemma stop_is_final_witness:
  "let l = snd (on_loop_event demo_loop_config (demo_world ''A'') LoopStart new_loop);
       l1 = run_loop demo_loop_config [(demo_world ''A'', LoopStart)] (snd (stop demo_loop_config (demo_world ''A'') l)) in
   rl_stopped l1"
  unfolding Let_def
  using stop_is_final [OF loop_reachable.moved [OF loop_reachable.fresh surjective_pairing]] by blast

lemma lonely_gives_up:
  obtains st where "GiveUp st \<in> set (rl_log (snd (on_loop_event demo_loop_config demo_lonely LoopStart new_loop)))"
proof -
  let ?cfg = "lc_connection demo_loop_config"
  have cfg: "cfg_role ?cfg = Initiator" "cfg_peer ?cfg = Some (demo_authority ''B'')" "cfg_localStateDir ?cfg = None"
    by (simp_all add: demo_loop_config_def demo_simps)
  have machine: "w_machine demo_lonely = demo_machine"
    by (simp add: demo_lonely_def demo_simps)
  have "case new_connection ?cfg demo_lonely of Inr _ \<Rightarrow> True | Inl _ \<Rightarrow> False"
    by code_simp
  then obtain c where new: "new_connection ?cfg demo_lonely = Inr c"
    by (auto split: sum.splits)
  have dir: "c_localStateDir c = [''s'']"
    using fresh_dir [OF new] by (simp add: machine cfg demo_simps)
  have none: "active_trust demo_lonely (demo_authority ''B'') [''s''] = Inr None"
    by code_simp
  note fresh = new_connection_fields [OF new]
  have final: "\<not> isRetryableDisconnectReason (Some PeerNotActive)"
    by code_simp
  have "\<exists>st. rl_log (snd (on_loop_event demo_loop_config demo_lonely LoopStart new_loop)) = [Dialed 0, LoopStatus st 0, GiveUp st]"
    using fresh final
    by (simp add: dial_def new new_loop_def on_connection_def start_def sendInit_def seq_change_state seq_lifted cfg dir none fail_conn_def
      Let_def onStatus_def onClosed_def finalize_def log_loop_def status_def)
  then show ?thesis
    using that by force
qed

lemma gives_up_for_good_witness:
  "\<exists>before st after. rl_log (snd (on_loop_event demo_loop_config demo_lonely LoopStart new_loop)) = before @ GiveUp st # after \<and>
     (\<forall>n \<in> set after. \<exists>st a. n = LoopStatus st a)"
proof -
  let ?l = "snd (on_loop_event demo_loop_config demo_lonely LoopStart new_loop)"
  obtain st where "GiveUp st \<in> set (rl_log ?l)"
    by (rule lonely_gives_up)
  then obtain before after where split: "rl_log ?l = before @ GiveUp st # after"
    by (meson split_list)
  have "loop_reachable demo_loop_config ?l"
    by (rule loop_reachable.moved [OF loop_reachable.fresh surjective_pairing])
  from gives_up_for_good [OF this split] split show ?thesis by blast
qed

end
