(* ===== verification/Bytes.thy ===== *)
theory Bytes
  imports Codec "HOL-Library.Word"
begin

text \<open>
  Buffers: lists of 8-bit words, with what the code uses of \<open>node:buffer\<close>: big-endian fields, UTF-8 and base64.
  A string of the model has code units up to 255, so its UTF-8 has one or two bytes for each.
\<close>

unbundle bit_operations_syntax

type_synonym byte = "8 word"

section \<open>Big-endian fields\<close>

definition writeUInt32BE :: "32 word \<Rightarrow> byte list" where
  "writeUInt32BE w = [ucast (drop_bit 24 w), ucast (drop_bit 16 w), ucast (drop_bit 8 w), ucast w]"

fun readUInt16BE :: "byte list \<Rightarrow> 16 word" where
  "readUInt16BE (a # b # _) = push_bit 8 (ucast a) OR ucast b"
| "readUInt16BE _ = 0"

fun readUInt32BE :: "byte list \<Rightarrow> 32 word" where
  "readUInt32BE (a # b # c # d # _) =
     push_bit 24 (ucast a) OR push_bit 16 (ucast b) OR push_bit 8 (ucast c) OR ucast d"
| "readUInt32BE _ = 0"

definition readBigUInt64BE :: "byte list \<Rightarrow> 64 word" where
  "readBigUInt64BE bs = push_bit 32 (ucast (readUInt32BE bs)) OR ucast (readUInt32BE (drop 4 bs))"

definition readInt32BE :: "byte list \<Rightarrow> int" where
  "readInt32BE bs = sint (readUInt32BE bs)"

lemma read_write_32: "readUInt32BE (writeUInt32BE w @ rest) = w"
proof (rule bit_word_eqI)
  fix n assume "n < LENGTH(32)"
  then consider "n < 8" | "8 \<le> n" "n < 16" | "16 \<le> n" "n < 24" | "24 \<le> n" "n < 32"
    by fastforce
  then show "bit (readUInt32BE (writeUInt32BE w @ rest)) n \<longleftrightarrow> bit w n"
    by cases (auto simp: writeUInt32BE_def bit_simps)
qed

lemma length_write_32 [simp]: "length (writeUInt32BE w) = 4"
  by (simp add: writeUInt32BE_def)

lemma readUInt32BE_append: "4 \<le> length b \<Longrightarrow> readUInt32BE (b @ c) = readUInt32BE b"
  by (cases b rule: readUInt32BE.cases) auto

section \<open>UTF-8\<close>

text \<open>\<open>Buffer.from(text, "utf8")\<close>\<close>

definition utf8_char :: "char \<Rightarrow> byte list" where
  "utf8_char c = (let n = of_char c :: nat in
     if n < 128 then [of_nat n] else [of_nat (192 + n div 64), of_nat (128 + n mod 64)])"

definition utf8_encode :: "string \<Rightarrow> byte list" where
  "utf8_encode s = concat (map utf8_char s)"

text \<open>\<open>toString("utf8")\<close>. \<open>None\<close> stands for a text with a code unit above 255.\<close>

fun utf8_decode :: "byte list \<Rightarrow> string option" where
  "utf8_decode [] = Some []"
| "utf8_decode (a # bs) =
     (if unat a < 128 then map_option ((#) (char_of (unat a))) (utf8_decode bs)
      else case bs of
          b # cs \<Rightarrow>
            if (unat a = 194 \<or> unat a = 195) \<and> 128 \<le> unat b \<and> unat b < 192
            then map_option ((#) (char_of ((unat a - 192) * 64 + (unat b - 128)))) (utf8_decode cs)
            else None
        | [] \<Rightarrow> None)"

lemma length_utf8_encode: "length (utf8_encode s) = utf8_bytes s"
  by (induction s) (simp_all add: utf8_encode_def utf8_bytes_def utf8_char_def Let_def)

lemma unat_small_byte: "n < 256 \<Longrightarrow> unat (of_nat n :: byte) = n"
  by (simp add: unat_of_nat)

lemma utf8_decode_char: "utf8_decode (utf8_char c @ bs) = map_option ((#) c) (utf8_decode bs)"
proof -
  define n where "n = (of_char c :: nat)"
  have n: "n < 256" and c: "char_of n = c"
    by (simp_all add: n_def)
  have lead: "unat (of_nat (192 + n div 64) :: byte) = 192 + n div 64" "unat (of_nat (128 + n mod 64) :: byte) = 128 + n mod 64"
      "unat (of_nat n :: byte) = n"
    using n by (simp_all only: unat_small_byte)
  have parts: "n div 64 * 64 + n mod 64 = n"
    by (rule div_mult_mod_eq)
  have "n div 64 < 4" "128 \<le> n \<Longrightarrow> 2 \<le> n div 64"
    using n div_le_mono [of 128 n 64] by (simp_all add: less_mult_imp_div_less)
  then have "128 \<le> n \<Longrightarrow> n div 64 = 2 \<or> n div 64 = 3"
    by linarith
  then show ?thesis
    using n parts by (auto simp: utf8_char_def n_def [symmetric] c lead simp del: of_nat_add of_nat_mod)
qed

lemma utf8_roundtrip: "utf8_decode (utf8_encode s) = Some s"
proof (induction s)
  case (Cons c s)
  then show ?case
    by (simp add: utf8_encode_def utf8_decode_char)
qed (simp add: utf8_encode_def)

section \<open>Base64\<close>

definition base64_digit :: "nat \<Rightarrow> char" where
  "base64_digit n =
     (if n < 26 then char_of (65 + n) else if n < 52 then char_of (71 + n) else if n < 62 then char_of (n - 4)
      else if n = 62 then CHR ''+'' else CHR ''/'')"

definition base64_value :: "char \<Rightarrow> nat" where
  "base64_value c = (let n = of_char c :: nat in
     if n = 43 then 62 else if n = 47 then 63
     else if n \<le> 57 then n + 4 else if n \<le> 90 then n - 65 else n - 71)"

text \<open>\<open>toString("base64")\<close>\<close>

fun base64_encode :: "byte list \<Rightarrow> string" where
  "base64_encode [] = []"
| "base64_encode [a] = [base64_digit (unat a div 4), base64_digit (unat a mod 4 * 16), CHR ''='', CHR ''='']"
| "base64_encode [a, b] = [base64_digit (unat a div 4), base64_digit (unat a mod 4 * 16 + unat b div 16),
     base64_digit (unat b mod 16 * 4), CHR ''='']"
| "base64_encode (a # b # c # rest) =
     base64_digit (unat a div 4) # base64_digit (unat a mod 4 * 16 + unat b div 16)
     # base64_digit (unat b mod 16 * 4 + unat c div 64) # base64_digit (unat c mod 64) # base64_encode rest"

text \<open>\<open>Buffer.from(text, "base64")\<close> of characters of the alphabet followed by padding: bits left over are dropped.\<close>

fun base64_groups :: "nat list \<Rightarrow> byte list" where
  "base64_groups (p # q # r # s # rest) =
     of_nat (p * 4 + q div 16) # of_nat (q mod 16 * 16 + r div 4) # of_nat (r mod 4 * 64 + s) # base64_groups rest"
| "base64_groups [p, q, r] = [of_nat (p * 4 + q div 16), of_nat (q mod 16 * 16 + r div 4)]"
| "base64_groups [p, q] = [of_nat (p * 4 + q div 16)]"
| "base64_groups _ = []"

definition base64_decode :: "string \<Rightarrow> byte list" where
  "base64_decode s = base64_groups (map base64_value (takeWhile base64_char s))"

lemma base64_digit_ok:
  assumes "n < 64"
  shows "base64_value (base64_digit n) = n \<and> base64_char (base64_digit n)"
proof -
  consider "n < 26" | "26 \<le> n" "n < 52" | "52 \<le> n" "n < 62" | "n = 62" | "n = 63"
    using assms by linarith
  then show ?thesis
  proof cases
    case 3
    then obtain m where "n = m + 52" "m < 10"
      using le_Suc_ex [of 52 n] by auto
    then show ?thesis
      by (simp add: base64_digit_def base64_value_def base64_char_def Let_def)
  qed (simp_all add: base64_digit_def base64_value_def base64_char_def Let_def)
qed

lemma pad_not_base64: "\<not> base64_char (CHR ''='')"
  by code_simp

lemma byte_less: "unat (a :: byte) < 256"
  using unsigned_less [of a] by simp

lemma byte_parts: "unat (a :: byte) div 4 < 64" "unat a div 16 < 16" "unat a div 64 < 4"
  using byte_less [of a] by (simp_all add: less_mult_imp_div_less)

lemma join_parts:
  "n div 4 * 4 + (n mod 4 * 16 + m) div 16 = n" if "m < 16" for n m :: nat
  using that by (simp add: div_mult_mod_eq)

lemma join_parts2:
  "(k * 16 + n div 16) mod 16 * 16 + (n mod 16 * 4 + m) div 4 = n" if "m < 4" "n div 16 < 16" for k n m :: nat
  using that by (simp add: div_mult_mod_eq)

lemma join_parts3:
  "(k * 4 + n div 64) mod 4 * 64 + n mod 64 = n" if "n div 64 < 4" for k n :: nat
  using that by (simp add: div_mult_mod_eq)

lemma sextets_less:
  "n mod 4 * 16 + m < 64" if "m < 16" for n m :: nat
  using that mod_less_divisor [of 4 n] by linarith

lemma sextets_less2:
  "n mod 16 * 4 + m < 64" if "m < 4" for n m :: nat
  using that mod_less_divisor [of 16 n] by linarith

lemma base64_roundtrip: "base64_decode (base64_encode bs) = bs"
proof (induction bs rule: base64_encode.induct)
  case (2 a)
  then show ?case
    using sextets_less [of 0 "unat a"] join_parts [of 0 "unat a"]
    by (simp add: base64_decode_def base64_digit_ok byte_parts pad_not_base64 del: of_nat_add of_nat_mult)
next
  case (3 a b)
  then show ?case
    using sextets_less2 [of 0 "unat b"] join_parts2 [of 0 "unat b" "unat a mod 4"]
    by (simp add: base64_decode_def base64_digit_ok byte_parts sextets_less join_parts pad_not_base64 del: of_nat_add of_nat_mult)
next
  case (4 a b c rest)
  then show ?case
    by (simp add: base64_decode_def base64_digit_ok byte_parts sextets_less sextets_less2 join_parts join_parts2 join_parts3
        del: of_nat_add of_nat_mult)
qed (simp add: base64_decode_def)

section \<open>Optional fields\<close>

text \<open>A field that is spread in only when its value is truthy: a text is truthy unless empty.\<close>

definition when_text :: "string \<Rightarrow> string option \<Rightarrow> (string \<times> json) list" where
  "when_text k v = (case v of None \<Rightarrow> [] | Some t \<Rightarrow> if t = [] then [] else [(k, JStr t)])"

definition when_some :: "string \<Rightarrow> ('a \<Rightarrow> json) \<Rightarrow> 'a option \<Rightarrow> (string \<times> json) list" where
  "when_some k f v = (case v of None \<Rightarrow> [] | Some a \<Rightarrow> [(k, f a)])"

end
