(* ===== verification/HostCodec.thy ===== *)
theory HostCodec
  imports Bytes
begin

text \<open>
  The framing of the runtime host's protocol (\<open>src/roomsd/src/runtime/host/codec.ts\<close>): length-prefixed binary
  frames, the decoder that finds them in a stream of chunks, and the decoders of their payloads. Buffers are lists
  of 8-bit words, the fields words of the width the code reads.
\<close>

section \<open>Frames\<close>

record host_frame =
  hf_type :: byte
  hf_payload :: "byte list"

definition HOST_FRAME_LIMIT :: nat where
  "HOST_FRAME_LIMIT = 1048576"

definition frame :: "int \<Rightarrow> byte list \<Rightarrow> string + byte list" where
  "frame ty payload =
     (if ty < 0 \<or> ty > 255 then Inl ''invalid host frame type''
      else let len = length payload + 1 in
        if len > HOST_FRAME_LIMIT then Inl ''host frame exceeds limit''
        else Inr (writeUInt32BE (of_nat len) @ word_of_int ty # payload))"

definition HOST_PROTOCOL_VERSION :: int where "HOST_PROTOCOL_VERSION = 1"

definition HOST_TYPES :: "(string \<times> int) list" where
  "HOST_TYPES = [(''hello'', 1), (''helloAck'', 2), (''output'', 3), (''input'', 4), (''resize'', 5), (''exit'', 6),
     (''error'', 7), (''ping'', 8), (''pong'', 9), (''wipe'', 10), (''wipeAck'', 11), (''deliverMessage'', 12),
     (''deliverAck'', 13), (''signal'', 14), (''terminate'', 15), (''terminateAck'', 16), (''enroll'', 32), (''ready'', 35)]"

text \<open>What the loop of \<open>push\<close> makes of the buffer: the frames or the error, and what is left in the buffer.\<close>

function decode_frames :: "byte list \<Rightarrow> (string + host_frame list) \<times> byte list" where
  "decode_frames b =
     (if length b < 4 then (Inr [], b)
      else let n = unat (readUInt32BE b) in
        if n < 1 \<or> n > HOST_FRAME_LIMIT then (Inl ''invalid host frame length'', b)
        else if length b < n + 4 then (Inr [], b)
        else (case decode_frames (drop (n + 4) b) of
                (Inl e, r) \<Rightarrow> (Inl e, r)
              | (Inr fs, r) \<Rightarrow> (Inr (\<lparr>hf_type = b ! 4, hf_payload = take (n - 1) (drop 5 b)\<rparr> # fs), r)))"
  by pat_completeness auto
termination
  by (relation "measure length") auto

declare decode_frames.simps [simp del]

definition host_push :: "byte list \<Rightarrow> byte list \<Rightarrow> (string + host_frame list) \<times> byte list" where
  "host_push buffer chunk = decode_frames (buffer @ chunk)"

definition host_finish :: "byte list \<Rightarrow> string + unit" where
  "host_finish buffer = (if buffer \<noteq> [] then Inl ''truncated host frame'' else Inr ())"

section \<open>Payloads\<close>

record host_ready =
  hr_generation :: "32 word"
  hr_hostPid :: "32 word"
  hr_childPid :: "32 word"

definition decodeReady :: "byte list \<Rightarrow> string + host_ready" where
  "decodeReady value =
     (if length value \<noteq> 12 then Inl ''invalid host READY''
      else Inr \<lparr>hr_generation = readUInt32BE value, hr_hostPid = readUInt32BE (drop 4 value),
                hr_childPid = readUInt32BE (drop 8 value)\<rparr>)"

record host_hello_ack =
  ha_version :: "16 word"
  ha_generation :: "32 word"
  ha_replayFrom :: "64 word"
  ha_head :: "64 word"
  ha_gap :: bool

definition decodeHelloAck :: "byte list \<Rightarrow> string + host_hello_ack" where
  "decodeHelloAck value =
     (if length value \<noteq> 23 then Inl ''invalid host HELLO_ACK''
      else Inr \<lparr>ha_version = readUInt16BE value, ha_generation = readUInt32BE (drop 2 value),
                ha_replayFrom = readBigUInt64BE (drop 6 value), ha_head = readBigUInt64BE (drop 14 value),
                ha_gap = (value ! 22 = 1)\<rparr>)"

record host_output =
  ho_cursor :: "64 word"
  ho_bytes :: "byte list"

definition decodeOutput :: "byte list \<Rightarrow> string + host_output" where
  "decodeOutput value =
     (if length value < 8 then Inl ''invalid host output''
      else Inr \<lparr>ho_cursor = readBigUInt64BE value, ho_bytes = drop 8 value\<rparr>)"

definition decodeExit :: "byte list \<Rightarrow> string + int" where
  "decodeExit value = (if length value \<noteq> 4 then Inl ''invalid host exit'' else Inr (readInt32BE value))"

text \<open>\<open>utf8\<close> is the decoding of \<open>Buffer.toString("utf8")\<close>, \<open>parse\<close> is \<open>JSON.parse\<close>, \<open>None\<close> when it throws.\<close>

definition decodeError :: "(byte list \<Rightarrow> string) \<Rightarrow> byte list \<Rightarrow> string + 16 word \<times> string" where
  "decodeError utf8 value =
     (if length value < 2 then Inl ''invalid host error'' else Inr (readUInt16BE value, utf8 (drop 2 value)))"

record delivery_ack =
  da_id :: string
  da_generation :: json
  da_outcome :: string
  da_bytesWritten :: json

fun is_number :: "json option \<Rightarrow> bool" where
  "is_number (Some (JNum n)) = True"
| "is_number (Some (JFrac l)) = True"
| "is_number _ = False"

definition decodeDeliveryAck :: "(byte list \<Rightarrow> string) \<Rightarrow> (string \<Rightarrow> json option) \<Rightarrow> byte list \<Rightarrow> string + delivery_ack" where
  "decodeDeliveryAck utf8 parse payload =
     (case parse (utf8 payload) of
        None \<Rightarrow> Inl ''SyntaxError''
      | Some JNull \<Rightarrow> Inl ''TypeError''
      | Some value \<Rightarrow>
          (case (get_prop ''id'' value, get_prop ''outcome'' value) of
             (Some (JStr i), Some (JStr out)) \<Rightarrow>
               if \<not> is_number (get_prop ''generation'' value) \<or> \<not> is_number (get_prop ''bytesWritten'' value)
               then Inl ''invalid delivery acknowledgement''
               else if out \<notin> {''written'', ''duplicate'', ''uncertain''} then Inl ''invalid delivery outcome''
               else Inr \<lparr>da_id = i, da_generation = the (get_prop ''generation'' value), da_outcome = out,
                          da_bytesWritten = the (get_prop ''bytesWritten'' value)\<rparr>
           | _ \<Rightarrow> Inl ''invalid delivery acknowledgement''))"

text \<open>\<open>toString("base64").replace(/=+$/g, "")\<close>\<close>

definition unpadded_base64 :: "byte list \<Rightarrow> string" where
  "unpadded_base64 bs = rev (dropWhile (\<lambda>c. c = CHR ''='') (rev (base64_encode bs)))"

record host_enrollment =
  he_sessionId :: string
  he_channelId :: "string option"
  he_runtimeId :: string
  he_homeAuthorityId :: string
  he_generation :: int
  he_protocolVersion :: int
  he_expiresAt :: int
  he_reconnectSecret :: "byte list"
  he_sessionProof :: "byte list option"
  he_statePath :: string
  he_socketPath :: string
  he_ringBytes :: int
  he_command :: "string list option"
  he_cwd :: "string option"

definition encodeEnrollment :: "host_enrollment \<Rightarrow> string + byte list" where
  "encodeEnrollment i =
     frame (the (map_of HOST_TYPES ''enroll'')) (utf8_encode (stringify (JObj
       ([(''version'', JNum 1), (''sessionId'', JStr (he_sessionId i))] @ when_text ''channelId'' (he_channelId i) @
        [(''runtimeId'', JStr (he_runtimeId i)), (''homeAuthorityId'', JStr (he_homeAuthorityId i)),
         (''generation'', JNum (he_generation i)), (''protocolVersion'', JNum (he_protocolVersion i)),
         (''expiresAt'', JNum (he_expiresAt i)), (''reconnectSecret'', JStr (unpadded_base64 (he_reconnectSecret i)))] @
        when_some ''sessionProof'' (\<lambda>p. JStr (unpadded_base64 p)) (he_sessionProof i) @
        [(''statePath'', JStr (he_statePath i)), (''socketPath'', JStr (he_socketPath i)), (''ringBytes'', JNum (he_ringBytes i))] @
        when_some ''command'' (\<lambda>c. JArr (map JStr c)) (he_command i) @ when_text ''cwd'' (he_cwd i)))))"

text \<open>\<open>nonce\<close> and \<open>id\<close> are the two random values; \<open>Number(cursor)\<close> is exact up to 2 to the 53.\<close>

record host_hello =
  hh_sessionId :: string
  hh_runtimeId :: string
  hh_homeAuthorityId :: string
  hh_generation :: int
  hh_expiresAt :: int
  hh_secret :: "byte list"
  hh_actions :: "string list"
  hh_cursor :: int

definition encodeHello :: "string \<Rightarrow> string \<Rightarrow> host_hello \<Rightarrow> byte list" where
  "encodeHello nonce i h =
     utf8_encode (stringify (JObj
       [(''version'', JNum HOST_PROTOCOL_VERSION), (''issuer'', JStr ''roomsd''), (''audience'', JStr (hh_runtimeId h)),
        (''sessionId'', JStr (hh_sessionId h)), (''runtimeId'', JStr (hh_runtimeId h)),
        (''homeAuthorityId'', JStr (hh_homeAuthorityId h)), (''generation'', JNum (hh_generation h)),
        (''actions'', JArr (map JStr (hh_actions h))), (''expiry'', JNum (hh_expiresAt h)), (''nonce'', JStr nonce),
        (''id'', JStr i), (''cursor'', JNum (hh_cursor h)), (''secret'', JStr (base64_encode (hh_secret h)))]))"

section \<open>Decoders of streams\<close>

text \<open>
  A decoder takes what is buffered and yields the units that are complete and the rest. Its law: what decodes as
  a whole can be decoded in two parts, the second joined to the rest of the first.
\<close>

fun push_chunks :: "('b list \<Rightarrow> ('e + 'a list) \<times> 'b list) \<Rightarrow> 'b list \<Rightarrow> 'b list list \<Rightarrow> ('e + 'a list) \<times> 'b list" where
  "push_chunks decode buffer [] = (Inr [], buffer)"
| "push_chunks decode buffer (chunk # chunks) =
     (case decode (buffer @ chunk) of
        (Inl e, rest) \<Rightarrow> (Inl e, rest)
      | (Inr units, rest) \<Rightarrow>
          (case push_chunks decode rest chunks of
             (Inl e, rest1) \<Rightarrow> (Inl e, rest1)
           | (Inr later, rest1) \<Rightarrow> (Inr (units @ later), rest1)))"

locale stream_decoder =
  fixes decode :: "'b list \<Rightarrow> ('e + 'a list) \<times> 'b list"
  assumes resumes: "decode (b @ c) = (Inr fs, r) \<Longrightarrow>
    \<exists>fs1 r1 fs2. decode b = (Inr fs1, r1) \<and> decode (r1 @ c) = (Inr fs2, r) \<and> fs = fs1 @ fs2"
begin

lemma chunking:
  "decode (buffer @ concat chunks) = (Inr fs, r) \<Longrightarrow> decode buffer = (Inr [], buffer) \<Longrightarrow>
    push_chunks decode buffer chunks = (Inr fs, r)"
proof (induction chunks arbitrary: buffer fs)
  case (Cons chunk chunks)
  from Cons.prems(1) have "decode ((buffer @ chunk) @ concat chunks) = (Inr fs, r)"
    by simp
  from resumes [OF this] obtain fs1 r1 fs2 where
    first: "decode (buffer @ chunk) = (Inr fs1, r1)" and rest: "decode (r1 @ concat chunks) = (Inr fs2, r)" and fs: "fs = fs1 @ fs2"
    by blast
  from first resumes [of "buffer @ chunk" "[]" fs1 r1] have "decode r1 = (Inr [], r1)"
    by auto
  from Cons.IH [OF rest this] first fs show ?case
    by simp
qed simp

end

section \<open>Round trips\<close>

lemma decode_cases:
  "length b < 4 \<Longrightarrow> decode_frames b = (Inr [], b)"
  "\<not> length b < 4 \<Longrightarrow> n = unat (readUInt32BE b) \<Longrightarrow> n < 1 \<or> n > HOST_FRAME_LIMIT \<Longrightarrow>
    decode_frames b = (Inl ''invalid host frame length'', b)"
  "\<not> length b < 4 \<Longrightarrow> n = unat (readUInt32BE b) \<Longrightarrow> \<not> (n < 1 \<or> n > HOST_FRAME_LIMIT) \<Longrightarrow> length b < n + 4 \<Longrightarrow>
    decode_frames b = (Inr [], b)"
  "\<not> length b < 4 \<Longrightarrow> n = unat (readUInt32BE b) \<Longrightarrow> \<not> (n < 1 \<or> n > HOST_FRAME_LIMIT) \<Longrightarrow> \<not> length b < n + 4 \<Longrightarrow>
    decode_frames b = (case decode_frames (drop (n + 4) b) of
                (Inl e, r) \<Rightarrow> (Inl e, r)
              | (Inr fs, r) \<Rightarrow> (Inr (\<lparr>hf_type = b ! 4, hf_payload = take (n - 1) (drop 5 b)\<rparr> # fs), r))"
  by (subst decode_frames.simps; simp only: Let_def if_True if_False)+

interpretation host_decoder: stream_decoder decode_frames
proof
  fix b c fs r
  show "decode_frames (b @ c) = (Inr fs, r) \<Longrightarrow>
    \<exists>fs1 r1 fs2. decode_frames b = (Inr fs1, r1) \<and> decode_frames (r1 @ c) = (Inr fs2, r) \<and> fs = fs1 @ fs2"
  proof (induction b arbitrary: fs rule: decode_frames.induct)
    case (1 b)
    let ?n = "unat (readUInt32BE b)"
    show ?case
    proof (cases "length b < 4")
      case True
      with "1.prems" decode_cases(1) [OF True] show ?thesis by auto
    next
      case long: False
      then have head: "readUInt32BE (b @ c) = readUInt32BE b" and long': "\<not> length (b @ c) < 4"
        by (simp_all add: readUInt32BE_append)
      have n: "\<not> (?n < 1 \<or> ?n > HOST_FRAME_LIMIT)"
        using "1.prems" decode_cases(2) [OF long' refl] by (auto simp only: head prod.inject sum.distinct)
      show ?thesis
      proof (cases "length b < ?n + 4")
      case True
      with "1.prems" decode_cases(3) [OF long refl n True] show ?thesis by auto
    next
      case False
      then have enough: "\<not> length (b @ c) < ?n + 4"
        by simp
      have parts: "take (?n - 1) (drop 5 (b @ c)) = take (?n - 1) (drop 5 b)" "(b @ c) ! 4 = b ! 4" "drop (?n + 4) (b @ c) = drop (?n + 4) b @ c"
        using False long n by (simp_all add: nth_append)
      let ?f = "\<lparr>hf_type = b ! 4, hf_payload = take (?n - 1) (drop 5 b)\<rparr>"
      have "decode_frames (b @ c) = (case decode_frames (drop (?n + 4) b @ c) of
          (Inl e, r) \<Rightarrow> (Inl e, r) | (Inr fs, r) \<Rightarrow> (Inr (?f # fs), r))"
        using decode_cases(4) [OF long' refl, unfolded head, OF n enough] by (simp only: parts)
      with "1.prems" obtain fs' where fs': "decode_frames (drop (?n + 4) b @ c) = (Inr fs', r)" "fs = ?f # fs'"
        by (auto split: prod.splits sum.splits)
      obtain fs1 r1 fs2 where
        rest: "decode_frames (drop (?n + 4) b) = (Inr fs1, r1)" "decode_frames (r1 @ c) = (Inr fs2, r)" "fs' = fs1 @ fs2"
        using "1.IH" [OF long refl n False fs'(1)] by blast
      have "decode_frames b = (Inr (?f # fs1), r1)"
        using decode_cases(4) [OF long refl n False] rest(1) by (simp only: prod.case sum.case)
      with rest fs'(2) show ?thesis by auto
    qed
    qed
  qed
qed

lemma decode_encoded:
  assumes "frame (uint (hf_type f)) (hf_payload f) = Inr enc"
  shows "decode_frames (enc @ rest) = (case decode_frames rest of
      (Inl e, r) \<Rightarrow> (Inl e, r) | (Inr fs, r) \<Rightarrow> (Inr (f # fs), r))"
proof -
  define len where "len = length (hf_payload f) + 1"
  have enc: "enc = writeUInt32BE (of_nat len) @ hf_type f # hf_payload f" and small: "len \<le> HOST_FRAME_LIMIT"
    using assms by (auto simp: frame_def Let_def len_def split: if_splits)
  have n: "len = unat (readUInt32BE (enc @ rest))"
    using small by (simp add: enc read_write_32 unat_of_nat HOST_FRAME_LIMIT_def)
  have size: "\<not> length (enc @ rest) < 4" "\<not> (len < 1 \<or> len > HOST_FRAME_LIMIT)" "\<not> length (enc @ rest) < len + 4"
    using small by (simp_all add: enc len_def)
  have parts: "(enc @ rest) ! 4 = hf_type f" "take (len - 1) (drop 5 (enc @ rest)) = hf_payload f" "drop (len + 4) (enc @ rest) = rest"
    by (simp_all add: enc nth_append len_def)
  have "\<lparr>hf_type = hf_type f, hf_payload = hf_payload f\<rparr> = f"
    by simp
  then show ?thesis
    by (simp only: decode_cases(4) [OF size(1) n size(2,3)] parts)
qed

lemma decode_nothing: "decode_frames [] = (Inr [], [])"
  by (simp add: decode_frames.simps)

lemma decode_all:
  "map (\<lambda>f. frame (uint (hf_type f)) (hf_payload f)) fs = map Inr encs \<Longrightarrow> decode_frames (concat encs) = (Inr fs, [])"
proof (induction fs arbitrary: encs)
  case (Cons f fs)
  then obtain enc others where "encs = enc # others" "frame (uint (hf_type f)) (hf_payload f) = Inr enc"
      "map (\<lambda>f. frame (uint (hf_type f)) (hf_payload f)) fs = map Inr others"
    by (cases encs) auto
  with Cons.IH show ?case
    by (simp add: decode_encoded)
qed (simp add: decode_nothing)

text \<open>
  Frames survive the stream to the runtime host: whatever frames are encoded one after the other and however
  the bytes are cut into chunks, the decoder yields exactly those frames in order, types and payloads included,
  and nothing is left when the stream ends.\<close>

theorem host_stream_roundtrip:
  assumes "map (\<lambda>f. frame (uint (hf_type f)) (hf_payload f)) fs = map Inr encs" and "concat chunks = concat encs"
  shows "\<exists>rest. push_chunks decode_frames [] chunks = (Inr fs, rest) \<and> host_finish rest = Inr ()"
  using host_decoder.chunking [of "[]" chunks fs "[]"] decode_all [OF assms(1)] decode_nothing assms(2) by (simp add: host_finish_def)

lemma host_stream_roundtrip_witness:
  "\<exists>rest. push_chunks decode_frames [] [[0, 0], [0, 3, 4, 104], [105, 0, 0, 0, 1], [8]] =
     (Inr [\<lparr>hf_type = 4, hf_payload = [104, 105]\<rparr>, \<lparr>hf_type = 8, hf_payload = []\<rparr>], rest) \<and> host_finish rest = Inr ()"
  by (rule host_stream_roundtrip [where encs = "[[0, 0, 0, 3, 4, 104, 105], [0, 0, 0, 1, 8]]"])
    (simp_all add: frame_def HOST_FRAME_LIMIT_def writeUInt32BE_def)

end
