(* ===== verification/Admissions.thy ===== *)
theory Admissions
  imports Registry
begin

text \<open>
  The admission of federated peers to a channel (\<open>grantFederatedChannelAdmission\<close> and its companions in
  \<open>src/roomsd/src/storage/repository.ts\<close>): the operator who owns a channel grants and revokes it.
\<close>

definition admission_row :: "string \<Rightarrow> string \<Rightarrow> admission \<Rightarrow> bool" where
  "admission_row channelId peer a \<longleftrightarrow> ad_channelId a = channelId \<and> ad_peerAuthorityId a = peer"

definition find_admission :: "string \<Rightarrow> string \<Rightarrow> db \<Rightarrow> admission option" where
  "find_admission channelId peer d = find (admission_row channelId peer) (admissions d)"

definition isFederatedPeerAdmitted :: "string \<Rightarrow> string \<Rightarrow> db \<Rightarrow> bool" where
  "isFederatedPeerAdmitted channelId peer d =
     exists_row (\<lambda>a. admission_row channelId peer a \<and> ad_revokedAt a = None) (admissions d)"

definition assertFederatedAdmissionOwner :: "string \<Rightarrow> string \<Rightarrow> bool \<Rightarrow> db \<Rightarrow> unit result" where
  "assertFederatedAdmissionOwner channelId actorSessionId requireActiveChannel d =
     (case currentChannel channelId d of
        None \<Rightarrow> throw ''channelNotFound''
      | Some channel \<Rightarrow>
          if requireActiveChannel \<and> c_lifecycleState channel \<noteq> Active then throw ''channelClosed''
          else (case currentSession actorSessionId d of
            None \<Rightarrow> throw ''ownerAuthorizationRequired''
          | Some actor \<Rightarrow>
              if s_endedAt actor \<noteq> None \<or> s_role actor \<noteq> Some Operator \<or> c_ownerOperatorSessionId channel \<noteq> Some actorSessionId
              then throw ''ownerAuthorizationRequired'' else Inr ()))"

text \<open>\<open>INSERT ... ON CONFLICT DO UPDATE ... WHERE revoked_at IS NOT NULL\<close>\<close>

definition upsert_admission :: "string \<Rightarrow> string \<Rightarrow> string \<Rightarrow> time \<Rightarrow> db \<Rightarrow> db" where
  "upsert_admission channelId peer actorSessionId grantedAt d =
     (if exists_row (admission_row channelId peer) (admissions d)
      then d\<lparr>admissions := update_where (\<lambda>a. admission_row channelId peer a \<and> ad_revokedAt a \<noteq> None)
        (\<lambda>a. a\<lparr>ad_grantedBySessionId := actorSessionId, ad_grantedAt := grantedAt, ad_revokedBySessionId := None,
          ad_revokedAt := None\<rparr>) (admissions d)\<rparr>
      else d\<lparr>admissions := admissions d @ [\<lparr>ad_channelId = channelId, ad_peerAuthorityId = peer,
        ad_grantedBySessionId = actorSessionId, ad_grantedAt = grantedAt, ad_revokedBySessionId = None, ad_revokedAt = None\<rparr>]\<rparr>)"

definition grantFederatedChannelAdmission :: "string \<Rightarrow> string \<Rightarrow> string \<Rightarrow> (repo, admission) operation" where
  "grantFederatedChannelAdmission channelId peer actorSessionId = writeTx (\<lambda>s.
     case assertFederatedAdmissionOwner channelId actorSessionId True (db s) of
       Inl e \<Rightarrow> (Inl e, s)
     | Inr _ \<Rightarrow>
         let s1 = set_db (upsert_admission channelId peer actorSessionId (now s)) (tick s) in
         (Inr (the (find_admission channelId peer (db s1))), s1))"

definition revoke_admission :: "string \<Rightarrow> string \<Rightarrow> string \<Rightarrow> time \<Rightarrow> db \<Rightarrow> db" where
  "revoke_admission channelId peer actorSessionId revokedAt d =
     d\<lparr>admissions := update_where (\<lambda>a. admission_row channelId peer a \<and> ad_revokedAt a = None)
       (\<lambda>a. a\<lparr>ad_revokedBySessionId := Some actorSessionId, ad_revokedAt := Some revokedAt\<rparr>) (admissions d)\<rparr>"

definition revokeFederatedChannelAdmission :: "string \<Rightarrow> string \<Rightarrow> string \<Rightarrow> (repo, admission) operation" where
  "revokeFederatedChannelAdmission channelId peer actorSessionId = writeTx (\<lambda>s.
     case assertFederatedAdmissionOwner channelId actorSessionId False (db s) of
       Inl e \<Rightarrow> (Inl e, s)
     | Inr _ \<Rightarrow>
         (case find_admission channelId peer (db s) of
            None \<Rightarrow> (throw ''federationAdmissionNotFound'', s)
          | Some existing \<Rightarrow>
              let s1 = (if ad_revokedAt existing = None
                    then set_db (revoke_admission channelId peer actorSessionId (now s)) (tick s) else s) in
              (Inr (the (find_admission channelId peer (db s1))), s1)))"

definition listFederatedChannelAdmissions :: "string \<Rightarrow> string \<Rightarrow> db \<Rightarrow> admission list result" where
  "listFederatedChannelAdmissions channelId actorSessionId d =
     (case assertFederatedAdmissionOwner channelId actorSessionId False d of
        Inl e \<Rightarrow> Inl e
      | Inr _ \<Rightarrow> Inr (sort_key ad_peerAuthorityId (filter (\<lambda>a. ad_channelId a = channelId) (admissions d))))"

section \<open>Who is admitted after what\<close>

lemma admitted_simps [simp]:
  "isFederatedPeerAdmitted c p (d\<lparr>sessions := a\<rparr>) = isFederatedPeerAdmitted c p d"
  "isFederatedPeerAdmitted c p (d\<lparr>memberships := m\<rparr>) = isFederatedPeerAdmitted c p d"
  by (simp_all add: isFederatedPeerAdmitted_def)

lemma exists_row_update_where: "exists_row Q (update_where P f rows) = exists_row (\<lambda>r. Q (if P r then f r else r)) rows"
  by (induction rows) simp_all

lemma exists_row_append: "exists_row Q (xs @ ys) \<longleftrightarrow> exists_row Q xs \<or> exists_row Q ys"
  by (auto simp: exists_row_iff)

lemma other_admission:
  assumes "\<not> (c = channelId \<and> p = peer)"
    and "\<And>r. ad_channelId (f r) = ad_channelId r \<and> ad_peerAuthorityId (f r) = ad_peerAuthorityId r"
  shows "exists_row (\<lambda>a. admission_row c p a \<and> ad_revokedAt a = None)
      (update_where (\<lambda>a. admission_row channelId peer a \<and> R a) f rows) =
    exists_row (\<lambda>a. admission_row c p a \<and> ad_revokedAt a = None) rows"
  using assms by (induction rows) (auto simp: admission_row_def)

lemma admitted_upsert:
  "isFederatedPeerAdmitted c p (upsert_admission channelId peer actor t d) \<longleftrightarrow>
     (c = channelId \<and> p = peer) \<or> isFederatedPeerAdmitted c p d"
proof (cases "exists_row (admission_row channelId peer) (admissions d)")
  case True
  then obtain a where a: "a \<in> set (admissions d)" "ad_channelId a = channelId" "ad_peerAuthorityId a = peer"
    by (auto simp: exists_row_iff admission_row_def)
  show ?thesis
  proof (cases "c = channelId \<and> p = peer")
    case True
    have "exists_row (\<lambda>r. admission_row c p (if admission_row channelId peer r \<and> ad_revokedAt r \<noteq> None then f r else r) \<and>
        ad_revokedAt (if admission_row channelId peer r \<and> ad_revokedAt r \<noteq> None then f r else r) = None) (admissions d)"
      if "\<And>r. admission_row c p (f r) = admission_row c p r" "\<And>r. ad_revokedAt (f r) = None" for f
      using a True that by (auto simp: exists_row_iff admission_row_def intro!: bexI [of _ a])
    with True \<open>exists_row (admission_row channelId peer) (admissions d)\<close> show ?thesis
      by (simp add: isFederatedPeerAdmitted_def upsert_admission_def exists_row_update_where admission_row_def)
  next
    case False
    with True show ?thesis
      using other_admission [OF False] by (auto simp: isFederatedPeerAdmitted_def upsert_admission_def)
  qed
next
  case False
  then show ?thesis
    by (auto simp: isFederatedPeerAdmitted_def upsert_admission_def exists_row_append admission_row_def)
qed

lemma admitted_revoke:
  "isFederatedPeerAdmitted c p (revoke_admission channelId peer actor t d) \<longleftrightarrow>
     isFederatedPeerAdmitted c p d \<and> \<not> (c = channelId \<and> p = peer)"
proof (cases "c = channelId \<and> p = peer")
  case True
  then show ?thesis
    by (simp add: isFederatedPeerAdmitted_def revoke_admission_def exists_row_update_where)
      (auto simp: exists_row_iff admission_row_def split: if_splits)
next
  case False
  then show ?thesis
    using other_admission [OF False] by (simp add: isFederatedPeerAdmitted_def revoke_admission_def)
qed

lemma no_admission: "find_admission c p d = None \<Longrightarrow> \<not> isFederatedPeerAdmitted c p d"
  by (auto simp: find_admission_def isFederatedPeerAdmitted_def exists_row_iff find_None_iff)

text \<open>One row for each channel and peer, the primary key of the table.\<close>

definition admissions_keyed :: "db \<Rightarrow> bool" where
  "admissions_keyed d \<longleftrightarrow> distinct (map (\<lambda>a. (ad_channelId a, ad_peerAuthorityId a)) (admissions d))"

lemma revoked_not_admitted:
  assumes "admissions_keyed d" and "find_admission c p d = Some a" and "ad_revokedAt a \<noteq> None"
  shows "\<not> isFederatedPeerAdmitted c p d"
proof -
  have a: "a \<in> set (admissions d)" "admission_row c p a"
    using assms(2) by (auto simp: find_admission_def find_Some_iff)
  show ?thesis
  proof
    assume "isFederatedPeerAdmitted c p d"
    then obtain b where "b \<in> set (admissions d)" "admission_row c p b" "ad_revokedAt b = None"
      by (auto simp: isFederatedPeerAdmitted_def exists_row_iff)
    with a have "a = b"
      using distinct_keyD [OF assms(1) [unfolded admissions_keyed_def]] by (simp add: admission_row_def)
    with assms(3) \<open>ad_revokedAt b = None\<close> show False by simp
  qed
qed

lemma grant_admits:
  assumes "idle s" and "grantFederatedChannelAdmission channelId peer actor s = (Inr a, s1)"
  shows "isFederatedPeerAdmitted c p (db s1) \<longleftrightarrow> (c = channelId \<and> p = peer) \<or> isFederatedPeerAdmitted c p (db s)"
    and "assertFederatedAdmissionOwner channelId actor True (db s) = Inr ()"
  using assms by (auto simp: grantFederatedChannelAdmission_def writeTx_Inr Let_def admitted_upsert split: sum.splits)

lemma revoke_expels:
  assumes "idle s" and "admissions_keyed (db s)" and "revokeFederatedChannelAdmission channelId peer actor s = (Inr a, s1)"
  shows "isFederatedPeerAdmitted c p (db s1) \<longleftrightarrow> isFederatedPeerAdmitted c p (db s) \<and> \<not> (c = channelId \<and> p = peer)"
    and "assertFederatedAdmissionOwner channelId actor False (db s) = Inr ()"
  using assms
  by (auto simp: revokeFederatedChannelAdmission_def writeTx_Inr Let_def admitted_revoke dest: revoked_not_admitted
      split: sum.splits option.splits if_splits)

end
