(* ===== verification/ChannelResult.thy ===== *)
theory ChannelResult
  imports RelayConnection Bytes
begin

text \<open>
  Results of channel commands in ordered chunks (\<open>src/roomsd/src/federation/channel-result.ts\<close>): the sender that
  cuts the JSON text of a result into frames, and the assembler that joins the chunks of several requests.
\<close>

section \<open>Sending\<close>

definition RESULT_CHUNK_BYTES :: nat where "RESULT_CHUNK_BYTES = 4096"
definition MAX_RESULT_BYTES :: nat where "MAX_RESULT_BYTES = 128 * 1024"

definition chunk_count :: "byte list \<Rightarrow> nat" where
  "chunk_count bytes = max 1 ((length bytes + RESULT_CHUNK_BYTES - 1) div RESULT_CHUNK_BYTES)"

definition result_frame :: "string \<Rightarrow> bool \<Rightarrow> byte list \<Rightarrow> nat \<Rightarrow> relay_body" where
  "result_frame requestId ok bytes i =
     ChannelResult requestId ok (int i) (i = chunk_count bytes - 1)
       (base64_encode (take RESULT_CHUNK_BYTES (drop (i * RESULT_CHUNK_BYTES) bytes)))"

definition result_frames :: "string \<Rightarrow> bool \<Rightarrow> byte list \<Rightarrow> relay_body list" where
  "result_frames requestId ok bytes = map (result_frame requestId ok bytes) [0..<chunk_count bytes]"

text \<open>\<open>JSON.stringify\<close> of \<open>undefined\<close> is no text, so \<open>Buffer.from\<close> throws.\<close>

definition result_calls :: "string \<Rightarrow> bool \<Rightarrow> json option \<Rightarrow> app_call list checked" where
  "result_calls requestId ok value =
     (case value of
        None \<Rightarrow> Inl ''The first argument must be of type string or an instance of Buffer''
      | Some v \<Rightarrow>
          let bytes = utf8_encode (stringify v) in
          if length bytes > MAX_RESULT_BYTES then Inl (''channel result exceeds '' @ digits MAX_RESULT_BYTES @ '' bytes'')
          else Inr (map SendBody (result_frames requestId ok bytes)))"

definition sendChannelResult :: "relay_config \<Rightarrow> world \<Rightarrow> string \<Rightarrow> bool \<Rightarrow> json option \<Rightarrow> unit conn_op" where
  "sendChannelResult cfg w requestId ok value =
     seq (lifted (result_calls requestId ok value)) (\<lambda>calls. app_calls cfg w calls)"

section \<open>Assembling\<close>

record assembly =
  as_ok :: bool
  as_nextChunk :: nat
  as_bytes :: nat
  as_chunks :: "byte list list"

type_synonym assembler = "string \<rightharpoonup> assembly"

text \<open>\<open>parse\<close> is \<open>JSON.parse\<close>. A text outside the model's alphabet is refused where the code would keep it.\<close>

definition parse_result :: "(string \<Rightarrow> json option) \<Rightarrow> byte list \<Rightarrow> json checked" where
  "parse_result parse bytes =
     (case utf8_decode bytes of
        None \<Rightarrow> Inl ''code unit outside the alphabet''
      | Some t \<Rightarrow> (case parse t of None \<Rightarrow> Inl ''SyntaxError'' | Some v \<Rightarrow> Inr v))"

definition assembler_accept ::
    "(string \<Rightarrow> json option) \<Rightarrow> relay_body \<Rightarrow> (assembler, (bool \<times> json) option) effect" where
  "assembler_accept parse body pending =
     (case body of
        ChannelResult requestId ok chunkIndex final payload \<Rightarrow>
          let state = (case pending requestId of
                Some a \<Rightarrow> a | None \<Rightarrow> \<lparr>as_ok = ok, as_nextChunk = 0, as_bytes = 0, as_chunks = []\<rparr>);
              cleared = pending(requestId := None) in
          if as_ok state \<noteq> ok \<or> chunkIndex \<noteq> int (as_nextChunk state)
          then (Inl ''invalid channel result chunk sequence'', cleared)
          else
            let chunk = base64_decode payload;
                state1 = state\<lparr>as_bytes := as_bytes state + length chunk\<rparr> in
            if as_bytes state1 > MAX_RESULT_BYTES then (Inl ''channel result exceeds reassembly bound'', cleared)
            else
              let state2 = state1\<lparr>as_chunks := as_chunks state1 @ [chunk], as_nextChunk := as_nextChunk state1 + 1\<rparr> in
              if \<not> final then (Inr None, pending(requestId \<mapsto> state2))
              else (case parse_result parse (concat (as_chunks state2)) of
                      Inl e \<Rightarrow> (Inl e, cleared)
                    | Inr v \<Rightarrow> (Inr (Some (as_ok state2, v)), cleared))
      | _ \<Rightarrow> (Inr None, pending))"

definition assembler_clear :: "string option \<Rightarrow> assembler \<Rightarrow> assembler" where
  "assembler_clear requestId pending =
     (case requestId of
        Some r \<Rightarrow> if r = [] then Map.empty else pending(r := None)
      | None \<Rightarrow> Map.empty)"

section \<open>Chunks\<close>

lemma chunk_count_bound: "length bytes \<le> chunk_count bytes * RESULT_CHUNK_BYTES"
proof -
  have "length bytes \<le> (length bytes + 4095) div 4096 * 4096"
    using div_mult_mod_eq [of "length bytes + 4095" 4096] mod_less_divisor [of 4096 "length bytes + 4095"] by linarith
  also have "\<dots> \<le> chunk_count bytes * RESULT_CHUNK_BYTES"
    by (simp add: chunk_count_def RESULT_CHUNK_BYTES_def)
  finally show ?thesis .
qed

lemma chunk_count_pos: "0 < chunk_count bytes"
  by (simp add: chunk_count_def)

lemma concat_chunks:
  "concat (map (\<lambda>i. take k (drop (i * k) xs)) [0..<n]) = take (n * k) xs"
proof (induction n)
  case (Suc n)
  have "take (Suc n * k) xs = take (n * k) xs @ take k (drop (n * k) xs)"
    using take_add [of "n * k" k xs] by (simp add: add.commute)
  with Suc show ?case by simp
qed simp

definition chunks_upto :: "byte list \<Rightarrow> nat \<Rightarrow> byte list list" where
  "chunks_upto bytes n = map (\<lambda>i. take RESULT_CHUNK_BYTES (drop (i * RESULT_CHUNK_BYTES) bytes)) [0..<n]"

lemma chunks_upto_Suc:
  "chunks_upto bytes (Suc n) = chunks_upto bytes n @ [take RESULT_CHUNK_BYTES (drop (n * RESULT_CHUNK_BYTES) bytes)]"
  by (simp add: chunks_upto_def)

lemma concat_chunks_upto: "concat (chunks_upto bytes n) = take (n * RESULT_CHUNK_BYTES) bytes"
  by (simp add: chunks_upto_def concat_chunks)

lemma all_chunks: "concat (chunks_upto bytes (chunk_count bytes)) = bytes"
  using chunk_count_bound by (simp add: concat_chunks_upto)

text \<open>What the assembler holds of a request after the first \<open>n\<close> of its frames.\<close>

definition held :: "bool \<Rightarrow> byte list \<Rightarrow> nat \<Rightarrow> assembly option" where
  "held ok bytes n =
     (if 0 < n \<and> n < chunk_count bytes
      then Some \<lparr>as_ok = ok, as_nextChunk = n, as_bytes = length (concat (chunks_upto bytes n)), as_chunks = chunks_upto bytes n\<rparr>
      else None)"

lemma parse_sent:
  assumes "parse (stringify v) = Some v" and "bytes = utf8_encode (stringify v)"
  shows "parse_result parse bytes = Inr v"
  using assms by (simp add: parse_result_def utf8_roundtrip)

lemma accept_frame:
  assumes pending: "pending requestId = held ok bytes n" and n: "n < chunk_count bytes"
    and small: "length bytes \<le> MAX_RESULT_BYTES" and parsed: "parse_result parse bytes = Inr v"
  shows "assembler_accept parse (result_frame requestId ok bytes n) pending =
    (if Suc n = chunk_count bytes then (Inr (Some (ok, v)), pending(requestId := None))
     else (Inr None, pending(requestId := held ok bytes (Suc n))))"
proof -
  define chunk where "chunk = take RESULT_CHUNK_BYTES (drop (n * RESULT_CHUNK_BYTES) bytes)"
  have state: "(case pending requestId of Some a \<Rightarrow> a | None \<Rightarrow> \<lparr>as_ok = ok, as_nextChunk = 0, as_bytes = 0, as_chunks = []\<rparr>) =
      \<lparr>as_ok = ok, as_nextChunk = n, as_bytes = length (concat (chunks_upto bytes n)), as_chunks = chunks_upto bytes n\<rparr>"
    using n by (auto simp: pending held_def chunks_upto_def)
  have grown: "length (concat (chunks_upto bytes n)) + length chunk = length (concat (chunks_upto bytes (Suc n)))"
      "chunks_upto bytes n @ [chunk] = chunks_upto bytes (Suc n)"
    by (simp_all add: chunks_upto_Suc chunk_def)
  have "\<not> length (concat (chunks_upto bytes (Suc n))) > MAX_RESULT_BYTES"
    using small by (simp add: concat_chunks_upto)
  moreover have "(n = chunk_count bytes - 1) = (Suc n = chunk_count bytes)"
    using n by auto
  moreover have "Suc n = chunk_count bytes \<Longrightarrow> parse_result parse (concat (chunks_upto bytes (Suc n))) = Inr v"
    using parsed all_chunks by metis
  moreover have "Suc n \<noteq> chunk_count bytes \<Longrightarrow> held ok bytes (Suc n) = Some \<lparr>as_ok = ok, as_nextChunk = Suc n,
      as_bytes = length (concat (chunks_upto bytes (Suc n))), as_chunks = chunks_upto bytes (Suc n)\<rparr>"
    using n by (simp add: held_def)
  ultimately show ?thesis
    unfolding assembler_accept_def result_frame_def relay_body.case Let_def state base64_roundtrip chunk_def [symmetric]
    by (simp add: grown)
qed

section \<open>Interleaved results\<close>

text \<open>The frames a connection receives, in order; the assembler's results with their requests.\<close>

definition about :: "string \<Rightarrow> relay_body \<Rightarrow> bool" where
  "about requestId body = (case body of ChannelResult r _ _ _ _ \<Rightarrow> r = requestId | _ \<Rightarrow> False)"

fun accept_all :: "(string \<Rightarrow> json option) \<Rightarrow> relay_body list \<Rightarrow> (assembler, (string \<times> bool \<times> json) list) effect" where
  "accept_all parse [] = give []"
| "accept_all parse (body # rest) =
     seq (assembler_accept parse body) (\<lambda>r.
     seq (accept_all parse rest) (\<lambda>rs.
     give (case (r, body) of (Some a, ChannelResult requestId _ _ _ _) \<Rightarrow> (requestId, a) # rs | _ \<Rightarrow> rs)))"

abbreviation result_bytes :: "json \<Rightarrow> byte list" where
  "result_bytes v \<equiv> utf8_encode (stringify v)"

text \<open>The progress \<open>k\<close> of each request: what the assembler holds of it and which of its frames are still to come.\<close>

definition progress :: "(string \<rightharpoonup> bool \<times> json) \<Rightarrow> (string \<Rightarrow> nat) \<Rightarrow> assembler \<Rightarrow> relay_body list \<Rightarrow> bool" where
  "progress results k pending stream \<longleftrightarrow>
     (\<forall>r. results r = None \<longrightarrow> pending r = None \<and> filter (about r) stream = []) \<and>
     (\<forall>r ok v. results r = Some (ok, v) \<longrightarrow> pending r = held ok (result_bytes v) (k r) \<and>
        filter (about r) stream = map (result_frame r ok (result_bytes v)) [k r..<chunk_count (result_bytes v)]) \<and>
     list_all (\<lambda>b. \<exists>r. about r b) stream"

lemma progressD:
  assumes "progress results k pending stream"
  shows "results r = None \<Longrightarrow> pending r = None" "results r = None \<Longrightarrow> filter (about r) stream = []"
    "results r = Some (ok, v) \<Longrightarrow> pending r = held ok (result_bytes v) (k r)"
    "results r = Some (ok, v) \<Longrightarrow>
      filter (about r) stream = map (result_frame r ok (result_bytes v)) [k r..<chunk_count (result_bytes v)]"
    "b \<in> set stream \<Longrightarrow> \<exists>r. about r b"
  using assms by (simp_all add: progress_def list_all_iff)

lemma about_result_frame [simp]: "about r (result_frame q ok bytes n) \<longleftrightarrow> q = r"
  by (simp add: about_def result_frame_def)

lemma aboutD: "about r b \<Longrightarrow> \<exists>ok i f p. b = ChannelResult r ok i f p"
  by (cases b) (simp_all add: about_def)

lemma held_pos: "chunk_count bytes \<le> n \<Longrightarrow> held ok bytes n = None"
  by (simp add: held_def)

lemma progress_step:
  assumes progress: "progress results k pending (b # stream)"
    and sendable: "\<And>r ok v. results r = Some (ok, v) \<Longrightarrow>
      parse (stringify v) = Some v \<and> length (result_bytes v) \<le> MAX_RESULT_BYTES"
  shows "\<exists>r ok v pending'. results r = Some (ok, v) \<and> about r b \<and> k r < chunk_count (result_bytes v) \<and>
    assembler_accept parse b pending = (Inr (if Suc (k r) = chunk_count (result_bytes v) then Some (ok, v) else None), pending') \<and>
    progress results (k(r := Suc (k r))) pending' stream"
proof -
  obtain r where r: "about r b"
    using progressD(5) [OF progress, of b] by auto
  obtain ok v where v: "results r = Some (ok, v)"
    using progressD(2) [OF progress, of r] r by fastforce
  let ?B = "result_bytes v"
  note frames = progressD(4) [OF progress v]
  from frames r have k: "k r < chunk_count ?B"
    by (cases "k r < chunk_count ?B") simp_all
  from frames r k have b: "b = result_frame r ok ?B (k r)"
    and rest: "filter (about r) stream = map (result_frame r ok ?B) [Suc (k r)..<chunk_count ?B]"
    by (simp_all add: upt_conv_Cons)
  let ?p = "if Suc (k r) = chunk_count ?B then pending(r := None) else pending(r := held ok ?B (Suc (k r)))"
  have step: "assembler_accept parse b pending =
      (Inr (if Suc (k r) = chunk_count ?B then Some (ok, v) else None), ?p)"
    using accept_frame [of pending r ok ?B "k r" parse v, OF progressD(3) [OF progress v] k] sendable [OF v] parse_sent [of parse v ?B]
    by (simp add: b)
  have other: "q \<noteq> r \<Longrightarrow> filter (about q) stream = filter (about q) (b # stream)" for q
    by (simp add: b)
  have "progress results (k(r := Suc (k r))) ?p stream"
    unfolding progress_def
  proof (intro conjI allI impI)
    fix q ok' v'
    assume q: "results q = Some (ok', v')"
    show "?p q = held ok' (result_bytes v') ((k(r := Suc (k r))) q)"
      using q v progressD(3) [OF progress q] by (cases "q = r") (simp_all add: held_pos)
    show "filter (about q) stream = map (result_frame q ok' (result_bytes v')) [(k(r := Suc (k r))) q..<chunk_count (result_bytes v')]"
      using q v rest other [of q] progressD(4) [OF progress q] by (cases "q = r") simp_all
  next
    fix q
    assume q: "results q = None"
    with v have "q \<noteq> r" by auto
    with progressD(1,2) [OF progress q] other [of q] show "?p q = None" "filter (about q) stream = []"
      by simp_all
  qed (use progress in \<open>simp add: progress_def\<close>)
  with v r k step show ?thesis
    by blast
qed

lemma progress_done:
  assumes progress: "progress results k pending []"
  shows "pending = Map.empty" "results r = Some (ok, v) \<Longrightarrow> chunk_count (result_bytes v) \<le> k r"
proof -
  have done_all: "chunk_count (result_bytes v) \<le> k r" if "results r = Some (ok, v)" for r ok v
    using progressD(4) [OF progress that] chunk_count_pos [of "result_bytes v"] by auto
  show "pending = Map.empty"
  proof
    fix r
    show "pending r = None"
    proof (cases "results r")
      case None
      then show ?thesis by (rule progressD(1) [OF progress])
    next
      case (Some a)
      then show ?thesis
        using progressD(3) [OF progress, of r "fst a" "snd a"] done_all [of r "fst a" "snd a"] by (simp add: held_pos)
    qed
  qed
  show "results r = Some (ok, v) \<Longrightarrow> chunk_count (result_bytes v) \<le> k r"
    by (rule done_all)
qed

lemma accept_all_progress:
  assumes "progress results k pending stream"
    and "\<And>r ok v. results r = Some (ok, v) \<Longrightarrow> parse (stringify v) = Some v \<and> length (result_bytes v) \<le> MAX_RESULT_BYTES"
  shows "\<exists>rs. accept_all parse stream pending = (Inr rs, Map.empty) \<and> distinct (map fst rs) \<and>
    set rs = {(r, ok, v) |r ok v. results r = Some (ok, v) \<and> k r < chunk_count (result_bytes v)}"
  using assms(1)
proof (induction stream arbitrary: k pending)
  case Nil
  show ?case
    using progress_done [OF Nil] by (auto simp: give_def not_less)
next
  case (Cons b stream)
  obtain r ok v pending' where step: "results r = Some (ok, v)" "about r b" "k r < chunk_count (result_bytes v)"
      "assembler_accept parse b pending = (Inr (if Suc (k r) = chunk_count (result_bytes v) then Some (ok, v) else None), pending')"
      "progress results (k(r := Suc (k r))) pending' stream"
    using progress_step [of results k pending b stream parse] Cons.prems assms(2) by blast
  obtain rs where rs: "accept_all parse stream pending' = (Inr rs, Map.empty)" "distinct (map fst rs)"
      "set rs = {(q, ok, v) |q ok v. results q = Some (ok, v) \<and> (k(r := Suc (k r))) q < chunk_count (result_bytes v)}"
    using Cons.IH [OF step(5)] by blast
  obtain i f p ok' where b: "b = ChannelResult r ok' i f p"
    using aboutD [OF step(2)] by blast
  let ?rs = "if Suc (k r) = chunk_count (result_bytes v) then (r, ok, v) # rs else rs"
  have "accept_all parse (b # stream) pending = (Inr ?rs, Map.empty)"
    using step(4) rs(1) by (simp add: seq_def give_def b)
  moreover have "distinct (map fst ?rs)"
    using rs(2,3) step(1) by auto
  moreover have "(q, a, u) \<in> set ?rs \<longleftrightarrow> results q = Some (a, u) \<and> k q < chunk_count (result_bytes u)" for q a u
  proof (cases "q = r")
    case True
    with step(1,3) show ?thesis by (simp add: rs(3)) fastforce
  next
    case False
    then show ?thesis by (simp add: rs(3))
  qed
  then have "set ?rs = {(r, ok, v) |r ok v. results r = Some (ok, v) \<and> k r < chunk_count (result_bytes v)}"
    by (simp only: set_eq_iff mem_Collect_eq split_paired_All) blast
  ultimately show ?case
    by (intro exI [of _ ?rs] conjI)
qed

text \<open>
  C26. Results of channel commands survive their transport in chunks. However the frames of any number of results,
  each of at most 128 KiB of JSON text, are interleaved on a connection, the assembler accepts every frame, yields
  each result exactly once, under its own request and with its own value, and holds nothing afterwards.\<close>

theorem channel_results_reassembled:
  assumes "distinct (map fst results)"
    and "\<forall>(r, ok, v) \<in> set results. parse (stringify v) = Some v \<and>
      result_calls r ok (Some v) = Inr (map SendBody (filter (about r) stream))"
    and "\<forall>b \<in> set stream. \<exists>r \<in> fst ` set results. about r b"
  shows "\<exists>rs. accept_all parse stream Map.empty = (Inr rs, Map.empty) \<and> distinct (map fst rs) \<and> set rs = set results"
proof -
  have sent: "filter (about r) stream = result_frames r ok (result_bytes v) \<and> length (result_bytes v) \<le> MAX_RESULT_BYTES \<and>
      parse (stringify v) = Some v" if "map_of results r = Some (ok, v)" for r ok v
  proof -
    have "(r, ok, v) \<in> set results"
      using that by (rule map_of_SomeD)
    with assms(2) have "result_calls r ok (Some v) = Inr (map SendBody (filter (about r) stream))" "parse (stringify v) = Some v"
      by auto
    then show ?thesis
      by (auto simp: result_calls_def Let_def inj_map_eq_map inj_def split: if_splits)
  qed
  have none: "filter (about r) stream = []" if "map_of results r = None" for r
  proof -
    have "\<not> about r b" if "b \<in> set stream" for b
    proof
      assume "about r b"
      moreover obtain q where "q \<in> fst ` set results" "about q b"
        using assms(3) \<open>b \<in> set stream\<close> by blast
      ultimately have "r \<in> fst ` set results"
        by (auto dest!: aboutD)
      with \<open>map_of results r = None\<close> show False
        by (simp add: map_of_eq_None_iff)
    qed
    then show ?thesis
      by (simp add: filter_empty_conv)
  qed
  have "progress (map_of results) (\<lambda>_. 0) Map.empty stream"
    unfolding progress_def
  proof (intro conjI allI impI)
    fix r ok v
    assume "map_of results r = Some (ok, v)"
    with sent show "Map.empty r = held ok (result_bytes v) 0"
        "filter (about r) stream = map (result_frame r ok (result_bytes v)) [0..<chunk_count (result_bytes v)]"
      by (simp_all add: held_def result_frames_def)
  qed (use none assms(3) in \<open>auto simp: list_all_iff\<close>)
  then obtain rs where "accept_all parse stream Map.empty = (Inr rs, Map.empty)" "distinct (map fst rs)"
      "set rs = {(r, ok, v) |r ok v. map_of results r = Some (ok, v) \<and> 0 < chunk_count (result_bytes v)}"
    using accept_all_progress [of "map_of results" "\<lambda>_. 0" Map.empty stream parse] sent by blast
  moreover have "{(r, ok, v) |r ok v. map_of results r = Some (ok, v) \<and> 0 < chunk_count (result_bytes v)} = set results"
    using assms(1) chunk_count_pos by (auto dest: map_of_SomeD)
  ultimately show ?thesis
    by auto
qed

definition demo_stream :: "relay_body list" where
  "demo_stream = result_frames ''r1'' True (result_bytes (JNum 7)) @ result_frames ''r2'' False (result_bytes (JStr ''no''))"

lemma channel_results_reassembled_witness:
  "\<exists>rs. accept_all (\<lambda>t. if t = stringify (JNum 7) then Some (JNum 7) else Some (JStr ''no'')) demo_stream Map.empty = (Inr rs, Map.empty) \<and>
     distinct (map fst rs) \<and> set rs = set [(''r1'', True, JNum 7), (''r2'', False, JStr ''no'')]"
proof (rule channel_results_reassembled)
  have one: "chunk_count (result_bytes (JNum 7)) = 1" "chunk_count (result_bytes (JStr ''no'')) = 1"
    by code_simp+
  have frames: "filter (about ''r1'') demo_stream = result_frames ''r1'' True (result_bytes (JNum 7))"
      "filter (about ''r2'') demo_stream = result_frames ''r2'' False (result_bytes (JStr ''no''))"
    by (simp_all add: demo_stream_def result_frames_def one)
  have small: "\<not> length (result_bytes (JNum 7)) > MAX_RESULT_BYTES" "\<not> length (result_bytes (JStr ''no'')) > MAX_RESULT_BYTES"
    using chunk_count_bound [of "result_bytes (JNum 7)"] chunk_count_bound [of "result_bytes (JStr ''no'')"]
    by (simp_all only: one) (simp_all add: RESULT_CHUNK_BYTES_def MAX_RESULT_BYTES_def)
  have "stringify (JStr ''no'') \<noteq> stringify (JNum 7)"
    by code_simp
  with frames small show "\<forall>(r, ok, v) \<in> set [(''r1'', True, JNum 7), (''r2'', False, JStr ''no'')].
      (if stringify v = stringify (JNum 7) then Some (JNum 7) else Some (JStr ''no'')) = Some v \<and>
      result_calls r ok (Some v) = Inr (map SendBody (filter (about r) demo_stream))"
    by (simp add: result_calls_def Let_def del: stringify.simps)
  show "\<forall>b \<in> set demo_stream. \<exists>r \<in> fst ` set [(''r1'', True, JNum 7), (''r2'', False, JStr ''no'')]. about r b"
    by (auto simp: demo_stream_def result_frames_def one)
qed simp

end
