(* ===== verification/ChannelHome.thy ===== *)
theory ChannelHome
  imports Admissions History Commands ChannelResult
begin

text \<open>
  The channel home (\<open>src/roomsd/src/federation/channel-home-handler.ts\<close>): the handler of a relay connection
  through which the session of an enrolled peer registers in, reads from and sends to a channel that is homed
  here. It runs the commands of \<open>Application\<close> and the methods of \<open>RoomsRepository\<close> under an identity it derives
  from the authenticated peer.
\<close>

section \<open>The values it replies with\<close>

definition time_or_null :: "(time \<Rightarrow> string) \<Rightarrow> time option \<Rightarrow> json" where
  "time_or_null stamp t = (case t of None \<Rightarrow> JNull | Some n \<Rightarrow> JStr (stamp n))"

definition role_json :: "session_role option \<Rightarrow> json" where
  "role_json r = (case r of None \<Rightarrow> JNull | Some Operator \<Rightarrow> JStr ''operator'' | Some Planner \<Rightarrow> JStr ''planner''
     | Some Worker \<Rightarrow> JStr ''worker'' | Some Reviewer \<Rightarrow> JStr ''reviewer'')"

definition session_json :: "(time \<Rightarrow> string) \<Rightarrow> session \<Rightarrow> json" where
  "session_json stamp x = JObj
     [(''id'', JStr (s_id x)), (''registeredAt'', JStr (stamp (s_registeredAt x))), (''endedAt'', time_or_null stamp (s_endedAt x)),
      (''displayName'', json_or_null (s_displayName x)), (''role'', role_json (s_role x)),
      (''providerThreadId'', json_or_null (s_providerThreadId x)),
      (''deliveryMode'', JStr (case s_deliveryMode x of Runtime_Delivery \<Rightarrow> ''runtime'' | Log_Delivery \<Rightarrow> ''log'')),
      (''externalOwner'', json_or_null (s_externalOwner x)), (''externalAgentId'', json_or_null (s_externalAgentId x))]"

definition channel_json :: "(time \<Rightarrow> string) \<Rightarrow> channel \<Rightarrow> json" where
  "channel_json stamp c = JObj
     [(''id'', JStr (c_id c)), (''label'', json_or_null (c_label c)), (''registeredAt'', JStr (stamp (c_registeredAt c))),
      (''ownerOperatorSessionId'', json_or_null (c_ownerOperatorSessionId c)),
      (''lifecycleState'', JStr (case c_lifecycleState c of Active \<Rightarrow> ''active'' | channel_state.Closed \<Rightarrow> ''closed'')),
      (''closedAt'', time_or_null stamp (c_closedAt c)),
      (''broadcastPolicy'', JStr (case c_broadcastPolicy c of All_Members \<Rightarrow> ''all'' | Privileged \<Rightarrow> ''privileged'')),
      (''coordinationPolicy'', JStr (case c_coordinationPolicy c of Open_Coordination \<Rightarrow> ''open'' | Lead_Upstream \<Rightarrow> ''lead-upstream''))]"

definition membership_json :: "(time \<Rightarrow> string) \<Rightarrow> membership \<Rightarrow> json" where
  "membership_json stamp m = JObj
     [(''channelId'', JStr (m_channelId m)), (''sessionId'', JStr (m_sessionId m)), (''joinedAt'', JStr (stamp (m_joinedAt m))),
      (''leftAt'', time_or_null stamp (m_leftAt m)), (''sessionEndedAt'', time_or_null stamp (m_sessionEndedAt m)),
      (''role'', role_json (m_role m))]"

text \<open>Undefined fields are left out. A message keeps the fields of its target that are modelled.\<close>

definition target_json :: "target \<Rightarrow> json" where
  "target_json t = JObj
     (when_some ''kind'' JStr (tg_kind t) @ when_some ''sessionId'' JStr (tg_sessionId t) @
      when_some ''sessionID'' JStr (tg_sessionID t) @ when_some ''sessionIds'' (\<lambda>is. JArr (map JStr is)) (tg_sessionIds t))"

definition status_text :: "delivery_status \<Rightarrow> string" where
  "status_text st = (case st of Delivered \<Rightarrow> ''delivered'' | Queued \<Rightarrow> ''queued'' | Undeliverable \<Rightarrow> ''undeliverable'')"

definition message_json :: "(time \<Rightarrow> string) \<Rightarrow> message \<Rightarrow> json" where
  "message_json stamp m = JObj
     ([(''id'', JStr (msg_id m)), (''channelId'', json_or_null (msg_channelId m)),
       (''senderSessionId'', JStr (msg_senderSessionId m)), (''body'', JStr (msg_body m))] @
      when_some ''target'' target_json (msg_target m) @
      [(''attachmentReferences'', JArr (map JStr (msg_attachmentReferences m))),
       (''deliveredRecipientSessionIds'', JArr (map json_or_null (msg_deliveredRecipientSessionIds m))),
       (''recipientStatuses'', JObj (map (\<lambda>(i, st). (i, JStr (status_text st))) (msg_recipientStatuses m)))] @
      when_some ''correlation'' id (msg_correlation m) @
      [(''replyToEventId'', json_or_null (msg_replyToEventId m)), (''threadRootEventId'', json_or_null (msg_threadRootEventId m)),
       (''occurredAt'', JStr (stamp (msg_occurredAt m)))])"

definition snapshot_json :: "(time \<Rightarrow> string) \<Rightarrow> snapshot \<Rightarrow> json" where
  "snapshot_json stamp n = JObj
     [(''cursor'', JStr (digits (sn_cursor n))), (''channel'', channel_json stamp (sn_channel n)),
      (''sessions'', JArr (map (session_json stamp) (sn_sessions n))),
      (''memberships'', JArr (map (membership_json stamp) (sn_memberships n))),
      (''events'', JArr (map (message_json stamp) (sn_events n)))]"

section \<open>Pages of messages\<close>

definition MAX_BODY_BYTES :: nat where "MAX_BODY_BYTES = 64 * 1024"
definition MESSAGE_PAGE_LIMIT :: nat where "MESSAGE_PAGE_LIMIT = 20"
definition MESSAGE_PAGE_BYTES :: nat where "MESSAGE_PAGE_BYTES = 64 * 1024"

text \<open>\<open>change.payload\<close> as the page shows it; the rows of a page are those of messages.\<close>

definition payload_json :: "(time \<Rightarrow> string) \<Rightarrow> change \<Rightarrow> json" where
  "payload_json stamp c = (case payload_message (ch_payload c) of None \<Rightarrow> JNull | Some m \<Rightarrow> message_json stamp m)"

definition page_json :: "(time \<Rightarrow> string) \<Rightarrow> string \<Rightarrow> change list \<Rightarrow> bool \<Rightarrow> json" where
  "page_json stamp cur page hasMore = JObj
     [(''cursor'', JStr cur), (''messages'', JArr (map (payload_json stamp) page)), (''hasMore'', JBool hasMore)]"

definition candidate_bytes :: "(time \<Rightarrow> string) \<Rightarrow> change list \<Rightarrow> change \<Rightarrow> nat" where
  "candidate_bytes stamp page c = utf8_bytes (stringify (page_json stamp (digits (ch_cursor c)) (page @ [c]) True))"

fun page_loop :: "(time \<Rightarrow> string) \<Rightarrow> change list \<Rightarrow> change list \<Rightarrow> change list" where
  "page_loop stamp page [] = page"
| "page_loop stamp page (c # cs) =
     (if page \<noteq> [] \<and> candidate_bytes stamp page c > MESSAGE_PAGE_BYTES then page else page_loop stamp (page @ [c]) cs)"

record channel_page =
  pg_cursor :: string
  pg_changes :: "change list"
  pg_hasMore :: bool

definition channelMessagePage :: "(time \<Rightarrow> string) \<Rightarrow> change list \<Rightarrow> string \<Rightarrow> channel_page" where
  "channelMessagePage stamp rows afterCursor =
     (let page = page_loop stamp [] (take MESSAGE_PAGE_LIMIT rows) in
      \<lparr>pg_cursor = (if page = [] then afterCursor else digits (ch_cursor (last page))), pg_changes = page,
       pg_hasMore = (length rows > length page)\<rparr>)"

definition channel_page_json :: "(time \<Rightarrow> string) \<Rightarrow> channel_page \<Rightarrow> json" where
  "channel_page_json stamp p = page_json stamp (pg_cursor p) (pg_changes p) (pg_hasMore p)"

section \<open>The handler\<close>

text \<open>
  An error is one the handler itself throws, with its text, or one of the repository, whose text is not modelled:
  \<open>message_of\<close> supplies it. \<open>runtime recipient event body\<close> is what resolving the runtime of a recipient, encoding
  the body and delivering it comes to: \<open>None\<close> when it succeeds.
\<close>

datatype home_error = Plain string | Store_Error rooms_error

record home_config =
  hc_homeAuthorityId :: string
  hc_parse :: "string \<Rightarrow> json option"
  hc_iso :: "time \<Rightarrow> string"
  hc_message_of :: "rooms_error \<Rightarrow> string"
  hc_runtime :: "string \<Rightarrow> string \<Rightarrow> string \<Rightarrow> home_error option"

record home =
  hm_repo :: repo
  hm_calls :: "app_call list"   \<comment> \<open>what was sent on the connection\<close>
  hm_injected :: "(string \<times> string) list"   \<comment> \<open>the recipients whose runtime was addressed, with the event\<close>

type_synonym 'a home_op = "home \<Rightarrow> (home_error + 'a) \<times> home"

definition finish :: "'a \<Rightarrow> 'a home_op" where
  "finish a h = (Inr a, h)"

definition afterwards :: "'a home_op \<Rightarrow> ('a \<Rightarrow> 'b home_op) \<Rightarrow> 'b home_op" where
  "afterwards m k h = (case m h of (Inl e, h1) \<Rightarrow> (Inl e, h1) | (Inr a, h1) \<Rightarrow> k a h1)"

definition require :: "(home \<Rightarrow> bool) \<Rightarrow> string \<Rightarrow> unit home_op" where
  "require P message h = (if P h then Inr () else Inl (Plain message), h)"

definition plainly :: "'a checked \<Rightarrow> 'a home_op" where
  "plainly r h = (case r of Inl e \<Rightarrow> Inl (Plain e) | Inr a \<Rightarrow> Inr a, h)"

definition on_repo :: "(repo, 'a) operation \<Rightarrow> 'a home_op" where
  "on_repo m h = (case m (hm_repo h) of (r, s) \<Rightarrow>
     (case r of Inl e \<Rightarrow> Inl (Store_Error e) | Inr a \<Rightarrow> Inr a, h\<lparr>hm_repo := s\<rparr>))"

definition query :: "(repo \<Rightarrow> 'a result) \<Rightarrow> 'a home_op" where
  "query f = on_repo (\<lambda>s. (f s, s))"

definition recall :: "(db \<Rightarrow> 'a) \<Rightarrow> ('a \<Rightarrow> 'b home_op) \<Rightarrow> 'b home_op" where
  "recall f k h = k (f (db (hm_repo h))) h"

definition reply :: "string \<Rightarrow> bool \<Rightarrow> json \<Rightarrow> unit home_op" where
  "reply requestId ok v = afterwards (plainly (result_calls requestId ok (Some v)))
     (\<lambda>calls h. (Inr (), h\<lparr>hm_calls := hm_calls h @ calls\<rparr>))"

definition decodePayload :: "(string \<Rightarrow> json option) \<Rightarrow> string \<Rightarrow> json checked" where
  "decodePayload parse encoded =
     check (parse_result parse (base64_decode encoded)) (\<lambda>v.
       case v of JObj _ \<Rightarrow> Inr v | _ \<Rightarrow> Inl ''channel payload must be an object'')"

definition requiredString :: "json option \<Rightarrow> string \<Rightarrow> nat \<Rightarrow> string checked" where
  "requiredString v field maximum =
     (case v of
        Some (JStr t) \<Rightarrow> if blank t \<or> utf8_bytes t > maximum then Inl (''invalid '' @ field) else Inr t
      | _ \<Rightarrow> Inl (''invalid '' @ field))"

definition canonicalRemoteSession :: "string \<Rightarrow> string \<Rightarrow> string" where
  "canonicalRemoteSession peer localSessionId = ''federation:'' @ peer @ '':'' @ localSessionId"

text \<open>\<open>event.deliveredRecipientSessionIds\<close> of a legacy direct message may hold \<open>undefined\<close>.\<close>

fun deliverLocalRuntimes :: "home_config \<Rightarrow> message \<Rightarrow> string option list \<Rightarrow> unit home_op" where
  "deliverLocalRuntimes cfg event [] = finish ()"
| "deliverLocalRuntimes cfg event (None # rest) = plainly (Inl ''Cannot read properties of undefined'')"
| "deliverLocalRuntimes cfg event (Some recipient # rest) =
     (if starts_with ''federation:'' recipient then deliverLocalRuntimes cfg event rest
      else (\<lambda>h. let h1 = h\<lparr>hm_injected := hm_injected h @ [(recipient, msg_id event)]\<rparr> in
        case hc_runtime cfg recipient (msg_id event) (msg_body event) of
          None \<Rightarrow> deliverLocalRuntimes cfg event rest h1
        | Some e \<Rightarrow>
            if e = Store_Error (RoomsCommandError ''runtimeNotFound'') then deliverLocalRuntimes cfg event rest h1
            else (Inl e, h1)))"

text \<open>
  The cast of \<open>replyToEventId\<close> to a string is unchecked. The repository refuses what is no string as it refuses
  a blank one.
\<close>

definition reply_target :: "json option \<Rightarrow> string option" where
  "reply_target v = (case v of None \<Rightarrow> None | Some JNull \<Rightarrow> None | Some (JStr i) \<Rightarrow> Some i | Some _ \<Rightarrow> Some [])"

definition commit_for :: "string \<Rightarrow> string option \<Rightarrow> string \<Rightarrow> target \<Rightarrow> json \<Rightarrow> message_input" where
  "commit_for actor channelId body target payload =
     \<lparr>in_channelId = channelId, in_senderSessionId = actor, in_body = body, in_target = Some target,
      in_replyToEventId = reply_target (get_prop ''replyToEventId'' payload),
      in_correlation = get_prop ''correlation'' payload, in_deliveryStatuses = None, in_attachmentReferences = None\<rparr>"

definition sent_json :: "(time \<Rightarrow> string) \<Rightarrow> commit_result \<Rightarrow> json" where
  "sent_json stamp r = JObj
     [(''event'', message_json stamp (cm_event r)), (''cursor'', JStr (digits (r_cursor (cm_receipt r)))),
      (''wasDeduplicated'', JBool (cm_wasDeduplicated r))]"

definition stamped_body :: "string \<Rightarrow> json \<Rightarrow> string checked" where
  "stamped_body actor payload =
     check (requiredString (get_prop ''body'' payload) ''body'' MAX_BODY_BYTES) (\<lambda>text.
     let body = stampRoomsProvenance actor text in
     if utf8_bytes body > MAX_BODY_BYTES then Inl ''invalid body'' else Inr body)"

definition register_remote :: "home_config \<Rightarrow> string \<Rightarrow> string \<Rightarrow> string \<Rightarrow> json \<Rightarrow> unit home_op" where
  "register_remote cfg peer actor requestId payload =
     afterwards (plainly (requiredString (get_prop ''channelId'' payload) ''channelId'' 256)) (\<lambda>channelId.
     afterwards (require (\<lambda>h. isFederatedPeerAdmitted channelId peer (db (hm_repo h))) ''federation peer is not admitted to this channel'') (\<lambda>_.
     recall (currentSession actor) (\<lambda>existing.
     afterwards (on_repo (registerSession channelId actor Worker (Some (''federation:'' @ peer)) None None None)) (\<lambda>(_, _, idempotent).
     recall latestCursor (\<lambda>cur.
     reply requestId True (JObj
       [(''sessionId'', JStr actor), (''channelId'', JStr channelId), (''joined'', JBool True),
        (''registered'', JBool (existing = None)), (''idempotent'', JBool idempotent), (''cursor'', JStr (digits cur))]))))))"

definition direct_send :: "home_config \<Rightarrow> string \<Rightarrow> string \<Rightarrow> json \<Rightarrow> unit home_op" where
  "direct_send cfg actor requestId payload =
     afterwards (plainly (requiredString (get_prop ''targetSessionId'' payload) ''targetSessionId'' 512)) (\<lambda>target.
     afterwards (require (\<lambda>h. case currentSession target (db (hm_repo h)) of None \<Rightarrow> False | Some x \<Rightarrow> s_endedAt x = None)
       ''unknown Rooms recipient session'') (\<lambda>_.
     afterwards (plainly (stamped_body actor payload)) (\<lambda>body.
     afterwards (on_repo (commitMessage_cmd (commit_for actor None body
       \<lparr>tg_kind = Some ''direct'', tg_sessionId = Some target, tg_sessionID = None, tg_sessionIds = Some [target]\<rparr> payload))) (\<lambda>receipt.
     afterwards (deliverLocalRuntimes cfg (cm_event receipt) (msg_deliveredRecipientSessionIds (cm_event receipt))) (\<lambda>_.
     reply requestId True (sent_json (hc_iso cfg) receipt))))))"

text \<open>The commands of an active member of the channel; what is none of the other operations sends a message.\<close>

definition channel_send :: "home_config \<Rightarrow> string \<Rightarrow> string \<Rightarrow> string \<Rightarrow> json \<Rightarrow> unit home_op" where
  "channel_send cfg actor channelId requestId payload =
     afterwards (plainly (stamped_body actor payload)) (\<lambda>body.
     recall (\<lambda>d. filter (\<lambda>i. i \<noteq> actor) (map fst (roster channelId d))) (\<lambda>recipientIds.
     afterwards (on_repo (commitMessage_cmd (commit_for actor (Some channelId) body
       \<lparr>tg_kind = Some ''broadcast'', tg_sessionId = None, tg_sessionID = None, tg_sessionIds = Some recipientIds\<rparr> payload))) (\<lambda>receipt.
     afterwards (deliverLocalRuntimes cfg (cm_event receipt) (msg_deliveredRecipientSessionIds (cm_event receipt))) (\<lambda>_.
     reply requestId True (sent_json (hc_iso cfg) receipt)))))"

definition channel_messages :: "home_config \<Rightarrow> string \<Rightarrow> string \<Rightarrow> json \<Rightarrow> unit home_op" where
  "channel_messages cfg channelId requestId payload =
     (let afterCursor = (case get_prop ''afterCursor'' payload of Some (JStr t) \<Rightarrow> t | _ \<Rightarrow> ''0'') in
      afterwards (query (\<lambda>s. replayChannelMessages afterCursor channelId (int MESSAGE_PAGE_LIMIT + 1) (db s))) (\<lambda>rows.
      reply requestId True (channel_page_json (hc_iso cfg) (channelMessagePage (hc_iso cfg) rows afterCursor))))"

definition member_command :: "home_config \<Rightarrow> string \<Rightarrow> string \<Rightarrow> json \<Rightarrow> string \<Rightarrow> json \<Rightarrow> unit home_op" where
  "member_command cfg peer actor operation requestId payload =
     recall (currentSession actor) (\<lambda>session.
     case session of
       None \<Rightarrow> plainly (Inl ''remote session is not active'')
     | Some x \<Rightarrow>
         (case s_role x of
            None \<Rightarrow> plainly (Inl ''remote session is not active'')
          | Some role \<Rightarrow>
              afterwards (require (\<lambda>_. s_endedAt x = None) ''remote session is not active'') (\<lambda>_.
              afterwards (plainly (requiredString (get_prop ''channelId'' payload) ''channelId'' 256)) (\<lambda>channelId.
              afterwards (require (\<lambda>h. isActiveMember channelId actor None (db (hm_repo h))) ''remote session is not an active channel member'') (\<lambda>_.
              if operation = JStr ''leave'' then
                afterwards (on_repo (leave_cmd channelId actor
                  \<lparr>ctx_credentialId = ''federation:'' @ peer, ctx_actorSessionId = actor, ctx_role = role\<rparr>)) (\<lambda>receipt.
                reply requestId True (JObj [(''cursor'', JStr (digits (r_cursor receipt)))]))
              else
                afterwards (require (\<lambda>h. isFederatedPeerAdmitted channelId peer (db (hm_repo h))) ''federation peer admission is not active'') (\<lambda>_.
                if operation = JStr ''snapshot'' then
                  afterwards (query (snapshot channelId)) (\<lambda>n. reply requestId True (snapshot_json (hc_iso cfg) n))
                else if operation = JStr ''messages'' then channel_messages cfg channelId requestId payload
                else channel_send cfg actor channelId requestId payload))))))"

definition error_code :: "home_error \<Rightarrow> string" where
  "error_code e = (case e of
     Plain _ \<Rightarrow> ''channelCommandFailed''
   | Store_Error (RoomsCommandError code) \<Rightarrow> code
   | Store_Error _ \<Rightarrow> ''ERR_SQLITE_ERROR'')"

definition error_message :: "home_config \<Rightarrow> home_error \<Rightarrow> string" where
  "error_message cfg e = (case e of Plain m \<Rightarrow> m | Store_Error r \<Rightarrow> hc_message_of cfg r)"

definition run_command :: "home_config \<Rightarrow> string \<Rightarrow> string \<Rightarrow> json \<Rightarrow> string \<Rightarrow> json \<Rightarrow> unit home_op" where
  "run_command cfg peer actor operation requestId payload =
     (if operation = JStr ''register'' then register_remote cfg peer actor requestId payload
      else if operation = JStr ''directSend'' then direct_send cfg actor requestId payload
      else member_command cfg peer actor operation requestId payload)"

text \<open>
  \<open>handleChannel\<close> of a command on a connection with the given status. What is thrown outside the \<open>try\<close> reaches
  the connection, which closes.
\<close>

definition handle_channel_command ::
    "home_config \<Rightarrow> conn_status \<Rightarrow> string \<Rightarrow> string \<Rightarrow> json \<Rightarrow> string \<Rightarrow> string \<Rightarrow> unit home_op" where
  "handle_channel_command cfg st requestId home operation actorSessionId encoded =
     (case cs_peerAuthorityId st of
        None \<Rightarrow> plainly (Inl ''channel relay peer is not authenticated'')
      | Some peer \<Rightarrow>
          afterwards (require (\<lambda>_. peer \<noteq> [] \<and> cs_state st = Connected) ''channel relay peer is not authenticated'') (\<lambda>_.
          afterwards (require (\<lambda>_. home = hc_homeAuthorityId cfg) ''channel is homed by another authority'') (\<lambda>_.
          afterwards (plainly (decodePayload (hc_parse cfg) encoded)) (\<lambda>payload h.
          case run_command cfg peer (canonicalRemoteSession peer actorSessionId) operation requestId payload h of
            (Inl e, h1) \<Rightarrow> reply requestId False (JObj [(''code'', JStr (error_code e)), (''message'', JStr (error_message cfg e))]) h1
          | (Inr u, h1) \<Rightarrow> (Inr u, h1)))))"

end
