(* ===== verification/ChannelPages.thy ===== *)
theory ChannelPages
  imports ChannelHome JsonSize
begin

text \<open>
  Pages of channel messages as a federated peer pulls them (\<open>channelMessagePage\<close> of
  \<open>src/roomsd/src/federation/channel-home-handler.ts\<close>): the pages cover the channel's messages, every page that
  holds more than one message fits a result, and a message that alone does not fit is never passed.
\<close>

section \<open>One page\<close>

lemma page_loop_prefix: "\<exists>more. page_loop stamp page rows = page @ more \<and> more = take (length more) rows"
proof (induction rows arbitrary: page)
  case (Cons c rows)
  obtain more where "page_loop stamp (page @ [c]) rows = (page @ [c]) @ more" "more = take (length more) rows"
    using Cons.IH by blast
  then show ?case
    by (cases "page \<noteq> [] \<and> candidate_bytes stamp page c > MESSAGE_PAGE_BYTES") (auto intro: exI [of _ "c # more"])
qed simp

lemma page_loop_nonempty: "rows \<noteq> [] \<Longrightarrow> page_loop stamp [] rows \<noteq> []"
  using page_loop_prefix [of stamp "[hd rows]" "tl rows"] by (cases rows) auto

text \<open>The last change of a page that holds more than one was weighed against the limit.\<close>

lemma page_loop_bytes:
  assumes "page = [] \<or> length page = 1 \<or> candidate_bytes stamp (butlast page) (last page) \<le> MESSAGE_PAGE_BYTES"
  shows "length (page_loop stamp page rows) \<le> 1 \<or>
    candidate_bytes stamp (butlast (page_loop stamp page rows)) (last (page_loop stamp page rows)) \<le> MESSAGE_PAGE_BYTES"
  using assms
proof (induction rows arbitrary: page)
  case Nil
  then show ?case by auto
next
  case (Cons c rows)
  show ?case
  proof (cases "page \<noteq> [] \<and> candidate_bytes stamp page c > MESSAGE_PAGE_BYTES")
    case True
    with Cons.prems show ?thesis by auto
  next
    case False
    then have "page @ [c] = [] \<or> length (page @ [c]) = 1 \<or>
        candidate_bytes stamp (butlast (page @ [c])) (last (page @ [c])) \<le> MESSAGE_PAGE_BYTES"
      by auto
    from Cons.IH [OF this] False show ?thesis
      by (simp only: page_loop.simps if_False)
  qed
qed

lemma page_bytes_hasMore:
  "utf8_bytes (stringify (page_json stamp cur page b)) \<le> utf8_bytes (stringify (page_json stamp cur page True)) + 1"
  by (simp add: page_json_def utf8_bytes_append utf8_bytes_Cons own_fields_def proto_key_def)

lemma channel_page_fits:
  assumes "rows \<noteq> []" and "length (pg_changes (channelMessagePage stamp rows cur)) \<noteq> 1"
  shows "utf8_bytes (stringify (channel_page_json stamp (channelMessagePage stamp rows cur))) \<le> MESSAGE_PAGE_BYTES + 1"
proof -
  let ?page = "page_loop stamp [] (take MESSAGE_PAGE_LIMIT rows)"
  have "?page \<noteq> []"
    using assms(1) by (intro page_loop_nonempty) (simp add: MESSAGE_PAGE_LIMIT_def)
  moreover have "length ?page \<noteq> 1"
    using assms(2) by (simp add: channelMessagePage_def Let_def)
  ultimately have "candidate_bytes stamp (butlast ?page) (last ?page) \<le> MESSAGE_PAGE_BYTES"
    using page_loop_bytes [of "[]" stamp "take MESSAGE_PAGE_LIMIT rows"] by (cases "length ?page") auto
  with \<open>?page \<noteq> []\<close> show ?thesis
    using page_bytes_hasMore [of stamp "digits (ch_cursor (last ?page))" ?page "length rows > length ?page"]
    by (simp add: candidate_bytes_def channel_page_json_def channelMessagePage_def Let_def)
qed

section \<open>Pulling page after page\<close>

definition channel_messages_after :: "string \<Rightarrow> nat \<Rightarrow> db \<Rightarrow> change list" where
  "channel_messages_after channelId n d =
     filter (\<lambda>c. ch_channelId c = Some channelId \<and> ch_kind c = ''message.sent'') (after_rows n d)"

text \<open>
  The pages a peer gets by asking again from the cursor of the last one until there is no more. \<open>None\<close> when the
  home refuses a page or the steps run out.
\<close>

fun pull_pages :: "nat \<Rightarrow> (time \<Rightarrow> string) \<Rightarrow> string \<Rightarrow> string \<Rightarrow> db \<Rightarrow> change list option" where
  "pull_pages 0 stamp cur channelId d = None"
| "pull_pages (Suc n) stamp cur channelId d =
     (case replayChannelMessages cur channelId (int MESSAGE_PAGE_LIMIT + 1) d of
        Inl e \<Rightarrow> None
      | Inr rows \<Rightarrow>
          let page = channelMessagePage stamp rows cur in
          (case result_calls [] True (Some (channel_page_json stamp page)) of
             Inl e \<Rightarrow> None
           | Inr calls \<Rightarrow>
               if pg_hasMore page then map_option ((@) (pg_changes page)) (pull_pages n stamp (pg_cursor page) channelId d)
               else Some (pg_changes page)))"

lemma replay_page:
  assumes "\<not> blank channelId"
  shows "replayChannelMessages (digits k) channelId (int MESSAGE_PAGE_LIMIT + 1) d =
    Inr (take 21 (channel_messages_after channelId k d))"
  using assms by (simp add: replayChannelMessages_def channel_messages_after_def valid_limit_def safe_integer_def MESSAGE_PAGE_LIMIT_def)

lemma after_page:
  assumes "journal_ok d" and "channel_messages_after channelId k d = page @ rest" and "page \<noteq> []"
  shows "channel_messages_after channelId (ch_cursor (last page)) d = rest"
proof -
  have "sorted_wrt (\<lambda>a b. ch_cursor a < ch_cursor b) (channel_messages_after channelId k d)"
    using assms(1) by (simp add: journal_ok_def sorted_wrt_map channel_messages_after_def after_rows_def sorted_wrt_filter)
  then have sorted: "sorted_wrt (\<lambda>a b. ch_cursor a < ch_cursor b) (page @ rest)"
    by (simp only: assms(2))
  have "last page \<in> set (channel_messages_after channelId k d)"
    using assms(3) by (simp add: assms(2))
  then have k: "k < ch_cursor (last page)"
    by (simp add: channel_messages_after_def after_rows_def)
  have "channel_messages_after channelId (ch_cursor (last page)) d =
      filter (\<lambda>c. ch_cursor c > ch_cursor (last page)) (channel_messages_after channelId k d)"
    using k by (auto simp: channel_messages_after_def after_rows_def intro!: filter_cong)
  also have "\<dots> = filter (\<lambda>c. ch_cursor c > ch_cursor (last page)) page @ filter (\<lambda>c. ch_cursor c > ch_cursor (last page)) rest"
    by (simp add: assms(2))
  also have "filter (\<lambda>c. ch_cursor c > ch_cursor (last page)) page = []"
    using sorted assms(3) by (cases page rule: rev_cases) (auto simp: sorted_wrt_append filter_empty_conv)
  also have "filter (\<lambda>c. ch_cursor c > ch_cursor (last page)) rest = rest"
    using sorted assms(3) by (intro filter_True) (auto simp: sorted_wrt_append)
  finally show ?thesis by simp
qed

definition alone_fits :: "(time \<Rightarrow> string) \<Rightarrow> change \<Rightarrow> bool" where
  "alone_fits stamp c \<longleftrightarrow> candidate_bytes stamp [] c < MAX_RESULT_BYTES"

lemma page_sent:
  assumes "rows \<noteq> []" and "\<And>c. c \<in> set rows \<Longrightarrow> alone_fits stamp c"
  shows "\<exists>calls. result_calls requestId True (Some (channel_page_json stamp (channelMessagePage stamp rows cur))) = Inr calls"
proof -
  let ?p = "channelMessagePage stamp rows cur"
  have "utf8_bytes (stringify (channel_page_json stamp ?p)) \<le> MAX_RESULT_BYTES"
  proof (cases "length (pg_changes ?p) = 1")
    case True
    then obtain c where c: "pg_changes ?p = [c]"
      by (auto simp: length_Suc_conv)
    have "pg_changes ?p = page_loop stamp [] (take MESSAGE_PAGE_LIMIT rows)"
      by (simp add: channelMessagePage_def Let_def)
    with c page_loop_prefix [of stamp "[]" "take MESSAGE_PAGE_LIMIT rows"] have "c \<in> set rows"
      by (metis append_Nil in_set_takeD list.set_intros(1))
    with assms(2) c show ?thesis
      using page_bytes_hasMore [of stamp "digits (ch_cursor c)" "[c]" "pg_hasMore ?p"]
      by (force simp: alone_fits_def candidate_bytes_def channel_page_json_def channelMessagePage_def Let_def)
  next
    case False
    then show ?thesis
      using channel_page_fits [OF assms(1) False] by (simp add: MESSAGE_PAGE_BYTES_def MAX_RESULT_BYTES_def)
  qed
  then show ?thesis
    by (simp add: result_calls_def Let_def length_utf8_encode)
qed

lemma length_digits: "n < 10 ^ m \<Longrightarrow> 0 < m \<Longrightarrow> length (digits n) \<le> m"
proof (induction m arbitrary: n)
  case (Suc m)
  show ?case
  proof (cases "n < 10")
    case True
    then show ?thesis by (subst digits.simps) simp
  next
    case False
    then have "0 < m" "n div 10 < 10 ^ m"
      using Suc.prems by (auto simp: less_mult_imp_div_less intro!: Nat.gr0I)
    with Suc.IH [of "n div 10"] False show ?thesis
      by (subst digits.simps) simp
  qed
qed simp

lemma digits_bytes: "utf8_bytes (json_quote (digits n)) \<le> 2 + 6 * length (digits n)"
  using json_quote_bytes [of "digits n"] by linarith

lemma empty_page_sent:
  assumes "k < 10 ^ 20"
  shows "\<exists>calls. result_calls requestId True (Some (channel_page_json stamp (channelMessagePage stamp [] (digits k)))) = Inr calls"
proof -
  have "utf8_bytes (json_quote (digits k)) \<le> 122"
    using digits_bytes [of k] length_digits [OF assms] by simp
  then have "utf8_bytes (stringify (channel_page_json stamp (channelMessagePage stamp [] (digits k)))) \<le> MAX_RESULT_BYTES"
    by (simp add: channel_page_json_def channelMessagePage_def Let_def page_json_def own_fields_def proto_key_def
        utf8_bytes_append utf8_bytes_Cons json_quote_def json_escape_def MAX_RESULT_BYTES_def)
  then show ?thesis
    by (simp add: result_calls_def Let_def length_utf8_encode)
qed


section \<open>A message that does not fit\<close>

lemma join_part: "t \<in> set ts \<Longrightarrow> utf8_bytes t \<le> utf8_bytes (join_with sep ts)"
  by (induction sep ts rule: join_with.induct) (auto simp: utf8_bytes_append)

lemma stringify_element: "v \<in> set vs \<Longrightarrow> utf8_bytes (stringify v) \<le> utf8_bytes (stringify (JArr vs))"
  using join_part [of "stringify v" "map stringify vs" "'',''"] by (auto simp: utf8_bytes_append utf8_bytes_Cons)

lemma stringify_field:
  assumes "(k, v) \<in> set kvs" and "k \<noteq> proto_key"
  shows "utf8_bytes (stringify v) \<le> utf8_bytes (stringify (JObj kvs))"
proof -
  let ?ts = "map (\<lambda>(k, t). json_quote k @ CHR '':'' # t) (own_fields (map (\<lambda>p. (fst p, stringify (snd p))) kvs))"
  have "(k, stringify v) \<in> set (own_fields (map (\<lambda>p. (fst p, stringify (snd p))) kvs))"
    using assms by (force simp: own_fields_def)
  then have "json_quote k @ CHR '':'' # stringify v \<in> set ?ts"
    by force
  then show ?thesis
    using join_part [of "json_quote k @ CHR '':'' # stringify v" ?ts "'',''"] by (simp add: utf8_bytes_append utf8_bytes_Cons)
qed

lemma page_holds_first:
  assumes "rows = c # rest"
  shows "utf8_bytes (stringify (payload_json stamp c)) \<le>
    utf8_bytes (stringify (channel_page_json stamp (channelMessagePage stamp rows cur)))"
proof -
  obtain others where "pg_changes (channelMessagePage stamp rows cur) = c # others"
    using page_loop_prefix [of stamp "[c]" "take 19 rest"] assms
    by (auto simp: channelMessagePage_def Let_def MESSAGE_PAGE_LIMIT_def)
  then have "utf8_bytes (stringify (payload_json stamp c)) \<le>
      utf8_bytes (stringify (JArr (map (payload_json stamp) (pg_changes (channelMessagePage stamp rows cur)))))"
    by (intro stringify_element) simp
  also have "\<dots> \<le> utf8_bytes (stringify (channel_page_json stamp (channelMessagePage stamp rows cur)))"
    unfolding channel_page_json_def page_json_def by (rule stringify_field [of "''messages''"]) (simp_all add: proto_key_def)
  finally show ?thesis .
qed


section \<open>Witnesses\<close>

definition demo_message :: "string \<Rightarrow> string \<Rightarrow> message" where
  "demo_message i body = \<lparr>msg_id = i, msg_channelId = Some ''c'', msg_senderSessionId = ''a'', msg_body = body,
     msg_target = None, msg_attachmentReferences = [], msg_deliveredRecipientSessionIds = [], msg_recipientStatuses = [],
     msg_correlation = None, msg_replyToEventId = None, msg_threadRootEventId = None, msg_occurredAt = 0\<rparr>"

definition demo_change :: "nat \<Rightarrow> string \<Rightarrow> change" where
  "demo_change n body = \<lparr>ch_cursor = n, ch_kind = ''message.sent'', ch_channelId = Some ''c'',
     ch_payload = Message_Sent (demo_message ''e'' body), ch_occurredAt = 0\<rparr>"

definition demo_journal :: "string \<Rightarrow> db" where
  "demo_journal body = empty_db\<lparr>changes := [demo_change 1 ''hello'', demo_change 2 body], changesSeq := 2\<rparr>"

lemma demo_messages:
  "channel_messages_after ''c'' 0 (demo_journal body) = [demo_change 1 ''hello'', demo_change 2 body]"
  "channel_messages_after ''c'' 1 (demo_journal body) = [demo_change 2 body]"
  by (simp_all add: channel_messages_after_def after_rows_def demo_journal_def demo_change_def)

lemma demo_fits_alone:
  assumes "length body < 100" and "n < 3"
  shows "alone_fits (\<lambda>_. ''t'') (demo_change n body)"
proof -
  let ?v = "page_json (\<lambda>_. ''t'') (digits n) [demo_change n body] True"
  have "json_size ?v \<le> 3000"
    using assms by (simp add: page_json_def payload_json_def demo_change_def demo_message_def message_json_def when_some_def
        json_or_null_def digits.simps)
  with stringify_bytes [of ?v] show ?thesis
    by (simp add: alone_fits_def candidate_bytes_def MAX_RESULT_BYTES_def demo_change_def)
qed


lemma quoted_controls: "utf8_bytes (json_quote (replicate n (CHR 0x01))) = 6 * n + 2"
proof -
  have "utf8_bytes (concat (map json_escape (replicate n (CHR 0x01)))) = 6 * n"
    by (induction n) (simp_all add: utf8_bytes_append json_escape_def hex_char_def utf8_bytes_Cons)
  then show ?thesis
    by (simp add: json_quote_def utf8_bytes_append utf8_bytes_Cons)
qed

definition demo_home :: "string \<Rightarrow> home" where
  "demo_home body = \<lparr>hm_repo = \<lparr>db = demo_journal body, transactionDepth = 0, outerTransaction = False, notified = [],
     clock = (\<lambda>_. 0), reads = 0, ids = (\<lambda>_. ''u''), drawn = 0\<rparr>, hm_calls = [], hm_injected = []\<rparr>"

definition demo_home_config :: home_config where
  "demo_home_config = \<lparr>hc_homeAuthorityId = ''authority-h'', hc_parse = (\<lambda>_. None), hc_iso = (\<lambda>_. ''t''),
     hc_message_of = (\<lambda>_. []), hc_runtime = (\<lambda>_ _ _. None)\<rparr>"


end
