(* ===== verification/ChannelAccess.thy ===== *)
theory ChannelAccess
  imports ChannelHome JsonSize
begin

text \<open>
  What a federated peer can do to the channels of a home: it speaks under its own name only, in channels whose
  owner admitted it and whose active member its session is; and what the deduplication of messages gives away.
\<close>

section \<open>Operations that append no message\<close>

text \<open>An invariant of the tables that only an appended message can break.\<close>

locale quiet_rows =
  fixes I :: "db \<Rightarrow> bool"
  assumes rows: "I (d\<lparr>sessions := a\<rparr>) = I d" "I (d\<lparr>memberships := m\<rparr>) = I d"
    and append: "I d \<Longrightarrow> k \<noteq> ''message.sent'' \<Longrightarrow> I (insert_change k c p t d)"
begin

lemma quiet_append:
  assumes "appendChange k c p s = (Inr r, s1)" and "k \<noteq> ''message.sent''" and "I (db s)"
  shows "I (db s1)"
  using appendChange_Inr [OF assms(1)] append [OF assms(3,2)] by simp

lemma quiet_insert: "preserves I db (insertSession i)" "preserves I db (insertMembership c i' r)"
    "preserves I db (leaveMembership c i')"
  unfolding insertSession_def insertMembership_def leaveMembership_def
  by (rule rooms_tx.run_preserves, rule preservesI,
      auto simp: Let_def rows split: if_splits option.splits dest!: quiet_append)+

lemma quiet_bind: "preserves I db (bind_external_id i e x)" "preserves I db (bind_provenance i o1 a x)"
    "preserves I db (bind_delivery_mode i m x)"
  by (rule preservesI,
      auto simp: bind_external_id_def bind_provenance_def bind_delivery_mode_def Let_def rows andThen_Inr_iff succeed_def
        split: if_splits option.splits dest!: quiet_append)+

lemma quiet_join: "preserves I db (join_registered c i r x)"
  by (rule preservesI)
    (auto simp: join_registered_def andThen_Inr_iff succeed_def split: if_splits dest: preservesD [OF quiet_insert(2)])

lemma quiet_register: "preserves I db (registerSession c i r e m owner a)"
proof -
  have "preserves I db (if x = None then andThen (insertSession j) (\<lambda>_. succeed ()) else succeed ())" for j and x :: "session option"
    by (auto intro!: preserves_andThen preserves_succeed quiet_insert)
  then have "preserves I db (register_steps c i r e m owner a x)" for owner a x
    unfolding register_steps_def by (intro preserves_andThen quiet_bind quiet_join)
  then show ?thesis
    unfolding registerSession_def
    by (intro rooms_tx.run_preserves preservesI) (auto simp: Let_def split: if_splits dest: preservesD)
qed

lemma quiet_leave: "preserves I db (leave_cmd c i ctx)"
  unfolding leave_cmd_def
  by (intro rooms_tx.run_preserves preservesI) (auto split: if_splits dest: preservesD [OF quiet_insert(3)])

end

section \<open>Commands of a peer\<close>

text \<open>\<open>from d I m\<close>: run in the tables \<open>d\<close>, outside a transaction, \<open>m\<close> leaves tables with \<open>I\<close> whatever its outcome.\<close>

definition from_tables :: "db \<Rightarrow> (db \<Rightarrow> bool) \<Rightarrow> 'a home_op \<Rightarrow> bool" where
  "from_tables d I m \<longleftrightarrow> (\<forall>h r h1. idle (hm_repo h) \<longrightarrow> db (hm_repo h) = d \<longrightarrow> m h = (r, h1) \<longrightarrow> I (db (hm_repo h1)))"

definition no_repo :: "'a home_op \<Rightarrow> bool" where
  "no_repo m \<longleftrightarrow> (\<forall>h. hm_repo (snd (m h)) = hm_repo h)"

lemma no_repoD: "no_repo m \<Longrightarrow> m h = (r, h1) \<Longrightarrow> hm_repo h1 = hm_repo h"
  unfolding no_repo_def by (metis snd_conv)

lemma no_repo_steps: "no_repo (plainly r)" "no_repo (reply i ok v)" "no_repo (finish a)"
  by (auto simp: no_repo_def plainly_def reply_def afterwards_def finish_def split: sum.splits prod.splits)

lemma no_repo_afterwards:
  assumes "no_repo m" and "\<And>a. no_repo (k a)"
  shows "no_repo (afterwards m k)"
  unfolding no_repo_def
proof
  fix h
  obtain r h1 where m: "m h = (r, h1)"
    by (cases "m h")
  have "hm_repo (snd (k a h1)) = hm_repo h1" for a
    using assms(2) by (simp add: no_repo_def)
  with no_repoD [OF assms(1) m] m show "hm_repo (snd (afterwards m k h)) = hm_repo h"
    by (cases r) (simp_all add: afterwards_def)
qed

lemma no_repo_deliver: "no_repo (deliverLocalRuntimes cfg event rs)"
  by (induction cfg event rs rule: deliverLocalRuntimes.induct)
    (auto simp: no_repo_def finish_def plainly_def Let_def split: option.splits)

lemma from_tablesI: "(\<And>h r h1. idle (hm_repo h) \<Longrightarrow> db (hm_repo h) = d \<Longrightarrow> m h = (r, h1) \<Longrightarrow> I (db (hm_repo h1))) \<Longrightarrow> from_tables d I m"
  by (simp add: from_tables_def)

lemma from_tablesD: "from_tables d I m \<Longrightarrow> idle (hm_repo h) \<Longrightarrow> db (hm_repo h) = d \<Longrightarrow> m h = (r, h1) \<Longrightarrow> I (db (hm_repo h1))"
  by (simp add: from_tables_def)

lemma from_tables_quiet: "I d \<Longrightarrow> no_repo m \<Longrightarrow> from_tables d I m"
  by (rule from_tablesI) (simp add: no_repoD)

lemma from_tables_plainly:
  "(\<And>a. r = Inr a \<Longrightarrow> from_tables d I (k a)) \<Longrightarrow> I d \<Longrightarrow> from_tables d I (afterwards (plainly r) k)"
  by (cases r) (auto simp: from_tables_def afterwards_def plainly_def)

lemma from_tables_require:
  "(P d \<Longrightarrow> from_tables d I (k ())) \<Longrightarrow> I d \<Longrightarrow> from_tables d I (afterwards (require (\<lambda>h. P (db (hm_repo h))) message) k)"
  by (auto simp: from_tables_def afterwards_def require_def split: if_splits)

lemma from_tables_recall: "from_tables d I (k (f d)) \<Longrightarrow> from_tables d I (recall f k)"
  by (auto simp: from_tables_def recall_def)

lemma from_tables_repo:
  assumes "atomic m" and "preserves I db m" and "I d" and "\<And>a. no_repo (k a)"
  shows "from_tables d I (afterwards (on_repo m) k)"
  unfolding from_tables_def
proof (intro allI impI)
  fix h r h1
  assume idle: "idle (hm_repo h)" and d: "db (hm_repo h) = d" and run: "afterwards (on_repo m) k h = (r, h1)"
  obtain v s where m: "m (hm_repo h) = (v, s)"
    by (cases "m (hm_repo h)")
  have kept: "I (db s)"
  proof (cases v)
    case (Inl e)
    with atomicD(2) [OF assms(1) idle m] d assms(3) show ?thesis by simp
  next
    case (Inr a)
    with m d assms(3) show ?thesis
      using preservesD [OF assms(2), of "hm_repo h"] by simp
  qed
  have "hm_repo h1 = s"
  proof (cases v)
    case (Inr a)
    with run m have "k a (h\<lparr>hm_repo := s\<rparr>) = (r, h1)"
      by (simp add: afterwards_def on_repo_def)
    with no_repoD [OF assms(4)] show ?thesis by fastforce
  qed (use run m in \<open>auto simp: afterwards_def on_repo_def\<close>)
  with kept show "I (db (hm_repo h1))" by simp
qed

lemma from_tables_query:
  assumes "I d" and "\<And>a. no_repo (k a)"
  shows "from_tables d I (afterwards (query f) k)"
proof (rule from_tablesI)
  fix h r h1
  assume d: "db (hm_repo h) = d" and run: "afterwards (query f) k h = (r, h1)"
  have "hm_repo h1 = hm_repo h"
  proof (cases "f (hm_repo h)")
    case (Inr a)
    with run have "k a (h\<lparr>hm_repo := hm_repo h\<rparr>) = (r, h1)"
      by (simp add: afterwards_def query_def on_repo_def)
    with no_repoD [OF assms(2)] show ?thesis by fastforce
  qed (use run in \<open>auto simp: afterwards_def query_def on_repo_def\<close>)
  with d assms(1) show "I (db (hm_repo h1))" by simp
qed

section \<open>What a command may change\<close>

definition new_messages :: "(change \<Rightarrow> bool) \<Rightarrow> db \<Rightarrow> db \<Rightarrow> bool" where
  "new_messages ok d0 d \<longleftrightarrow> (\<forall>c \<in> set (changes d) - set (changes d0). ch_kind c = ''message.sent'' \<longrightarrow> ok c)"

lemma new_messages_refl: "new_messages ok d d"
  by (simp add: new_messages_def)

interpretation peer_rows: quiet_rows "new_messages ok d0" for ok d0
  by unfold_locales (auto simp: new_messages_def insert_change_def)

lemma commit_new_messages:
  assumes "\<And>reply u t n t'. ok \<lparr>ch_cursor = n, ch_kind = ''message.sent'', ch_channelId = in_channelId input,
    ch_payload = Message_Sent (message_event input reply u t), ch_occurredAt = t'\<rparr>"
  shows "preserves (new_messages ok d0) db (commitMessage_cmd input)"
proof -
  have "preserves (new_messages ok d0) db (append_message input reply)" for reply
  proof (rule preservesI)
    fix s a s1
    assume I: "new_messages ok d0 (db s)" and run: "append_message input reply s = (Inr a, s1)"
    let ?m = "message_event input reply (randomUUID s) (now s)"
    obtain r where "appendChange ''message.sent'' (in_channelId input) (Message_Sent ?m) (tick (draw s)) = (Inr r, s1)"
      using run by (auto simp: append_message_def Let_def andThen_Inr_iff succeed_def)
    from appendChange_Inr [OF this] have "db s1 = insert_change ''message.sent'' (in_channelId input) (Message_Sent ?m) (now (tick (draw s))) (db s)"
      by simp
    with I assms show "new_messages ok d0 (db s1)"
      by (auto simp: new_messages_def insert_change_def)
  qed
  then have "preserves (new_messages ok d0) db (commitMessage input)"
    unfolding commitMessage_def
    by (intro rooms_tx.run_preserves preservesI) (auto split: if_splits sum.splits option.splits prod.splits dest: preservesD)
  then show ?thesis
    by (intro preservesI) (auto simp: commitMessage_cmd_def split: if_splits dest: preservesD [OF rooms_tx.run_preserves])
qed

text \<open>A message that the session of a peer may have sent, in the tables before the command.\<close>

definition peer_message :: "string \<Rightarrow> string \<Rightarrow> db \<Rightarrow> change \<Rightarrow> bool" where
  "peer_message peer actor d c \<longleftrightarrow>
     (\<exists>m. ch_payload c = Message_Sent m \<and> msg_senderSessionId m = actor \<and> msg_channelId m = ch_channelId c \<and>
        (\<forall>channelId. ch_channelId c = Some channelId \<longrightarrow>
           isFederatedPeerAdmitted channelId peer d \<and> isActiveMember channelId actor None d))"

lemma peer_commit:
  assumes "\<And>channelId. in_channelId input = Some channelId \<Longrightarrow>
      isFederatedPeerAdmitted channelId peer d \<and> isActiveMember channelId actor None d"
    and "in_senderSessionId input = actor"
  shows "preserves (new_messages (peer_message peer actor d) d) db (commitMessage_cmd input)"
  using assms by (intro commit_new_messages) (auto simp: peer_message_def message_event_def Let_def)

lemma no_repo_more: "(\<And>a b. no_repo (f a b)) \<Longrightarrow> no_repo (case_prod f p)" "(\<And>a. no_repo (k a)) \<Longrightarrow> no_repo (recall g k)"
  by (auto simp: no_repo_def recall_def split: prod.split)

lemma from_tables_if: "(b \<Longrightarrow> from_tables d I m) \<Longrightarrow> (\<not> b \<Longrightarrow> from_tables d I n) \<Longrightarrow> from_tables d I (if b then m else n)"
  by simp

lemma from_tables_option:
  "(v = None \<Longrightarrow> from_tables d I m) \<Longrightarrow> (\<And>a. v = Some a \<Longrightarrow> from_tables d I (k a)) \<Longrightarrow> from_tables d I (case v of None \<Rightarrow> m | Some a \<Rightarrow> k a)"
  by (simp split: option.split)

lemma from_tables_error: "I d \<Longrightarrow> from_tables d I (plainly r)"
  by (rule from_tables_quiet [OF _ no_repo_steps(1)])

lemma atomic_remote: "atomic (registerSession c i r e m owner a)" "atomic (leave_cmd c i ctx)"
  by (auto simp: registerSession_def leave_cmd_def)

lemmas home_rules = no_repo_steps no_repo_afterwards no_repo_deliver no_repo_more new_messages_refl
  atomic_commitMessage_cmd atomic_remote peer_rows.quiet_register peer_rows.quiet_leave
  from_tables_plainly from_tables_require from_tables_recall from_tables_repo from_tables_query from_tables_if
  from_tables_option from_tables_error

lemma run_command_messages:
  "from_tables d (new_messages (peer_message peer actor d) d) (run_command cfg peer actor operation requestId payload)"
proof -
  let ?I = "new_messages (peer_message peer actor d) d"
  have direct: "from_tables d ?I (direct_send cfg actor requestId payload)"
    unfolding direct_send_def by (intro home_rules peer_commit) (auto simp: commit_for_def)
  have register: "from_tables d ?I (register_remote cfg peer actor requestId payload)"
    unfolding register_remote_def by (intro home_rules)
  have send: "from_tables d ?I (channel_send cfg actor channelId requestId payload)"
    if "isFederatedPeerAdmitted channelId peer d" "isActiveMember channelId actor None d" for channelId
    unfolding channel_send_def by (intro home_rules peer_commit) (use that in \<open>auto simp: commit_for_def\<close>)
  have read: "from_tables d ?I (channel_messages cfg channelId requestId payload)" for channelId
    unfolding channel_messages_def Let_def by (intro home_rules)
  have "from_tables d ?I (member_command cfg peer actor operation requestId payload)"
    unfolding member_command_def
    by (intro home_rules send read)
  with direct register show ?thesis
    unfolding run_command_def by (intro home_rules)
qed

text \<open>A command that is refused leaves the home as it found it.\<close>

lemma run_command_not_admitted:
  assumes "get_prop ''channelId'' payload = Some (JStr channelId)"
    and "\<not> isFederatedPeerAdmitted channelId peer (db (hm_repo h))"
    and "operation \<noteq> JStr ''directSend''" and "operation \<noteq> JStr ''leave''"
  shows "\<exists>e. run_command cfg peer actor operation requestId payload h = (Inl e, h)"
proof -
  have "\<exists>e. register_remote cfg peer actor requestId payload h = (Inl e, h)"
    using assms(1,2) by (auto simp: register_remote_def afterwards_def plainly_def require_def requiredString_def)
  moreover have "\<exists>e. member_command cfg peer actor operation requestId payload h = (Inl e, h)"
    using assms
    by (auto simp: member_command_def recall_def afterwards_def plainly_def require_def requiredString_def split: option.split)
  ultimately show ?thesis
    using assms(3) by (simp add: run_command_def)
qed

text \<open>
  C24. What a federated peer can do to the channels of a home. Every message its command adds to the journal comes
  from a connection with an authenticated peer, is addressed to this home, bears the session name made of that
  peer's authority, and, if it belongs to a channel, the channel's owner has admitted the peer and the session is an
  active member of the channel. And in a channel that did not admit the peer no command but a direct message or
  the leaving of the channel changes any table or is answered with anything but an error.\<close>

theorem peer_confined:
  assumes "idle (hm_repo h)" and "handle_channel_command cfg st requestId home operation localSession encoded h = (r, h1)"
  shows "(\<forall>c \<in> set (changes (db (hm_repo h1))) - set (changes (db (hm_repo h))). ch_kind c = ''message.sent'' \<longrightarrow>
      (\<exists>peer. cs_peerAuthorityId st = Some peer \<and> cs_state st = Connected \<and> home = hc_homeAuthorityId cfg \<and>
        peer_message peer (canonicalRemoteSession peer localSession) (db (hm_repo h)) c)) \<and>
    (\<forall>peer payload channelId. cs_peerAuthorityId st = Some peer \<and> decodePayload (hc_parse cfg) encoded = Inr payload \<and>
      get_prop ''channelId'' payload = Some (JStr channelId) \<and> \<not> isFederatedPeerAdmitted channelId peer (db (hm_repo h)) \<and>
      operation \<noteq> JStr ''directSend'' \<and> operation \<noteq> JStr ''leave'' \<longrightarrow>
        hm_repo h1 = hm_repo h \<and> (\<forall>call \<in> set (drop (length (hm_calls h)) (hm_calls h1)).
          \<exists>i final text. call = SendBody (ChannelResult requestId False i final text)))"
proof (cases "\<exists>peer payload. cs_peerAuthorityId st = Some peer \<and> peer \<noteq> [] \<and> cs_state st = Connected \<and>
    home = hc_homeAuthorityId cfg \<and> decodePayload (hc_parse cfg) encoded = Inr payload")
  case False
  then have "h1 = h"
    using assms(2)
    by (auto simp: handle_channel_command_def afterwards_def plainly_def require_def split: option.splits if_splits sum.splits)
  then show ?thesis by simp
next
  case True
  then obtain peer payload where ok: "cs_peerAuthorityId st = Some peer" "peer \<noteq> []" "cs_state st = Connected"
      "home = hc_homeAuthorityId cfg" "decodePayload (hc_parse cfg) encoded = Inr payload"
    by blast
  let ?actor = "canonicalRemoteSession peer localSession"
  obtain v h2 where command: "run_command cfg peer ?actor operation requestId payload h = (v, h2)"
    by (cases "run_command cfg peer ?actor operation requestId payload h")
  have run: "(case v of Inl e \<Rightarrow> reply requestId False (JObj [(''code'', JStr (error_code e)), (''message'', JStr (error_message cfg e))]) h2
      | Inr u \<Rightarrow> (Inr u, h2)) = (r, h1)"
    using assms(2) ok command by (simp add: handle_channel_command_def afterwards_def plainly_def require_def split: sum.splits)
  have repo: "hm_repo h1 = hm_repo h2"
    using run no_repoD [OF no_repo_steps(2)] by (cases v) auto
  have messages: "new_messages (peer_message peer ?actor (db (hm_repo h))) (db (hm_repo h)) (db (hm_repo h1))"
    using from_tablesD [OF run_command_messages assms(1) refl command] repo by simp
  have refused: "hm_repo h1 = hm_repo h \<and> (\<forall>call \<in> set (drop (length (hm_calls h)) (hm_calls h1)).
      \<exists>i final text. call = SendBody (ChannelResult requestId False i final text))"
    if channel: "get_prop ''channelId'' payload = Some (JStr channelId)" "\<not> isFederatedPeerAdmitted channelId peer (db (hm_repo h))"
      "operation \<noteq> JStr ''directSend''" "operation \<noteq> JStr ''leave''" for channelId
  proof -
    obtain e where "v = Inl e" "h2 = h"
      using run_command_not_admitted [OF channel, of cfg ?actor requestId] command by auto
    with run show ?thesis
      by (auto simp: reply_def afterwards_def plainly_def result_calls_def Let_def result_frames_def result_frame_def
          split: sum.splits if_splits)
  qed
  show ?thesis
    using messages refused ok by (auto simp: new_messages_def)
qed

section \<open>What deduplication gives away\<close>

lemma commit_deduplicated:
  assumes "idle s" and "\<not> blank (in_senderSessionId input)" and "\<not> blank (in_body input)"
    and "\<not> recipient_unknown (in_target input) (db s)" and "in_replyToEventId input = None"
    and "in_correlation input = Some (JObj [(''deduplicationKey'', key)])" and "jtruthy key" and "bindable key"
    and "prior_message key (db s) = Some (row, event)"
  shows "commitMessage_cmd input s = (Inr \<lparr>cm_receipt = \<lparr>r_cursor = ch_cursor row, r_didAppend = False, r_changes = []\<rparr>,
    cm_event = event, cm_wasDeduplicated = True\<rparr>, s)"
proof -
  have "s\<lparr>transactionDepth := 0, outerTransaction := False\<rparr> = s"
    using assms(1) by (simp add: idle_def)
  then show ?thesis
    using assms
    by (simp add: commitMessage_cmd_def commitMessage_def writeTx_def idle_def resolveReplyMetadata_def replyEventId_def
        deduplicationKey_def Let_def)
qed


section \<open>Witnesses\<close>

text \<open>A home with a private channel that admitted nobody, in which \<open>''a''\<close> sent a message with a key.\<close>

definition private_message :: message where
  "private_message = \<lparr>msg_id = ''e'', msg_channelId = Some ''c'', msg_senderSessionId = ''a'', msg_body = ''secret'',
     msg_target = None, msg_attachmentReferences = [], msg_deliveredRecipientSessionIds = [], msg_recipientStatuses = [],
     msg_correlation = Some (JObj [(''deduplicationKey'', JStr ''k'')]), msg_replyToEventId = None,
     msg_threadRootEventId = None, msg_occurredAt = 0\<rparr>"

definition private_change :: change where
  "private_change = \<lparr>ch_cursor = 1, ch_kind = ''message.sent'', ch_channelId = Some ''c'', ch_payload = Message_Sent private_message,
     ch_occurredAt = 0\<rparr>"

definition private_session :: session where
  "private_session = \<lparr>s_id = ''a'', s_registeredAt = 0, s_endedAt = None, s_displayName = None, s_role = Some Worker,
     s_providerThreadId = None, s_deliveryMode = Runtime_Delivery, s_externalOwner = None, s_externalAgentId = None, s_externalId = None\<rparr>"

definition private_home :: home where
  "private_home = \<lparr>hm_repo = \<lparr>db = empty_db\<lparr>sessions := [private_session], changes := [private_change], changesSeq := 1\<rparr>,
     transactionDepth = 0, outerTransaction = False, notified = [], clock = (\<lambda>_. 0), reads = 0, ids = (\<lambda>_. ''u''), drawn = 0\<rparr>,
     hm_calls = [], hm_injected = []\<rparr>"

definition private_config :: home_config where
  "private_config = \<lparr>hc_homeAuthorityId = ''authority-h'', hc_parse = (\<lambda>_. Some (JObj [(''channelId'', JStr ''c'')])), hc_iso = (\<lambda>_. ''t''),
     hc_message_of = (\<lambda>_. ''error''), hc_runtime = (\<lambda>_ _ _. None)\<rparr>"

definition private_status :: conn_status where
  "private_status = \<lparr>cs_state = Connected, cs_connectionId = None, cs_role = Responder, cs_authorityId = None,
     cs_peerAuthorityId = Some ''authority-p'', cs_connectedAt = None, cs_lastHeartbeatSentAt = None,
     cs_lastHeartbeatReceivedAt = None, cs_outgoingSeq = 0, cs_incomingSeq = 0, cs_disconnectReason = None, cs_disconnectMessage = None\<rparr>"

lemma private_idle: "idle (hm_repo private_home)"
  by (simp add: private_home_def idle_def)

lemma peer_confined_witness:
  "hm_repo (snd (handle_channel_command private_config private_status ''r'' ''authority-h'' (JStr ''snapshot'') ''s'' [] private_home)) =
     hm_repo private_home"
proof -
  have "decodePayload (hc_parse private_config) [] = Inr (JObj [(''channelId'', JStr ''c'')])"
    by (simp add: decodePayload_def parse_result_def base64_decode_def private_config_def)
  moreover have "get_prop ''channelId'' (JObj [(''channelId'', JStr ''c'')]) = Some (JStr ''c'')"
    by (simp add: own_fields_def proto_key_def)
  moreover have "cs_peerAuthorityId private_status = Some ''authority-p''"
    by (simp add: private_status_def)
  moreover have "\<not> isFederatedPeerAdmitted ''c'' ''authority-p'' (db (hm_repo private_home))"
    by (simp add: isFederatedPeerAdmitted_def private_home_def empty_db_def)
  ultimately show ?thesis
    using peer_confined [OF private_idle prod.collapse [symmetric], of private_config private_status "''r''" "''authority-h''" "JStr ''snapshot''" "''s''" "[]"]
    by blast
qed


end
