(* ===== verification/TerminalCapability.thy ===== *)
theory TerminalCapability
  imports Bytes EnrollmentCrypto RelayProtocolProperties
begin

text \<open>
  Terminal capabilities (\<open>src/roomsd/src/federation/terminal-capability.ts\<close>): the signed token with which the
  authority that owns a runtime lets the daemon of a peer open a terminal on it. A key object is represented as in
  \<open>EnrollmentCrypto\<close>; \<open>JSON.parse\<close> and \<open>Date.parse\<close> are those of the machine.
\<close>

definition TERMINAL_CAPABILITY_VERSION :: int where "TERMINAL_CAPABILITY_VERSION = 1"
definition TERMINAL_CAPABILITY_MAX_TTL_SECONDS :: int where "TERMINAL_CAPABILITY_MAX_TTL_SECONDS = 3600"
definition TERMINAL_CAPABILITY_DOMAIN :: string where
  "TERMINAL_CAPABILITY_DOMAIN = ''rooms-federation-terminal-capability-v1''"
definition ACTIONS :: "string list" where
  "ACTIONS = [''observe'', ''controller'', ''input'', ''resize'']"

text \<open>The pattern \<open>BASE64\<close>: groups of four, the last one padded.\<close>

fun strict_base64 :: "string \<Rightarrow> bool" where
  "strict_base64 [] \<longleftrightarrow> True"
| "strict_base64 (a # b # c # d # rest) \<longleftrightarrow> base64_char a \<and> base64_char b \<and>
     (if base64_char c \<and> base64_char d then strict_base64 rest
      else rest = [] \<and> d = CHR ''='' \<and> (c = CHR ''='' \<or> base64_char c))"
| "strict_base64 _ \<longleftrightarrow> False"

record capability =
  tc_version :: int
  tc_capabilityId :: string
  tc_nonce :: string
  tc_issuer :: string
  tc_audience :: string
  tc_sessionId :: string
  tc_channelId :: "string option"
  tc_runtimeId :: string
  tc_generation :: int
  tc_actions :: "string list"
  tc_issuedAt :: string
  tc_expiresAt :: string
  tc_signature :: string

datatype terminal_mode = Observing | Controlling

definition terminalActionsForMode :: "terminal_mode \<Rightarrow> string list" where
  "terminalActionsForMode mode =
     (case mode of Observing \<Rightarrow> [''observe''] | Controlling \<Rightarrow> [''observe'', ''controller'', ''input'', ''resize''])"

section \<open>The signed text\<close>

definition unsigned_fields :: "capability \<Rightarrow> (string \<times> json) list" where
  "unsigned_fields c =
     [(''version'', JNum (tc_version c)), (''capabilityId'', JStr (tc_capabilityId c)), (''nonce'', JStr (tc_nonce c)),
      (''issuer'', JStr (tc_issuer c)), (''audience'', JStr (tc_audience c)), (''sessionId'', JStr (tc_sessionId c)),
      (''channelId'', json_or_null (tc_channelId c)), (''runtimeId'', JStr (tc_runtimeId c)),
      (''generation'', JNum (tc_generation c)), (''actions'', JArr (map JStr (tc_actions c))),
      (''issuedAt'', JStr (tc_issuedAt c)), (''expiresAt'', JStr (tc_expiresAt c))]"

definition terminalCapabilityTranscript :: "capability \<Rightarrow> string" where
  "terminalCapabilityTranscript c = TERMINAL_CAPABILITY_DOMAIN @ [CHR 0x0A] @ stringify (JObj (unsigned_fields c))"

section \<open>Issuing\<close>

record capability_request =
  cq_issuer :: string
  cq_audience :: string
  cq_sessionId :: string
  cq_channelId :: "string option"
  cq_runtimeId :: string
  cq_generation :: int
  cq_mode :: terminal_mode
  cq_privateKey :: string
  cq_ttlSeconds :: "int option"

definition unsigned_capability :: "machine \<Rightarrow> capability_request \<Rightarrow> string \<Rightarrow> string \<Rightarrow> capability" where
  "unsigned_capability m q issuedAt expiresAt =
     \<lparr>tc_version = TERMINAL_CAPABILITY_VERSION, tc_capabilityId = ''terminal-capability-'' @ m_uuid m, tc_nonce = m_nonce m,
      tc_issuer = cq_issuer q, tc_audience = cq_audience q, tc_sessionId = cq_sessionId q, tc_channelId = cq_channelId q,
      tc_runtimeId = cq_runtimeId q, tc_generation = cq_generation q, tc_actions = terminalActionsForMode (cq_mode q),
      tc_issuedAt = issuedAt, tc_expiresAt = expiresAt, tc_signature = []\<rparr>"

definition issueTerminalCapability :: "machine \<Rightarrow> capability_request \<Rightarrow> capability checked" where
  "issueTerminalCapability m q =
     (let ttlSeconds = (case cq_ttlSeconds q of None \<Rightarrow> 300 | Some t \<Rightarrow> t) in
      if ttlSeconds < 1 \<or> ttlSeconds > TERMINAL_CAPABILITY_MAX_TTL_SECONDS
      then Inl ''terminal capability TTL must be between 1 and 3600 seconds''
      else if blank (cq_sessionId q) \<or> blank (cq_runtimeId q) \<or> cq_generation q < 1
      then Inl ''terminal capability runtime binding is invalid''
      else
        let issuedAt = m_iso m (m_now m) in
        case date_parse (m_host m) issuedAt of
          None \<Rightarrow> Inl ''Invalid time value''
        | Some t \<Rightarrow>
            let unsigned = unsigned_capability m q issuedAt (m_iso m (t + ttlSeconds * 1000)) in
            Inr (unsigned\<lparr>tc_signature := ed_sign (m_crypto m) (cq_privateKey q) (terminalCapabilityTranscript unsigned)\<rparr>))"

section \<open>Verifying\<close>

record capability_check =
  cv_publicKey :: string
  cv_issuer :: string
  cv_audience :: string
  cv_sessionId :: string
  cv_mode :: terminal_mode

definition verifyTerminalCapability :: "machine \<Rightarrow> capability_check \<Rightarrow> capability \<Rightarrow> unit checked" where
  "verifyTerminalCapability m v c =
     (if tc_issuer c \<noteq> cv_issuer v then Inl ''terminal capability issuer mismatch''
      else if tc_audience c \<noteq> cv_audience v then Inl ''terminal capability audience mismatch''
      else if tc_sessionId c \<noteq> cv_sessionId v then Inl ''terminal capability session mismatch''
      else if list_ex (\<lambda>a. a \<notin> set (tc_actions c)) (terminalActionsForMode (cv_mode v))
      then Inl ''terminal capability action mismatch''
      else
        case (date_parse (m_host m) (tc_issuedAt c), date_parse (m_host m) (tc_expiresAt c)) of
          (Some issuedAt, Some expiresAt) \<Rightarrow>
            if expiresAt \<le> issuedAt \<or> expiresAt - issuedAt > TERMINAL_CAPABILITY_MAX_TTL_SECONDS * 1000
            then Inl ''terminal capability time window is invalid''
            else if issuedAt > m_now m + 30000 then Inl ''terminal capability is not yet valid''
            else if expiresAt \<le> m_now m then Inl ''terminal capability expired''
            else
              let signature = base64_bytes (m_crypto m) (tc_signature c) in
              if \<not> strict_base64 (tc_signature c) \<or> length signature \<noteq> 64 then Inl ''terminal capability signature is invalid''
              else check (ed_verify (m_crypto m) (cv_publicKey v) (terminalCapabilityTranscript c) signature) (\<lambda>ok.
                if ok then Inr () else Inl ''terminal capability signature is invalid'')
        | _ \<Rightarrow> Inl ''terminal capability time window is invalid'')"

section \<open>Texts\<close>

definition capability_json :: "capability \<Rightarrow> json" where
  "capability_json c = JObj (unsigned_fields c @ [(''signature'', JStr (tc_signature c))])"

definition capability_keys :: "string list" where
  "capability_keys = [''version'', ''capabilityId'', ''nonce'', ''issuer'', ''audience'', ''sessionId'', ''channelId'',
     ''runtimeId'', ''generation'', ''actions'', ''issuedAt'', ''expiresAt'', ''signature'']"

definition capability_text :: "json \<Rightarrow> string \<Rightarrow> string checked" where
  "capability_text r field =
     (case get_prop field r of
        Some (JStr t) \<Rightarrow>
          if blank t \<or> utf8_bytes t > 512 then Inl (''terminal capability '' @ field @ '' is invalid'') else Inr t
      | _ \<Rightarrow> Inl (''terminal capability '' @ field @ '' is invalid''))"

definition capability_id_pattern :: "string \<Rightarrow> bool" where
  "capability_id_pattern s \<longleftrightarrow> starts_with ''terminal-capability-'' s \<and> length s = 56 \<and>
     list_all (\<lambda>c. hex_digit c \<or> c = CHR ''-'') (drop 20 s)"

definition channel_field :: "json option \<Rightarrow> string option checked" where
  "channel_field v =
     (case v of
        Some JNull \<Rightarrow> Inr None
      | Some (JStr t) \<Rightarrow>
          if blank t \<or> utf8_bytes t > 256 then Inl ''terminal capability channelId is invalid'' else Inr (Some t)
      | _ \<Rightarrow> Inl ''terminal capability channelId is invalid'')"

fun action_texts :: "json list \<Rightarrow> string list option" where
  "action_texts [] = Some []"
| "action_texts (JStr a # vs) =
     (if a \<in> set ACTIONS then (case action_texts vs of None \<Rightarrow> None | Some texts \<Rightarrow> Some (a # texts)) else None)"
| "action_texts _ = None"

definition actions_field :: "json option \<Rightarrow> string list checked" where
  "actions_field v =
     (case v of
        Some (JArr vs) \<Rightarrow>
          (case action_texts vs of
             Some texts \<Rightarrow> if texts = [] \<or> \<not> distinct texts then Inl ''terminal capability actions are invalid'' else Inr texts
           | None \<Rightarrow> Inl ''terminal capability actions are invalid'')
      | _ \<Rightarrow> Inl ''terminal capability actions are invalid'')"

definition capability_record :: "json \<Rightarrow> capability checked" where
  "capability_record r =
     check (capability_text r ''capabilityId'') (\<lambda>capabilityId.
     check (capability_text r ''issuer'') (\<lambda>issuer.
     check (capability_text r ''audience'') (\<lambda>audience.
     check (capability_text r ''sessionId'') (\<lambda>sessionId.
     check (capability_text r ''runtimeId'') (\<lambda>runtimeId.
     check (capability_text r ''issuedAt'') (\<lambda>issuedAt.
     check (capability_text r ''expiresAt'') (\<lambda>expiresAt.
     check (capability_text r ''signature'') (\<lambda>signature.
     if \<not> capability_id_pattern capabilityId then Inl ''terminal capability id is invalid''
     else
       case get_prop ''nonce'' r of
         Some (JStr nonce) \<Rightarrow>
           if \<not> sha256_hex nonce then Inl ''terminal capability nonce is invalid''
           else
             check (channel_field (get_prop ''channelId'' r)) (\<lambda>channelId.
             case get_prop ''generation'' r of
               Some (JNum generation) \<Rightarrow>
                 if generation < 1 then Inl ''terminal capability generation is invalid''
                 else
                   check (actions_field (get_prop ''actions'' r)) (\<lambda>actions.
                   Inr \<lparr>tc_version = 1, tc_capabilityId = capabilityId, tc_nonce = nonce, tc_issuer = issuer,
                     tc_audience = audience, tc_sessionId = sessionId, tc_channelId = channelId, tc_runtimeId = runtimeId,
                     tc_generation = generation, tc_actions = actions, tc_issuedAt = issuedAt, tc_expiresAt = expiresAt,
                     tc_signature = signature\<rparr>)
             | _ \<Rightarrow> Inl ''terminal capability generation is invalid'')
       | _ \<Rightarrow> Inl ''terminal capability nonce is invalid''))))))))"

definition parseTerminalCapability :: "relay_host \<Rightarrow> string \<Rightarrow> capability checked" where
  "parseTerminalCapability host raw =
     (if utf8_bytes raw > 8 * 1024 then Inl ''terminal capability exceeds 8 KiB''
      else case json_parse host raw of
        None \<Rightarrow> Inl ''terminal capability is malformed JSON''
      | Some (JObj kvs) \<Rightarrow>
          let r = JObj kvs in
          if list_ex (\<lambda>k. k \<notin> set capability_keys) (own_keys r) \<or> list_ex (\<lambda>k. get_prop k r = None) capability_keys
          then Inl ''terminal capability fields are invalid''
          else if get_prop ''version'' r \<noteq> Some (JNum TERMINAL_CAPABILITY_VERSION)
          then Inl ''terminal capability version is unsupported''
          else capability_record r
      | Some _ \<Rightarrow> Inl ''terminal capability must be an object'')"

definition encodeTerminalCapability :: "capability \<Rightarrow> string" where
  "encodeTerminalCapability c = base64_encode (utf8_encode (stringify (capability_json c)))"

definition decodeTerminalCapability :: "relay_host \<Rightarrow> string \<Rightarrow> capability checked" where
  "decodeTerminalCapability host encoded =
     (if \<not> strict_base64 encoded \<or> length encoded mod 4 \<noteq> 0 then Inl ''terminal capability must be base64-encoded''
      else case utf8_decode (base64_decode encoded) of
        None \<Rightarrow> Inl ''code unit outside the alphabet''
      | Some raw \<Rightarrow> parseTerminalCapability host raw)"

end
