(* ===== verification/TerminalCapabilityProperties.thy ===== *)
theory TerminalCapabilityProperties
  imports TerminalCapability JsonSize DemoMachines
begin

text \<open>
  What a terminal capability is worth: the token its issuer encodes is accepted for exactly the peer, session, mode
  and time it was issued for, and, if signatures cannot be forged, no other token is accepted, although the same key
  signs enrollments and relay handshakes.
\<close>

section \<open>Reading back what was encoded\<close>

lemma strict_base64_encoded: "strict_base64 (base64_encode bs) \<and> length (base64_encode bs) mod 4 = 0"
proof (induction bs rule: base64_encode.induct)
  case (2 a)
  then show ?case
    using sextets_less [of 0 "unat a"]
    by (simp add: base64_digit_ok byte_parts pad_not_base64)
next
  case (3 a b)
  then show ?case
    by (simp add: base64_digit_ok byte_parts pad_not_base64 sextets_less sextets_less2)
next
  case (4 a b c rest)
  then show ?case
    by (simp add: base64_digit_ok byte_parts sextets_less sextets_less2)
qed simp

lemmas capability_field_defs = unsigned_fields_def capability_json_def capability_keys_def

lemma capability_no_proto: "no_proto (unsigned_fields c @ [(''signature'', JStr (tc_signature c))])"
  by (simp add: unsigned_fields_def no_proto_def proto_key_def)

lemma capability_prop: "get_prop k (capability_json c) = map_of (unsigned_fields c @ [(''signature'', JStr (tc_signature c))]) k"
  unfolding capability_json_def by (rule get_prop_no_proto [OF capability_no_proto])

lemma action_texts_strings: "action_texts (map JStr texts) = (if set texts \<subseteq> set ACTIONS then Some texts else None)"
  by (induction texts) auto

definition sound_text :: "string \<Rightarrow> bool" where
  "sound_text t \<longleftrightarrow> \<not> blank t \<and> utf8_bytes t \<le> 512"

text \<open>The capabilities that the parser accepts.\<close>

definition sound_capability :: "capability \<Rightarrow> bool" where
  "sound_capability c \<longleftrightarrow> tc_version c = 1 \<and> capability_id_pattern (tc_capabilityId c) \<and> sha256_hex (tc_nonce c) \<and>
     list_all sound_text [tc_capabilityId c, tc_issuer c, tc_audience c, tc_sessionId c, tc_runtimeId c, tc_issuedAt c,
       tc_expiresAt c, tc_signature c] \<and>
     (\<forall>t \<in> set_option (tc_channelId c). \<not> blank t \<and> utf8_bytes t \<le> 256) \<and> 1 \<le> tc_generation c \<and>
     tc_actions c \<noteq> [] \<and> distinct (tc_actions c) \<and> set (tc_actions c) \<subseteq> set ACTIONS"

lemma capability_record_json: "sound_capability c \<Longrightarrow> capability_record (capability_json c) = Inr c"
  by (cases c) (auto simp: sound_capability_def sound_text_def capability_record_def capability_text_def capability_prop
    unsigned_fields_def channel_field_def actions_field_def action_texts_strings json_or_null_def split: option.splits)

lemma capability_own_keys: "own_keys (capability_json c) = capability_keys"
  unfolding capability_json_def own_keys_no_proto [OF capability_no_proto]
  by (simp add: unsigned_fields_def capability_keys_def)

lemma decode_encode_capability:
  assumes "sound_capability c" and "utf8_bytes (stringify (capability_json c)) \<le> 8 * 1024"
    and "json_parse host (stringify (capability_json c)) = Some (capability_json c)"
  shows "decodeTerminalCapability host (encodeTerminalCapability c) = Inr c"
proof -
  have present: "list_ex (\<lambda>k. get_prop k (capability_json c) = None) capability_keys = False"
    by (simp add: capability_keys_def capability_prop unsigned_fields_def)
  have "get_prop ''version'' (capability_json c) = Some (JNum TERMINAL_CAPABILITY_VERSION)"
    using assms(1) by (simp add: capability_prop unsigned_fields_def sound_capability_def TERMINAL_CAPABILITY_VERSION_def)
  moreover have "\<not> list_ex (\<lambda>k. k \<notin> set capability_keys) (own_keys (capability_json c))"
    by (simp add: capability_own_keys list_ex_iff)
  moreover obtain kvs where "capability_json c = JObj kvs"
    by (simp add: capability_json_def)
  ultimately have "parseTerminalCapability host (stringify (capability_json c)) = Inr c"
    using assms capability_record_json [OF assms(1)] present by (simp add: parseTerminalCapability_def)
  then show ?thesis
    by (simp add: decodeTerminalCapability_def encodeTerminalCapability_def strict_base64_encoded base64_roundtrip utf8_roundtrip)
qed

lemma action_texts_Some: "action_texts vs = Some texts \<Longrightarrow> set texts \<subseteq> set ACTIONS"
  by (induction vs arbitrary: texts rule: action_texts.induct) (auto split: if_splits option.splits)

lemma capability_text_Inr: "capability_text r k = Inr t \<Longrightarrow> sound_text t"
  by (auto simp: capability_text_def sound_text_def split: option.splits json.splits if_splits)

lemma channel_field_Inr: "channel_field v = Inr t \<Longrightarrow> \<forall>u \<in> set_option t. \<not> blank u \<and> utf8_bytes u \<le> 256"
  by (auto simp: channel_field_def split: option.splits json.splits if_splits)

lemma actions_field_Inr: "actions_field v = Inr texts \<Longrightarrow> texts \<noteq> [] \<and> distinct texts \<and> set texts \<subseteq> set ACTIONS"
  by (auto simp: actions_field_def dest: action_texts_Some split: option.splits json.splits if_splits)

lemma parse_capability_Inr: "parseTerminalCapability host raw = Inr c \<Longrightarrow> \<exists>r. capability_record r = Inr c"
  unfolding parseTerminalCapability_def Let_def
  by (auto simp del: get_prop.simps split: if_split_asm option.split_asm json.split_asm)

lemma capability_record_typed:
  assumes "capability_record r = Inr c"
  shows "tc_version c = 1 \<and> capability_id_pattern (tc_capabilityId c) \<and> sha256_hex (tc_nonce c) \<and>
    list_all sound_text [tc_issuer c, tc_audience c, tc_sessionId c, tc_runtimeId c, tc_issuedAt c, tc_expiresAt c, tc_signature c] \<and>
    (\<forall>t \<in> set_option (tc_channelId c). \<not> blank t \<and> utf8_bytes t \<le> 256) \<and> 1 \<le> tc_generation c \<and>
    tc_actions c \<noteq> [] \<and> distinct (tc_actions c) \<and> set (tc_actions c) \<subseteq> set ACTIONS"
  using assms unfolding capability_record_def check_Inr_iff
  apply (elim exE conjE)
  apply (drule capability_text_Inr)+
  apply (simp split: if_split_asm option.split_asm json.split_asm)
  apply (clarsimp simp: check_Inr_iff)
  apply (drule channel_field_Inr)
  apply (simp split: if_split_asm option.split_asm json.split_asm)
  apply (clarsimp simp: check_Inr_iff)
  apply (drule actions_field_Inr)
  apply simp
  done

text \<open>
  C29. Every capability that a daemon decodes from what a peer sent has the type its fields promise: version one, an
  identifier and a nonce of their forms, bounded texts that are not blank, a positive generation, and distinct
  actions of the four that exist, at least one.\<close>

theorem decoded_capability_typed:
  assumes "decodeTerminalCapability host encoded = Inr c"
  shows "tc_version c = 1 \<and> capability_id_pattern (tc_capabilityId c) \<and> sha256_hex (tc_nonce c) \<and>
    (\<forall>t \<in> {tc_issuer c, tc_audience c, tc_sessionId c, tc_runtimeId c, tc_issuedAt c, tc_expiresAt c, tc_signature c}.
      \<not> blank t \<and> utf8_bytes t \<le> 512) \<and>
    (\<forall>t \<in> set_option (tc_channelId c). \<not> blank t \<and> utf8_bytes t \<le> 256) \<and> 1 \<le> tc_generation c \<and>
    tc_actions c \<noteq> [] \<and> distinct (tc_actions c) \<and> set (tc_actions c) \<subseteq> {''observe'', ''controller'', ''input'', ''resize''}"
proof -
  obtain r where "capability_record r = Inr c"
    using assms parse_capability_Inr by (auto simp: decodeTerminalCapability_def split: option.splits if_splits)
  note typed = capability_record_typed [OF this]
  then show ?thesis
    by (simp add: ACTIONS_def sound_text_def)
qed

section \<open>A capability is honoured for what it was issued for\<close>

text \<open>The pair of a private and a public key: what the one signs the other verifies, in the form \<open>sign\<close> gives it.\<close>

definition signing_pair :: "crypto \<Rightarrow> string \<Rightarrow> string \<Rightarrow> bool" where
  "signing_pair c privateKey publicKey \<longleftrightarrow> (\<forall>text. let s = ed_sign c privateKey text in
     strict_base64 s \<and> sound_text s \<and> length (base64_bytes c s) = 64 \<and> ed_verify c publicKey text (base64_bytes c s) = Inr True)"

definition ttl_of :: "capability_request \<Rightarrow> int" where
  "ttl_of q = (case cq_ttlSeconds q of None \<Rightarrow> 300 | Some t \<Rightarrow> t)"

text \<open>\<open>Date.parse\<close> reads back what \<open>toISOString\<close> writes for the two times of a capability, and that is short.\<close>

definition iso_clock :: "machine \<Rightarrow> capability_request \<Rightarrow> bool" where
  "iso_clock m q \<longleftrightarrow> list_all (\<lambda>t. date_parse (m_host m) (m_iso m t) = Some t \<and> sound_text (m_iso m t))
     [m_now m, m_now m + ttl_of q * 1000]"

lemma issued_facts:
  assumes "issueTerminalCapability m q = Inr c" and "date_parse (m_host m) (m_iso m (m_now m)) = Some (m_now m)"
  obtains "1 \<le> ttl_of q" "ttl_of q \<le> 3600" "1 \<le> cq_generation q" "\<not> blank (cq_sessionId q)" "\<not> blank (cq_runtimeId q)"
    "c = (unsigned_capability m q (m_iso m (m_now m)) (m_iso m (m_now m + ttl_of q * 1000)))
       \<lparr>tc_signature := ed_sign (m_crypto m) (cq_privateKey q) (terminalCapabilityTranscript c)\<rparr>"
proof -
  have "terminalCapabilityTranscript (c\<lparr>tc_signature := s\<rparr>) = terminalCapabilityTranscript c" for c s
    by (simp add: terminalCapabilityTranscript_def unsigned_fields_def)
  with assms that show thesis
    by (auto simp: issueTerminalCapability_def Let_def ttl_of_def TERMINAL_CAPABILITY_MAX_TTL_SECONDS_def not_less not_le split: if_splits)
qed

lemma actions_of_mode:
  "terminalActionsForMode mode \<noteq> [] \<and> distinct (terminalActionsForMode mode) \<and> set (terminalActionsForMode mode) \<subseteq> set ACTIONS"
  by (simp add: terminalActionsForMode_def ACTIONS_def split: terminal_mode.splits)

lemma actions_cover:
  "list_ex (\<lambda>a. a \<notin> set (terminalActionsForMode granted)) (terminalActionsForMode wanted) \<longleftrightarrow> wanted = Controlling \<and> granted = Observing"
  by (cases granted; cases wanted) (simp_all add: terminalActionsForMode_def)

lemma hex_dashes: "uuid_pattern u \<Longrightarrow> length u = 36 \<and> list_all (\<lambda>c. hex_digit c \<or> c = CHR ''-'') u"
  by (auto simp: uuid_pattern_def list_all_length nth_append set_zip list_all_iff in_set_conv_nth split: if_splits)

lemma prefixed_id:
  assumes "uuid_pattern u"
  shows "capability_id_pattern (''terminal-capability-'' @ u) \<and> sound_text (''terminal-capability-'' @ u)"
proof -
  have "utf8_bytes u \<le> 2 * length u" for u :: string
    by (induction u) (simp_all add: utf8_bytes_def)
  from this [of u] show ?thesis
    using hex_dashes [OF assms]
    by (simp add: capability_id_pattern_def starts_with_def sound_text_def utf8_bytes_append)
      (simp add: blank_def js_space_def utf8_bytes_def)
qed

lemma sound_issued:
  assumes "issueTerminalCapability m q = Inr c" and "iso_clock m q" and "signing_pair (m_crypto m) (cq_privateKey q) publicKey"
    and "uuid_pattern (m_uuid m)" and "sha256_hex (m_nonce m)"
    and "list_all sound_text [cq_issuer q, cq_audience q, cq_sessionId q, cq_runtimeId q]"
    and "\<forall>t \<in> set_option (cq_channelId q). \<not> blank t \<and> utf8_bytes t \<le> 256"
  shows "sound_capability c"
proof -
  have "date_parse (m_host m) (m_iso m (m_now m)) = Some (m_now m)"
    using assms(2) by (simp add: iso_clock_def)
  from issued_facts [OF assms(1) this] obtain s where q: "1 \<le> cq_generation q"
    and c: "c = (unsigned_capability m q (m_iso m (m_now m)) (m_iso m (m_now m + ttl_of q * 1000)))\<lparr>tc_signature := s\<rparr>"
    and s: "s = ed_sign (m_crypto m) (cq_privateKey q) (terminalCapabilityTranscript c)"
    by metis
  have "sound_text s"
    using assms(3) by (simp add: s signing_pair_def Let_def)
  then show ?thesis
    using assms(2,5-7) q prefixed_id [OF assms(4)] actions_of_mode [of "cq_mode q"]
    by (simp add: c unsigned_capability_def sound_capability_def iso_clock_def TERMINAL_CAPABILITY_VERSION_def)
qed

lemma verify_issued:
  assumes "issueTerminalCapability m q = Inr c" and "iso_clock m q" and "signing_pair (m_crypto m) (cq_privateKey q) (cv_publicKey v)"
  shows "verifyTerminalCapability (m\<lparr>m_now := now\<rparr>) v c = Inr () \<longleftrightarrow>
    cv_issuer v = cq_issuer q \<and> cv_audience v = cq_audience q \<and> cv_sessionId v = cq_sessionId q \<and>
    (cv_mode v = Controlling \<longrightarrow> cq_mode q = Controlling) \<and> m_now m \<le> now + 30000 \<and> now < m_now m + ttl_of q * 1000"
proof -
  have dates: "date_parse (m_host m) (m_iso m (m_now m)) = Some (m_now m)"
      "date_parse (m_host m) (m_iso m (m_now m + ttl_of q * 1000)) = Some (m_now m + ttl_of q * 1000)"
    using assms(2) by (simp_all add: iso_clock_def)
  from issued_facts [OF assms(1) dates(1)] obtain s where q: "1 \<le> ttl_of q" "ttl_of q \<le> 3600"
    and c: "c = (unsigned_capability m q (m_iso m (m_now m)) (m_iso m (m_now m + ttl_of q * 1000)))\<lparr>tc_signature := s\<rparr>"
    and s: "s = ed_sign (m_crypto m) (cq_privateKey q) (terminalCapabilityTranscript c)"
    by metis
  have signed: "strict_base64 s" "length (base64_bytes (m_crypto m) s) = 64"
      "ed_verify (m_crypto m) (cv_publicKey v) (terminalCapabilityTranscript c) (base64_bytes (m_crypto m) s) = Inr True"
    using assms(3) by (simp_all add: s signing_pair_def Let_def)
  have fields: "tc_issuer c = cq_issuer q" "tc_audience c = cq_audience q" "tc_sessionId c = cq_sessionId q"
      "tc_actions c = terminalActionsForMode (cq_mode q)" "tc_signature c = s"
      "date_parse (m_host m) (tc_issuedAt c) = Some (m_now m)"
      "date_parse (m_host m) (tc_expiresAt c) = Some (m_now m + ttl_of q * 1000)"
    by (simp_all add: c unsigned_capability_def dates)
  have "cv_mode v = Controlling \<and> cq_mode q = Observing \<longleftrightarrow> \<not> (cv_mode v = Controlling \<longrightarrow> cq_mode q = Controlling)"
    by (cases "cq_mode q") simp_all
  then show ?thesis
    using q signed by (auto simp: verifyTerminalCapability_def fields actions_cover TERMINAL_CAPABILITY_MAX_TTL_SECONDS_def Let_def)
qed


section \<open>No other capability is accepted\<close>

lemma json_or_null_eq: "json_or_null a = json_or_null b \<longleftrightarrow> a = b"
  by (cases a; cases b) (simp_all add: json_or_null_def)

lemma strings_eq: "map JStr as = map JStr bs \<longleftrightarrow> as = bs"
  by (rule inj_map_eq_map) (simp add: inj_def)

lemma transcript_injective:
  assumes "terminalCapabilityTranscript a = terminalCapabilityTranscript b"
  shows "a = b\<lparr>tc_signature := tc_signature a\<rparr>"
proof -
  have "plain (JObj (unsigned_fields c)) \<and> unique_keys (JObj (unsigned_fields c))" for c
    by (auto simp: unsigned_fields_def proto_key_def json_or_null_def list_all_iff split: option.splits)
  then have "parseEnrollmentArtifactJson (stringify (JObj (unsigned_fields c))) = Inr (JObj (unsigned_fields c))" for c
    using parse_stringify by blast
  moreover have "stringify (JObj (unsigned_fields a)) = stringify (JObj (unsigned_fields b))"
    using assms by (simp add: terminalCapabilityTranscript_def)
  ultimately have "unsigned_fields a = unsigned_fields b"
    by (metis json.inject(6) sum.inject(2))
  then show ?thesis
    by (cases a; cases b) (simp add: unsigned_fields_def json_or_null_eq strings_eq)
qed

lemma transcript_domains:
  "terminalCapabilityTranscript c \<noteq> canonicalEnrollmentTranscript k f"
  "terminalCapabilityTranscript c \<noteq> canonicalRelayInitTranscript i"
  "terminalCapabilityTranscript c \<noteq> canonicalRelayAcceptTranscript a"
  by (simp_all add: terminalCapabilityTranscript_def TERMINAL_CAPABILITY_DOMAIN_def canonicalEnrollmentTranscript_def
    ENROLLMENT_TRANSCRIPT_DOMAIN_def canonicalRelayInitTranscript_def canonicalRelayAcceptTranscript_def RELAY_HANDSHAKE_DOMAIN_def)

text \<open>
  C27. Terminal capabilities cannot be made up. Suppose that only what an authority signed verifies under its key,
  and that the key signed capabilities, enrollment transcripts and relay handshakes. Then every capability that is
  accepted is, but for the form of its signature, one that the authority issued, and it is used inside its window of
  at most an hour.\<close>

theorem accepted_capability_was_issued:
  assumes "verifyTerminalCapability m v c = Inr ()"
    and "\<And>text s. ed_verify (m_crypto m) (cv_publicKey v) text s = Inr True \<Longrightarrow>
      text \<in> terminalCapabilityTranscript ` issued \<union> (\<Union>k. range (canonicalEnrollmentTranscript k)) \<union>
        range canonicalRelayInitTranscript \<union> range canonicalRelayAcceptTranscript"
  shows "\<exists>c0 \<in> issued. c = c0\<lparr>tc_signature := tc_signature c\<rparr> \<and> tc_audience c0 = cv_audience v \<and>
    tc_sessionId c0 = cv_sessionId v \<and> set (terminalActionsForMode (cv_mode v)) \<subseteq> set (tc_actions c0) \<and>
    (\<exists>t u. date_parse (m_host m) (tc_issuedAt c0) = Some t \<and> date_parse (m_host m) (tc_expiresAt c0) = Some u \<and>
      t - 30000 \<le> m_now m \<and> m_now m < u \<and> u \<le> t + 3600 * 1000)"
proof -
  obtain t u where dates: "date_parse (m_host m) (tc_issuedAt c) = Some t" "date_parse (m_host m) (tc_expiresAt c) = Some u"
    using assms(1) by (auto simp: verifyTerminalCapability_def split: if_splits option.splits)
  then have accepted: "tc_audience c = cv_audience v" "tc_sessionId c = cv_sessionId v"
      "\<not> list_ex (\<lambda>a. a \<notin> set (tc_actions c)) (terminalActionsForMode (cv_mode v))"
      "\<not> (t > m_now m + 30000)" "\<not> (u \<le> m_now m)" "\<not> (u - t > 3600 * 1000)"
      "ed_verify (m_crypto m) (cv_publicKey v) (terminalCapabilityTranscript c) (base64_bytes (m_crypto m) (tc_signature c)) = Inr True"
    using assms(1)
    by (simp_all add: verifyTerminalCapability_def check_Inr_iff TERMINAL_CAPABILITY_MAX_TTL_SECONDS_def Let_def split: if_splits)
  have "terminalCapabilityTranscript c \<in> terminalCapabilityTranscript ` issued"
    using assms(2) [OF accepted(7)] transcript_domains [of c] by (elim UnE UN_E) (simp_all add: image_iff)
  then obtain c0 where c0: "c0 \<in> issued" "terminalCapabilityTranscript c = terminalCapabilityTranscript c0"
    by blast
  note same = transcript_injective [OF c0(2)]
  have "tc_audience c = tc_audience c0" "tc_sessionId c = tc_sessionId c0" "tc_actions c = tc_actions c0"
      "tc_issuedAt c = tc_issuedAt c0" "tc_expiresAt c = tc_expiresAt c0"
    by (subst same, simp)+
  with accepted dates have "tc_audience c0 = cv_audience v \<and> tc_sessionId c0 = cv_sessionId v \<and>
      set (terminalActionsForMode (cv_mode v)) \<subseteq> set (tc_actions c0) \<and>
      date_parse (m_host m) (tc_issuedAt c0) = Some t \<and> date_parse (m_host m) (tc_expiresAt c0) = Some u \<and>
      t - 30000 \<le> m_now m \<and> m_now m < u \<and> u \<le> t + 3600 * 1000"
    by (auto simp: list_ex_iff)
  with c0(1) same show ?thesis
    by blast
qed

section \<open>Witnesses\<close>

text \<open>Machine \<open>A\<close> lets the daemon of \<open>B\<close> observe a session.\<close>

definition demo_request :: capability_request where
  "demo_request = \<lparr>cq_issuer = ''authority-a'', cq_audience = ''authority-b'', cq_sessionId = ''w'', cq_channelId = Some ''c'',
     cq_runtimeId = ''r'', cq_generation = 1, cq_mode = Observing, cq_privateKey = ''A'', cq_ttlSeconds = Some 60\<rparr>"

definition demo_capability :: capability where
  "demo_capability = (unsigned_capability demo_machine demo_request ''t0'' ''t1'')\<lparr>tc_signature := demo_signature ''A''\<rparr>"

definition capability_machine :: machine where
  "capability_machine = demo_machine\<lparr>m_host := demo_machine_host\<lparr>json_parse := (\<lambda>_. Some (capability_json demo_capability))\<rparr>\<rparr>"

definition demo_check :: "terminal_mode \<Rightarrow> capability_check" where
  "demo_check mode = \<lparr>cv_publicKey = ''A'', cv_issuer = ''authority-a'', cv_audience = ''authority-b'', cv_sessionId = ''w'', cv_mode = mode\<rparr>"

lemma demo_issued: "issueTerminalCapability capability_machine demo_request = Inr demo_capability"
  by (simp add: issueTerminalCapability_def capability_machine_def demo_capability_def demo_request_def unsigned_capability_def
    demo_machine_def demo_machine_host_def demo_crypto_def TERMINAL_CAPABILITY_MAX_TTL_SECONDS_def blank_def js_space_def)

lemma demo_signature_ok:
  "strict_base64 (demo_signature ''A'') \<and> length (demo_signature ''A'') = 64 \<and> sound_text (demo_signature ''A'')"
  by code_simp

lemma demo_signing: "signing_pair demo_crypto ''A'' ''A''"
  using demo_signature_ok by (simp add: signing_pair_def demo_crypto_def)

lemma demo_capability_size: "utf8_bytes (stringify (capability_json demo_capability)) \<le> 8 * 1024"
proof -
  have "json_size (capability_json demo_capability) \<le> 8192"
    by (simp add: capability_json_def unsigned_fields_def demo_capability_def unsigned_capability_def demo_request_def
      terminalActionsForMode_def demo_machine_def demo_signature_def json_or_null_def digits.simps TERMINAL_CAPABILITY_VERSION_def
      utf8_bytes_def int_text_def)
  then show ?thesis
    using stringify_bytes [of "capability_json demo_capability"] by simp
qed


text \<open>A machine under whose key only the capability above was signed.\<close>

definition exact_machine :: machine where
  "exact_machine = demo_machine\<lparr>m_crypto := demo_crypto\<lparr>ed_verify :=
     (\<lambda>k t g. Inr (g = demo_signature k \<and> t = terminalCapabilityTranscript demo_capability))\<rparr>\<rparr>"

lemma accepted_capability_was_issued_witness:
  "verifyTerminalCapability exact_machine (demo_check Observing) demo_capability = Inr () \<and>
   (\<exists>c0 \<in> {demo_capability}. demo_capability = c0\<lparr>tc_signature := tc_signature demo_capability\<rparr> \<and> tc_audience c0 = ''authority-b'')"
proof -
  have "verifyTerminalCapability exact_machine (demo_check Observing) demo_capability = Inr ()"
    using demo_signature_ok
    by (simp add: verifyTerminalCapability_def exact_machine_def demo_check_def demo_machine_def demo_machine_host_def demo_crypto_def
      demo_capability_def unsigned_capability_def demo_request_def terminalActionsForMode_def TERMINAL_CAPABILITY_MAX_TTL_SECONDS_def
      terminalCapabilityTranscript_def unsigned_fields_def)
  moreover have "t \<in> terminalCapabilityTranscript ` {demo_capability} \<union> (\<Union>k. range (canonicalEnrollmentTranscript k)) \<union>
      range canonicalRelayInitTranscript \<union> range canonicalRelayAcceptTranscript"
    if "ed_verify (m_crypto exact_machine) (cv_publicKey (demo_check Observing)) t s = Inr True" for t s
    using that by (simp add: exact_machine_def demo_machine_def)
  ultimately show ?thesis
    using accepted_capability_was_issued [of exact_machine "demo_check Observing" demo_capability "{demo_capability}"]
    by (simp add: demo_check_def)
qed

lemma decoded_capability_typed_witness: "tc_generation demo_capability = 1 \<and> tc_version demo_capability = 1 \<and> distinct (tc_actions demo_capability)"
proof -
  have "json_parse (m_host capability_machine) (stringify (capability_json demo_capability)) = Some (capability_json demo_capability)"
    by (simp add: capability_machine_def)
  moreover have "sound_capability demo_capability"
    by code_simp
  ultimately have "decodeTerminalCapability (m_host capability_machine) (encodeTerminalCapability demo_capability) = Inr demo_capability"
    using decode_encode_capability demo_capability_size by blast
  from decoded_capability_typed [OF this] show ?thesis
    by (simp add: demo_capability_def unsigned_capability_def demo_request_def)
qed

end
