(* ===== verification/Profiles.thy ===== *)
theory Profiles
  imports Bytes EnrollmentCrypto "HOL-Library.Multiset"
begin

text \<open>
  Channel profiles: their records and canonical bytes (\<open>src/roomsd/src/profiles/contracts.ts\<close>) and the gate that
  decides whether the state a provider resolved is the one its profile allows
  (\<open>src/roomsd/src/profiles/resolved-state-gate.ts\<close>). Of an object of type \<open>ProfileToolEnvironment\<close>, whose keys
  \<open>JSON.stringify\<close> writes in the order of the object, the order is that of the interface.
\<close>

section \<open>Records\<close>

datatype controlled_provider = Codex_Provider | Claude_Provider

datatype auth_mode = Subscription_Auth | Api_Auth | Unknown_Auth

record snapshot_file =
  sf_relativePath :: string
  sf_sha256 :: string
  sf_byteSize :: int
  sf_executable :: bool

record text_snapshot =
  ts_id :: string
  ts_sourcePath :: "string option"
  ts_snapshotPath :: string
  ts_sha256 :: string
  ts_byteSize :: int
  ts_text :: string

record skill_snapshot =
  sk_id :: string
  sk_name :: string
  sk_sourcePath :: string
  sk_snapshotPath :: string
  sk_rootSha256 :: string
  sk_instruction :: text_snapshot
  sk_files :: "snapshot_file list"

datatype project_instructions = Exclude_Project | Snapshot_Project "text_snapshot list"

datatype surface =
    Instructions | ProjectInstructions | Skills | Plugins | Hooks | Memories | McpServers | Apps | WebAccess | Subagents | Tools

record resolved_item =
  it_id :: string
  it_sha256 :: "string option"

type_synonym surface_item = "surface \<times> resolved_item"

record tool_environment =
  te_npmUserConfig :: bool
  te_browserRuntime :: bool
  te_sandyboxSandbox :: "string option"

record model_skill_set =
  ms_id :: string
  ms_provider :: controlled_provider
  ms_model :: string
  ms_catalogVersion :: string
  ms_authMode :: auth_mode
  ms_skills :: "skill_snapshot list"
  ms_allowedBuiltinTools :: "string list"
  ms_providerSpecificResolvedItems :: "surface_item list"
  ms_toolEnvironment :: tool_environment

record profile_revision =
  pr_id :: string
  pr_name :: string
  pr_channelId :: string
  pr_version :: int
  pr_sha256 :: string
  pr_createdAt :: string
  pr_createdBySessionId :: string
  pr_instructions :: text_snapshot
  pr_projectInstructions :: project_instructions
  pr_modelSkillSets :: "model_skill_set list"

datatype credential_source = ChatgptSubscription | Oauth | Keychain | ApiKey | Unknown_Source

record auth_attestation =
  au_requiredMode :: auth_mode
  au_resolvedMode :: auth_mode
  au_credentialSource :: credential_source
  au_accountPresent :: bool
  au_apiKeyEnvironmentVariables :: "string list"
  au_verifiedAt :: string

datatype inspection = Verified | Unsupported | Unavailable

record surface_attestation =
  sa_surface :: surface
  sa_inspection :: inspection
  sa_items :: "resolved_item list"

record state_attestation =
  st_profileRevisionId :: string
  st_profileSha256 :: string
  st_modelSkillSetId :: string
  st_provider :: controlled_provider
  st_requestedModel :: string
  st_effectiveModel :: string
  st_inspectedAt :: string
  st_surfaces :: "surface_attestation list"

record profile_binding =
  pb_id :: string
  pb_sessionId :: string
  pb_channelId :: string
  pb_profileRevisionId :: string
  pb_profileSha256 :: string
  pb_modelSkillSetId :: string
  pb_provider :: controlled_provider
  pb_requestedModel :: string
  pb_effectiveModel :: string
  pb_executablePath :: string
  pb_executableVersion :: string
  pb_authAttestation :: auth_attestation
  pb_boundAt :: string

section \<open>Canonical bytes\<close>

fun compare_bytes :: "byte list \<Rightarrow> byte list \<Rightarrow> int" where
  "compare_bytes (a # as) (b # bs) = (if a \<noteq> b then uint a - uint b else compare_bytes as bs)"
| "compare_bytes as bs = int (length as) - int (length bs)"

definition compareUtf8 :: "string \<Rightarrow> string \<Rightarrow> int" where
  "compareUtf8 left right = compare_bytes (utf8_encode left) (utf8_encode right)"

text \<open>\<open>[...xs].sort((l, r) => compareUtf8(key(l), key(r)))\<close>: a stable sort by that comparison.\<close>

definition sort_utf8 :: "('a \<Rightarrow> string) \<Rightarrow> 'a list \<Rightarrow> 'a list" where
  "sort_utf8 key xs = sort_key (\<lambda>x. utf8_encode (key x)) xs"

definition nul :: char where "nul = CHR 0x00"

definition file_fields :: "snapshot_file \<Rightarrow> string list" where
  "file_fields f = [sf_relativePath f, sf_sha256 f, int_text (sf_byteSize f), if sf_executable f then ''true'' else ''false'']"

definition canonicalSkillSnapshotManifest :: "snapshot_file list \<Rightarrow> byte list" where
  "canonicalSkillSnapshotManifest files =
     utf8_encode (join_with [nul] (''rooms-skill-snapshot-v1'' # concat (map file_fields (sort_utf8 sf_relativePath files)) @ [[]]))"

definition textSnapshotContent :: "text_snapshot \<Rightarrow> json" where
  "textSnapshotContent t = JObj [(''id'', JStr (ts_id t)), (''sha256'', JStr (ts_sha256 t)),
     (''byteSize'', JNum (ts_byteSize t)), (''text'', JStr (ts_text t))]"

definition file_content :: "snapshot_file \<Rightarrow> json" where
  "file_content f = JObj [(''relativePath'', JStr (sf_relativePath f)), (''sha256'', JStr (sf_sha256 f)),
     (''byteSize'', JNum (sf_byteSize f)), (''executable'', JBool (sf_executable f))]"

definition skill_content :: "skill_snapshot \<Rightarrow> json" where
  "skill_content k = JObj [(''id'', JStr (sk_id k)), (''name'', JStr (sk_name k)), (''rootSha256'', JStr (sk_rootSha256 k)),
     (''instruction'', textSnapshotContent (sk_instruction k)),
     (''files'', JArr (map file_content (sort_utf8 sf_relativePath (sk_files k))))]"

definition provider_text :: "controlled_provider \<Rightarrow> string" where
  "provider_text p = (case p of Codex_Provider \<Rightarrow> ''codex'' | Claude_Provider \<Rightarrow> ''claude'')"

definition auth_text :: "auth_mode \<Rightarrow> string" where
  "auth_text a = (case a of Subscription_Auth \<Rightarrow> ''subscription'' | Api_Auth \<Rightarrow> ''api'' | Unknown_Auth \<Rightarrow> ''unknown'')"

fun surface_text :: "surface \<Rightarrow> string" where
  "surface_text Instructions = ''instructions''"
| "surface_text ProjectInstructions = ''projectInstructions''"
| "surface_text Skills = ''skills''"
| "surface_text Plugins = ''plugins''"
| "surface_text Hooks = ''hooks''"
| "surface_text Memories = ''memories''"
| "surface_text McpServers = ''mcpServers''"
| "surface_text Apps = ''apps''"
| "surface_text WebAccess = ''webAccess''"
| "surface_text Subagents = ''subagents''"
| "surface_text Tools = ''tools''"

definition itemKey :: "surface_item \<Rightarrow> string" where
  "itemKey i = surface_text (fst i) @ [nul] @ it_id (snd i) @ [nul] @
     (case it_sha256 (snd i) of None \<Rightarrow> [] | Some h \<Rightarrow> h)"

definition item_content :: "surface_item \<Rightarrow> json" where
  "item_content i = JObj [(''surface'', JStr (surface_text (fst i))), (''id'', JStr (it_id (snd i))),
     (''sha256'', json_or_null (it_sha256 (snd i)))]"

definition environment_content :: "tool_environment \<Rightarrow> json" where
  "environment_content e = JObj [(''npmUserConfig'', JBool (te_npmUserConfig e)), (''browserRuntime'', JBool (te_browserRuntime e)),
     (''sandyboxSandbox'', json_or_null (te_sandyboxSandbox e))]"

definition set_key :: "model_skill_set \<Rightarrow> string" where
  "set_key s = provider_text (ms_provider s) @ [nul] @ ms_model s @ [nul] @ ms_id s"

definition set_content :: "model_skill_set \<Rightarrow> json" where
  "set_content s = JObj [(''id'', JStr (ms_id s)), (''provider'', JStr (provider_text (ms_provider s))),
     (''model'', JStr (ms_model s)), (''catalogVersion'', JStr (ms_catalogVersion s)), (''authMode'', JStr (auth_text (ms_authMode s))),
     (''skills'', JArr (map skill_content (sort_utf8 sk_id (ms_skills s)))),
     (''allowedBuiltinTools'', JArr (map JStr (sort_utf8 id (ms_allowedBuiltinTools s)))),
     (''providerSpecificResolvedItems'', JArr (map item_content (sort_utf8 itemKey (ms_providerSpecificResolvedItems s)))),
     (''toolEnvironment'', environment_content (ms_toolEnvironment s))]"

definition project_content :: "project_instructions \<Rightarrow> json" where
  "project_content p =
     (case p of
        Exclude_Project \<Rightarrow> JObj [(''mode'', JStr ''exclude'')]
      | Snapshot_Project ts \<Rightarrow> JObj [(''mode'', JStr ''snapshot''), (''snapshots'', JArr (map textSnapshotContent ts))])"

definition revision_content :: "profile_revision \<Rightarrow> json" where
  "revision_content r = JObj [(''schema'', JStr ''rooms-channel-profile-v1''), (''harnessMode'', JStr ''controlled''),
     (''instructions'', textSnapshotContent (pr_instructions r)), (''projectInstructions'', project_content (pr_projectInstructions r)),
     (''modelSkillSets'', JArr (map set_content (sort_utf8 set_key (pr_modelSkillSets r))))]"

definition canonicalChannelProfileRevisionContent :: "profile_revision \<Rightarrow> byte list" where
  "canonicalChannelProfileRevisionContent r = utf8_encode (stringify (revision_content r))"

section \<open>The gate\<close>

datatype rejection_code =
    ProfileRevisionMismatch | ModelProfileMismatch | AttestationMetadataMismatch | ExecutableUnverified | AuthModeMismatch
  | AuthAccountMissing | ApiKeyEnvironmentPresent | SurfaceMissing | SurfaceDuplicate | SurfaceUnverified
  | RequiredItemMissing | UnexpectedItem

type_synonym rejection = "rejection_code \<times> string"

record gate_decision =
  gd_accepted :: bool
  gd_rejections :: "rejection list"

definition CONTROLLED_PROFILE_SURFACES :: "surface list" where
  "CONTROLLED_PROFILE_SURFACES =
     [Instructions, ProjectInstructions, Skills, Plugins, Hooks, Memories, McpServers, Apps, WebAccess, Subagents, Tools]"

definition reject_if :: "bool \<Rightarrow> rejection_code \<Rightarrow> string \<Rightarrow> rejection list" where
  "reject_if b code detail = (if b then [(code, detail)] else [])"

definition attestationMatchesBinding :: "profile_binding \<Rightarrow> state_attestation \<Rightarrow> bool" where
  "attestationMatchesBinding b a \<longleftrightarrow>
     st_profileRevisionId a = pb_profileRevisionId b \<and> st_profileSha256 a = pb_profileSha256 b \<and>
     st_modelSkillSetId a = pb_modelSkillSetId b \<and> st_provider a = pb_provider b \<and>
     st_requestedModel a = pb_requestedModel b \<and> st_effectiveModel a = pb_effectiveModel b"

definition inspection_text :: "inspection \<Rightarrow> string" where
  "inspection_text i = (case i of Verified \<Rightarrow> ''verified'' | Unsupported \<Rightarrow> ''unsupported'' | Unavailable \<Rightarrow> ''unavailable'')"

definition surface_rejections :: "surface_attestation list \<Rightarrow> surface \<Rightarrow> rejection list" where
  "surface_rejections attested s =
     (case filter (\<lambda>row. sa_surface row = s) attested of
        [] \<Rightarrow> [(SurfaceMissing, ''provider did not inspect '' @ surface_text s)]
      | [row] \<Rightarrow> reject_if (sa_inspection row \<noteq> Verified) SurfaceUnverified
          (surface_text s @ '' inspection is '' @ inspection_text (sa_inspection row))
      | rows \<Rightarrow> [(SurfaceDuplicate, ''provider returned '' @ digits (length rows) @ '' inventories for '' @ surface_text s)])"

definition expectedItems :: "profile_revision \<Rightarrow> model_skill_set \<Rightarrow> surface_item list" where
  "expectedItems p s =
     [(Instructions, \<lparr>it_id = ts_id (pr_instructions p), it_sha256 = Some (ts_sha256 (pr_instructions p))\<rparr>)] @
     (case pr_projectInstructions p of
        Exclude_Project \<Rightarrow> []
      | Snapshot_Project ts \<Rightarrow> map (\<lambda>t. (ProjectInstructions, \<lparr>it_id = ts_id t, it_sha256 = Some (ts_sha256 t)\<rparr>)) ts) @
     map (\<lambda>k. (Skills, \<lparr>it_id = sk_id k, it_sha256 = Some (sk_rootSha256 k)\<rparr>)) (ms_skills s) @
     map (\<lambda>t. (Tools, \<lparr>it_id = t, it_sha256 = None\<rparr>)) (ms_allowedBuiltinTools s) @
     ms_providerSpecificResolvedItems s"

definition attested_items :: "surface_attestation list \<Rightarrow> surface_item list" where
  "attested_items attested = concat (map (\<lambda>row. map (Pair (sa_surface row)) (sa_items row)) attested)"

text \<open>\<open>new Map(items.map((item) => [itemKey(item.surface, item), item]))\<close>\<close>

definition keyed_items :: "surface_item list \<Rightarrow> (string \<times> surface_item) list" where
  "keyed_items items = foldl (\<lambda>m i. put_field (itemKey i) i m) [] items"

definition item_detail :: "surface_item \<Rightarrow> string" where
  "item_detail i = surface_text (fst i) @ '':'' @ it_id (snd i)"

definition compareInventory :: "profile_revision \<Rightarrow> model_skill_set \<Rightarrow> surface_attestation list \<Rightarrow> rejection list" where
  "compareInventory p s attested =
     (let expectedKeys = keyed_items (expectedItems p s); actualKeys = keyed_items (attested_items attested) in
      concat (map (\<lambda>(k, i). reject_if (map_of actualKeys k = None) RequiredItemMissing (item_detail i)) expectedKeys) @
      concat (map (\<lambda>(k, i). reject_if (map_of expectedKeys k = None) UnexpectedItem (item_detail i)) actualKeys))"

definition evaluateResolvedState :: "profile_revision \<Rightarrow> profile_binding \<Rightarrow> state_attestation \<Rightarrow> gate_decision" where
  "evaluateResolvedState p b a =
     (let modelSet = find (\<lambda>s. ms_id s = pb_modelSkillSetId b) (pr_modelSkillSets p);
          auth = pb_authAttestation b;
          rejections =
            reject_if (pb_profileRevisionId b \<noteq> pr_id p \<or> pb_profileSha256 b \<noteq> pr_sha256 p) ProfileRevisionMismatch
              ''binding does not match the immutable profile revision'' @
            reject_if (case modelSet of None \<Rightarrow> True
                | Some s \<Rightarrow> ms_provider s \<noteq> pb_provider b \<or> ms_model s \<noteq> pb_effectiveModel b) ModelProfileMismatch
              ''binding does not match one exact provider model profile'' @
            reject_if (blank (pb_executablePath b) \<or> blank (pb_executableVersion b)) ExecutableUnverified
              ''provider executable path and version are required'' @
            reject_if (au_requiredMode auth \<noteq> Subscription_Auth \<or> au_resolvedMode auth \<noteq> Subscription_Auth \<or>
                au_credentialSource auth = ApiKey \<or> au_credentialSource auth = Unknown_Source) AuthModeMismatch
              ''controlled v1 launches require verified subscription authentication'' @
            reject_if (\<not> au_accountPresent auth) AuthAccountMissing ''subscription account evidence is missing'' @
            reject_if (au_apiKeyEnvironmentVariables auth \<noteq> []) ApiKeyEnvironmentPresent
              ''API-key environment variables are present'' @
            reject_if (\<not> attestationMatchesBinding b a) AttestationMetadataMismatch
              ''resolved-state metadata does not match the session binding'' @
            concat (map (surface_rejections (st_surfaces a)) CONTROLLED_PROFILE_SURFACES) @
            (case modelSet of None \<Rightarrow> [] | Some s \<Rightarrow> compareInventory p s (st_surfaces a))
      in \<lparr>gd_accepted = (rejections = []), gd_rejections = rejections\<rparr>)"

end
