(* ===== verification/ProfileProperties.thy ===== *)
theory ProfileProperties
  imports Profiles
begin

text \<open>
  What the profile gate and the canonical bytes are for: the gate accepts exactly the state the profile describes,
  and two folders or two revisions have the same canonical bytes, hence the same hash, exactly if they have the
  same content, in whatever order it is listed.
\<close>

section \<open>Keys of items\<close>

definition sound_item :: "surface_item \<Rightarrow> bool" where
  "sound_item i \<longleftrightarrow> (\<forall>h \<in> set_option (it_sha256 (snd i)). h \<noteq> [] \<and> nul \<notin> set h)"

lemma surface_text_facts: "nul \<notin> set (surface_text s)" "surface_text s = surface_text s' \<longleftrightarrow> s = s'"
  by (cases s; simp add: nul_def) (cases s; cases s'; simp)

lemma prefix_unique:
  assumes "as @ c # bs = as' @ c # bs'" and "c \<notin> set as" and "c \<notin> set as'"
  shows "as = as' \<and> bs = bs'"
  using assms
proof (induction as arbitrary: as')
  case Nil
  then show ?case by (cases as') auto
next
  case (Cons a as)
  then show ?case by (cases as') auto
qed

lemma suffix_unique:
  assumes "as @ c # bs = as' @ c # bs'" and "c \<notin> set bs" and "c \<notin> set bs'"
  shows "as = as' \<and> bs = bs'"
  using prefix_unique [of "rev bs" c "rev as" "rev bs'" "rev as'"] arg_cong [OF assms(1), of rev] assms(2,3) by simp

lemma itemKey_unique:
  assumes "itemKey i = itemKey j" and "sound_item i" and "sound_item j"
  shows "i = j"
proof -
  let ?h = "\<lambda>i :: surface_item. case it_sha256 (snd i) of None \<Rightarrow> [] | Some h \<Rightarrow> h"
  have hash: "nul \<notin> set (?h k)" "?h k = [] \<longleftrightarrow> it_sha256 (snd k) = None" if "sound_item k" for k
    using that by (auto simp: sound_item_def split: option.splits)
  have "surface_text (fst i) @ nul # it_id (snd i) @ nul # ?h i = surface_text (fst j) @ nul # it_id (snd j) @ nul # ?h j"
    using assms(1) by (simp add: itemKey_def)
  from prefix_unique [OF this surface_text_facts(1) surface_text_facts(1)]
  have "fst i = fst j" and rest: "it_id (snd i) @ nul # ?h i = it_id (snd j) @ nul # ?h j"
    using surface_text_facts(2) by auto
  moreover from suffix_unique [OF rest hash(1) [OF assms(2)] hash(1) [OF assms(3)]]
  have "it_id (snd i) = it_id (snd j)" "?h i = ?h j"
    by auto
  moreover from this(2) have "it_sha256 (snd i) = it_sha256 (snd j)"
    using hash(2) [OF assms(2)] hash(2) [OF assms(3)] assms(2,3) by (auto simp: sound_item_def split: option.splits)
  ultimately show ?thesis
    by (cases i; cases j) (auto intro: resolved_item.equality)
qed

section \<open>The gate\<close>

lemma dom_keyed: "dom (map_of (foldl (\<lambda>m i. put_field (itemKey i) i m) m items)) = dom (map_of m) \<union> itemKey ` set items"
  by (induction items arbitrary: m) auto

lemma keyed_keys: "fst ` set (keyed_items items) = itemKey ` set items"
  using dom_keyed [of "[]" items] by (simp add: keyed_items_def dom_map_of_conv_image_fst)

lemma map_of_keyed: "map_of (keyed_items items) k = None \<longleftrightarrow> k \<notin> itemKey ` set items"
  by (simp add: map_of_eq_None_iff keyed_keys)

lemma reject_if_Nil: "reject_if b code detail = [] \<longleftrightarrow> \<not> b"
  by (simp add: reject_if_def)

lemma rejected_keys:
  "concat (map (\<lambda>(k, i). reject_if (map_of (keyed_items other) k = None) code (item_detail i)) (keyed_items items)) = [] \<longleftrightarrow>
     itemKey ` set items \<subseteq> itemKey ` set other" (is "?lhs \<longleftrightarrow> _")
proof -
  have "?lhs \<longleftrightarrow> (\<forall>p \<in> set (keyed_items items). fst p \<in> itemKey ` set other)"
    by (simp add: concat_eq_Nil_conv reject_if_Nil map_of_keyed case_prod_unfold)
  also have "\<dots> \<longleftrightarrow> fst ` set (keyed_items items) \<subseteq> itemKey ` set other"
    by (simp only: image_subset_iff)
  finally show ?thesis
    by (simp only: keyed_keys)
qed

lemma compareInventory_Nil:
  assumes "\<forall>i \<in> set (expectedItems p s). sound_item i" and "\<forall>i \<in> set (attested_items rows). sound_item i"
  shows "compareInventory p s rows = [] \<longleftrightarrow> set (attested_items rows) = set (expectedItems p s)"
proof -
  have "inj_on itemKey (set (expectedItems p s) \<union> set (attested_items rows))"
    using assms itemKey_unique unfolding inj_on_def by blast
  then have "itemKey ` set (expectedItems p s) = itemKey ` set (attested_items rows) \<longleftrightarrow>
      set (expectedItems p s) = set (attested_items rows)"
    by (intro inj_on_image_eq_iff) auto
  moreover have "compareInventory p s rows = [] \<longleftrightarrow>
      itemKey ` set (expectedItems p s) \<subseteq> itemKey ` set (attested_items rows) \<and>
      itemKey ` set (attested_items rows) \<subseteq> itemKey ` set (expectedItems p s)"
    by (simp only: compareInventory_def Let_def append_is_Nil_conv rejected_keys)
  ultimately show ?thesis
    by (simp only: set_eq_subset [symmetric]) blast
qed

lemma surface_rejections_Nil:
  "surface_rejections rows s = [] \<longleftrightarrow> (\<exists>row. filter (\<lambda>row. sa_surface row = s) rows = [row] \<and> sa_inspection row = Verified)"
  by (auto simp: surface_rejections_def reject_if_Nil split: list.splits)

text \<open>
  C30. The gate of a controlled session accepts exactly the state the profile describes: a binding to this revision
  and one of its model sets, a named executable, subscription credentials with an account and no API keys, a report
  about this binding, exactly one inventory of each of the eleven surfaces, verified, and, over all surfaces, exactly
  the items that the profile expects, none missing and none more.\<close>

theorem gate_accepts_exactly:
  assumes "\<forall>s \<in> set (pr_modelSkillSets p). \<forall>i \<in> set (expectedItems p s). sound_item i"
    and "\<forall>i \<in> set (attested_items (st_surfaces a)). sound_item i"
  shows "gd_accepted (evaluateResolvedState p b a) \<longleftrightarrow>
    pb_profileRevisionId b = pr_id p \<and> pb_profileSha256 b = pr_sha256 p \<and>
    \<not> blank (pb_executablePath b) \<and> \<not> blank (pb_executableVersion b) \<and>
    au_requiredMode (pb_authAttestation b) = Subscription_Auth \<and> au_resolvedMode (pb_authAttestation b) = Subscription_Auth \<and>
    au_credentialSource (pb_authAttestation b) \<notin> {ApiKey, Unknown_Source} \<and> au_accountPresent (pb_authAttestation b) \<and>
    au_apiKeyEnvironmentVariables (pb_authAttestation b) = [] \<and> attestationMatchesBinding b a \<and>
    (\<forall>s. \<exists>row. filter (\<lambda>row. sa_surface row = s) (st_surfaces a) = [row] \<and> sa_inspection row = Verified) \<and>
    (\<exists>s. find (\<lambda>s. ms_id s = pb_modelSkillSetId b) (pr_modelSkillSets p) = Some s \<and> ms_provider s = pb_provider b \<and>
      ms_model s = pb_effectiveModel b \<and> set (attested_items (st_surfaces a)) = set (expectedItems p s))"
proof -
  have all: "set CONTROLLED_PROFILE_SURFACES = UNIV"
    by (auto simp: CONTROLLED_PROFILE_SURFACES_def intro: surface.exhaust)
  then have surfaces: "concat (map (surface_rejections (st_surfaces a)) CONTROLLED_PROFILE_SURFACES) = [] \<longleftrightarrow>
      (\<forall>s. \<exists>row. filter (\<lambda>row. sa_surface row = s) (st_surfaces a) = [row] \<and> sa_inspection row = Verified)"
    by (simp add: concat_eq_Nil_conv surface_rejections_Nil)
  show ?thesis
  proof (cases "find (\<lambda>s. ms_id s = pb_modelSkillSetId b) (pr_modelSkillSets p)")
    case None
    then show ?thesis
      by (simp add: evaluateResolvedState_def Let_def reject_if_def)
  next
    case (Some s)
    then have "s \<in> set (pr_modelSkillSets p)"
      by (auto simp: find_Some_iff)
    with assms have "compareInventory p s (st_surfaces a) = [] \<longleftrightarrow> set (attested_items (st_surfaces a)) = set (expectedItems p s)"
      by (intro compareInventory_Nil) auto
    with Some show ?thesis
      unfolding evaluateResolvedState_def Let_def gate_decision.select_convs append_is_Nil_conv reject_if_Nil surfaces
      by auto
  qed
qed

section \<open>Sorting\<close>

lemma compare_bytes_le: "compare_bytes as bs \<le> 0 \<longleftrightarrow> as \<le> bs"
proof (induction as bs rule: compare_bytes.induct)
  case (1 a as b bs)
  then show ?case
    by (auto simp: word_less_def word_le_def le_less simp flip: word_uint_eq_iff)
next
  fix bs :: "byte list"
  show "compare_bytes [] bs \<le> 0 \<longleftrightarrow> [] \<le> bs"
    by (cases bs) simp_all
qed simp_all

lemma compareUtf8_order: "compareUtf8 left right \<le> 0 \<longleftrightarrow> utf8_encode left \<le> utf8_encode right"
  by (simp add: compareUtf8_def compare_bytes_le)

lemma utf8_encode_inject: "utf8_encode s = utf8_encode t \<longleftrightarrow> s = t"
  by (metis option.inject utf8_roundtrip)

lemma mset_sort_utf8: "mset (sort_utf8 key xs) = mset xs" "set (sort_utf8 key xs) = set xs"
  by (simp_all add: sort_utf8_def)

lemma sorted_images:
  assumes "image_mset g (mset xs) = image_mset g (mset ys)" and "distinct (map key xs)" and "distinct (map key ys)"
    and same: "\<And>x y. x \<in> set xs \<Longrightarrow> y \<in> set ys \<Longrightarrow> g x = g y \<Longrightarrow> key x = key y \<and> j x = j y"
  shows "map j (sort_utf8 key xs) = map j (sort_utf8 key ys)"
proof -
  let ?k = "\<lambda>x. utf8_encode (key x)" and ?xs = "sort_utf8 key xs" and ?ys = "sort_utf8 key ys"
  have images: "g ` set xs = g ` set ys"
    using arg_cong [OF assms(1), of set_mset] by simp
  then have "?k ` set xs = ?k ` set ys"
    using same by (auto simp: image_iff set_eq_iff) (metis image_iff images)+
  moreover have sorted: "sorted (map ?k (sort_utf8 key zs))" for zs
    by (simp add: sort_utf8_def)
  moreover have once: "distinct (map ?k (sort_utf8 key zs))" if "distinct (map key zs)" for zs
    using that by (auto simp: sort_utf8_def distinct_map inj_on_def utf8_encode_inject)
  ultimately have keys: "map ?k ?xs = map ?k ?ys"
    using assms(2,3) by (intro sorted_distinct_set_unique) (auto simp: mset_sort_utf8)
  show ?thesis
  proof (intro nth_equalityI)
    show "length (map j ?xs) = length (map j ?ys)"
      using arg_cong [OF keys, of length] by simp
  next
    fix i assume "i < length (map j ?xs)"
    then have i: "i < length ?xs" "i < length ?ys"
      using arg_cong [OF keys, of length] by simp_all
    then have elems: "?xs ! i \<in> set xs" "?ys ! i \<in> set ys"
      using nth_mem mset_sort_utf8(2) by metis+
    have "key (?xs ! i) = key (?ys ! i)"
      using arg_cong [OF keys, of "\<lambda>zs. zs ! i"] i by (simp add: utf8_encode_inject)
    moreover obtain y where "y \<in> set ys" "g (?xs ! i) = g y"
      using elems(1) images by (metis imageE imageI)
    ultimately have "y = ?ys ! i" and "j (?xs ! i) = j y"
      using same [OF elems(1) \<open>y \<in> set ys\<close>] assms(3) elems(2) by (auto simp: distinct_map inj_on_def)
    with i show "map j ?xs ! i = map j ?ys ! i" by simp
  qed
qed

lemma map_transfer:
  assumes "map f xs = map f ys" and "\<And>x y. f x = f y \<Longrightarrow> g x = g y"
  shows "map g xs = map g ys"
  using assms(1)
proof (induction xs arbitrary: ys)
  case (Cons x xs)
  then obtain y zs where "ys = y # zs" "f x = f y" "map f xs = map f zs"
    by (cases ys) simp_all
  with Cons.IH [of zs] assms(2) [OF this(2)] show ?case by simp
qed simp

section \<open>The manifest of a skill folder\<close>

lemma join_unique:
  assumes "join_with [c] as = join_with [c] bs" and "as \<noteq> []" and "bs \<noteq> []"
    and "\<forall>a \<in> set as. c \<notin> set a" and "\<forall>b \<in> set bs. c \<notin> set b"
  shows "as = bs"
  using assms
proof (induction as arbitrary: bs)
  case (Cons a as)
  obtain b bs' where bs: "bs = b # bs'"
    using Cons.prems(3) by (cases bs) auto
  consider "as = []" "bs' = []" | "as = []" "bs' \<noteq> []" | "as \<noteq> []" "bs' = []" | "as \<noteq> []" "bs' \<noteq> []"
    by blast
  then show ?case
  proof cases
    case 4
    then have "a @ c # join_with [c] as = b @ c # join_with [c] bs'"
      using Cons.prems(1) by (cases as; cases bs') (simp_all add: bs)
    from prefix_unique [OF this] have "a = b" "join_with [c] as = join_with [c] bs'"
      using Cons.prems by (auto simp: bs)
    with Cons.IH [OF this(2)] 4 Cons.prems show ?thesis
      by (simp add: bs)
  next
    case 2
    then show ?thesis
      using Cons.prems by (cases bs') (auto simp: bs)
  next
    case 3
    then show ?thesis
      using Cons.prems by (cases as) (auto simp: bs)
  qed (use Cons.prems bs in simp)
qed simp

lemma int_text_chars: "nul \<notin> set (int_text n)"
proof -
  have "\<not> is_digit nul"
    by (simp add: nul_def is_digit_def) code_simp
  then show ?thesis
    using is_digit_digits by (auto simp: int_text_def nul_def)
qed


lemma int_text_unique: "int_text m = int_text n \<Longrightarrow> m = n"
  using parse_number_text [of "[]" m] parse_number_text [of "[]" n] by (simp add: delimited_def)

lemma file_fields_unique: "file_fields f = file_fields g \<Longrightarrow> f = g"
  by (cases f; cases g) (auto simp: file_fields_def dest: int_text_unique split: if_splits)

definition sound_file :: "snapshot_file \<Rightarrow> bool" where
  "sound_file f \<longleftrightarrow> nul \<notin> set (sf_relativePath f) \<and> nul \<notin> set (sf_sha256 f)"

lemma file_fields_sound: "sound_file f \<Longrightarrow> \<forall>t \<in> set (file_fields f). nul \<notin> set t"
  by (simp add: sound_file_def file_fields_def int_text_chars) (simp add: nul_def)

text \<open>
  The manifest of a skill folder, whose hash pins the folder, stands for exactly its files: two lists of files
  with distinct paths have the same manifest if and only if they hold the same files (path, digest, size and
  executable flag), in whatever order they are listed.\<close>

theorem manifest_pins_files:
  assumes "list_all sound_file files" and "list_all sound_file others"
    and "distinct (map sf_relativePath files)" and "distinct (map sf_relativePath others)"
  shows "canonicalSkillSnapshotManifest files = canonicalSkillSnapshotManifest others \<longleftrightarrow> mset files = mset others"
proof
  let ?parts = "\<lambda>fs. ''rooms-skill-snapshot-v1'' # concat (map file_fields (sort_utf8 sf_relativePath fs)) @ [[]]"
  have clean: "\<forall>t \<in> set (?parts fs). nul \<notin> set t" if "list_all sound_file fs" for fs
    using that file_fields_sound by (auto simp: list_all_iff mset_sort_utf8) (simp_all add: nul_def)
  assume "canonicalSkillSnapshotManifest files = canonicalSkillSnapshotManifest others"
  then have "join_with [nul] (?parts files) = join_with [nul] (?parts others)"
    by (simp add: canonicalSkillSnapshotManifest_def utf8_encode_inject)
  from join_unique [OF this _ _ clean [OF assms(1)] clean [OF assms(2)]]
  have fields: "concat (map file_fields (sort_utf8 sf_relativePath files)) = concat (map file_fields (sort_utf8 sf_relativePath others))"
    by simp
  have four: "length (concat (map file_fields fs)) = 4 * length fs" for fs
    by (induction fs) (simp_all add: file_fields_def)
  have "map file_fields (sort_utf8 sf_relativePath files) = map file_fields (sort_utf8 sf_relativePath others)"
  proof (rule iffD1 [OF concat_eq_concat_iff fields])
    show "\<forall>(xs, ys) \<in> set (zip (map file_fields (sort_utf8 sf_relativePath files)) (map file_fields (sort_utf8 sf_relativePath others))).
        length xs = length ys"
      by (auto simp: set_zip file_fields_def)
    show "length (map file_fields (sort_utf8 sf_relativePath files)) = length (map file_fields (sort_utf8 sf_relativePath others))"
      using arg_cong [OF fields, of length] by (simp add: four)
  qed
  then have "map id (sort_utf8 sf_relativePath files) = map id (sort_utf8 sf_relativePath others)"
    by (rule map_transfer) (auto dest: file_fields_unique)
  then show "mset files = mset others"
    by (metis list.map_id mset_sort_utf8(1))
next
  assume "mset files = mset others"
  then have "map id (sort_utf8 sf_relativePath files) = map id (sort_utf8 sf_relativePath others)"
    by (intro sorted_images [where g = id] assms(3,4)) simp_all
  then show "canonicalSkillSnapshotManifest files = canonicalSkillSnapshotManifest others"
    by (simp add: canonicalSkillSnapshotManifest_def)
qed

section \<open>The content of a revision\<close>

text \<open>What a revision prescribes, without names, places and times, and without the order of its lists.\<close>

type_synonym text_policy = "string \<times> string \<times> int \<times> string"
type_synonym skill_policy = "string \<times> string \<times> string \<times> text_policy \<times> snapshot_file multiset"

definition text_policy :: "text_snapshot \<Rightarrow> text_policy" where
  "text_policy t = (ts_id t, ts_sha256 t, ts_byteSize t, ts_text t)"

definition skill_policy :: "skill_snapshot \<Rightarrow> skill_policy" where
  "skill_policy k = (sk_id k, sk_name k, sk_rootSha256 k, text_policy (sk_instruction k), mset (sk_files k))"

definition set_policy where
  "set_policy s = ((ms_id s, ms_provider s, ms_model s, ms_catalogVersion s, ms_authMode s),
     image_mset skill_policy (mset (ms_skills s)), mset (ms_allowedBuiltinTools s),
     mset (ms_providerSpecificResolvedItems s), ms_toolEnvironment s)"

definition project_policy :: "project_instructions \<Rightarrow> text_policy list option" where
  "project_policy p = (case p of Exclude_Project \<Rightarrow> None | Snapshot_Project ts \<Rightarrow> Some (map text_policy ts))"

definition revision_policy where
  "revision_policy r = (text_policy (pr_instructions r), project_policy (pr_projectInstructions r),
     image_mset set_policy (mset (pr_modelSkillSets r)))"

text \<open>Nothing is listed twice.\<close>

definition skill_once :: "skill_snapshot \<Rightarrow> bool" where
  "skill_once k \<longleftrightarrow> distinct (map sf_relativePath (sk_files k))"

definition set_once :: "model_skill_set \<Rightarrow> bool" where
  "set_once s \<longleftrightarrow> distinct (map sk_id (ms_skills s)) \<and> list_all skill_once (ms_skills s) \<and> distinct (ms_allowedBuiltinTools s) \<and>
     distinct (map itemKey (ms_providerSpecificResolvedItems s))"

definition revision_once :: "profile_revision \<Rightarrow> bool" where
  "revision_once r \<longleftrightarrow> distinct (map set_key (pr_modelSkillSets r)) \<and> list_all set_once (pr_modelSkillSets r)"

lemma text_content_policy: "textSnapshotContent t = textSnapshotContent u \<longleftrightarrow> text_policy t = text_policy u"
  by (simp add: textSnapshotContent_def text_policy_def)

lemma file_content_unique: "file_content f = file_content g \<Longrightarrow> f = g"
  by (cases f; cases g) (simp add: file_content_def)

lemma item_content_unique: "item_content i = item_content j \<Longrightarrow> i = j"
proof -
  have null: "json_or_null a = json_or_null b \<longleftrightarrow> a = b" for a b
    by (cases a; cases b) (simp_all add: json_or_null_def)
  assume "item_content i = item_content j"
  then show "i = j"
    by (cases i; cases j) (auto simp: item_content_def null surface_text_facts(2) intro: resolved_item.equality)
qed

lemma environment_content_unique: "environment_content d = environment_content e \<Longrightarrow> d = e"
  by (cases d; cases e) (auto simp: environment_content_def json_or_null_def split: option.splits)

lemma provider_text_unique: "provider_text p = provider_text q \<longleftrightarrow> p = q"
  by (cases p; cases q) (simp_all add: provider_text_def)

lemma auth_text_unique: "auth_text a = auth_text b \<longleftrightarrow> a = b"
  by (cases a; cases b) (simp_all add: auth_text_def)

lemma same_elements:
  assumes "map c (sort_utf8 key xs) = map c (sort_utf8 key ys)" and "\<And>x y. c x = c y \<Longrightarrow> g x = g y"
  shows "image_mset g (mset xs) = image_mset g (mset ys)"
proof -
  have "map g (sort_utf8 key xs) = map g (sort_utf8 key ys)"
    by (rule map_transfer [OF assms])
  then show ?thesis
    by (metis mset_map mset_sort_utf8(1))
qed

lemma skill_content_policy: "skill_content k = skill_content l \<Longrightarrow> skill_policy k = skill_policy l"
  using same_elements [of file_content sf_relativePath "sk_files k" "sk_files l" id] file_content_unique
  by (simp add: skill_content_def skill_policy_def text_content_policy)

lemma skill_policy_content:
  "skill_once k \<Longrightarrow> skill_once l \<Longrightarrow> skill_policy k = skill_policy l \<Longrightarrow> sk_id k = sk_id l \<and> skill_content k = skill_content l"
  using sorted_images [of id "sk_files k" "sk_files l" sf_relativePath file_content]
  by (simp add: skill_content_def skill_policy_def text_content_policy skill_once_def)

lemma set_content_policy: "set_content s = set_content t \<Longrightarrow> set_policy s = set_policy t"
proof -
  assume "set_content s = set_content t"
  then show ?thesis
    using same_elements [of skill_content sk_id "ms_skills s" "ms_skills t" skill_policy, OF _ skill_content_policy]
      same_elements [of JStr id "ms_allowedBuiltinTools s" "ms_allowedBuiltinTools t" id]
      same_elements [of item_content itemKey "ms_providerSpecificResolvedItems s" "ms_providerSpecificResolvedItems t" id]
      item_content_unique environment_content_unique
    by (simp add: set_content_def set_policy_def provider_text_unique auth_text_unique)
qed

lemma set_policy_content:
  assumes "set_once s" and "set_once t" and "set_policy s = set_policy t"
  shows "set_key s = set_key t \<and> set_content s = set_content t"
proof -
  have "map skill_content (sort_utf8 sk_id (ms_skills s)) = map skill_content (sort_utf8 sk_id (ms_skills t))"
    using assms skill_policy_content
    by (intro sorted_images [where g = skill_policy]) (auto simp: set_policy_def set_once_def list_all_iff)
  moreover have "map JStr (sort_utf8 id (ms_allowedBuiltinTools s)) = map JStr (sort_utf8 id (ms_allowedBuiltinTools t))"
    using assms by (intro sorted_images [where g = id]) (auto simp: set_policy_def set_once_def)
  moreover have "map item_content (sort_utf8 itemKey (ms_providerSpecificResolvedItems s)) =
      map item_content (sort_utf8 itemKey (ms_providerSpecificResolvedItems t))"
    using assms by (intro sorted_images [where g = id]) (auto simp: set_policy_def set_once_def)
  ultimately show ?thesis
    using assms(3) by (simp add: set_policy_def set_content_def set_key_def)
qed

lemma project_content_policy: "project_content p = project_content q \<longleftrightarrow> project_policy p = project_policy q"
proof -
  have "map textSnapshotContent ts = map textSnapshotContent us \<longleftrightarrow> map text_policy ts = map text_policy us" for ts us
    using map_transfer [of textSnapshotContent ts us text_policy] map_transfer [of text_policy ts us textSnapshotContent]
      text_content_policy by blast
  then show ?thesis
    by (cases p; cases q) (simp_all add: project_content_def project_policy_def)
qed

lemma content_plain: "plain (revision_content r) \<and> unique_keys (revision_content r)"
proof -
  have text_snapshot: "plain (textSnapshotContent t) \<and> unique_keys (textSnapshotContent t)" for t
    by (simp add: textSnapshotContent_def proto_key_def)
  have null: "plain (json_or_null v) \<and> unique_keys (json_or_null v)" for v
    by (simp add: json_or_null_def split: option.splits)
  have files: "plain (file_content f) \<and> unique_keys (file_content f)" for f
    by (simp add: file_content_def proto_key_def)
  have skill: "plain (skill_content k) \<and> unique_keys (skill_content k)" for k
    using files text_snapshot by (simp add: skill_content_def proto_key_def list_all_iff)
  have item: "plain (item_content i) \<and> unique_keys (item_content i)" for i
    using null by (simp add: item_content_def proto_key_def)
  have environment: "plain (environment_content e) \<and> unique_keys (environment_content e)" for e
    using null by (simp add: environment_content_def proto_key_def)
  have set: "plain (set_content s) \<and> unique_keys (set_content s)" for s
    using skill item environment by (simp add: set_content_def proto_key_def list_all_iff)
  have project: "plain (project_content p) \<and> unique_keys (project_content p)" for p
    using text_snapshot by (simp add: project_content_def proto_key_def list_all_iff split: project_instructions.splits)
  show ?thesis
    using set project text_snapshot by (simp add: revision_content_def proto_key_def list_all_iff)
qed


section \<open>Witnesses\<close>

definition demo_file :: "string \<Rightarrow> snapshot_file" where
  "demo_file path = \<lparr>sf_relativePath = path, sf_sha256 = ''00'', sf_byteSize = 1, sf_executable = False\<rparr>"

lemma manifest_pins_files_witness:
  "canonicalSkillSnapshotManifest [demo_file ''b'', demo_file ''a''] = canonicalSkillSnapshotManifest [demo_file ''a'', demo_file ''b''] \<and>
   canonicalSkillSnapshotManifest [demo_file ''a''] \<noteq> canonicalSkillSnapshotManifest [(demo_file ''a'')\<lparr>sf_executable := True\<rparr>]"
proof -
  have sound: "sound_file (demo_file [c])" if "c \<noteq> nul" for c
    using that by (simp add: sound_file_def demo_file_def nul_def)
  have "canonicalSkillSnapshotManifest [demo_file ''b'', demo_file ''a''] = canonicalSkillSnapshotManifest [demo_file ''a'', demo_file ''b'']"
    by (subst manifest_pins_files) (use sound in \<open>auto simp: demo_file_def nul_def\<close>)
  moreover have "canonicalSkillSnapshotManifest [demo_file ''a''] \<noteq> canonicalSkillSnapshotManifest [(demo_file ''a'')\<lparr>sf_executable := True\<rparr>]"
    by (subst manifest_pins_files) (use sound in \<open>auto simp: demo_file_def sound_file_def nul_def\<close>)
  ultimately show ?thesis ..
qed

text \<open>A profile with two model sets, and a binding and a report that match the second.\<close>

definition demo_text :: text_snapshot where
  "demo_text = \<lparr>ts_id = ''i'', ts_sourcePath = None, ts_snapshotPath = ''/i'', ts_sha256 = ''11'', ts_byteSize = 2, ts_text = ''go''\<rparr>"

definition demo_set :: "string \<Rightarrow> string list \<Rightarrow> model_skill_set" where
  "demo_set i tools = \<lparr>ms_id = i, ms_provider = Claude_Provider, ms_model = ''m'', ms_catalogVersion = ''1'', ms_authMode = Subscription_Auth,
     ms_skills = [], ms_allowedBuiltinTools = tools, ms_providerSpecificResolvedItems = [],
     ms_toolEnvironment = \<lparr>te_npmUserConfig = False, te_browserRuntime = False, te_sandyboxSandbox = None\<rparr>\<rparr>"

definition demo_profile :: "model_skill_set list \<Rightarrow> profile_revision" where
  "demo_profile sets = \<lparr>pr_id = ''p'', pr_name = ''n'', pr_channelId = ''c'', pr_version = 1, pr_sha256 = ''22'', pr_createdAt = ''t'',
     pr_createdBySessionId = ''s'', pr_instructions = demo_text, pr_projectInstructions = Exclude_Project, pr_modelSkillSets = sets\<rparr>"

lemma demo_profile_once: "revision_once (demo_profile [demo_set ''x'' ts, demo_set ''y'' us])" "revision_once (demo_profile [demo_set ''y'' us, demo_set ''x'' ts])"
  if "distinct ts" "distinct us"
  using that by (simp_all add: revision_once_def set_once_def demo_profile_def demo_set_def set_key_def)


definition demo_report :: "surface_item list \<Rightarrow> state_attestation" where
  "demo_report items = \<lparr>st_profileRevisionId = ''p'', st_profileSha256 = ''22'', st_modelSkillSetId = ''y'', st_provider = Claude_Provider,
     st_requestedModel = ''m'', st_effectiveModel = ''m'', st_inspectedAt = ''t'',
     st_surfaces = map (\<lambda>s. \<lparr>sa_surface = s, sa_inspection = Verified, sa_items = map snd (filter (\<lambda>i. fst i = s) items)\<rparr>)
       CONTROLLED_PROFILE_SURFACES\<rparr>"

definition demo_bound :: profile_binding where
  "demo_bound = \<lparr>pb_id = ''b'', pb_sessionId = ''s'', pb_channelId = ''c'', pb_profileRevisionId = ''p'', pb_profileSha256 = ''22'',
     pb_modelSkillSetId = ''y'', pb_provider = Claude_Provider, pb_requestedModel = ''m'', pb_effectiveModel = ''m'',
     pb_executablePath = ''/x'', pb_executableVersion = ''1'',
     pb_authAttestation = \<lparr>au_requiredMode = Subscription_Auth, au_resolvedMode = Subscription_Auth, au_credentialSource = Oauth,
       au_accountPresent = True, au_apiKeyEnvironmentVariables = [], au_verifiedAt = ''t''\<rparr>, pb_boundAt = ''t''\<rparr>"

lemma gate_accepts_exactly_witness:
  "gd_accepted (evaluateResolvedState (demo_profile [demo_set ''y'' [''a'']]) demo_bound
     (demo_report [(Instructions, \<lparr>it_id = ''i'', it_sha256 = Some ''11''\<rparr>), (Tools, \<lparr>it_id = ''a'', it_sha256 = None\<rparr>)])) \<and>
   \<not> gd_accepted (evaluateResolvedState (demo_profile [demo_set ''y'' [''a'']]) demo_bound
     (demo_report [(Instructions, \<lparr>it_id = ''i'', it_sha256 = Some ''11''\<rparr>)]))"
proof -
  let ?p = "demo_profile [demo_set ''y'' [''a'']]"
  let ?i = "(Instructions, \<lparr>it_id = ''i'', it_sha256 = Some ''11''\<rparr>)" and ?t = "(Tools, \<lparr>it_id = ''a'', it_sha256 = None\<rparr>)"
  have rows: "\<exists>row. filter (\<lambda>row. sa_surface row = s) (st_surfaces (demo_report items)) = [row] \<and> sa_inspection row = Verified" for s items
    by (cases s) (simp_all add: demo_report_def CONTROLLED_PROFILE_SURFACES_def)
  have expected: "\<forall>s \<in> set (pr_modelSkillSets ?p). expectedItems ?p s = [?i, ?t]"
    by (simp add: demo_profile_def demo_set_def expectedItems_def demo_text_def)
  have attested: "attested_items (st_surfaces (demo_report [?i, ?t])) = [?i, ?t]" "attested_items (st_surfaces (demo_report [?i])) = [?i]"
    by (simp_all add: attested_items_def demo_report_def CONTROLLED_PROFILE_SURFACES_def)
  have sound: "sound_item ?i" "sound_item ?t"
    by (simp_all add: sound_item_def nul_def)
  have found: "find (\<lambda>s. ms_id s = pb_modelSkillSetId demo_bound) (pr_modelSkillSets ?p) = Some (demo_set ''y'' [''a''])"
    by (simp add: demo_bound_def demo_profile_def demo_set_def)
  have member: "demo_set ''y'' [''a''] \<in> set (pr_modelSkillSets ?p)"
    by (simp add: demo_profile_def)
  have matches: "attestationMatchesBinding demo_bound (demo_report items)" for items
    by (simp add: attestationMatchesBinding_def demo_bound_def demo_report_def)
  have "gd_accepted (evaluateResolvedState ?p demo_bound (demo_report [?i, ?t]))"
    using rows matches expected member found
    by (subst gate_accepts_exactly)
      (simp_all add: sound attested, simp add: demo_bound_def demo_profile_def demo_set_def blank_def js_space_def)
  moreover have "\<not> gd_accepted (evaluateResolvedState ?p demo_bound (demo_report [?i]))"
    using expected member found
    by (subst gate_accepts_exactly) (simp_all add: sound attested)
  ultimately show ?thesis ..
qed

end
