(* ===== verification/Rotation.thy ===== *)
theory Rotation
  imports Registry Effects "HOL-Library.Sublist"
begin

text \<open>
  Rotation of agents (\<open>src/roomsd/src/rotation\<close>): a planner replaces the session of a worker by a fresh one, in
  steps that the old session has to acknowledge. A \<open>commit\<close> waits three times for its runtime authority, and other
  calls run while it waits, so what it has left to do is a job of the state. What the authority and everything else
  in the daemon do meanwhile is an event that sets the tables, except that of the rotations, as it likes.
\<close>

section \<open>Records\<close>

datatype turn_phase = Idle_Turn | Thinking_Turn | Streaming_Turn | Tool_Turn | Busy_Turn | Ready_Turn | Unsupported_Turn

record rotation_launch =
  rl_provider :: string
  rl_model :: "string option"
  rl_reasoning :: "string option"
  rl_launchOptions :: json

record rotation_runtime =
  rr_runtimeId :: string
  rr_sessionId :: string
  rr_generation :: nat
  rr_state :: runtime_state
  rr_providerThreadId :: "string option"
  rr_phase :: "turn_phase option"
  rr_role :: "session_role option"
  rr_launch :: rotation_launch

datatype rotation_state = Prepared | Acknowledged | Committed | Cleanup_Pending | Cancelled | Rolled_Back

record rotation_audit =
  ro_rotationId :: string
  ro_channelId :: string
  ro_oldSessionId :: string
  ro_replacementSessionId :: "string option"
  ro_actorSessionId :: string
  ro_nonce :: string
  ro_state :: rotation_state
  ro_reason :: "string option"
  ro_oldRuntimeId :: string
  ro_oldGeneration :: nat
  ro_replacementRuntimeId :: "string option"
  ro_replacementGeneration :: "nat option"
  ro_createdAt :: time
  ro_updatedAt :: time

text \<open>What a \<open>commit\<close> that is waiting has left to do: for the launch, for the inspection of what was launched, for
  the end of a replacement that was refused, for the end of the old runtime.\<close>

datatype rotation_job =
    Launching rotation_audit rotation_runtime
  | Inspecting rotation_audit rotation_runtime
  | Undoing rotation_audit string
  | Cleaning rotation_audit

text \<open>\<open>rw_facts\<close> is what \<open>inspectSession\<close> and the bindings tell about the runtime of a session.\<close>

record rotation_world =
  rw_db :: db
  rw_facts :: "string \<Rightarrow> rotation_runtime option"
  rw_now :: time
  rw_rotations :: "rotation_audit list"
  rw_jobs :: "rotation_job list"

type_synonym 'a rotation_op = "(rotation_world, 'a) effect"

section \<open>The repository\<close>

text \<open>\<open>inspectRotationRuntime\<close>, the inspector the repository is built with\<close>

definition inspectRotationRuntime :: "string \<Rightarrow> string \<Rightarrow> rotation_world \<Rightarrow> rotation_runtime option" where
  "inspectRotationRuntime channelId sessionId w =
     (case find (\<lambda>(i, _). i = sessionId) (roster channelId (rw_db w)) of
        None \<Rightarrow> None
      | Some (_, _, role, _) \<Rightarrow> map_option (\<lambda>rt. rt\<lparr>rr_sessionId := sessionId, rr_role := role\<rparr>) (rw_facts w sessionId))"

definition actorRole :: "string \<Rightarrow> string \<Rightarrow> db \<Rightarrow> session_role option" where
  "actorRole channelId sessionId d =
     (case rev (sort_key m_joinedAt (filter (\<lambda>m. member_of channelId sessionId m \<and>
         (\<exists>x \<in> set_option (currentSession sessionId d). s_endedAt x = None)) (memberships d))) of
        [] \<Rightarrow> None
      | m # _ \<Rightarrow> m_role m)"

definition insert_rotation :: "rotation_audit \<Rightarrow> unit rotation_op" where
  "insert_rotation a w =
     (if exists_row (\<lambda>b. ro_rotationId b = ro_rotationId a \<or> ro_nonce b = ro_nonce a) (rw_rotations w)
      then (Inl ''UNIQUE constraint failed'', w)
      else (Inr (), w\<lparr>rw_rotations := rw_rotations w @ [a]\<rparr>))"

definition get_rotation :: "string \<Rightarrow> rotation_world \<Rightarrow> rotation_audit option" where
  "get_rotation i w = find (\<lambda>a. ro_rotationId a = i) (rw_rotations w)"

text \<open>\<open>update(rotationId, patch)\<close>, the patch as a function of the row\<close>

definition update_rotation :: "string \<Rightarrow> (rotation_audit \<Rightarrow> rotation_audit) \<Rightarrow> rotation_audit rotation_op" where
  "update_rotation i patch w =
     (case get_rotation i w of
        None \<Rightarrow> (Inl ''rotationNotFound'', w)
      | Some current \<Rightarrow> (Inr (patch current),
          w\<lparr>rw_rotations := update_where (\<lambda>a. ro_rotationId a = i) (\<lambda>_. patch current) (rw_rotations w)\<rparr>))"

definition swapWorker :: "string \<Rightarrow> string \<Rightarrow> string \<Rightarrow> nat \<Rightarrow> unit rotation_op" where
  "swapWorker channelId oldSessionId replacementSessionId expectedOldGeneration w =
     (case inspectRotationRuntime channelId oldSessionId w of
        None \<Rightarrow> (Inl ''rotationTargetChanged'', w)
      | Some old \<Rightarrow>
          if rr_generation old \<noteq> expectedOldGeneration then (Inl ''rotationTargetChanged'', w)
          else if count_where (member_of channelId oldSessionId) (memberships (rw_db w)) \<noteq> 1
          then (Inl ''rotationTargetChanged'', w)
          else
            let left = update_where (member_of channelId oldSessionId) (\<lambda>m. m\<lparr>m_leftAt := Some (rw_now w)\<rparr>) (memberships (rw_db w));
                row = \<lparr>m_channelId = channelId, m_sessionId = replacementSessionId, m_joinedAt = rw_now w, m_leftAt = None,
                       m_sessionEndedAt = None, m_role = Some Worker\<rparr> in
            if currentSession replacementSessionId (rw_db w) = None then (Inl ''FOREIGN KEY constraint failed'', w)
            else if exists_row (\<lambda>m. membership_key m = membership_key row) left then (Inl ''UNIQUE constraint failed'', w)
            else (Inr (), w\<lparr>rw_db := (rw_db w)\<lparr>memberships := left @ [row]\<rparr>\<rparr>))"

section \<open>The service\<close>

definition activeTurn :: "rotation_runtime \<Rightarrow> bool" where
  "activeTurn rt \<longleftrightarrow> rr_phase rt \<in> Some ` {Thinking_Turn, Streaming_Turn, Tool_Turn, Busy_Turn}"

definition requireWorker :: "string \<Rightarrow> string \<Rightarrow> rotation_runtime rotation_op" where
  "requireWorker channelId sessionId = asking (\<lambda>w.
     case inspectRotationRuntime channelId sessionId w of
       None \<Rightarrow> Inl ''rotationTargetNotFound''
     | Some target \<Rightarrow>
         if rr_role target \<noteq> Some Worker then Inl ''rotationWorkerRequired''
         else if rr_state target \<noteq> Running then Inl ''rotationRuntimeNotLive'' else Inr target)"

definition requirePlanner :: "string \<Rightarrow> string \<Rightarrow> unit rotation_op" where
  "requirePlanner channelId sessionId = asking (\<lambda>w.
     if actorRole channelId sessionId (rw_db w) \<noteq> Some Planner then Inl ''rotationPlannerRequired'' else Inr ())"

definition requireAudit :: "string \<Rightarrow> rotation_audit rotation_op" where
  "requireAudit i = asking (\<lambda>w. case get_rotation i w of None \<Rightarrow> Inl ''rotationNotFound'' | Some a \<Rightarrow> Inr a)"

definition unless :: "bool \<Rightarrow> string \<Rightarrow> unit rotation_op" where
  "unless b e = (if b then fail_with e else give ())"

definition inspect_rotation :: "string \<Rightarrow> string \<Rightarrow> (rotation_runtime \<times> string) rotation_op" where
  "inspect_rotation channelId sessionId =
     seq (requireWorker channelId sessionId) (\<lambda>target. give (target, if activeTurn target then ''active'' else ''ready''))"

text \<open>\<open>prepare\<close>; the notice that it sends to the old session afterwards does not touch the rotation.\<close>

definition prepare_rotation :: "string \<Rightarrow> string \<Rightarrow> string \<Rightarrow> string \<Rightarrow> string \<Rightarrow> rotation_audit rotation_op" where
  "prepare_rotation rotationId nonce channelId sessionId actorSessionId =
     seq (requirePlanner channelId actorSessionId) (\<lambda>_.
     seq (requireWorker channelId sessionId) (\<lambda>target.
     seq (unless (activeTurn target) ''rotationRuntimeActive'') (\<lambda>_.
     seq (asking (\<lambda>w. Inr (rw_now w))) (\<lambda>at.
     let audit = \<lparr>ro_rotationId = rotationId, ro_channelId = channelId, ro_oldSessionId = rr_sessionId target,
       ro_replacementSessionId = None, ro_actorSessionId = actorSessionId, ro_nonce = nonce, ro_state = Prepared, ro_reason = None,
       ro_oldRuntimeId = rr_runtimeId target, ro_oldGeneration = rr_generation target, ro_replacementRuntimeId = None,
       ro_replacementGeneration = None, ro_createdAt = at, ro_updatedAt = at\<rparr> in
     seq (insert_rotation audit) (\<lambda>_. give audit)))))"

definition target_changed :: "rotation_audit \<Rightarrow> rotation_runtime \<Rightarrow> bool" where
  "target_changed a current \<longleftrightarrow>
     rr_generation current \<noteq> ro_oldGeneration a \<or> rr_runtimeId current \<noteq> ro_oldRuntimeId a \<or> activeTurn current"

definition mark :: "rotation_state \<Rightarrow> string \<Rightarrow> rotation_audit rotation_op" where
  "mark st i w = update_rotation i (\<lambda>a. a\<lparr>ro_state := st, ro_updatedAt := rw_now w\<rparr>) w"

definition mark_reason :: "rotation_state \<Rightarrow> string option \<Rightarrow> string \<Rightarrow> rotation_audit rotation_op" where
  "mark_reason st reason i w = update_rotation i (\<lambda>a. a\<lparr>ro_state := st, ro_reason := reason, ro_updatedAt := rw_now w\<rparr>) w"

definition acknowledge_rotation :: "string \<Rightarrow> string \<Rightarrow> string \<Rightarrow> rotation_audit rotation_op" where
  "acknowledge_rotation rotationId sessionId nonce =
     seq (requireAudit rotationId) (\<lambda>audit.
     seq (unless (ro_state audit \<noteq> Prepared \<or> sessionId \<noteq> ro_oldSessionId audit \<or> nonce \<noteq> ro_nonce audit)
       ''rotationAcknowledgementInvalid'') (\<lambda>_.
     seq (requireWorker (ro_channelId audit) (ro_oldSessionId audit)) (\<lambda>current.
     seq (unless (target_changed audit current) ''rotationTargetChanged'') (\<lambda>_.
     mark Acknowledged (ro_rotationId audit)))))"

definition start_job :: "rotation_job \<Rightarrow> unit rotation_op" where
  "start_job j = change_state (\<lambda>w. w\<lparr>rw_jobs := rw_jobs w @ [j]\<rparr>)"

text \<open>\<open>commit\<close> up to its first \<open>await\<close>\<close>

definition commit_rotation :: "string \<Rightarrow> string \<Rightarrow> unit rotation_op" where
  "commit_rotation rotationId actorSessionId =
     seq (requireAudit rotationId) (\<lambda>audit.
     seq (requirePlanner (ro_channelId audit) actorSessionId) (\<lambda>_.
     seq (unless (ro_actorSessionId audit \<noteq> actorSessionId) ''rotationNotReady'') (\<lambda>_.
     if ro_state audit = Cleanup_Pending then start_job (Cleaning audit)
     else
       seq (unless (ro_state audit \<noteq> Acknowledged) ''rotationNotReady'') (\<lambda>_.
       seq (requireWorker (ro_channelId audit) (ro_oldSessionId audit)) (\<lambda>prior.
       seq (unless (target_changed audit prior) ''rotationTargetChanged'') (\<lambda>_.
       start_job (Launching audit prior)))))))"

definition unverified :: "rotation_runtime \<Rightarrow> rotation_runtime \<Rightarrow> bool" where
  "unverified prior verified \<longleftrightarrow>
     rr_role verified \<noteq> Some Worker \<or> rr_state verified \<noteq> Running \<or>
     rl_provider (rr_launch verified) \<noteq> rl_provider (rr_launch prior) \<or> rl_model (rr_launch verified) \<noteq> rl_model (rr_launch prior) \<or>
     rl_reasoning (rr_launch verified) \<noteq> rl_reasoning (rr_launch prior) \<or>
     stringify (rl_launchOptions (rr_launch verified)) \<noteq> stringify (rl_launchOptions (rr_launch prior)) \<or>
     (case rr_providerThreadId verified of None \<Rightarrow> True | Some t \<Rightarrow> t = [])"

datatype authority_answer =
    Launched rotation_runtime
  | Inspected "rotation_runtime option"
  | Terminated_Old
  | Refused string

definition roll_back :: "rotation_audit \<Rightarrow> string \<Rightarrow> rotation_audit rotation_op" where
  "roll_back audit e = seq (mark_reason Rolled_Back (Some e) (ro_rotationId audit)) (\<lambda>_. fail_with e)"

definition record_replacement :: "rotation_audit \<Rightarrow> rotation_runtime \<Rightarrow> rotation_audit rotation_op" where
  "record_replacement audit verified w =
     update_rotation (ro_rotationId audit) (\<lambda>a. a\<lparr>ro_state := Cleanup_Pending, ro_replacementSessionId := Some (rr_sessionId verified),
       ro_replacementRuntimeId := Some (rr_runtimeId verified), ro_replacementGeneration := Some (rr_generation verified),
       ro_updatedAt := rw_now w\<rparr>) w"

text \<open>
  The rest of \<open>commit\<close> and \<open>retryCleanup\<close> from the \<open>await\<close> it is at, up to the next. \<open>None\<close>: still running.
\<close>

fun resume_job :: "rotation_job \<Rightarrow> authority_answer \<Rightarrow> rotation_audit option rotation_op" where
  "resume_job (Launching audit prior) (Launched rt) = seq (start_job (Inspecting audit prior)) (\<lambda>_. give None)"
| "resume_job (Launching audit prior) (Refused e) = seq (roll_back audit e) (\<lambda>a. give (Some a))"
| "resume_job (Inspecting audit prior) (Inspected None) =
     seq (roll_back audit ''rotationReplacementUnverified'') (\<lambda>a. give (Some a))"
| "resume_job (Inspecting audit prior) (Inspected (Some verified)) =
     (if unverified prior verified then seq (start_job (Undoing audit ''rotationReplacementUnverified'')) (\<lambda>_. give None)
      else (\<lambda>w. case swapWorker (ro_channelId audit) (ro_oldSessionId audit) (rr_sessionId verified) (ro_oldGeneration audit) w of
        (Inl e, w1) \<Rightarrow> seq (start_job (Undoing audit e)) (\<lambda>_. give None) w1
      | (Inr _, w1) \<Rightarrow> seq (record_replacement audit verified) (\<lambda>persisted. seq (start_job (Cleaning persisted)) (\<lambda>_. give None)) w1))"
| "resume_job (Inspecting audit prior) (Refused e) = seq (roll_back audit e) (\<lambda>a. give (Some a))"
| "resume_job (Undoing audit e) _ = seq (roll_back audit e) (\<lambda>a. give (Some a))"
| "resume_job (Cleaning audit) Terminated_Old = seq (mark_reason Committed None (ro_rotationId audit)) (\<lambda>a. give (Some a))"
| "resume_job (Cleaning audit) (Refused e) =
     seq (mark_reason Cleanup_Pending (Some e) (ro_rotationId audit)) (\<lambda>_. fail_with e)"
| "resume_job j _ = seq (start_job j) (\<lambda>_. give None)"   \<comment> \<open>not an answer to what was asked\<close>

definition cancel_rotation :: "string \<Rightarrow> string \<Rightarrow> string \<Rightarrow> rotation_audit rotation_op" where
  "cancel_rotation rotationId actorSessionId reason =
     seq (requireAudit rotationId) (\<lambda>audit.
     seq (requirePlanner (ro_channelId audit) actorSessionId) (\<lambda>_.
     seq (unless (blank reason) ''rotationCancelReasonRequired'') (\<lambda>_.
     seq (unless (ro_state audit \<notin> {Prepared, Acknowledged}) ''rotationCannotCancel'') (\<lambda>_.
     mark_reason Cancelled (Some (trim reason)) (ro_rotationId audit)))))"

section \<open>Runs\<close>

text \<open>\<open>Prepare\<close> carries the two identifiers that \<open>randomUUID\<close> returns.\<close>

datatype rotation_event =
    Prepare string string string string string
  | Acknowledge string string string
  | Commit string string
  | Cancel string string string
  | Answer nat authority_answer
  | Elsewhere db "string \<Rightarrow> rotation_runtime option" time

definition void_of :: "'a rotation_op \<Rightarrow> rotation_world \<Rightarrow> rotation_world" where
  "void_of m w = snd (m w)"

fun on_rotation :: "rotation_event \<Rightarrow> rotation_world \<Rightarrow> rotation_world" where
  "on_rotation (Prepare i nonce ch session actor) = void_of (prepare_rotation i nonce ch session actor)"
| "on_rotation (Acknowledge i session nonce) = void_of (acknowledge_rotation i session nonce)"
| "on_rotation (Commit i actor) = void_of (commit_rotation i actor)"
| "on_rotation (Cancel i actor reason) = void_of (cancel_rotation i actor reason)"
| "on_rotation (Answer n answer) = (\<lambda>w.
     if n < length (rw_jobs w)
     then void_of (resume_job (rw_jobs w ! n) answer) (w\<lparr>rw_jobs := take n (rw_jobs w) @ drop (Suc n) (rw_jobs w)\<rparr>) else w)"
| "on_rotation (Elsewhere d facts t) = (\<lambda>w. w\<lparr>rw_db := d, rw_facts := facts, rw_now := t\<rparr>)"

definition run_rotation :: "rotation_event list \<Rightarrow> rotation_world \<Rightarrow> rotation_world" where
  "run_rotation evs w = foldl (\<lambda>w ev. on_rotation ev w) w evs"

end
