(* ===== verification/RotationProperties.thy ===== *)
theory RotationProperties
  imports Rotation "HOL-Library.Multiset"
begin

text \<open>
  What a rotation promises: the swap replaces one member and nothing else, and no rotation goes further than its old
  session and the planner that prepared it have taken it; and what two commits of one rotation do to its record.
\<close>

section \<open>The swap\<close>

definition members_now :: "string \<Rightarrow> db \<Rightarrow> (string \<times> session_role option) multiset" where
  "members_now ch d = image_mset (\<lambda>m. (m_sessionId m, m_role m)) (mset (filter (\<lambda>m. m_channelId m = ch \<and> active_membership m) (memberships d)))"

lemma count_where_one:
  assumes "count_where P rows = 1"
  obtains xs r ys where "rows = xs @ r # ys" "P r" "\<forall>x \<in> set xs \<union> set ys. \<not> P x"
proof -
  obtain r where "filter P rows = [r]"
    using assms by (auto simp: count_where_def length_Suc_conv)
  then obtain xs ys where rows: "rows = xs @ r # ys" "\<forall>x \<in> set xs. \<not> P x" "P r" "filter P ys = []"
    by (auto simp: filter_eq_Cons_iff)
  then have "\<forall>x \<in> set ys. \<not> P x"
    by (simp add: filter_empty_conv)
  with rows that show thesis by blast
qed

lemma update_where_others: "\<forall>x \<in> set xs. \<not> P x \<Longrightarrow> update_where P f xs = xs"
  by (induction xs) auto

text \<open>
  C36. The swap of a rotation is one exchange or nothing: if it succeeds, the old session, whose runtime still has the
  generation that was acknowledged, has left the channel and the replacement is in it as a worker, every other member
  and every other channel are as before, and no other table, not even the journal of changes, has a new row; if it
  fails, nothing has changed.\<close>

theorem swap_exchanges_one_member:
  assumes "swapWorker ch old new gen w = (r, w1)"
  shows "case r of
      Inl e \<Rightarrow> w1 = w
    | Inr _ \<Rightarrow>
        (\<exists>rt role. inspectRotationRuntime ch old w = Some rt \<and> rr_generation rt = gen \<and>
          members_now ch (rw_db w1) + {#(old, role)#} = members_now ch (rw_db w) + {#(new, Some Worker)#}) \<and>
        (\<forall>c. c \<noteq> ch \<longrightarrow> filter (\<lambda>m. m_channelId m = c) (memberships (rw_db w1)) = filter (\<lambda>m. m_channelId m = c) (memberships (rw_db w))) \<and>
        w1 = w\<lparr>rw_db := (rw_db w)\<lparr>memberships := memberships (rw_db w1)\<rparr>\<rparr>"
proof (cases r)
  case (Inl e)
  with assms show ?thesis
    by (auto simp: swapWorker_def Let_def split: option.splits if_splits)
next
  case (Inr u)
  let ?left = "update_where (member_of ch old) (\<lambda>m. m\<lparr>m_leftAt := Some (rw_now w)\<rparr>) (memberships (rw_db w))"
  let ?row = "\<lparr>m_channelId = ch, m_sessionId = new, m_joinedAt = rw_now w, m_leftAt = None, m_sessionEndedAt = None, m_role = Some Worker\<rparr>"
  from assms Inr obtain rt where rt: "inspectRotationRuntime ch old w = Some rt" "rr_generation rt = gen"
      and one: "count_where (member_of ch old) (memberships (rw_db w)) = 1"
      and w1: "w1 = w\<lparr>rw_db := (rw_db w)\<lparr>memberships := ?left @ [?row]\<rparr>\<rparr>"
    by (auto simp: swapWorker_def Let_def split: option.splits if_splits)
  obtain xs m ys where rows: "memberships (rw_db w) = xs @ m # ys" "member_of ch old m" "\<forall>x \<in> set xs \<union> set ys. \<not> member_of ch old x"
    by (rule count_where_one [OF one])
  define after where "after = xs @ m\<lparr>m_leftAt := Some (rw_now w)\<rparr> # ys @ [?row]"
  have after: "memberships (rw_db w1) = after"
    using rows by (simp add: w1 after_def update_where_append update_where_others)
  have "members_now ch (rw_db w1) + {#(old, m_role m)#} = members_now ch (rw_db w) + {#(new, Some Worker)#}"
    using rows(2) by (simp add: members_now_def after after_def rows(1) member_of_def active_membership_def)
  moreover have "filter (\<lambda>m. m_channelId m = c) (memberships (rw_db w1)) = filter (\<lambda>m. m_channelId m = c) (memberships (rw_db w))" if "c \<noteq> ch" for c
    using rows(2) that by (simp add: after after_def rows(1) member_of_def)
  moreover have "w1 = w\<lparr>rw_db := (rw_db w)\<lparr>memberships := memberships (rw_db w1)\<rparr>\<rparr>"
    by (simp add: w1)
  ultimately show ?thesis
    using rt Inr by auto
qed

section \<open>Consent\<close>

text \<open>The steps of a rotation, in order, as far as its state says it has come.\<close>

definition prepared_by :: "rotation_audit \<Rightarrow> rotation_event" where
  "prepared_by a = Prepare (ro_rotationId a) (ro_nonce a) (ro_channelId a) (ro_oldSessionId a) (ro_actorSessionId a)"

definition steps_of :: "rotation_audit \<Rightarrow> rotation_state \<Rightarrow> rotation_event list" where
  "steps_of a st =
     (let acknowledged = [prepared_by a, Acknowledge (ro_rotationId a) (ro_oldSessionId a) (ro_nonce a)] in
      case st of Prepared \<Rightarrow> [prepared_by a] | Cancelled \<Rightarrow> [prepared_by a] | Acknowledged \<Rightarrow> acknowledged
      | _ \<Rightarrow> acknowledged @ [Commit (ro_rotationId a) (ro_actorSessionId a)])"

definition same_rotation :: "rotation_audit \<Rightarrow> rotation_audit \<Rightarrow> bool" where
  "same_rotation a b \<longleftrightarrow> ro_rotationId a = ro_rotationId b \<and> ro_channelId a = ro_channelId b \<and>
     ro_oldSessionId a = ro_oldSessionId b \<and> ro_actorSessionId a = ro_actorSessionId b \<and> ro_nonce a = ro_nonce b"

fun job_audit :: "rotation_job \<Rightarrow> rotation_audit" where
  "job_audit (Launching a _) = a"
| "job_audit (Inspecting a _) = a"
| "job_audit (Undoing a _) = a"
| "job_audit (Cleaning a) = a"

text \<open>A job belongs to a commit of a rotation whose row is still there.\<close>

definition job_ok :: "rotation_event list \<Rightarrow> rotation_audit list \<Rightarrow> rotation_audit \<Rightarrow> bool" where
  "job_ok evs rows a \<longleftrightarrow> subseq (steps_of a Committed) evs \<and> (\<forall>b \<in> set rows. ro_rotationId b = ro_rotationId a \<longrightarrow> same_rotation b a)
     \<and> ro_rotationId a \<in> ro_rotationId ` set rows"

definition consented :: "rotation_event list \<Rightarrow> rotation_world \<Rightarrow> bool" where
  "consented evs w \<longleftrightarrow> (\<forall>a \<in> set (rw_rotations w). subseq (steps_of a (ro_state a)) evs) \<and>
     (\<forall>j \<in> set (rw_jobs w). job_ok evs (rw_rotations w) (job_audit j)) \<and> distinct (map ro_rotationId (rw_rotations w))"

lemma steps_same: "same_rotation a b \<Longrightarrow> steps_of a st = steps_of b st"
  by (simp add: same_rotation_def steps_of_def prepared_by_def cong: rotation_state.case_cong)

lemma subseq_snoc: "subseq xs evs \<Longrightarrow> subseq xs (evs @ [e])"
  by (rule subseq_rev_drop_many)

lemma subseq_snoc_same: "subseq xs evs \<Longrightarrow> subseq (xs @ [e]) (evs @ [e])"
  by simp

lemma consented_later: "consented evs w \<Longrightarrow> consented (evs @ [e]) w"
  by (auto simp: consented_def job_ok_def intro: subseq_snoc)

lemma steps_of_simps [simp]:
  "steps_of a Prepared = [prepared_by a]"
  "steps_of a Cancelled = [prepared_by a]"
  "steps_of a Acknowledged = [prepared_by a, Acknowledge (ro_rotationId a) (ro_oldSessionId a) (ro_nonce a)]"
  by (simp_all add: steps_of_def Let_def)

lemma steps_le: "subseq (steps_of a Committed) evs \<Longrightarrow> subseq (steps_of a st) evs"
  by (cases st) (auto simp: steps_of_def Let_def elim: subseq_Cons' subseq_order.trans [rotated])

lemma steps_committed: "steps_of a Committed = steps_of a Acknowledged @ [Commit (ro_rotationId a) (ro_actorSessionId a)]"
  by (simp add: steps_of_def Let_def)

lemma steps_pending: "steps_of a Cleanup_Pending = steps_of a Committed"
  by (simp add: steps_of_def Let_def)

lemma same_rotation_trans: "same_rotation a b \<Longrightarrow> same_rotation b c \<Longrightarrow> same_rotation a c"
  by (simp add: same_rotation_def)

lemma get_rotationD: "get_rotation i w = Some a \<Longrightarrow> a \<in> set (rw_rotations w) \<and> ro_rotationId a = i"
  by (auto simp: get_rotation_def find_Some_iff)

text \<open>An update keeps what was agreed if the new row is of the same rotation and no further than its steps.\<close>

lemma update_ids:
  "ro_rotationId c = i \<Longrightarrow> same_rotation c' c \<Longrightarrow>
     map ro_rotationId (update_where (\<lambda>b. ro_rotationId b = i) (\<lambda>_. c') rows) = map ro_rotationId rows"
  by (auto simp: update_where_def same_rotation_def)

lemma job_ok_update:
  assumes "job_ok evs rows a" and "c \<in> set rows" and "ro_rotationId c = i" and "same_rotation c' c"
  shows "job_ok evs (update_where (\<lambda>b. ro_rotationId b = i) (\<lambda>_. c') rows) a"
proof -
  let ?rows = "update_where (\<lambda>b. ro_rotationId b = i) (\<lambda>_. c') rows"
  have "ro_rotationId ` set ?rows = ro_rotationId ` set rows"
    using update_ids [OF assms(3,4), of rows] by (metis list.set_map)
  moreover have "\<forall>b \<in> set ?rows. ro_rotationId b = ro_rotationId a \<longrightarrow> same_rotation b a"
    using assms by (auto simp: in_update_where job_ok_def same_rotation_def)
  ultimately show ?thesis
    using assms(1) by (simp add: job_ok_def)
qed

lemma consented_update:
  assumes w: "consented evs w"
    and patch: "\<And>a. get_rotation i w = Some a \<Longrightarrow> same_rotation (patch a) a \<and> subseq (steps_of a (ro_state (patch a))) evs"
  shows "consented evs (snd (update_rotation i patch w))"
proof (cases "get_rotation i w")
  case None
  with w show ?thesis
    by (simp add: update_rotation_def)
next
  case (Some a)
  let ?rows = "update_where (\<lambda>b. ro_rotationId b = i) (\<lambda>_. patch a) (rw_rotations w)"
  note a = get_rotationD [OF Some]
  have "\<forall>b \<in> set ?rows. subseq (steps_of b (ro_state b)) evs"
    using w patch [OF Some] by (auto simp: consented_def in_update_where steps_same)
  moreover have "\<forall>j \<in> set (rw_jobs w). job_ok evs ?rows (job_audit j)"
    using w a patch [OF Some] by (auto simp: consented_def intro: job_ok_update)
  moreover have "map ro_rotationId ?rows = map ro_rotationId (rw_rotations w)"
    using a patch [OF Some] by (blast intro: update_ids)
  ultimately show ?thesis
    using w Some by (simp add: update_rotation_def consented_def)
qed

text \<open>What a job does to its own rotation\<close>

definition with_job :: "rotation_event list \<Rightarrow> rotation_audit \<Rightarrow> rotation_world \<Rightarrow> bool" where
  "with_job evs a w \<longleftrightarrow> consented evs w \<and> job_ok evs (rw_rotations w) a"

lemma with_job_update:
  assumes w: "with_job evs a w"
    and patch: "\<And>b. same_rotation (patch b) b"
  shows "with_job evs a (snd (update_rotation (ro_rotationId a) patch w))"
proof -
  have "subseq (steps_of b st) evs" if "get_rotation (ro_rotationId a) w = Some b" for b st
    using w get_rotationD [OF that] steps_le by (fastforce simp: with_job_def job_ok_def steps_same)
  then have "consented evs (snd (update_rotation (ro_rotationId a) patch w))"
    using w patch by (auto simp: with_job_def intro!: consented_update)
  moreover have "job_ok evs (rw_rotations (snd (update_rotation (ro_rotationId a) patch w))) a"
    using w patch by (auto simp: with_job_def update_rotation_def split: option.split dest: get_rotationD intro: job_ok_update)
  ultimately show ?thesis
    by (simp add: with_job_def)
qed

lemma with_job_start: "with_job evs a w \<Longrightarrow> job_ok evs (rw_rotations w) (job_audit j) \<Longrightarrow> with_job evs a (w\<lparr>rw_jobs := rw_jobs w @ [j]\<rparr>)"
  by (auto simp: with_job_def consented_def)

lemma stable_marks [stable_intros]:
  "stable (with_job evs a) (mark st (ro_rotationId a))"
  "stable (with_job evs a) (mark_reason st reason (ro_rotationId a))"
  by (auto intro!: stableI with_job_update simp: mark_def mark_reason_def same_rotation_def)

lemma stable_start_job [stable_intros]: "job_audit j = a \<Longrightarrow> stable (with_job evs a) (start_job j)"
  unfolding start_job_def by (rule stable_change_state) (auto simp: with_job_def consented_def)

lemma stable_roll_back [stable_intros]: "stable (with_job evs a) (roll_back a e)"
  unfolding roll_back_def by (intro stable_intros)

lemma job_ok_row: "job_ok evs rows a \<Longrightarrow> p \<in> set rows \<Longrightarrow> ro_rotationId p = ro_rotationId a \<Longrightarrow> job_ok evs rows p"
  unfolding job_ok_def using steps_same [of p a Committed] by (auto simp: same_rotation_def)

lemma record_replacement_ok:
  assumes "with_job evs a w" and "record_replacement a v w = (r, w1)"
  shows "with_job evs a w1 \<and> (\<forall>p. r = Inr p \<longrightarrow> job_ok evs (rw_rotations w1) p)"
proof -
  have "\<exists>patch. record_replacement a v w = update_rotation (ro_rotationId a) patch w \<and> (\<forall>b. same_rotation (patch b) b)"
    unfolding record_replacement_def by (intro exI conjI, rule refl) (simp add: same_rotation_def)
  then obtain patch where step: "update_rotation (ro_rotationId a) patch w = (r, w1)" and same: "\<And>b. same_rotation (patch b) b"
    using assms(2) by auto
  have "with_job evs a w1"
    using with_job_update [OF assms(1) same] step by simp
  moreover have "p \<in> set (rw_rotations w1) \<and> ro_rotationId p = ro_rotationId a" if "r = Inr p" for p
    using step same that
    by (fastforce simp: update_rotation_def in_update_where same_rotation_def split: option.splits dest!: get_rotationD)
  ultimately show ?thesis
    by (auto intro: job_ok_row simp: with_job_def)
qed

lemma swap_rotations: "swapWorker ch old new gen w = (r, w1) \<Longrightarrow> rw_rotations w1 = rw_rotations w \<and> rw_jobs w1 = rw_jobs w"
  by (auto simp: swapWorker_def Let_def split: option.splits if_splits)

lemma with_job_kept: "with_job evs a w \<Longrightarrow> stable (with_job evs a) m \<Longrightarrow> consented evs (snd (m w))"
  by (auto simp: with_job_def dest: stableD)

lemma resume_ok: "with_job evs (job_audit j) w \<Longrightarrow> consented evs (snd (resume_job j answer w))"
proof (induction j answer rule: resume_job.induct)
  case (4 audit prior verified)
  show ?case
  proof (cases "unverified prior verified")
    case True
    have "stable (with_job evs audit) (resume_job (Inspecting audit prior) (Inspected (Some verified)))"
      using True by (auto intro!: stable_intros)
    with 4 show ?thesis
      by (auto simp: with_job_def dest: stableD)
  next
    case False
    obtain r w1 where swap: "swapWorker (ro_channelId audit) (ro_oldSessionId audit) (rr_sessionId verified) (ro_oldGeneration audit) w = (r, w1)"
      by fastforce
    then have w1: "with_job evs audit w1"
      using 4 swap_rotations by (auto simp: with_job_def consented_def)
    obtain r2 w2 where replaced: "record_replacement audit verified w1 = (r2, w2)"
      by fastforce
    note w2 = record_replacement_ok [OF w1 replaced]
    have undo: "stable (with_job evs audit) (seq (start_job (Undoing audit e)) (\<lambda>_. give None))" for e
      by (auto intro!: stable_intros)
    have clean: "with_job evs p w2 \<Longrightarrow> with_job evs p (snd (seq (start_job (Cleaning p)) (\<lambda>_. give None) w2))" for p
      by (rule stableD) (auto intro!: stable_intros)
    show ?thesis
      using swap replaced False w1 w2 stableD [OF undo w1] clean
      by (auto simp: with_job_def seq_def split: sum.splits)
  qed
qed (auto elim!: with_job_kept intro!: stable_intros)

section \<open>The operations\<close>

lemma rotation_steps:
  "seq (requirePlanner ch i) k w =
     (if actorRole ch i (rw_db w) \<noteq> Some Planner then (Inl ''rotationPlannerRequired'', w) else k () w)"
  "seq (requireAudit i) l w = (case get_rotation i w of None \<Rightarrow> (Inl ''rotationNotFound'', w) | Some a \<Rightarrow> l a w)"
  "seq (unless b e) k w = (if b then (Inl e, w) else k () w)"
  "seq (requireWorker ch i) m w =
     (case inspectRotationRuntime ch i w of
        None \<Rightarrow> (Inl ''rotationTargetNotFound'', w)
      | Some t \<Rightarrow>
          if rr_role t \<noteq> Some Worker then (Inl ''rotationWorkerRequired'', w)
          else if rr_state t \<noteq> Running then (Inl ''rotationRuntimeNotLive'', w) else m t w)"
  "seq (asking (\<lambda>w. Inr (f w))) n w = n (f w) w"
  by (simp_all add: requirePlanner_def requireAudit_def unless_def requireWorker_def seq_asking fail_with_def split: option.split)

lemma world_eq_simps:
  "w\<lparr>rw_rotations := xs\<rparr> = w\<lparr>rw_rotations := ys\<rparr> \<longleftrightarrow> xs = ys"
  "w\<lparr>rw_jobs := js\<rparr> = w\<lparr>rw_jobs := ks\<rparr> \<longleftrightarrow> js = ks"
  by (cases w; simp)+

lemma inspected_session: "inspectRotationRuntime ch s w = Some rt \<Longrightarrow> rr_sessionId rt = s"
  by (auto simp: inspectRotationRuntime_def split: option.splits prod.splits)

lemma insert_effect:
  "snd (seq (insert_rotation a) (\<lambda>_. give a) w) = w \<or>
     snd (seq (insert_rotation a) (\<lambda>_. give a) w) = w\<lparr>rw_rotations := rw_rotations w @ [a]\<rparr> \<and>
     ro_rotationId a \<notin> ro_rotationId ` set (rw_rotations w)"
  by (auto simp: insert_rotation_def seq_def give_def exists_row_iff)

lemma prepare_effect:
  "snd (prepare_rotation i n ch s actor w) = w \<or>
     (\<exists>a. snd (prepare_rotation i n ch s actor w) = w\<lparr>rw_rotations := rw_rotations w @ [a]\<rparr> \<and> i \<notin> ro_rotationId ` set (rw_rotations w)
       \<and> ro_rotationId a = i \<and> ro_state a = Prepared \<and> prepared_by a = Prepare i n ch s actor)"
proof (cases "inspectRotationRuntime ch s w")
  case (Some t)
  let ?a = "\<lparr>ro_rotationId = i, ro_channelId = ch, ro_oldSessionId = rr_sessionId t, ro_replacementSessionId = None,
    ro_actorSessionId = actor, ro_nonce = n, ro_state = Prepared, ro_reason = None, ro_oldRuntimeId = rr_runtimeId t,
    ro_oldGeneration = rr_generation t, ro_replacementRuntimeId = None, ro_replacementGeneration = None,
    ro_createdAt = rw_now w, ro_updatedAt = rw_now w\<rparr>"
  have "prepared_by ?a = Prepare i n ch s actor"
    using inspected_session [OF Some] by (simp add: prepared_by_def)
  moreover have "snd (prepare_rotation i n ch s actor w) \<in> {w, snd (seq (insert_rotation ?a) (\<lambda>_. give ?a) w)}"
    by (simp add: prepare_rotation_def rotation_steps Some Let_def)
  ultimately show ?thesis
    using insert_effect [of ?a w] by (auto intro!: exI [of _ ?a])
qed (simp add: prepare_rotation_def rotation_steps)

lemma acknowledge_effect:
  "snd (acknowledge_rotation i s n w) = w \<or>
     (\<exists>a. get_rotation i w = Some a \<and> ro_state a = Prepared \<and> ro_oldSessionId a = s \<and> ro_nonce a = n \<and>
       snd (acknowledge_rotation i s n w) = snd (mark Acknowledged i w))"
proof (cases "get_rotation i w")
  case (Some a)
  then show ?thesis
    using get_rotationD [OF Some] by (auto simp: acknowledge_rotation_def rotation_steps split: option.split)
qed (simp add: acknowledge_rotation_def rotation_steps)

lemma commit_effect:
  "snd (commit_rotation i actor w) = w \<or>
     (\<exists>a j. get_rotation i w = Some a \<and> ro_state a \<in> {Acknowledged, Cleanup_Pending} \<and> ro_actorSessionId a = actor \<and>
       job_audit j = a \<and> snd (commit_rotation i actor w) = w\<lparr>rw_jobs := rw_jobs w @ [j]\<rparr>)"
proof (cases "get_rotation i w")
  case (Some a)
  have start: "snd (start_job j w) = w\<lparr>rw_jobs := rw_jobs w @ [j]\<rparr>" for j
    by (simp add: start_job_def change_state_def)
  show ?thesis
  proof (cases "ro_state a = Cleanup_Pending")
    case True
    with Some start [of "Cleaning a"] show ?thesis
      by (auto simp: commit_rotation_def rotation_steps intro!: exI [of _ "Cleaning a"])
  next
    case False
    then have "snd (commit_rotation i actor w) = w \<or> ro_state a = Acknowledged \<and> ro_actorSessionId a = actor \<and>
        (\<exists>t. snd (commit_rotation i actor w) = snd (start_job (Launching a t) w))"
      using Some by (simp add: commit_rotation_def rotation_steps split: option.split) auto
    with Some start show ?thesis
      by (metis insertI1 job_audit.simps(1))
  qed
qed (simp add: commit_rotation_def rotation_steps)

lemma cancel_effect:
  "snd (cancel_rotation i actor reason w) = w \<or>
     (\<exists>a. get_rotation i w = Some a \<and> ro_state a \<in> {Prepared, Acknowledged} \<and>
       snd (cancel_rotation i actor reason w) = snd (mark_reason Cancelled (Some (trim reason)) i w))"
proof (cases "get_rotation i w")
  case (Some a)
  then show ?thesis
    using get_rotationD [OF Some] by (auto simp: cancel_rotation_def rotation_steps)
qed (simp add: cancel_rotation_def rotation_steps)

lemma consented_start: "rw_rotations w = [] \<Longrightarrow> rw_jobs w = [] \<Longrightarrow> consented evs w"
  by (simp add: consented_def)

lemma consented_row: "consented evs w \<Longrightarrow> get_rotation i w = Some a \<Longrightarrow> subseq (steps_of a (ro_state a)) evs \<and> ro_rotationId a = i"
  by (auto simp: consented_def dest: get_rotationD)

lemma consented_job: "consented evs w \<Longrightarrow> get_rotation i w = Some a \<Longrightarrow> subseq (steps_of a Committed) evs \<Longrightarrow> job_ok evs (rw_rotations w) a"
  by (auto simp: consented_def job_ok_def same_rotation_def dest!: get_rotationD dest: distinct_keyD)

lemma consented_prepare:
  assumes "consented evs w"
  shows "consented (evs @ [Prepare i n ch s actor]) (on_rotation (Prepare i n ch s actor) w)"
proof -
  note later = consented_later [OF assms, of "Prepare i n ch s actor"]
  have "consented (evs @ [Prepare i n ch s actor]) (w\<lparr>rw_rotations := rw_rotations w @ [a]\<rparr>)"
    if "i \<notin> ro_rotationId ` set (rw_rotations w)" "ro_rotationId a = i" "ro_state a = Prepared" "prepared_by a = Prepare i n ch s actor" for a
    using later that by (auto simp: consented_def job_ok_def)
  with later show ?thesis
    using prepare_effect [of i n ch s actor w] by (auto simp: void_of_def)
qed

lemma consented_acknowledge:
  assumes "consented evs w"
  shows "consented (evs @ [Acknowledge i s n]) (on_rotation (Acknowledge i s n) w)"
proof -
  note later = consented_later [OF assms, of "Acknowledge i s n"]
  have "consented (evs @ [Acknowledge i s n]) (snd (mark Acknowledged i w))"
    if "get_rotation i w = Some a" "ro_state a = Prepared" "ro_oldSessionId a = s" "ro_nonce a = n" for a
    unfolding mark_def using consented_row [OF assms that(1)] that subseq_snoc_same [of "[prepared_by a]" evs "Acknowledge i s n"]
    by (intro consented_update [OF later]) (auto simp: same_rotation_def)
  with later show ?thesis
    using acknowledge_effect [of i s n w] by (auto simp: void_of_def)
qed

lemma consented_commit:
  assumes "consented evs w"
  shows "consented (evs @ [Commit i actor]) (on_rotation (Commit i actor) w)"
proof -
  note later = consented_later [OF assms, of "Commit i actor"]
  have "job_ok (evs @ [Commit i actor]) (rw_rotations w) a"
    if row: "get_rotation i w = Some a" "ro_state a \<in> {Acknowledged, Cleanup_Pending}" "ro_actorSessionId a = actor" for a
  proof (rule consented_job [OF later row(1)])
    note a = consented_row [OF assms row(1)]
    show "subseq (steps_of a Committed) (evs @ [Commit i actor])"
    proof (cases "ro_state a = Acknowledged")
      case True
      then have "subseq (steps_of a Acknowledged) evs"
        using conjunct1 [OF a] by simp
      from subseq_snoc_same [OF this, of "Commit i actor"] a row(3) show ?thesis
        by (simp add: steps_committed)
    next
      case False
      with a row(2) show ?thesis
        by (auto simp: steps_pending intro: subseq_snoc)
    qed
  qed
  then have "consented (evs @ [Commit i actor]) (w\<lparr>rw_jobs := rw_jobs w @ [j]\<rparr>)"
    if "get_rotation i w = Some a" "ro_state a \<in> {Acknowledged, Cleanup_Pending}" "ro_actorSessionId a = actor" "job_audit j = a" for a j
    using later that by (simp add: consented_def)
  with later commit_effect [of i actor w] show ?thesis
    by (auto simp: void_of_def)
qed

lemma consented_cancel:
  assumes "consented evs w"
  shows "consented (evs @ [Cancel i actor reason]) (on_rotation (Cancel i actor reason) w)"
proof -
  note later = consented_later [OF assms, of "Cancel i actor reason"]
  have "subseq [prepared_by a] (evs @ [Cancel i actor reason])"
    if "get_rotation i w = Some a" "ro_state a \<in> {Prepared, Acknowledged}" for a
    using consented_row [OF assms that(1)] that(2) by (auto intro: subseq_snoc subseq_order.trans [rotated])
  then have "consented (evs @ [Cancel i actor reason]) (snd (mark_reason Cancelled (Some (trim reason)) i w))"
    if "get_rotation i w = Some a" "ro_state a \<in> {Prepared, Acknowledged}" for a
    unfolding mark_reason_def using that by (intro consented_update [OF later]) (auto simp: same_rotation_def)
  with later show ?thesis
    using cancel_effect [of i actor reason w] by (auto simp: void_of_def)
qed

lemma consented_answer:
  assumes "consented evs w"
  shows "consented (evs @ [Answer n answer]) (on_rotation (Answer n answer) w)"
proof (cases "n < length (rw_jobs w)")
  case True
  let ?w = "w\<lparr>rw_jobs := take n (rw_jobs w) @ drop (Suc n) (rw_jobs w)\<rparr>"
  have "with_job (evs @ [Answer n answer]) (job_audit (rw_jobs w ! n)) ?w"
    using consented_later [OF assms, of "Answer n answer"] True
    by (auto simp: with_job_def consented_def dest: in_set_takeD in_set_dropD)
  from resume_ok [OF this] True show ?thesis
    by (simp add: void_of_def)
qed (use consented_later [OF assms] in simp)

lemma consented_event: "consented evs w \<Longrightarrow> consented (evs @ [e]) (on_rotation e w)"
proof (cases e)
  case (Elsewhere d facts t)
  assume "consented evs w"
  from consented_later [OF this] Elsewhere show ?thesis
    by (simp add: consented_def)
qed (blast intro: consented_prepare consented_acknowledge consented_commit consented_cancel consented_answer)+

lemma consented_run: "consented evs w \<Longrightarrow> consented (evs @ later) (run_rotation later w)"
proof (induction later arbitrary: evs w)
  case (Cons e later)
  from Cons.IH [OF consented_event [OF Cons.prems]] show ?case
    by (simp add: run_rotation_def)
qed (simp add: run_rotation_def)

text \<open>
  C32. No rotation happens behind the back of its worker. Whatever calls the daemon receives, whatever the runtime
  authority answers and in whichever order, and whatever else changes the tables in between: a row of the rotations that
  is acknowledged was acknowledged by the very session it is to replace, with the nonce of that preparation and after
  it; a row that is committed, in cleanup or rolled back was, after that, committed by the planner that prepared it; and
  so was the rotation of every \<open>commit\<close> that is under way, the only code that swaps a member or ends a runtime.\<close>

theorem rotation_needs_consent:
  assumes "rw_rotations w = []" and "rw_jobs w = []"
  shows "(\<forall>a \<in> set (rw_rotations (run_rotation evs w)). subseq (steps_of a (ro_state a)) evs) \<and>
    (\<forall>j \<in> set (rw_jobs (run_rotation evs w)). subseq (steps_of (job_audit j) Committed) evs)"
  using consented_run [OF consented_start [OF assms], of "[]" evs] by (simp add: consented_def job_ok_def)

section \<open>Two commits of one rotation\<close>

definition demo_launch :: rotation_launch where
  "demo_launch = \<lparr>rl_provider = ''p'', rl_model = None, rl_reasoning = None, rl_launchOptions = JObj []\<rparr>"

definition demo_runtime :: "string \<Rightarrow> rotation_runtime" where
  "demo_runtime i = \<lparr>rr_runtimeId = i, rr_sessionId = i, rr_generation = 1, rr_state = Running, rr_providerThreadId = Some ''t'',
     rr_phase = Some Ready_Turn, rr_role = Some Worker, rr_launch = demo_launch\<rparr>"

definition demo_member :: "string \<Rightarrow> session_role \<Rightarrow> membership" where
  "demo_member i role = \<lparr>m_channelId = ''c'', m_sessionId = i, m_joinedAt = 0, m_leftAt = None, m_sessionEndedAt = None, m_role = Some role\<rparr>"

definition demo_session :: "string \<Rightarrow> session" where
  "demo_session i = \<lparr>s_id = i, s_registeredAt = 0, s_endedAt = None, s_displayName = None, s_role = Some Worker, s_providerThreadId = None,
     s_deliveryMode = Runtime_Delivery, s_externalOwner = None, s_externalAgentId = None, s_externalId = None\<rparr>"

definition demo_world :: rotation_world where
  "demo_world = \<lparr>rw_db = empty_db\<lparr>sessions := map demo_session [''p'', ''o'', ''r'', ''q''],
     memberships := [demo_member ''p'' Planner, demo_member ''o'' Worker]\<rparr>,
     rw_facts = (\<lambda>i. Some (demo_runtime i)), rw_now = 5, rw_rotations = [], rw_jobs = []\<rparr>"

definition double_commit :: "rotation_event list" where
  "double_commit = [Prepare ''i'' ''n'' ''c'' ''o'' ''p'', Acknowledge ''i'' ''o'' ''n'', Commit ''i'' ''p'', Commit ''i'' ''p'',
     Answer 0 (Launched (demo_runtime ''r'')), Answer 0 (Launched (demo_runtime ''q'')),
     Answer 0 (Inspected (Some (demo_runtime ''r''))), Answer 1 Terminated_Old,
     Answer 0 (Inspected (Some (demo_runtime ''q''))), Answer 0 Terminated_Old]"


section \<open>Concrete instances\<close>

theorem swap_exchanges_one_member_witness:
  "fst (swapWorker ''c'' ''o'' ''r'' 1 demo_world) = Inr () \<and>
   (\<exists>role. members_now ''c'' (rw_db (snd (swapWorker ''c'' ''o'' ''r'' 1 demo_world))) + {#(''o'', role)#}
     = members_now ''c'' (rw_db demo_world) + {#(''r'', Some Worker)#})"
proof -
  have "fst (swapWorker ''c'' ''o'' ''r'' 1 demo_world) = Inr ()"
    by code_simp
  then show ?thesis
    using swap_exchanges_one_member [OF prod.collapse [symmetric], of "''c''" "''o''" "''r''" 1 demo_world] by auto
qed

theorem rotation_needs_consent_witness:
  "\<exists>a \<in> set (rw_rotations (run_rotation double_commit demo_world)). ro_state a = Rolled_Back \<and> subseq (steps_of a Rolled_Back) double_commit"
proof -
  have "\<exists>a \<in> set (rw_rotations (run_rotation double_commit demo_world)). ro_state a = Rolled_Back"
    by code_simp
  then show ?thesis
    using rotation_needs_consent [of demo_world double_commit] by (fastforce simp: demo_world_def)
qed

end
