(* ===== verification/HostClient.thy ===== *)
theory HostClient
  imports HostCodec RuntimeContracts Effects
begin

text \<open>
  The client of a runtime host (\<open>src/roomsd/src/runtime/host/client.ts\<close>). A call that waits for the host leaves a
  request in \<open>hc_pending\<close>; the reactions to a promise run after the event that settles it, here in \<open>react\<close>. The
  socket, the timers and the calls are events. \<open>utf8\<close> and \<open>parse\<close> are \<open>Buffer.toString\<close> and \<open>JSON.parse\<close>.
\<close>

section \<open>State\<close>

record host_identity =
  hi_sessionId :: string
  hi_runtimeId :: string
  hi_homeAuthorityId :: string
  hi_generation :: int
  hi_secret :: "byte list"

text \<open>The requests, by what is done with their response\<close>

datatype host_request = Connect_Hello | Renew_Hello | Deliver string | Terminate_Host | Ping_Host

text \<open>The code of the error, if it has one, and its message\<close>

type_synonym host_failure = "nat option \<times> string"

datatype host_reply = Hello_Reply host_hello_ack | Delivery_Reply delivery_ack | Done

datatype client_event = Output_Event host_output | Exit_Event int | Error_Event nat string | Close_Event

record host_client =
  hc_identity :: host_identity
  hc_renews :: bool
  hc_socket :: bool
  hc_buffer :: "byte list"
  hc_pending :: "(nat \<times> host_request) list"
  hc_nextRequest :: nat
  hc_closed :: bool
  hc_mode :: "attachment_mode option"
  hc_actions :: "string list"
  hc_cursor :: nat
  hc_renewal :: bool
  hc_dialing :: "(attachment_mode \<times> string list \<times> nat \<times> int) list"
  hc_written :: "byte list list"
  hc_emitted :: "client_event list"
  hc_reactions :: "(nat \<times> host_request \<times> (host_failure + byte list)) list"
  hc_settled :: "(nat \<times> (host_failure + host_reply)) list"

definition new_client :: "host_identity \<Rightarrow> bool \<Rightarrow> host_client" where
  "new_client identity renews =
     \<lparr>hc_identity = identity, hc_renews = renews, hc_socket = False, hc_buffer = [], hc_pending = [], hc_nextRequest = 1,
      hc_closed = False, hc_mode = None, hc_actions = [], hc_cursor = 0, hc_renewal = False, hc_dialing = [],
      hc_written = [], hc_emitted = [], hc_reactions = [], hc_settled = []\<rparr>"

definition HOST_CAPABILITY_TTL_SECONDS :: int where "HOST_CAPABILITY_TTL_SECONDS = 300"

definition host_type :: "string \<Rightarrow> int" where
  "host_type name = the (map_of HOST_TYPES name)"

section \<open>Requests\<close>

text \<open>\<open>frameFor\<close>: no limit but that of \<open>writeUInt32BE\<close>\<close>

definition frameFor :: "int \<Rightarrow> byte list \<Rightarrow> byte list checked" where
  "frameFor ty payload =
     (let len = length payload + 1 in
      if len \<ge> 2 ^ 32 then Inl ''ERR_OUT_OF_RANGE'' else Inr (writeUInt32BE (of_nat len) @ word_of_int ty # payload))"

definition host_send :: "int \<Rightarrow> byte list \<Rightarrow> (host_client, unit) effect" where
  "host_send ty payload c =
     (if \<not> hc_socket c \<or> hc_closed c then (Inl ''host client is not connected'', c)
      else case frameFor ty payload of
        Inl e \<Rightarrow> (Inl e, c)
      | Inr bytes \<Rightarrow> (Inr (), c\<lparr>hc_written := hc_written c @ [bytes]\<rparr>))"

fun request_type :: "host_request \<Rightarrow> int" where
  "request_type Connect_Hello = host_type ''hello''"
| "request_type Renew_Hello = host_type ''hello''"
| "request_type (Deliver m) = host_type ''deliverMessage''"
| "request_type Terminate_Host = host_type ''terminate''"
| "request_type Ping_Host = host_type ''ping''"

fun response_type :: "host_request \<Rightarrow> int" where
  "response_type Connect_Hello = host_type ''helloAck''"
| "response_type Renew_Hello = host_type ''helloAck''"
| "response_type (Deliver m) = host_type ''deliverAck''"
| "response_type Terminate_Host = host_type ''terminateAck''"
| "response_type Ping_Host = host_type ''pong''"

definition forget_request :: "nat \<Rightarrow> host_client \<Rightarrow> host_client" where
  "forget_request i c = c\<lparr>hc_pending := filter (\<lambda>p. fst p \<noteq> i) (hc_pending c)\<rparr>"

definition host_settle :: "nat \<Rightarrow> host_request \<Rightarrow> host_failure + byte list \<Rightarrow> host_client \<Rightarrow> host_client" where
  "host_settle i req r c = c\<lparr>hc_reactions := hc_reactions c @ [(i, req, r)]\<rparr>"

definition host_ask :: "host_request \<Rightarrow> byte list \<Rightarrow> host_client \<Rightarrow> host_client" where
  "host_ask req payload c =
     (let i = hc_nextRequest c;
          c1 = c\<lparr>hc_nextRequest := i + 1, hc_pending := hc_pending c @ [(i, req)]\<rparr> in
      case host_send (request_type req) payload c1 of
        (Inr _, c2) \<Rightarrow> c2
      | (Inl e, c2) \<Rightarrow> host_settle i req (Inl (None, e)) (forget_request i c2))"

definition request_timed_out :: "nat \<Rightarrow> host_client \<Rightarrow> host_client" where
  "request_timed_out i c =
     (case map_of (hc_pending c) i of
        None \<Rightarrow> c
      | Some req \<Rightarrow> host_settle i req (Inl (None, ''runtime host request timed out'')) (forget_request i c))"

section \<open>What the host sends\<close>

definition host_emit :: "client_event \<Rightarrow> host_client \<Rightarrow> host_client" where
  "host_emit e c = c\<lparr>hc_emitted := hc_emitted c @ [e]\<rparr>"

text \<open>The callback that \<open>request\<close> leaves in \<open>pending\<close>\<close>

definition host_answer :: "(byte list \<Rightarrow> string) \<Rightarrow> nat \<times> host_request \<Rightarrow> host_frame \<Rightarrow> (host_client, unit) effect" where
  "host_answer utf8 p value =
     (if uint (hf_type value) = host_type ''error''
      then seq (lifted (decodeError utf8 (hf_payload value))) (\<lambda>(code, message).
             change_state (host_settle (fst p) (snd p) (Inl (Some (unat code), message))))
      else if uint (hf_type value) \<noteq> response_type (snd p)
      then change_state (host_settle (fst p) (snd p) (Inl (None, ''unexpected host response '' @ digits (unat (hf_type value)))))
      else change_state (host_settle (fst p) (snd p) (Inr (hf_payload value))))"

definition dispatch :: "(byte list \<Rightarrow> string) \<Rightarrow> host_frame \<Rightarrow> (host_client, unit) effect" where
  "dispatch utf8 value =
     (if uint (hf_type value) = host_type ''output''
      then seq (lifted (decodeOutput (hf_payload value))) (\<lambda>out.
             change_state (\<lambda>c. host_emit (Output_Event out) (c\<lparr>hc_cursor := unat (ho_cursor out) + length (ho_bytes out)\<rparr>)))
      else if uint (hf_type value) = host_type ''exit''
      then seq (lifted (decodeExit (hf_payload value))) (\<lambda>code. change_state (host_emit (Exit_Event code)))
      else (\<lambda>c. case hc_pending c of
        p # rest \<Rightarrow> host_answer utf8 p value (c\<lparr>hc_pending := rest\<rparr>)
      | [] \<Rightarrow>
          if uint (hf_type value) = host_type ''error''
          then seq (lifted (decodeError utf8 (hf_payload value))) (\<lambda>(code, message).
                 change_state (host_emit (Error_Event (unat code) message))) c
          else (Inr (), c)))"

fun dispatch_all :: "(byte list \<Rightarrow> string) \<Rightarrow> host_frame list \<Rightarrow> (host_client, unit) effect" where
  "dispatch_all utf8 [] = give ()"
| "dispatch_all utf8 (f # fs) = seq (dispatch utf8 f) (\<lambda>_. dispatch_all utf8 fs)"

definition host_data :: "(byte list \<Rightarrow> string) \<Rightarrow> byte list \<Rightarrow> (host_client, unit) effect" where
  "host_data utf8 chunk c =
     (case host_push (hc_buffer c) chunk of
        (Inl e, rest) \<Rightarrow> (Inl e, c\<lparr>hc_buffer := rest\<rparr>)
      | (Inr fs, rest) \<Rightarrow> dispatch_all utf8 fs (c\<lparr>hc_buffer := rest\<rparr>))"

section \<open>Reactions\<close>

definition close_client :: "host_client \<Rightarrow> host_client" where
  "close_client c = c\<lparr>hc_closed := True, hc_renewal := False, hc_socket := False\<rparr>"

definition host_finished :: "nat \<Rightarrow> host_failure + host_reply \<Rightarrow> host_client \<Rightarrow> host_client" where
  "host_finished i r c = c\<lparr>hc_settled := hc_settled c @ [(i, r)]\<rparr>"

text \<open>The \<open>catch\<close> of \<open>renewCapability\<close>\<close>

definition renewal_failed :: "nat \<Rightarrow> host_failure \<Rightarrow> host_client \<Rightarrow> host_client" where
  "renewal_failed i f c =
     (let code = (case fst f of None \<Rightarrow> 1 | Some n \<Rightarrow> if n = 0 then 1 else n) in
      close_client (host_emit (Error_Event code (snd f)) (host_finished i (Inl f) c)))"

definition host_greeted :: "host_hello_ack \<Rightarrow> bool \<Rightarrow> host_client \<Rightarrow> host_client" where
  "host_greeted hello renews c = c\<lparr>hc_cursor := unat (ha_head hello), hc_renewal := (renews \<or> hc_renewal c)\<rparr>"

fun react :: "(byte list \<Rightarrow> string) \<Rightarrow> (string \<Rightarrow> json option) \<Rightarrow> nat \<Rightarrow> host_request \<Rightarrow> host_failure + byte list \<Rightarrow>
    host_client \<Rightarrow> host_client" where
  "react utf8 parse i Renew_Hello (Inl f) c = renewal_failed i f c"
| "react utf8 parse i req (Inl f) c = host_finished i (Inl f) c"
| "react utf8 parse i Connect_Hello (Inr payload) c =
     (case decodeHelloAck payload of
        Inl e \<Rightarrow> host_finished i (Inl (None, e)) c
      | Inr hello \<Rightarrow> host_finished i (Inr (Hello_Reply hello)) (host_greeted hello (hc_renews c) c))"
| "react utf8 parse i Renew_Hello (Inr payload) c =
     (case decodeHelloAck payload of
        Inl e \<Rightarrow> renewal_failed i (None, e) c
      | Inr hello \<Rightarrow> host_finished i (Inr (Hello_Reply hello)) (host_greeted hello True c))"
| "react utf8 parse i (Deliver m) (Inr payload) c =
     (case decodeDeliveryAck utf8 parse payload of
        Inl e \<Rightarrow> host_finished i (Inl (None, e)) c
      | Inr ack \<Rightarrow> host_finished i (Inr (Delivery_Reply ack)) c)"
| "react utf8 parse i Terminate_Host (Inr payload) c = host_finished i (Inr Done) c"
| "react utf8 parse i Ping_Host (Inr payload) c = host_finished i (Inr Done) c"

definition host_reactions :: "(byte list \<Rightarrow> string) \<Rightarrow> (string \<Rightarrow> json option) \<Rightarrow> host_client \<Rightarrow> host_client" where
  "host_reactions utf8 parse c =
     foldl (\<lambda>c (i, req, r). react utf8 parse i req r c) (c\<lparr>hc_reactions := []\<rparr>) (hc_reactions c)"

section \<open>Calls\<close>

definition call_connect :: "attachment_mode \<Rightarrow> string list \<Rightarrow> nat \<Rightarrow> int \<Rightarrow> (host_client, unit) effect" where
  "call_connect mode actions cursor expiresAt c =
     (if hc_socket c then (Inl ''host client already connected'', c)
      else (Inr (), c\<lparr>hc_dialing := hc_dialing c @ [(mode, actions, cursor, expiresAt)]\<rparr>))"

definition hello_payload :: "string \<Rightarrow> string \<Rightarrow> int \<Rightarrow> host_client \<Rightarrow> byte list" where
  "hello_payload nonce i expiresAt c =
     encodeHello nonce i \<lparr>hh_sessionId = hi_sessionId (hc_identity c), hh_runtimeId = hi_runtimeId (hc_identity c),
       hh_homeAuthorityId = hi_homeAuthorityId (hc_identity c), hh_generation = hi_generation (hc_identity c), hh_expiresAt = expiresAt,
       hh_secret = hi_secret (hc_identity c), hh_actions = hc_actions c, hh_cursor = int (hc_cursor c)\<rparr>"

text \<open>\<open>connect\<close> once its socket is open\<close>

definition socket_opened :: "nat \<Rightarrow> string \<Rightarrow> string \<Rightarrow> host_client \<Rightarrow> host_client" where
  "socket_opened n nonce i c =
     (case drop n (hc_dialing c) of
        [] \<Rightarrow> c
      | (mode, actions, cursor, expiresAt) # rest \<Rightarrow>
          let c1 = c\<lparr>hc_dialing := take n (hc_dialing c) @ rest, hc_socket := True, hc_mode := Some mode, hc_actions := actions, hc_cursor := cursor\<rparr> in
          host_ask Connect_Hello (hello_payload nonce i expiresAt c1) c1)"

text \<open>The renewal timer; \<open>now\<close> in seconds\<close>

definition renewCapability :: "string \<Rightarrow> string \<Rightarrow> int \<Rightarrow> host_client \<Rightarrow> host_client" where
  "renewCapability nonce i now c =
     (let c1 = c\<lparr>hc_renewal := False\<rparr> in
      if \<not> hc_renewal c then c
      else if hc_closed c \<or> hc_mode c = None then c1
      else host_ask Renew_Hello (hello_payload nonce i (now + HOST_CAPABILITY_TTL_SECONDS) c1) c1)"

definition call_input :: "byte list \<Rightarrow> (host_client, unit) effect" where
  "call_input bytes = host_send (host_type ''input'') bytes"

definition writeUInt16BE :: "16 word \<Rightarrow> byte list" where
  "writeUInt16BE w = [ucast (drop_bit 8 w), ucast w]"

text \<open>A number is \<open>None\<close> here if it is not an integer.\<close>

definition valid_extent :: "int option \<Rightarrow> bool" where
  "valid_extent n \<longleftrightarrow> (case n of None \<Rightarrow> False | Some k \<Rightarrow> 1 \<le> k \<and> k \<le> 1000)"

definition call_resize :: "int option \<Rightarrow> int option \<Rightarrow> (host_client, unit) effect" where
  "call_resize columns rows =
     (if \<not> valid_extent columns \<or> \<not> valid_extent rows then fail_with ''invalid terminal size''
      else host_send (host_type ''resize'') (writeUInt16BE (word_of_int (the columns)) @ writeUInt16BE (word_of_int (the rows))))"

datatype host_signal = SIGHUP | SIGINT | SIGTERM | SIGWINCH

fun signal_number :: "host_signal \<Rightarrow> byte" where
  "signal_number SIGHUP = 1" | "signal_number SIGINT = 2" | "signal_number SIGTERM = 15" | "signal_number SIGWINCH = 28"

definition call_signal :: "host_signal \<Rightarrow> (host_client, unit) effect" where
  "call_signal s = host_send (host_type ''signal'') [signal_number s]"

definition delivery_payload :: "string \<Rightarrow> byte list list \<Rightarrow> int list \<Rightarrow> byte list" where
  "delivery_payload m frames delays =
     utf8_encode (stringify (JObj [(''id'', JStr m), (''frames'', JArr (map (\<lambda>f. JStr (base64_encode f)) frames)),
       (''delaysMs'', JArr (map JNum delays))]))"

definition call_deliver :: "string \<Rightarrow> byte list list \<Rightarrow> int option list \<Rightarrow> (host_client, unit) effect" where
  "call_deliver m frames delays =
     (let totalBytes = sum_list (map length frames); totalDelay = sum_list (List.map_filter id delays) in
      if m = [] \<or> frames = [] \<or> length frames > 64 \<or> length frames \<noteq> length delays
      then fail_with ''invalid delivery transaction''
      else if totalBytes > 1048576 \<or> totalDelay > 5000 \<or> list_ex (\<lambda>f. length f > 65536) frames \<or>
        list_ex (\<lambda>d. case d of None \<Rightarrow> True | Some n \<Rightarrow> n < 0 \<or> n > 5000) delays
      then fail_with ''delivery transaction exceeds bounds''
      else change_state (host_ask (Deliver m) (delivery_payload m frames (List.map_filter id delays))))"

section \<open>Runs\<close>

datatype host_event =
    Connect attachment_mode "string list" nat int
  | Opened nat string string
  | Dial_Failed nat
  | Deliver_Call string "byte list list" "int option list"
  | Input_Call "byte list"
  | Resize_Call "int option" "int option"
  | Signal_Call host_signal
  | Terminate_Call
  | Ping_Call
  | Close_Call
  | Timeout nat
  | Renewal_Due string string int
  | Data "byte list"
  | Socket_Closed
  | Socket_Error string

fun on_host :: "(byte list \<Rightarrow> string) \<Rightarrow> host_event \<Rightarrow> (host_client, unit) effect" where
  "on_host utf8 (Connect mode actions cursor expiresAt) = call_connect mode actions cursor expiresAt"
| "on_host utf8 (Opened n nonce i) = change_state (socket_opened n nonce i)"
| "on_host utf8 (Dial_Failed n) = change_state (\<lambda>c. c\<lparr>hc_dialing := take n (hc_dialing c) @ drop (Suc n) (hc_dialing c)\<rparr>)"
| "on_host utf8 (Deliver_Call m frames delays) = call_deliver m frames delays"
| "on_host utf8 (Input_Call bytes) = call_input bytes"
| "on_host utf8 (Resize_Call columns rows) = call_resize columns rows"
| "on_host utf8 (Signal_Call s) = call_signal s"
| "on_host utf8 Terminate_Call = change_state (host_ask Terminate_Host [])"
| "on_host utf8 Ping_Call = change_state (host_ask Ping_Host [])"
| "on_host utf8 Close_Call = change_state close_client"
| "on_host utf8 (Timeout i) = change_state (request_timed_out i)"
| "on_host utf8 (Renewal_Due nonce i now) = change_state (renewCapability nonce i now)"
| "on_host utf8 (Data chunk) = host_data utf8 chunk"
| "on_host utf8 Socket_Closed = change_state (\<lambda>c. host_emit Close_Event (c\<lparr>hc_closed := True\<rparr>))"
| "on_host utf8 (Socket_Error message) = change_state (host_emit (Error_Event 0 message))"

definition host_step :: "(byte list \<Rightarrow> string) \<Rightarrow> (string \<Rightarrow> json option) \<Rightarrow> host_client \<Rightarrow> host_event \<Rightarrow> host_client" where
  "host_step utf8 parse c e = host_reactions utf8 parse (snd (on_host utf8 e c))"

definition run_host :: "(byte list \<Rightarrow> string) \<Rightarrow> (string \<Rightarrow> json option) \<Rightarrow> host_event list \<Rightarrow> host_client \<Rightarrow> host_client" where
  "run_host utf8 parse evs c = foldl (host_step utf8 parse) c evs"

end
