(* ===== verification/HostClientProperties.thy ===== *)
theory HostClientProperties
  imports HostClient JsonSize "HOL-Library.Multiset"
begin

text \<open>
  What the client of a runtime host promises: every request is answered once, by the replies in their order; and two
  faults: a reply that comes after its request has timed out is taken for the answer to the next one, and a delivery
  within the client's bounds may not fit in a frame.
\<close>

section \<open>Every request once\<close>

text \<open>The requests that wait, whose reactions are about to run, or that are settled\<close>

definition accounted :: "host_client \<Rightarrow> nat multiset" where
  "accounted c = mset (map fst (hc_settled c)) + mset (map fst (hc_reactions c)) + mset (map fst (hc_pending c))"

lemma accounted_cong:
  "hc_settled c' = hc_settled c \<Longrightarrow> hc_reactions c' = hc_reactions c \<Longrightarrow> hc_pending c' = hc_pending c \<Longrightarrow> accounted c' = accounted c"
  by (simp add: accounted_def)

definition issued_ids :: "host_client \<Rightarrow> nat multiset" where
  "issued_ids c = mset [1..<hc_nextRequest c]"

definition numbered_requests :: "host_client \<Rightarrow> bool" where
  "numbered_requests c \<longleftrightarrow> 1 \<le> hc_nextRequest c \<and> accounted c \<subseteq># issued_ids c"

definition complete_requests :: "host_client \<Rightarrow> bool" where
  "complete_requests c \<longleftrightarrow> 1 \<le> hc_nextRequest c \<and> accounted c = issued_ids c"

lemma accounted_react: "accounted (react utf8 parse i req r c) = accounted c + {#i#} \<and> hc_nextRequest (react utf8 parse i req r c) = hc_nextRequest c
    \<and> hc_reactions (react utf8 parse i req r c) = hc_reactions c \<and> hc_pending (react utf8 parse i req r c) = hc_pending c"
  by (induction utf8 parse i req r c rule: react.induct)
    (auto simp: accounted_def host_finished_def renewal_failed_def host_emit_def close_client_def host_greeted_def Let_def split: sum.splits)

lemma accounted_reactions:
  "accounted (host_reactions utf8 parse c) = accounted c \<and> hc_nextRequest (host_reactions utf8 parse c) = hc_nextRequest c
    \<and> hc_reactions (host_reactions utf8 parse c) = [] \<and> hc_pending (host_reactions utf8 parse c) = hc_pending c"
proof -
  have "accounted (foldl (\<lambda>c (i, req, r). react utf8 parse i req r c) c rs) = accounted c + mset (map fst rs)
      \<and> hc_nextRequest (foldl (\<lambda>c (i, req, r). react utf8 parse i req r c) c rs) = hc_nextRequest c
      \<and> hc_reactions (foldl (\<lambda>c (i, req, r). react utf8 parse i req r c) c rs) = hc_reactions c
      \<and> hc_pending (foldl (\<lambda>c (i, req, r). react utf8 parse i req r c) c rs) = hc_pending c" for rs c
    by (induction rs arbitrary: c) (auto simp: accounted_react)
  moreover have "accounted (c\<lparr>hc_reactions := []\<rparr>) + mset (map fst (hc_reactions c)) = accounted c"
    by (simp add: accounted_def)
  ultimately show ?thesis
    by (simp add: host_reactions_def)
qed

lemma forget_last: "\<forall>p \<in> set ps. fst p \<noteq> i \<Longrightarrow> filter (\<lambda>p. fst p \<noteq> i) (ps @ [(i, r)]) = ps"
  by (simp add: filter_id_conv)

lemma numbered_fresh:
  assumes "numbered_requests c" and "p \<in> set (hc_pending c)"
  shows "fst p \<noteq> hc_nextRequest c"
proof -
  have "fst p \<in># accounted c"
    using assms(2) by (auto simp: accounted_def)
  with assms(1) have "fst p \<in># issued_ids c"
    by (auto simp: numbered_requests_def dest: mset_subset_eqD)
  then show ?thesis
    by (auto simp: issued_ids_def)
qed

lemma asked_once:
  assumes "numbered_requests c"
  shows "accounted (host_ask req payload c) = accounted c + {#hc_nextRequest c#} \<and> hc_nextRequest (host_ask req payload c) = Suc (hc_nextRequest c)"
  using numbered_fresh [OF assms]
  by (auto simp: host_ask_def host_send_def host_settle_def forget_request_def accounted_def Let_def filter_id_conv split: sum.splits prod.splits if_splits)

lemma issued_Suc: "1 \<le> hc_nextRequest c \<Longrightarrow> hc_nextRequest c' = Suc (hc_nextRequest c) \<Longrightarrow> issued_ids c' = issued_ids c + {#hc_nextRequest c#}"
  by (simp add: issued_ids_def)

text \<open>A step that neither loses a request nor answers one twice\<close>

definition balanced :: "host_client \<Rightarrow> host_client \<Rightarrow> bool" where
  "balanced c c' \<longleftrightarrow> accounted c' + issued_ids c = accounted c + issued_ids c' \<and> hc_nextRequest c \<le> hc_nextRequest c'"

lemma balanced_same: "accounted c' = accounted c \<Longrightarrow> hc_nextRequest c' = hc_nextRequest c \<Longrightarrow> balanced c c'"
  by (simp add: balanced_def issued_ids_def)

lemma balanced_trans:
  assumes ab: "balanced a b" and bc: "balanced b c"
  shows "balanced a c"
proof -
  have "accounted b + (accounted c + issued_ids a) = (accounted c + issued_ids b) + (accounted b + issued_ids a) - issued_ids b"
    by (simp add: ac_simps)
  also have "\<dots> = (accounted b + issued_ids c) + (accounted a + issued_ids b) - issued_ids b"
    using ab bc by (simp only: balanced_def)
  also have "\<dots> = accounted b + (accounted a + issued_ids c)"
    by (simp add: ac_simps)
  finally have "accounted c + issued_ids a = accounted a + issued_ids c"
    by (simp only: add_left_cancel)
  then show ?thesis
    using ab bc by (auto simp only: balanced_def intro: le_trans)
qed

lemma balanced_numbered: "balanced c c' \<Longrightarrow> numbered_requests c \<Longrightarrow> numbered_requests c'"
proof -
  assume b: "balanced c c'" and n: "numbered_requests c"
  then have "accounted c' + issued_ids c \<subseteq># issued_ids c' + issued_ids c"
    by (simp add: balanced_def numbered_requests_def add.commute)
  then show ?thesis
    using b n by (simp add: balanced_def numbered_requests_def)
qed

lemma balanced_complete: "balanced c c' \<Longrightarrow> complete_requests c \<Longrightarrow> complete_requests c'"
  by (simp add: balanced_def complete_requests_def)

lemma balanced_asked: "numbered_requests c \<Longrightarrow> balanced c (host_ask req payload c)"
  using asked_once [of c req payload] issued_Suc [of c "host_ask req payload c"] by (simp add: balanced_def numbered_requests_def)

lemma distinct_sub_mset:
  assumes "mset xs \<subseteq># mset ys" and "distinct ys"
  shows "distinct xs"
proof -
  have "count (mset xs) i = (if i \<in> set xs then 1 else 0)" for i
  proof -
    have "count (mset ys) i = (if i \<in> set ys then 1 else 0)"
      using assms(2) by (simp only: distinct_count_atmost_1)
    then have "count (mset ys) i \<le> 1"
      by simp
    then have "count (mset xs) i \<le> 1"
      by (rule order_trans [OF mset_subset_eq_count [OF assms(1)]])
    moreover have "0 < count (mset xs) i \<longleftrightarrow> i \<in> set xs"
      by simp
    ultimately show ?thesis
      by (simp only: split: if_split) linarith
  qed
  then show ?thesis
    unfolding distinct_count_atmost_1 by (rule allI)
qed

lemma pending_distinct: "numbered_requests c \<Longrightarrow> distinct (map fst (hc_pending c))"
  unfolding numbered_requests_def accounted_def issued_ids_def
  by (rule distinct_sub_mset [of _ "[1..<hc_nextRequest c]"]) (metis mset_subset_eq_add_right subset_mset.order_trans, simp)

lemma mset_forget: "distinct (map fst ps) \<Longrightarrow> i \<in> fst ` set ps \<Longrightarrow> mset (map fst (filter (\<lambda>p. fst p \<noteq> i) ps)) + {#i#} = mset (map fst ps)"
proof (induction ps)
  case (Cons p ps)
  then show ?case
  proof (cases "fst p = i")
    case True
    with Cons.prems have "i \<notin> fst ` set ps"
      by simp
    then have "filter (\<lambda>p. fst p \<noteq> i) ps = ps"
      by (intro filter_True) (metis imageI)
    with True show ?thesis
      by simp
  qed auto
qed simp

lemma balanced_timeout: "numbered_requests c \<Longrightarrow> balanced c (request_timed_out i c)"
proof (cases "map_of (hc_pending c) i")
  case (Some req)
  assume "numbered_requests c"
  moreover have "i \<in> fst ` set (hc_pending c)"
    using Some by (metis map_of_eq_None_iff option.distinct(1))
  ultimately have "mset (map fst (filter (\<lambda>p. fst p \<noteq> i) (hc_pending c))) + {#i#} = mset (map fst (hc_pending c))"
    by (intro mset_forget pending_distinct)
  then have "accounted (request_timed_out i c) = accounted c"
    by (simp add: request_timed_out_def accounted_def host_settle_def forget_request_def Some)
  then show ?thesis
    by (rule balanced_same) (simp add: request_timed_out_def host_settle_def forget_request_def Some)
qed (simp add: request_timed_out_def balanced_same)

lemma dispatch_accounted:
  "accounted (snd (dispatch utf8 f c)) \<subseteq># accounted c \<and> hc_nextRequest (snd (dispatch utf8 f c)) = hc_nextRequest c \<and>
     (fst (dispatch utf8 f c) = Inr () \<longrightarrow> accounted (snd (dispatch utf8 f c)) = accounted c)"
  by (auto simp: dispatch_def host_answer_def seq_lifted change_state_def host_emit_def host_settle_def accounted_def
      split: sum.splits list.splits prod.splits)

lemma dispatch_all_accounted:
  "accounted (snd (dispatch_all utf8 fs c)) \<subseteq># accounted c \<and> hc_nextRequest (snd (dispatch_all utf8 fs c)) = hc_nextRequest c \<and>
     (fst (dispatch_all utf8 fs c) = Inr () \<longrightarrow> accounted (snd (dispatch_all utf8 fs c)) = accounted c)"
proof (induction fs arbitrary: c)
  case (Cons f fs)
  show ?case
    using dispatch_accounted [of utf8 f c] Cons.IH [of "snd (dispatch utf8 f c)"]
    by (auto simp: seq_def split: prod.splits sum.splits intro: subset_mset.order_trans)
qed (simp add: give_def)

lemma data_accounted:
  "accounted (snd (host_data utf8 chunk c)) \<subseteq># accounted c \<and> hc_nextRequest (snd (host_data utf8 chunk c)) = hc_nextRequest c \<and>
     (fst (host_data utf8 chunk c) = Inr () \<longrightarrow> accounted (snd (host_data utf8 chunk c)) = accounted c)"
proof -
  have "accounted (c\<lparr>hc_buffer := rest\<rparr>) = accounted c" for rest
    by (rule accounted_cong) simp_all
  then show ?thesis
    using dispatch_all_accounted [of utf8 _ "c\<lparr>hc_buffer := _\<rparr>"]
    by (auto simp: host_data_def split: prod.splits sum.splits)
qed

lemma balanced_event:
  assumes "numbered_requests c" and "\<And>chunk. e = Data chunk \<Longrightarrow> fst (host_data utf8 chunk c) = Inr ()"
  shows "balanced c (snd (on_host utf8 e c))"
proof -
  have same: "balanced c c'" if "hc_settled c' = hc_settled c" "hc_reactions c' = hc_reactions c" "hc_pending c' = hc_pending c"
      "hc_nextRequest c' = hc_nextRequest c" for c'
    using that by (intro balanced_same accounted_cong) auto
  have sent: "balanced c (snd (host_send ty payload c))" for ty payload
    by (rule same) (auto simp: host_send_def split: sum.splits)
  have asked: "balanced c (host_ask req payload c')" if "hc_settled c' = hc_settled c" "hc_reactions c' = hc_reactions c"
      "hc_pending c' = hc_pending c" "hc_nextRequest c' = hc_nextRequest c" for req payload c'
    using balanced_trans [OF same [OF that] balanced_asked] balanced_numbered [OF same [OF that] assms(1)] by blast
  show ?thesis
  proof (cases e)
    case (Data chunk)
    with assms(2) [OF this] data_accounted [of utf8 chunk c] show ?thesis
      by (intro balanced_same) auto
  next
    case (Opened n nonce i)
    then show ?thesis
      by (auto simp: change_state_def socket_opened_def Let_def split: list.split intro!: same asked)
  next
    case (Renewal_Due nonce i now)
    then show ?thesis
      by (auto simp: change_state_def renewCapability_def Let_def intro!: same asked)
  next
    case (Timeout i)
    then show ?thesis
      using balanced_timeout [OF assms(1)] by (simp add: change_state_def)
  next
    case (Deliver_Call m frames delays)
    then show ?thesis
      by (auto simp: change_state_def call_deliver_def fail_with_def Let_def intro!: same asked)
  next
    case (Resize_Call columns rows)
    then show ?thesis
      by (auto simp: call_resize_def fail_with_def intro!: same sent)
  qed (auto simp: change_state_def call_connect_def call_input_def call_signal_def close_client_def host_emit_def intro!: same asked sent)
qed

lemma numbered_event: "numbered_requests c \<Longrightarrow> numbered_requests (host_step utf8 parse c e)"
proof -
  assume c: "numbered_requests c"
  have "numbered_requests (snd (on_host utf8 e c))"
  proof (cases e)
    case (Data chunk)
    with c data_accounted [of utf8 chunk c] show ?thesis
      by (auto simp: numbered_requests_def issued_ids_def intro: subset_mset.order_trans)
  qed (rule balanced_numbered [OF balanced_event [OF c] c]; simp)+
  then show ?thesis
    by (simp add: host_step_def numbered_requests_def issued_ids_def accounted_reactions)
qed

lemma run_host_snoc: "run_host utf8 parse (evs @ [e]) c = host_step utf8 parse (run_host utf8 parse evs c) e"
  by (simp add: run_host_def)

text \<open>No event of a run is data that makes the client throw.\<close>

fun data_accepted :: "(byte list \<Rightarrow> string) \<Rightarrow> host_event \<Rightarrow> host_client \<Rightarrow> bool" where
  "data_accepted utf8 (Data chunk) c \<longleftrightarrow> fst (host_data utf8 chunk c) = Inr ()"
| "data_accepted utf8 _ c \<longleftrightarrow> True"

fun well_behaved_host :: "(byte list \<Rightarrow> string) \<Rightarrow> (string \<Rightarrow> json option) \<Rightarrow> host_event list \<Rightarrow> host_client \<Rightarrow> bool" where
  "well_behaved_host utf8 parse [] c \<longleftrightarrow> True"
| "well_behaved_host utf8 parse (e # evs) c \<longleftrightarrow> data_accepted utf8 e c \<and>
     well_behaved_host utf8 parse evs (host_step utf8 parse c e)"

lemma well_behaved_snoc: "well_behaved_host utf8 parse (evs @ [e]) c \<longleftrightarrow> well_behaved_host utf8 parse evs c \<and>
    data_accepted utf8 e (run_host utf8 parse evs c)"
  by (induction evs arbitrary: c) (simp_all add: run_host_def)

lemma fresh_complete: "complete_requests (new_client identity renews) \<and> numbered_requests (new_client identity renews)"
  by (simp add: complete_requests_def numbered_requests_def issued_ids_def accounted_def new_client_def)

lemma run_numbered: "numbered_requests (run_host utf8 parse evs (new_client identity renews))"
  by (induction evs rule: rev_induct) (simp_all add: run_host_def fresh_complete numbered_event)

lemma run_complete: "well_behaved_host utf8 parse evs (new_client identity renews) \<Longrightarrow>
    complete_requests (run_host utf8 parse evs (new_client identity renews))"
proof (induction evs rule: rev_induct)
  case (snoc e evs)
  let ?c = "run_host utf8 parse evs (new_client identity renews)"
  have "balanced ?c (snd (on_host utf8 e ?c))"
    using snoc.prems by (intro balanced_event run_numbered) (auto simp: well_behaved_snoc)
  from balanced_complete [OF this] snoc show ?case
    by (simp add: run_host_snoc host_step_def complete_requests_def issued_ids_def accounted_reactions well_behaved_snoc)
qed (simp add: run_host_def fresh_complete)

lemma run_no_reactions: "hc_reactions (run_host utf8 parse evs (new_client identity renews)) = []"
  by (induction evs rule: rev_induct) (simp_all add: run_host_def new_client_def host_step_def accounted_reactions)

text \<open>
  No request to a runtime host is answered twice, and none is forgotten. The requests carry the numbers from 1 on.
  After any calls, timeouts, renewals, closings and bytes from the host, the numbers of the settled requests and of those
  that still wait are pairwise different; and as long as no data made the client throw (a frame that is too short, or
  longer than the limit), every request ever made is either settled or waiting.\<close>

lemma requests_settled_once:
  assumes "c = run_host utf8 parse evs (new_client identity renews)"
  shows "distinct (map fst (hc_settled c) @ map fst (hc_pending c)) \<and>
    (well_behaved_host utf8 parse evs (new_client identity renews) \<longrightarrow>
      set (map fst (hc_settled c) @ map fst (hc_pending c)) = {1..<hc_nextRequest c})"
proof
  have counted: "accounted c = mset (map fst (hc_settled c) @ map fst (hc_pending c))"
    using run_no_reactions by (simp add: assms accounted_def)
  have "accounted c \<subseteq># mset [1..<hc_nextRequest c]"
    using run_numbered by (simp only: assms numbered_requests_def issued_ids_def)
  then show "distinct (map fst (hc_settled c) @ map fst (hc_pending c))"
    unfolding counted by (rule distinct_sub_mset) simp
  show "well_behaved_host utf8 parse evs (new_client identity renews) \<longrightarrow>
      set (map fst (hc_settled c) @ map fst (hc_pending c)) = {1..<hc_nextRequest c}"
  proof
    assume "well_behaved_host utf8 parse evs (new_client identity renews)"
    from run_complete [OF this] have "accounted c = mset [1..<hc_nextRequest c]"
      by (simp only: assms complete_requests_def issued_ids_def)
    then show "set (map fst (hc_settled c) @ map fst (hc_pending c)) = {1..<hc_nextRequest c}"
      unfolding counted by (metis mset_eq_setD set_upt)
  qed
qed

section \<open>Replies in order\<close>

definition is_reply :: "host_frame \<Rightarrow> bool" where
  "is_reply f \<longleftrightarrow> uint (hf_type f) \<notin> {host_type ''output'', host_type ''exit''}"

text \<open>What a reply means for the request it answers\<close>

definition meaning :: "(byte list \<Rightarrow> string) \<Rightarrow> host_request \<Rightarrow> host_frame \<Rightarrow> host_failure + byte list" where
  "meaning utf8 req f =
     (if uint (hf_type f) = host_type ''error''
      then case decodeError utf8 (hf_payload f) of Inl e \<Rightarrow> Inl (None, e) | Inr (code, message) \<Rightarrow> Inl (Some (unat code), message)
      else if uint (hf_type f) \<noteq> response_type req then Inl (None, ''unexpected host response '' @ digits (unat (hf_type f)))
      else Inr (hf_payload f))"

lemma dispatch_reply:
  assumes "is_reply f" and "dispatch utf8 f c = (Inr (), c')" and "hc_pending c = p # rest"
  shows "hc_reactions c' = hc_reactions c @ [(fst p, snd p, meaning utf8 (snd p) f)] \<and> hc_pending c' = rest"
  using assms
  by (auto simp: dispatch_def is_reply_def host_answer_def meaning_def seq_lifted change_state_def host_settle_def
      split: sum.splits prod.splits if_splits)

lemma dispatch_no_reply:
  assumes "dispatch utf8 f c = (Inr (), c')" and "\<not> is_reply f \<or> hc_pending c = []"
  shows "hc_reactions c' = hc_reactions c \<and> hc_pending c' = hc_pending c"
  using assms
  by (auto simp: dispatch_def is_reply_def seq_lifted change_state_def host_emit_def split: sum.splits prod.splits if_splits)

lemma dispatch_all_in_order:
  assumes "dispatch_all utf8 fs c = (Inr (), c')"
  shows "hc_reactions c' = hc_reactions c @ map (\<lambda>((i, req), f). (i, req, meaning utf8 req f)) (zip (hc_pending c) (filter is_reply fs)) \<and>
    hc_pending c' = drop (length (filter is_reply fs)) (hc_pending c)"
  using assms
proof (induction fs arbitrary: c)
  case (Cons f fs)
  then obtain c1 where first: "dispatch utf8 f c = (Inr (), c1)" and rest: "dispatch_all utf8 fs c1 = (Inr (), c')"
    by (auto simp: seq_Inr_iff)
  note later = Cons.IH [OF rest]
  show ?case
  proof (cases "is_reply f \<and> hc_pending c \<noteq> []")
    case True
    then obtain p ps where pending: "hc_pending c = p # ps"
      by (cases "hc_pending c") auto
    with True dispatch_reply [OF _ first pending] later show ?thesis
      by (auto split: prod.splits)
  next
    case False
    with dispatch_no_reply [OF first] later show ?thesis
      by (auto split: if_splits)
  qed
qed (simp add: give_def)

text \<open>The value of the promise of a request\<close>

fun result_of :: "(byte list \<Rightarrow> string) \<Rightarrow> (string \<Rightarrow> json option) \<Rightarrow> host_request \<Rightarrow> host_failure + byte list \<Rightarrow> host_failure + host_reply" where
  "result_of utf8 parse req (Inl f) = Inl f"
| "result_of utf8 parse (Deliver m) (Inr payload) =
     (case decodeDeliveryAck utf8 parse payload of Inl e \<Rightarrow> Inl (None, e) | Inr ack \<Rightarrow> Inr (Delivery_Reply ack))"
| "result_of utf8 parse Connect_Hello (Inr payload) =
     (case decodeHelloAck payload of Inl e \<Rightarrow> Inl (None, e) | Inr hello \<Rightarrow> Inr (Hello_Reply hello))"
| "result_of utf8 parse Renew_Hello (Inr payload) =
     (case decodeHelloAck payload of Inl e \<Rightarrow> Inl (None, e) | Inr hello \<Rightarrow> Inr (Hello_Reply hello))"
| "result_of utf8 parse Terminate_Host (Inr payload) = Inr Done"
| "result_of utf8 parse Ping_Host (Inr payload) = Inr Done"

lemma react_settles: "hc_settled (react utf8 parse i req r c) = hc_settled c @ [(i, result_of utf8 parse req r)]
    \<and> hc_buffer (react utf8 parse i req r c) = hc_buffer c"
  by (induction utf8 parse i req r c rule: react.induct)
    (auto simp: host_finished_def renewal_failed_def host_emit_def close_client_def host_greeted_def Let_def split: sum.splits)

lemma reactions_settle:
  "hc_settled (host_reactions utf8 parse c) = hc_settled c @ map (\<lambda>(i, req, r). (i, result_of utf8 parse req r)) (hc_reactions c)
    \<and> hc_buffer (host_reactions utf8 parse c) = hc_buffer c"
proof -
  have "hc_settled (foldl (\<lambda>c (i, req, r). react utf8 parse i req r c) c rs)
      = hc_settled c @ map (\<lambda>(i, req, r). (i, result_of utf8 parse req r)) rs
      \<and> hc_buffer (foldl (\<lambda>c (i, req, r). react utf8 parse i req r c) c rs) = hc_buffer c" for rs c
    by (induction rs arbitrary: c) (auto simp: react_settles)
  then show ?thesis
    by (simp add: host_reactions_def)
qed

lemma dispatch_settled: "hc_settled (snd (dispatch utf8 f c)) = hc_settled c \<and> hc_buffer (snd (dispatch utf8 f c)) = hc_buffer c"
  by (auto simp: dispatch_def host_answer_def seq_lifted change_state_def host_emit_def host_settle_def split: sum.splits list.splits prod.splits)

lemma dispatch_all_settled: "hc_settled (snd (dispatch_all utf8 fs c)) = hc_settled c \<and> hc_buffer (snd (dispatch_all utf8 fs c)) = hc_buffer c"
proof (induction fs arbitrary: c)
  case (Cons f fs)
  show ?case
    using dispatch_settled [of utf8 f c] Cons.IH [of "snd (dispatch utf8 f c)"] by (auto simp: seq_def split: prod.splits sum.splits)
qed (simp add: give_def)

definition answered :: "(byte list \<Rightarrow> string) \<Rightarrow> (string \<Rightarrow> json option) \<Rightarrow> (nat \<times> host_request) list \<Rightarrow> host_frame list \<Rightarrow>
    (nat \<times> (host_failure + host_reply)) list" where
  "answered utf8 parse pending replies =
     map (\<lambda>((i, req), f). (i, result_of utf8 parse req (meaning utf8 req f))) (zip pending replies)"

lemma answered_append: "answered utf8 parse pending (fs @ gs) = answered utf8 parse pending fs @ answered utf8 parse (drop (length fs) pending) gs"
proof -
  have "zip (take (length fs) pending) fs = zip pending fs"
    by (induction pending fs rule: list_induct2') simp_all
  then show ?thesis
    by (simp add: answered_def zip_append2)
qed

lemma data_in_order:
  assumes "hc_reactions c = []" and "host_push (hc_buffer c) chunk = (Inr fs, rest)" and "fst (host_data utf8 chunk c) = Inr ()"
  shows "hc_settled (host_step utf8 parse c (Data chunk)) = hc_settled c @ answered utf8 parse (hc_pending c) (filter is_reply fs)
    \<and> hc_pending (host_step utf8 parse c (Data chunk)) = drop (length (filter is_reply fs)) (hc_pending c)
    \<and> hc_reactions (host_step utf8 parse c (Data chunk)) = [] \<and> hc_buffer (host_step utf8 parse c (Data chunk)) = rest"
proof -
  define c1 where "c1 = snd (host_data utf8 chunk c)"
  have run: "dispatch_all utf8 fs (c\<lparr>hc_buffer := rest\<rparr>) = (Inr (), c1)"
    using assms(2,3) by (simp add: host_data_def c1_def) (metis prod.collapse)
  have c1: "hc_settled c1 = hc_settled c" "hc_buffer c1 = rest"
    using dispatch_all_settled [of utf8 fs "c\<lparr>hc_buffer := rest\<rparr>"] run by simp_all
  show ?thesis
    using dispatch_all_in_order [OF run] c1 assms(1) reactions_settle [of utf8 parse c1] accounted_reactions [of utf8 parse c1]
    by (simp add: host_step_def c1_def [symmetric] answered_def comp_def case_prod_unfold)
qed

lemma stream_in_order:
  assumes "push_chunks decode_frames (hc_buffer c) chunks = (Inr fs, rest)" and "hc_reactions c = []"
    and "well_behaved_host utf8 parse (map Data chunks) c"
  shows "hc_settled (run_host utf8 parse (map Data chunks) c) = hc_settled c @ answered utf8 parse (hc_pending c) (filter is_reply fs)
    \<and> hc_pending (run_host utf8 parse (map Data chunks) c) = drop (length (filter is_reply fs)) (hc_pending c)"
  using assms
proof (induction chunks arbitrary: c fs)
  case (Cons chunk chunks)
  then obtain fs1 rest1 fs2 where push: "host_push (hc_buffer c) chunk = (Inr fs1, rest1)"
      and later: "push_chunks decode_frames rest1 chunks = (Inr fs2, rest)" and fs: "fs = fs1 @ fs2"
    by (auto simp: host_push_def split: prod.splits sum.splits)
  have data: "fst (host_data utf8 chunk c) = Inr ()"
    using Cons.prems(3) by simp
  note step = data_in_order [OF Cons.prems(2) push data, of parse]
  have "push_chunks decode_frames (hc_buffer (host_step utf8 parse c (Data chunk))) chunks = (Inr fs2, rest)"
    using step later by simp
  from Cons.IH [OF this] Cons.prems(3) step fs show ?case
    by (simp add: run_host_def answered_append add.commute)
qed (simp add: run_host_def answered_def)


section \<open>Two faults\<close>

lemma called_deliver:
  assumes "hc_socket c" and "\<not> hc_closed c" and "fst (call_deliver m frames delays c) = Inr ()"
    and "length (delivery_payload m frames (List.map_filter id delays)) < 2 ^ 32 - 1"
  shows "\<exists>w. frameFor (host_type ''deliverMessage'') (delivery_payload m frames (List.map_filter id delays)) = Inr w \<and>
    snd (call_deliver m frames delays c) = c\<lparr>hc_nextRequest := Suc (hc_nextRequest c),
      hc_pending := hc_pending c @ [(hc_nextRequest c, Deliver m)], hc_written := hc_written c @ [w]\<rparr>"
  using assms by (auto simp: call_deliver_def fail_with_def change_state_def host_ask_def host_send_def frameFor_def Let_def split: if_splits)

lemma base64_length: "4 * length bs \<le> 3 * length (base64_encode bs)"
  by (induction bs rule: base64_encode.induct) simp_all

lemma payload_length: "4 * sum_list (map length frames) \<le> 3 * length (delivery_payload m frames delays)"
proof -
  let ?texts = "map (\<lambda>f. stringify (JStr (base64_encode f))) frames"
  have "4 * sum_list (map length frames) \<le> 3 * sum_list (map length ?texts)"
  proof (induction frames)
    case (Cons f frames)
    then show ?case
      using base64_length [of f] length_quote [of "base64_encode f"] by simp
  qed simp
  also have "sum_list (map length ?texts) \<le> length (stringify (JArr (map (\<lambda>f. JStr (base64_encode f)) frames)))"
    using length_join [of ?texts "'',''"] by (simp add: comp_def)
  finally have "4 * sum_list (map length frames) \<le> 3 * length (stringify (JArr (map (\<lambda>f. JStr (base64_encode f)) frames)))"
    by simp
  moreover have "length (stringify (JArr (map (\<lambda>f. JStr (base64_encode f)) frames))) \<le> length (delivery_payload m frames delays)"
    unfolding delivery_payload_def length_utf8_encode
    by (rule order_trans [OF _ length_le_bytes]) (simp add: own_fields_def proto_key_def)
  ultimately show ?thesis
    by linarith
qed

lemma frameFor_length:
  assumes "frameFor ty payload = Inr w"
  shows "unat (readUInt32BE (w @ rest)) = length payload + 1 \<and> 4 \<le> length w"
proof -
  define len where "len = length payload + 1"
  have "w = writeUInt32BE (of_nat len) @ word_of_int ty # payload" and "len < 2 ^ 32"
    using assms by (auto simp: frameFor_def Let_def len_def split: if_splits)
  then have "unat (readUInt32BE (w @ rest)) = len \<and> 4 \<le> length w"
    by (simp add: read_write_32 unat_of_nat)
  then show ?thesis
    by (simp only: len_def)
qed

text \<open>
  C35. A message within the bounds of \<open>deliverMessage\<close> need not fit in a frame. The bound is on the bytes of the message,
  1 MiB, but they travel in base64 and in JSON, and \<open>frameFor\<close>, unlike \<open>frame\<close>, does not look at the limit of 1 MiB
  of a frame. From 768 KiB on the client accepts the call and writes a frame that a decoder of the protocol refuses from
  its header on; since the stream cannot be resumed after it, the connection is lost.\<close>

theorem accepted_delivery_is_refused:
  assumes "hc_socket c" and "\<not> hc_closed c" and "fst (call_deliver m frames delays c) = Inr ()"
    and "length (delivery_payload m frames (List.map_filter id delays)) < 2 ^ 32 - 1"
    and "786432 \<le> sum_list (map length frames)"
  shows "\<exists>w. hc_written (snd (call_deliver m frames delays c)) = hc_written c @ [w] \<and>
    (\<forall>rest. fst (decode_frames (w @ rest)) = Inl ''invalid host frame length'')"
proof -
  obtain w where w: "frameFor (host_type ''deliverMessage'') (delivery_payload m frames (List.map_filter id delays)) = Inr w"
      and written: "hc_written (snd (call_deliver m frames delays c)) = hc_written c @ [w]"
    using called_deliver [OF assms(1-4)] by auto
  have "fst (decode_frames (w @ rest)) = Inl ''invalid host frame length''" for rest
  proof -
    have "HOST_FRAME_LIMIT < unat (readUInt32BE (w @ rest))" and "\<not> length (w @ rest) < 4"
      using frameFor_length [OF w, of rest] payload_length [of frames m "List.map_filter id delays"] assms(5)
      by (auto simp: HOST_FRAME_LIMIT_def)
    then show ?thesis
      using decode_cases(2) [OF _ refl, of "w @ rest"] by simp
  qed
  with written show ?thesis
    by blast
qed

lemma run_host_Cons: "run_host utf8 parse (e # evs) c = run_host utf8 parse evs (host_step utf8 parse c e)"
  by (simp add: run_host_def)

lemma run_host_Nil: "run_host utf8 parse [] c = c"
  by (simp add: run_host_def)

text \<open>
  C34. After a timeout, the answers go to the wrong calls. A call of \<open>deliverMessage\<close> for one message times out and its
  request is forgotten; a second call, for another message, is made on the same connection; then the host's
  acknowledgement of the first arrives. The client takes it for the answer to the second call, whose promise is
  resolved with the first message's acknowledgement: neither the identifier in it nor the order of the requests is
  checked against the message that was asked for.\<close>

theorem late_reply_answers_next_request:
  assumes "hc_socket c" and "\<not> hc_closed c" and "hc_pending c = []" and "hc_reactions c = []" and "hc_buffer c = []"
    and first: "fst (call_deliver m1 frames1 delays1 c) = Inr ()"
      "length (delivery_payload m1 frames1 (List.map_filter id delays1)) < 2 ^ 32 - 1"
    and second: "fst (call_deliver m2 frames2 delays2 c) = Inr ()"
      "length (delivery_payload m2 frames2 (List.map_filter id delays2)) < 2 ^ 32 - 1"
    and ack: "frame (host_type ''deliverAck'') payload = Inr bytes" "decodeDeliveryAck utf8 parse payload = Inr ack"
    and n: "n = hc_nextRequest c"
  shows "hc_settled (run_host utf8 parse [Deliver_Call m1 frames1 delays1, Timeout n, Deliver_Call m2 frames2 delays2, Data bytes] c) =
    hc_settled c @ [(n, Inl (None, ''runtime host request timed out'')), (Suc n, Inr (Delivery_Reply ack))]"
proof -
  obtain w1 where w1: "snd (call_deliver m1 frames1 delays1 c) = c\<lparr>hc_nextRequest := Suc n, hc_pending := [(n, Deliver m1)], hc_written := hc_written c @ [w1]\<rparr>"
    using called_deliver [OF assms(1,2) first] assms(3) n by auto
  define c1 where "c1 = snd (call_deliver m1 frames1 delays1 c)"
  have s1: "host_step utf8 parse c (Deliver_Call m1 frames1 delays1) = c1"
    using assms(4) by (simp add: host_step_def c1_def w1 host_reactions_def)
  define c2 where "c2 = host_step utf8 parse c1 (Timeout n)"
  have c2: "hc_settled c2 = hc_settled c @ [(n, Inl (None, ''runtime host request timed out''))]" "hc_pending c2 = []"
      "hc_reactions c2 = []" "hc_buffer c2 = []" "hc_socket c2" "\<not> hc_closed c2" "hc_nextRequest c2 = Suc n"
    using assms(1-5) by (simp_all add: c2_def c1_def w1 host_step_def change_state_def request_timed_out_def host_settle_def forget_request_def
      host_reactions_def host_finished_def)
  have ok2: "fst (call_deliver m2 frames2 delays2 c2) = Inr ()"
    using second(1) by (auto simp: call_deliver_def fail_with_def change_state_def Let_def split: if_splits)
  obtain w2 where w2: "snd (call_deliver m2 frames2 delays2 c2) =
      c2\<lparr>hc_nextRequest := Suc (Suc n), hc_pending := [(Suc n, Deliver m2)], hc_written := hc_written c2 @ [w2]\<rparr>"
    using called_deliver [OF c2(5,6) ok2 second(2)] c2(2,7) by auto
  define c3 where "c3 = snd (call_deliver m2 frames2 delays2 c2)"
  have s3: "host_step utf8 parse c2 (Deliver_Call m2 frames2 delays2) = c3"
    using c2(3) by (simp add: host_step_def c3_def w2 host_reactions_def)
  have c3: "hc_settled c3 = hc_settled c2" "hc_pending c3 = [(Suc n, Deliver m2)]" "hc_reactions c3 = []" "hc_buffer c3 = []"
    using c2 by (simp_all add: c3_def w2)
  let ?f = "\<lparr>hf_type = 13, hf_payload = payload\<rparr>"
  have f: "is_reply ?f" "meaning utf8 (Deliver m2) ?f = Inr payload"
    by (simp_all add: is_reply_def meaning_def host_type_def HOST_TYPES_def)
  have "decode_frames (concat [bytes]) = (Inr [?f], [])"
    using ack(1) by (intro decode_all) (simp add: host_type_def HOST_TYPES_def)
  then have push: "host_push (hc_buffer c3) bytes = (Inr [?f], [])"
    by (simp add: host_push_def c3(4))
  have "fst (host_data utf8 bytes c3) = Inr ()"
    using c3(2) f by (simp add: host_data_def push dispatch_def host_answer_def change_state_def seq_def give_def host_type_def HOST_TYPES_def)
  from data_in_order [OF c3(3) push this, of parse] f ack(2) c3(1,2) c2(1)
  show ?thesis
    by (simp add: run_host_Cons run_host_Nil s1 s3 answered_def flip: c2_def)
qed

section \<open>Concrete instances\<close>

definition demo_client :: host_client where
  "demo_client = (new_client \<lparr>hi_sessionId = ''s'', hi_runtimeId = ''r'', hi_homeAuthorityId = ''h'', hi_generation = 1, hi_secret = []\<rparr> False)
     \<lparr>hc_socket := True, hc_mode := Some Observe, hc_pending := [(1, Ping_Host), (2, Terminate_Host)], hc_nextRequest := 3\<rparr>"

text \<open>A pong and the acknowledgement of a termination, in three chunks\<close>

lemma demo_decoded:
  "decode_frames [0, 0] = (Inr [], [0, 0])"
  "decode_frames [0, 0, 0, 1, 9, 0, 0, 0, 1] = (Inr [\<lparr>hf_type = 9, hf_payload = []\<rparr>], [0, 0, 0, 1])"
  "decode_frames [0, 0, 0, 1, 16] = (Inr [\<lparr>hf_type = 16, hf_payload = []\<rparr>], [])"
  by (simp_all add: decode_frames.simps HOST_FRAME_LIMIT_def Let_def)


definition demo_idle :: host_client where
  "demo_idle = demo_client\<lparr>hc_pending := []\<rparr>"

definition demo_ack :: json where
  "demo_ack = JObj [(''id'', JStr ''a''), (''generation'', JNum 1), (''outcome'', JStr ''written''), (''bytesWritten'', JNum 1)]"

lemma payload_upper:
  "int (length (delivery_payload m frames delays)) \<le>
     json_size (JObj [(''id'', JStr m), (''frames'', JArr (map (\<lambda>f. JStr (base64_encode f)) frames)), (''delaysMs'', JArr (map JNum delays))])"
  unfolding delivery_payload_def length_utf8_encode by (rule stringify_bytes)

lemma base64_upper: "3 * length (base64_encode bs) \<le> 4 * length bs + 8"
  by (induction bs rule: base64_encode.induct) simp_all

lemma zero_text: "utf8_bytes (int_text 0) = 1"
  by code_simp

theorem late_reply_answers_next_request_witness:
  "hc_settled (run_host (\<lambda>_. []) (\<lambda>_. Some demo_ack)
      [Deliver_Call ''a'' [[97]] [Some 0], Timeout 3, Deliver_Call ''b'' [[98]] [Some 0], Data [0, 0, 0, 1, 13]] demo_idle) =
    [(3, Inl (None, ''runtime host request timed out'')),
     (4, Inr (Delivery_Reply \<lparr>da_id = ''a'', da_generation = JNum 1, da_outcome = ''written'', da_bytesWritten = JNum 1\<rparr>))]"
proof -
  have calls: "fst (call_deliver ''a'' [[97]] [Some 0] demo_idle) = Inr ()" "fst (call_deliver ''b'' [[98]] [Some 0] demo_idle) = Inr ()"
    by (simp_all add: call_deliver_def change_state_def map_filter_simps)
  have sizes: "length (delivery_payload ''a'' [[97]] (List.map_filter id [Some 0])) < 2 ^ 32 - 1"
      "length (delivery_payload ''b'' [[98]] (List.map_filter id [Some 0])) < 2 ^ 32 - 1"
    using payload_upper [of "''a''" "[[97]]" "[0]"] payload_upper [of "''b''" "[[98]]" "[0]"] by (simp_all add: map_filter_simps zero_text)
  have ack: "frame (host_type ''deliverAck'') [] = Inr [0, 0, 0, 1, 13]"
    by (simp add: frame_def HOST_FRAME_LIMIT_def writeUInt32BE_def host_type_def HOST_TYPES_def)
  have decoded: "decodeDeliveryAck (\<lambda>_. []) (\<lambda>_. Some demo_ack) [] =
        Inr \<lparr>da_id = ''a'', da_generation = JNum 1, da_outcome = ''written'', da_bytesWritten = JNum 1\<rparr>"
    by code_simp
  have start: "hc_socket demo_idle" "\<not> hc_closed demo_idle" "hc_pending demo_idle = []" "hc_reactions demo_idle = []" "hc_buffer demo_idle = []"
      "3 = hc_nextRequest demo_idle" "hc_settled demo_idle = []"
    by (simp_all add: demo_idle_def demo_client_def new_client_def)
  from late_reply_answers_next_request [OF start(1-5) calls(1) sizes(1) calls(2) sizes(2) ack decoded start(6)] show ?thesis
    by (simp only: start(7) append_Nil) simp
qed

text \<open>Twelve pieces of 64 KiB\<close>

theorem accepted_delivery_is_refused_witness:
  "\<exists>w. hc_written (snd (call_deliver ''a'' (replicate 12 (replicate 65536 0)) (replicate 12 (Some 0)) demo_idle)) = hc_written demo_idle @ [w] \<and>
    (\<forall>rest. fst (decode_frames (w @ rest)) = Inl ''invalid host frame length'')"
proof (rule accepted_delivery_is_refused)
  let ?piece = "replicate 65536 0 :: byte list"
  have no_delay: "List.map_filter id (replicate n (Some (0 :: int))) = replicate n 0" for n
    by (induction n) (simp_all add: map_filter_simps)
  show "fst (call_deliver ''a'' (replicate 12 ?piece) (replicate 12 (Some 0)) demo_idle) = Inr ()"
    by (simp add: call_deliver_def change_state_def no_delay list_ex_iff sum_list_replicate)
  show "786432 \<le> sum_list (map length (replicate 12 ?piece))"
    by (simp add: sum_list_replicate)
  show "length (delivery_payload ''a'' (replicate 12 ?piece) (List.map_filter id (replicate 12 (Some 0)))) < 2 ^ 32 - 1"
    using payload_upper [of "''a''" "replicate 12 ?piece" "replicate 12 0"] base64_upper [of ?piece]
    by (simp add: no_delay zero_text sum_list_replicate)
qed (simp_all add: demo_idle_def demo_client_def new_client_def)

lemma requests_settled_once_witness:
  "let c = run_host (\<lambda>_. []) (\<lambda>_. None) [Ping_Call, Ping_Call, Timeout 1] (new_client (hc_identity demo_client) False) in
     distinct (map fst (hc_settled c) @ map fst (hc_pending c)) \<and>
     set (map fst (hc_settled c) @ map fst (hc_pending c)) = {1..<hc_nextRequest c}"
  using requests_settled_once [OF refl, of "\<lambda>_. []" "\<lambda>_. None" "[Ping_Call, Ping_Call, Timeout 1]" "hc_identity demo_client" False]
  by (simp add: Let_def)

end
