(* ===== verification/Spec2Isabelle.thy ===== *)
theory Spec2Isabelle
  imports Safety Journal RuntimeSafety SubscriptionProperties Search PeerTrustProperties Enrollment RelayLink
    RelayFaults RelayReconnectProperties HostCodec ChannelPages ChannelAccess TerminalCapabilityProperties ProfileProperties
    RotationProperties HostClientProperties
begin

text \<open>
  Wardroom (Rooms): a daemon that owns the channels, sessions, memberships and messages of cooperating coding
  agents, and links to the daemons of other machines. All sources are under \<open>src/roomsd/src\<close>.

  \<^bold>\<open>The program.\<close> A client's command reaches \<open>RoomsApplication\<close> (\<open>domain/application.ts\<close>), which checks the authority
  of the acting session and calls \<open>RoomsRepository\<close> (\<open>storage/repository.ts\<close>). Every mutation is a transaction over
  SQLite tables and ends in one row of the change journal, whose listeners feed the subscriptions
  (\<open>api/subscriptions/subscription.ts\<close>) and the \<open>watch\<close> stream (\<open>runtime/native/composition.ts\<close>). The runtimes of
  agent processes, their generations, attachments, controller leases and capabilities have tables of their own
  (\<open>storage/runtime-repository.ts\<close>). Machines enroll each other (\<open>federation/enrollment.ts\<close>): each has an identity
  (\<open>identity/machine-identity.ts\<close>) and a store of trust in its peers (\<open>federation/peer-trust.ts\<close>). Enrolled machines
  talk over a relay connection (\<open>federation/relay-connection.ts\<close>) in the frames of \<open>federation/relay-protocol.ts\<close>,
  which the dialing side keeps up with \<open>federation/relay-reconnect.ts\<close>.

  \<^bold>\<open>Theories and sources.\<close>
  \<^item> \<open>Prelude\<close>: fallible stateful operations (\<open>keeps\<close>, \<open>preserves\<close>), tables, strings; \<open>Contracts\<close> and
    \<open>RuntimeContracts\<close>: the records and enumerations of \<open>domain/contracts.ts\<close> and \<open>runtime/contracts.ts\<close>, the cursor
    codec, the provenance stamps.
  \<^item> \<open>Store\<close>: the database as a record of tables, \<open>writeTx\<close> with nesting and rollback, \<open>appendChange\<close>; \<open>Registry\<close>,
    \<open>Messages\<close>, \<open>History\<close>, \<open>Search\<close>: the methods of \<open>RoomsRepository\<close>, a definition for each; \<open>Application\<close>: a definition
    for each method of \<open>RoomsApplication\<close>.
  \<^item> \<open>Commands\<close>: the daemon as a transition system whose steps are the commands; \<open>RegistryInvariants\<close>, \<open>Authority\<close>,
    \<open>Safety\<close>, \<open>Journal\<close>: its invariants and the authority of the commands.
  \<^item> \<open>RuntimeStore\<close>: the methods of \<open>RuntimeRepository\<close>; \<open>RuntimeProperties\<close>, \<open>RuntimeSafety\<close>: leases, event numbers,
    capabilities, quotas, claims.
  \<^item> \<open>Subscription\<close>: the subscription service and the watch generator with their queues; \<open>SubscriptionProperties\<close>.
  \<^item> \<open>JsonText\<close>: \<open>JSON.stringify\<close> and the strict parser of \<open>federation/codec.ts\<close>; \<open>Codec\<close>: the validators of that file.
  \<^item> \<open>Effects\<close>: operations that throw messages, and \<open>stable\<close>, their invariants; \<open>Files\<close>: a file system as a map of
    paths with the guards of the state files; \<open>EnrollmentCrypto\<close>, \<open>MachineIdentity\<close>, \<open>PeerTrust\<close>, \<open>Enrollment\<close>: the files
    of those names; \<open>PeerTrustProperties\<close>: the life cycle of trust.
  \<^item> \<open>RelayProtocol\<close>, \<open>RelayConnection\<close>, \<open>RelayReconnect\<close>: the files of those names; their \<open>Properties\<close> theories,
    \<open>RelayLink\<close> (two connections and the stream between them), \<open>RelayFaults\<close>, \<open>JsonSize\<close> (sizes of texts).
  \<^item> \<open>Bytes\<close>: the byte strings, base64 and UTF-8 of \<open>Buffer\<close>; \<open>HostCodec\<close> and \<open>HostClient\<close>: \<open>runtime/host/codec.ts\<close> and
    \<open>client.ts\<close>; \<open>ChannelResult\<close>:
    \<open>federation/channel-result.ts\<close>; \<open>Admissions\<close>: the admission of peers to channels in the repository; \<open>ChannelHome\<close>:
    \<open>federation/channel-home-handler.ts\<close>, with \<open>ChannelPages\<close> and \<open>ChannelAccess\<close> for its pages and its access control.
  \<^item> \<open>TerminalCapability\<close>: \<open>federation/terminal-capability.ts\<close>; \<open>Profiles\<close>: \<open>profiles/contracts.ts\<close> and
    \<open>profiles/resolved-state-gate.ts\<close>; \<open>Rotation\<close>: the three files of \<open>rotation\<close>, in which a \<open>commit\<close> that waits for
    its runtime authority is a job of the state and everything else in the daemon an event; each with its \<open>Properties\<close> theory.
  \<^item> \<open>DemoMachines\<close>, \<open>DemoConnections\<close>: two concrete machines, for the witnesses.

  \<^bold>\<open>How the code is modelled.\<close> A synchronous method that may throw takes the state and returns an error or a value
  and the state; what the clock, \<open>randomUUID\<close>, \<open>Math.random\<close>, SHA-256 and \<open>node:crypto\<close> return is part of the state or a
  parameter. An event of a connection (data, a timer, a drained stream, a call of the owner) is one transition in a
  world that holds the clock, the files and the answers of the stream to each write. JavaScript numbers are integers
  where the code only counts, and JSON numbers with a fraction keep their text; strings are lists of bytes.
  Where the code recurses on text the strict parser has fuel; \<open>strict_parser_total\<close> shows that the length of the text
  is enough, so it always returns. Every other recursion is structural or has a measure.

  \<^bold>\<open>What the theorems show.\<close> Of the registry: well-formedness in every reachable state, at most one planner and one
  reviewer of a channel (and the one path that breaks it), atomicity of every request, an append-only journal, who
  may end sessions and close channels. Of the runtimes: one controller, gapless events, single use of capabilities,
  quotas, exclusive claims. Of subscriptions: each change exactly once (and the change that \<open>watch\<close> loses). Of the
  codecs: bijections, round trips, chunking, totality, and the key that escapes the check for repeated keys. Of
  trust: the files follow the life cycle of trust, revocation is final, an active record is intact and pins its key.
  Of the relay: bounded queues, contiguous and ordered frames, no connection without an authenticated peer, a
  handshake that completes, bounded backoff, a loop that gives up once and stops for good, and three faults.
  Of channels homed here: a remote session acts in its own name and where its daemon is admitted, its pages cover
  the channel, results are put together as sent, and two faults: a message no page can carry, and a deduplication
  key that discloses a message. Of the runtime host protocol: the frames of a stream, however it is cut,
  replies that settle the requests in their order, and two faults: late replies and deliveries that fit in no frame.
  Of terminal capabilities: the type of what is decoded, that an issued one is honoured for exactly what it was
  issued for, and that no other is accepted if signatures cannot be forged. Of profiles: the gate accepts exactly
  the state described, and equal canonical bytes mean equal content. Of rotations: none goes further than its old
  session and its planner have taken it, the swap is one exchange or nothing; and two commits of one contradict.

  \<^bold>\<open>Interfaces.\<close> The locales state what a client of an operation relies on: an invariant that the operations of a
  transaction keep, what a connection's primitive steps must keep (\<open>conn_parts\<close> and its extensions). Each is
  interpreted on the definitions of the code in the theory that provides them.

  \<^bold>\<open>Not modelled.\<close> The command line, provisioning, the gRPC binding and generated code, process supervision and
  transports (system calls, printing, sockets); SQLite itself, of which only the documented behaviour of
  transactions and constraints is used; the handlers of terminal and inventory frames, which are a
  parameter of a connection; the stores of profiles and the reading of provider transcripts. Text search covers
  messages only. The environment lookup of \<open>resolveRoomsStateDir\<close> is a parameter of the machine.
\<close>

end
